(* ===== verification/Effects.thy ===== *)
theory Effects
  imports Main "HOL-Library.Multiset"
begin

text \<open>
  The effect layer of the development. A Go function that talks to something outside the
  program (the Kubernetes API server, the clock, the metrics registry, the event recorder)
  is a value of type \<open>prog\<close>: a tree of the calls it makes, one branch per answer it may get.
  Nothing is assumed about the answers, so a theorem about all executions of a program holds
  for every behaviour of the API server.

  \<^item> \<open>Ret a\<close>: the function returns \<open>a\<close>;
  \<^item> \<open>Panic m\<close>: the Go run-time panics;
  \<^item> \<open>Call q k\<close>: the request \<open>q\<close> goes out and the answer is handed to \<open>k\<close>;
  \<^item> \<open>Pick k\<close>: the Go run-time makes a choice the language leaves open (the iteration order of a
    map, which goroutine runs next).

  \<open>exec p t out\<close> relates a program to the requests and answers of one run and to its outcome;
  \<open>wp p \<Phi>\<close> says that \<open>\<Phi>\<close> holds of every run; \<open>runp\<close> executes a program against a concrete
  environment; \<open>par_list\<close> runs goroutines under an arbitrary scheduler.
\<close>

section \<open>Programs\<close>

datatype ('q, 'r, 'a) prog =
    Ret 'a
  | Panic string
  | Call 'q "'r \<Rightarrow> ('q, 'r, 'a) prog"
  | Pick "nat \<Rightarrow> ('q, 'r, 'a) prog"

datatype 'a outcome = Returned 'a | Panicked string

primrec bindp :: "('q, 'r, 'a) prog \<Rightarrow> ('a \<Rightarrow> ('q, 'r, 'b) prog) \<Rightarrow> ('q, 'r, 'b) prog" where
  "bindp (Ret a) f = f a"
| "bindp (Panic m) f = Panic m"
| "bindp (Call q k) f = Call q (\<lambda>r. bindp (k r) f)"
| "bindp (Pick k) f = Pick (\<lambda>i. bindp (k i) f)"

definition mapp :: "('a \<Rightarrow> 'b) \<Rightarrow> ('q, 'r, 'a) prog \<Rightarrow> ('q, 'r, 'b) prog" where
  "mapp f p = bindp p (\<lambda>a. Ret (f a))"

lemma bindp_assoc: "bindp (bindp p f) g = bindp p (\<lambda>a. bindp (f a) g)"
  by (induction p) auto

lemma bindp_Ret [simp]: "bindp p Ret = p"
  by (induction p) auto

section \<open>Executions\<close>

type_synonym ('q, 'r) trace = "('q \<times> 'r) list"

inductive exec :: "('q, 'r, 'a) prog \<Rightarrow> ('q, 'r) trace \<Rightarrow> 'a outcome \<Rightarrow> bool" where
  ret: "exec (Ret a) [] (Returned a)"
| panic: "exec (Panic m) [] (Panicked m)"
| call: "exec (k r) t out \<Longrightarrow> exec (Call q k) ((q, r) # t) out"
| pick: "exec (k i) t out \<Longrightarrow> exec (Pick k) t out"

inductive_simps exec_Ret [simp]: "exec (Ret a) t out"
inductive_simps exec_Panic [simp]: "exec (Panic m) t out"
inductive_simps exec_Call: "exec (Call q k) t out"
inductive_simps exec_Pick: "exec (Pick k) t out"

text \<open>The weakest precondition of a program over its trace and outcome.\<close>

primrec wp :: "('q, 'r, 'a) prog \<Rightarrow> (('q, 'r) trace \<Rightarrow> 'a outcome \<Rightarrow> bool) \<Rightarrow> bool" where
  "wp (Ret a) \<Phi> = \<Phi> [] (Returned a)"
| "wp (Panic m) \<Phi> = \<Phi> [] (Panicked m)"
| "wp (Call q k) \<Phi> = (\<forall>r. wp (k r) (\<lambda>t out. \<Phi> ((q, r) # t) out))"
| "wp (Pick k) \<Phi> = (\<forall>i. wp (k i) \<Phi>)"

lemma wp_exec: "wp p \<Phi> \<longleftrightarrow> (\<forall>t out. exec p t out \<longrightarrow> \<Phi> t out)"
proof (induction p arbitrary: \<Phi>)
  case (Call q k)
  then show ?case by (auto simp: exec_Call)
next
  case (Pick k)
  then show ?case by (simp add: exec_Pick) blast
qed auto

lemma wp_conseq: "wp p \<Phi> \<Longrightarrow> (\<And>t out. \<Phi> t out \<Longrightarrow> \<Psi> t out) \<Longrightarrow> wp p \<Psi>"
  by (auto simp: wp_exec)

lemma wp_conj: "wp p (\<lambda>t out. \<Phi> t out \<and> \<Psi> t out) \<longleftrightarrow> wp p \<Phi> \<and> wp p \<Psi>"
  by (auto simp: wp_exec)

lemma wp_bindp:
  "wp (bindp p f) \<Phi> \<longleftrightarrow>
     wp p (\<lambda>t out. case out of
        Returned a \<Rightarrow> wp (f a) (\<lambda>t' out'. \<Phi> (t @ t') out')
      | Panicked m \<Rightarrow> \<Phi> t (Panicked m))"
  by (induction p arbitrary: \<Phi>) auto

lemma wp_mapp:
  "wp (mapp g p) \<Phi> \<longleftrightarrow>
     wp p (\<lambda>t out. case out of Returned a \<Rightarrow> \<Phi> t (Returned (g a)) | Panicked m \<Rightarrow> \<Phi> t (Panicked m))"
  by (simp add: mapp_def wp_bindp cong: outcome.case_cong)

lemma exec_bindp:
  "exec (bindp p f) t out \<longleftrightarrow>
     (\<exists>t1 t2 a. exec p t1 (Returned a) \<and> exec (f a) t2 out \<and> t = t1 @ t2)
     \<or> (\<exists>m. exec p t (Panicked m) \<and> out = Panicked m)"
proof (induction p arbitrary: t)
  case (Call q k)
  show ?case
    by (simp add: exec_Call Call) (fastforce simp: Cons_eq_append_conv)
next
  case (Pick k)
  then show ?case by (simp add: exec_Pick) blast
qed auto

lemma exec_mapp:
  "exec (mapp g p) t out \<longleftrightarrow>
     (\<exists>a. exec p t (Returned a) \<and> out = Returned (g a)) \<or> (\<exists>m. exec p t (Panicked m) \<and> out = Panicked m)"
  by (auto simp: mapp_def exec_bindp)

lemma exec_exists: "\<exists>t out. exec p t out"
proof (induction p)
  case (Call q k)
  then show ?case by (metis exec.call UNIV_I range_eqI)
next
  case (Pick k)
  then show ?case by (metis exec.pick UNIV_I range_eqI)
qed (auto intro: exec.intros)

text \<open>The rule that turns a \<open>wp\<close> fact into a statement about one execution.\<close>

lemma wp_execD: "wp p \<Phi> \<Longrightarrow> exec p t out \<Longrightarrow> \<Phi> t out"
  by (simp add: wp_exec)

lemma exec_wpI: "(\<And>t out. exec p t out \<Longrightarrow> \<Phi> t out) \<Longrightarrow> wp p \<Phi>"
  by (simp add: wp_exec)

section \<open>The requests a program may issue\<close>

primrec issues :: "('q \<Rightarrow> bool) \<Rightarrow> ('q, 'r, 'a) prog \<Rightarrow> bool" where
  "issues P (Ret a) = True"
| "issues P (Panic m) = True"
| "issues P (Call q k) = (P q \<and> (\<forall>r. issues P (k r)))"
| "issues P (Pick k) = (\<forall>i. issues P (k i))"

lemma issues_exec: "issues P p \<longleftrightarrow> (\<forall>t out. exec p t out \<longrightarrow> (\<forall>c \<in> set t. P (fst c)))"
proof (induction p)
  case (Call q k)
  have eq: "(\<forall>c \<in> set t. P (fst c)) \<longleftrightarrow> P q \<and> (\<forall>c \<in> set t'. P (fst c))"
    if "t = (q, r) # t'" for t t' r
    using that by auto
  show ?case
  proof (intro iffI allI impI)
    assume "issues P (Call q k)"
    then show "\<forall>c \<in> set t. P (fst c)" if "exec (Call q k) t out" for t out
      using that Call by (fastforce simp: exec_Call)
  next
    assume all: "\<forall>t out. exec (Call q k) t out \<longrightarrow> (\<forall>c \<in> set t. P (fst c))"
    have "P q \<and> (\<forall>c \<in> set t. P (fst c))" if "exec (k r) t out" for r t out
      using all exec.call [where k = k and r = r and q = q, OF that] by (metis eq)
    then show "issues P (Call q k)"
      using exec_exists [of "k undefined"] Call by auto
  qed
next
  case (Pick k)
  then show ?case by (simp add: exec_Pick) blast
qed auto

lemma issues_mono: "issues P p \<Longrightarrow> (\<And>q. P q \<Longrightarrow> Q q) \<Longrightarrow> issues Q p"
  by (auto simp: issues_exec)

lemma issues_bindpI:
  "issues P p \<Longrightarrow> (\<And>a. issues P (f a)) \<Longrightarrow> issues P (bindp p f)"
  by (induction p) auto

lemma issues_bindp_iff:
  "issues P (bindp p f) \<longleftrightarrow>
     issues P p \<and> (\<forall>t a. exec p t (Returned a) \<longrightarrow> issues P (f a))"
proof (induction p)
  case (Call q k)
  then show ?case by (simp add: exec_Call) blast
next
  case (Pick k)
  then show ?case by (simp add: exec_Pick) blast
qed auto

lemma issues_mapp [simp]: "issues P (mapp g p) = issues P p"
  by (simp add: mapp_def issues_bindp_iff)

text \<open>A program is silent when it returns or panics without any request.\<close>

definition silent :: "('q, 'r, 'a) prog \<Rightarrow> bool" where
  "silent p \<longleftrightarrow> issues (\<lambda>_. False) p"

lemma silent_exec: "silent p \<Longrightarrow> exec p t out \<Longrightarrow> t = []"
  by (cases t) (fastforce simp: silent_def issues_exec)+

section \<open>Running a program against an environment\<close>

text \<open>
  \<open>h\<close> answers a request and changes the world, \<open>ch\<close> resolves the choices of the run-time.
\<close>

primrec runp :: "('w \<Rightarrow> 'q \<Rightarrow> 'r \<times> 'w) \<Rightarrow> ('w \<Rightarrow> nat) \<Rightarrow> ('q, 'r, 'a) prog \<Rightarrow> 'w \<Rightarrow> 'a outcome \<times> 'w" where
  "runp h ch (Ret a) w = (Returned a, w)"
| "runp h ch (Panic m) w = (Panicked m, w)"
| "runp h ch (Call q k) w = (case h w q of (r, w') \<Rightarrow> runp h ch (k r) w')"
| "runp h ch (Pick k) w = runp h ch (k (ch w)) w"

lemma runp_bindp:
  "runp h ch (bindp p f) w =
     (case runp h ch p w of
        (Returned a, w') \<Rightarrow> runp h ch (f a) w'
      | (Panicked m, w') \<Rightarrow> (Panicked m, w'))"
  by (induction p arbitrary: w) (auto split: prod.splits)

lemma runp_exec: "\<exists>t. exec p t (fst (runp h ch p w))"
proof (induction p arbitrary: w)
  case (Call q k)
  obtain r w' where "h w q = (r, w')" by (cases "h w q")
  moreover obtain t where "exec (k r) t (fst (runp h ch (k r) w'))"
    using Call by blast
  ultimately show ?case by (auto intro: exec.call)
next
  case (Pick k)
  then show ?case by (metis UNIV_I exec.pick range_eqI runp.simps(4))
qed (auto intro: exec.intros)

text \<open>
  \<open>replay\<close> runs a program on a list of answers and a list of run-time choices and returns the run it
  takes: concrete executions are evaluated with it.
\<close>

primrec replay :: "('q, 'r, 'a) prog \<Rightarrow> 'r list \<Rightarrow> nat list \<Rightarrow> (('q, 'r) trace \<times> 'a outcome) option" where
  "replay (Ret a) rs cs = Some ([], Returned a)"
| "replay (Panic m) rs cs = Some ([], Panicked m)"
| "replay (Call q k) rs cs = (case rs of
      [] \<Rightarrow> None
    | r # rs' \<Rightarrow> map_option (\<lambda>(t, out). ((q, r) # t, out)) (replay (k r) rs' cs))"
| "replay (Pick k) rs cs = (case cs of [] \<Rightarrow> replay (k 0) rs [] | c # cs' \<Rightarrow> replay (k c) rs cs')"

lemma replay_exec: "replay p rs cs = Some (t, out) \<Longrightarrow> exec p t out"
proof (induction p arbitrary: rs cs t)
  case (Call q k)
  then show ?case by (auto simp: exec_Call split: list.splits)
next
  case (Pick k)
  then show ?case by (simp add: exec_Pick split: list.splits) blast+
qed auto

section \<open>Iterating over a Go map\<close>

text \<open>
  A \<open>range\<close> over a Go map visits the keys in an order the language leaves open: \<open>pick_perm xs\<close>
  returns an arbitrary permutation of \<open>xs\<close>.
\<close>

function pick_perm :: "'a list \<Rightarrow> ('q, 'r, 'a list) prog" where
  "pick_perm [] = Ret []"
| "pick_perm (x # xs) =
     Pick (\<lambda>i. mapp (Cons ((x # xs) ! (i mod Suc (length xs))))
       (pick_perm (take (i mod Suc (length xs)) (x # xs) @ drop (Suc (i mod Suc (length xs))) (x # xs))))"
  by pat_completeness auto
termination
  by (relation "measure length") (auto simp: min_def less_Suc_eq_le)

lemma mset_pick_out:
  "j < length xs \<Longrightarrow> mset xs = add_mset (xs ! j) (mset (take j xs @ drop (Suc j) xs))"
  by (metis append_take_drop_id Cons_nth_drop_Suc mset_append mset.simps(2) union_mset_add_mset_right)

lemma exec_pick_perm:
  "exec (pick_perm xs) t out \<longleftrightarrow> t = [] \<and> (\<exists>ys. out = Returned ys \<and> mset ys = mset xs)"
proof (induction xs arbitrary: t out rule: pick_perm.induct)
  case 1
  then show ?case by auto
next
  case (2 x xs)
  let ?l = "x # xs"
  let ?out = "\<lambda>i. take (i mod Suc (length xs)) ?l @ drop (Suc (i mod Suc (length xs))) ?l"
  have out: "mset ?l = add_mset (?l ! (i mod Suc (length xs))) (mset (?out i))" for i
    by (rule mset_pick_out) (simp add: less_Suc_eq_le)
  show ?case
  proof
    assume "exec (pick_perm ?l) t out"
    then show "t = [] \<and> (\<exists>ys. out = Returned ys \<and> mset ys = mset ?l)"
      unfolding pick_perm.simps exec_Pick exec_mapp 2 using out by fastforce
  next
    assume r: "t = [] \<and> (\<exists>ys. out = Returned ys \<and> mset ys = mset ?l)"
    then obtain ys where ys: "out = Returned ys" "mset ys = mset ?l" by blast
    then obtain z zs where zs: "ys = z # zs" by (cases ys) auto
    then have "z \<in> set ?l" using ys(2) by (metis list.set_intros(1) set_mset_mset)
    then obtain j where j: "j < Suc (length xs)" "?l ! j = z"
      by (metis in_set_conv_nth length_Cons)
    then have "mset zs = mset (?out j)" using ys(2) zs out [of j] by simp
    then show "exec (pick_perm ?l) t out"
      using r ys(1) zs j unfolding pick_perm.simps exec_Pick exec_mapp 2
      by (intro exI [of _ j] disjI1 exI [of _ zs]) simp
  qed
qed

lemma wp_pick_perm [simp]:
  "wp (pick_perm xs) \<Phi> \<longleftrightarrow> (\<forall>ys. mset ys = mset xs \<longrightarrow> \<Phi> [] (Returned ys))"
  by (auto simp: wp_exec exec_pick_perm)

lemma issues_pick_perm [simp]: "issues P (pick_perm xs)"
  by (auto simp: issues_exec exec_pick_perm)

lemma runp_pick_perm:
  "\<exists>ys. runp h ch (pick_perm xs) w = (Returned ys, w) \<and> mset ys = mset xs"
proof (induction xs rule: pick_perm.induct)
  case (2 x xs)
  let ?j = "ch w mod Suc (length xs)"
  obtain ys where "runp h ch (pick_perm (take ?j (x # xs) @ drop (Suc ?j) (x # xs))) w = (Returned ys, w)"
    "mset ys = mset (take ?j (x # xs) @ drop (Suc ?j) (x # xs))"
    using 2 by blast
  moreover have "mset (x # xs) = add_mset ((x # xs) ! ?j) (mset (take ?j (x # xs) @ drop (Suc ?j) (x # xs)))"
    by (rule mset_pick_out) (simp add: less_Suc_eq_le)
  ultimately show ?case
    by (auto simp: mapp_def runp_bindp simp del: take_Suc_Cons drop_Suc_Cons)
qed simp

section \<open>Goroutines\<close>

text \<open>
  \<open>par2 p q\<close> runs two goroutines until both are done: before every request the scheduler picks which
  one goes on. A panic of either ends the whole process, at any moment the scheduler chooses.
\<close>

definition sub_prog :: "(('q, 'r, 'a) prog \<times> ('q, 'r, 'a) prog) set" where
  "sub_prog = {(k r, Call q k) |q k r. True} \<union> {(k i, Pick k) |k i. True}"

lemma sub_prog_iff [simp]:
  "(p, Call q k) \<in> sub_prog \<longleftrightarrow> p \<in> range k"
  "(p, Pick k') \<in> sub_prog \<longleftrightarrow> p \<in> range k'"
  "(p, Ret a) \<notin> sub_prog"
  "(p, Panic m) \<notin> sub_prog"
  by (auto simp: sub_prog_def)

lemma wf_sub_prog [simp]: "wf sub_prog"
proof (rule wfUNIVI)
  fix P p
  assume "\<forall>x. (\<forall>y. (y, x) \<in> sub_prog \<longrightarrow> P y) \<longrightarrow> P x"
  then have step: "(\<And>y. (y, x) \<in> sub_prog \<Longrightarrow> P y) \<Longrightarrow> P x" for x
    by blast
  show "P p"
  proof (induction p)
    case (Call q k)
    then show ?case by (intro step [of "Call q k"]) simp
  next
    case (Pick k)
    then show ?case by (intro step [of "Pick k"]) simp
  qed (rule step, simp)+
qed

function par2 :: "('q, 'r, 'a) prog \<Rightarrow> ('q, 'r, 'b) prog \<Rightarrow> ('q, 'r, 'a \<times> 'b) prog" where
  "par2 (Ret a) q = mapp (Pair a) q"
| "par2 (Panic m) (Ret b) = Panic m"
| "par2 (Panic m) (Panic m') = Pick (\<lambda>i. if even i then Panic m else Panic m')"
| "par2 (Panic m) (Call c k) = Pick (\<lambda>i. if even i then Panic m else Call c (\<lambda>r. par2 (Panic m) (k r)))"
| "par2 (Panic m) (Pick k) = Pick (\<lambda>i. par2 (Panic m) (k i))"
| "par2 (Call c k) (Ret b) = Call c (\<lambda>r. par2 (k r) (Ret b))"
| "par2 (Call c k) (Panic m) = Pick (\<lambda>i. if even i then Call c (\<lambda>r. par2 (k r) (Panic m)) else Panic m)"
| "par2 (Call c k) (Call c' k') =
     Pick (\<lambda>i. if even i then Call c (\<lambda>r. par2 (k r) (Call c' k')) else Call c' (\<lambda>r. par2 (Call c k) (k' r)))"
| "par2 (Call c k) (Pick k') = Pick (\<lambda>i. par2 (Call c k) (k' i))"
| "par2 (Pick k) (Ret b) = Pick (\<lambda>i. par2 (k i) (Ret b))"
| "par2 (Pick k) (Panic m) = Pick (\<lambda>i. par2 (k i) (Panic m))"
| "par2 (Pick k) (Call c' k') = Pick (\<lambda>i. par2 (k i) (Call c' k'))"
| "par2 (Pick k) (Pick k') = Pick (\<lambda>i. par2 (k i) (Pick k'))"
  by pat_completeness auto
termination
  by (relation "sub_prog <*lex*> sub_prog") (auto intro!: wf_lex_prod)

lemma par2_Ret_right: "par2 p (Ret b) = mapp (\<lambda>a. (a, b)) p"
  by (induction p) (simp_all add: mapp_def)

lemma shuffles_ConsI:
  "zs \<in> shuffles xs ys \<Longrightarrow> x # zs \<in> shuffles (x # xs) ys"
  "zs \<in> shuffles xs ys \<Longrightarrow> y # zs \<in> shuffles xs (y # ys)"
  by (simp_all add: Cons_in_shuffles_leftI Cons_in_shuffles_rightI)

text \<open>A run of two goroutines is a shuffle of a run of each.\<close>

lemma exec_par2D:
  "exec (par2 p q) t (Returned (a, b)) \<Longrightarrow>
     \<exists>t1 t2. exec p t1 (Returned a) \<and> exec q t2 (Returned b) \<and> t \<in> shuffles t1 t2"
proof (induction p q arbitrary: t rule: par2.induct)
  case (1 a' q)
  then show ?case by (auto simp: exec_mapp)
next
  case (4 m c k)
  then show ?case by (auto simp: exec_Pick exec_Call split: if_splits)
next
  case (5 m k)
  then show ?case by (auto simp: exec_Pick)
next
  case (6 c k b')
  then show ?case by (fastforce simp: exec_Call intro: shuffles_ConsI)
next
  case (7 c k m)
  then show ?case by (auto simp: exec_Pick exec_Call split: if_splits)
next
  case (8 c k c' k')
  from "8.prems" obtain r t' where
    "(t = (c, r) # t' \<and> exec (par2 (k r) (Call c' k')) t' (Returned (a, b)))
     \<or> (t = (c', r) # t' \<and> exec (par2 (Call c k) (k' r)) t' (Returned (a, b)))"
    by (auto simp: exec_Pick exec_Call split: if_splits)
  then show ?case
  proof (elim disjE conjE)
    assume t: "t = (c, r) # t'" and e: "exec (par2 (k r) (Call c' k')) t' (Returned (a, b))"
    from "8.IH"(1) [OF _ e, of 0] obtain t1 t2 where
      "exec (k r) t1 (Returned a)" "exec (Call c' k') t2 (Returned b)" "t' \<in> shuffles t1 t2"
      by auto
    then show ?thesis
      by (intro exI [of _ "(c, r) # t1"] exI [of _ t2]) (auto simp: t intro: exec.call shuffles_ConsI)
  next
    assume t: "t = (c', r) # t'" and e: "exec (par2 (Call c k) (k' r)) t' (Returned (a, b))"
    from "8.IH"(2) [OF _ e, of 1] obtain t1 t2 where
      "exec (Call c k) t1 (Returned a)" "exec (k' r) t2 (Returned b)" "t' \<in> shuffles t1 t2"
      by auto
    then show ?thesis
      by (intro exI [of _ t1] exI [of _ "(c', r) # t2"]) (auto simp: t intro: exec.call shuffles_ConsI)
  qed
next
  case (9 c k k')
  then show ?case by (simp add: exec_Pick) blast
next
  case (10 k b')
  then show ?case by (simp add: exec_Pick) blast
next
  case (12 k c' k')
  then show ?case by (simp add: exec_Pick) blast
next
  case (13 k k')
  then show ?case unfolding par2.simps exec_Pick by blast
qed (auto simp: exec_Pick split: if_splits)

primrec par_list :: "('q, 'r, 'a) prog list \<Rightarrow> ('q, 'r, 'a list) prog" where
  "par_list [] = Ret []"
| "par_list (p # ps) = mapp (\<lambda>(a, as). a # as) (par2 p (par_list ps))"

text \<open>
  \<open>shuffle_all ts\<close>: the traces that interleave all traces of the list \<open>ts\<close>.
\<close>

primrec shuffle_all :: "'a list list \<Rightarrow> 'a list set" where
  "shuffle_all [] = {[]}"
| "shuffle_all (xs # xss) = (\<Union>ys \<in> shuffle_all xss. shuffles xs ys)"

lemma exec_par_listD:
  "exec (par_list ps) t (Returned as) \<Longrightarrow>
     \<exists>ts. t \<in> shuffle_all ts \<and> length ts = length ps \<and> length as = length ps \<and>
          (\<forall>i < length ps. exec (ps ! i) (ts ! i) (Returned (as ! i)))"
proof (induction ps arbitrary: t as)
  case Nil
  then show ?case by auto
next
  case (Cons p ps)
  then obtain a as' where as: "as = a # as'" and "exec (par2 p (par_list ps)) t (Returned (a, as'))"
    by (auto simp: exec_mapp)
  then obtain t1 t2 where p: "exec p t1 (Returned a)" and ps: "exec (par_list ps) t2 (Returned as')"
    and t: "t \<in> shuffles t1 t2"
    using exec_par2D [of p "par_list ps" t a as'] by blast
  from Cons.IH [OF ps] obtain ts where ts: "t2 \<in> shuffle_all ts" "length ts = length ps"
    "length as' = length ps" "\<forall>i < length ps. exec (ps ! i) (ts ! i) (Returned (as' ! i))"
    by blast
  have "exec ((p # ps) ! i) ((t1 # ts) ! i) (Returned (as ! i))" if "i < length (p # ps)" for i
    using that p ts(4) as by (cases i) auto
  then show ?case
    using t ts as by (intro exI [of _ "t1 # ts"]) auto
qed

lemma set_shuffle_all: "t \<in> shuffle_all ts \<Longrightarrow> set t = (\<Union>x \<in> set ts. set x)"
  by (induction ts arbitrary: t) (auto dest: set_shuffles)

lemma mset_shuffles: "t \<in> shuffles xs ys \<Longrightarrow> mset t = mset xs + mset ys"
  by (induction xs ys arbitrary: t rule: shuffles.induct) auto

lemma mset_shuffle_all: "t \<in> shuffle_all ts \<Longrightarrow> mset t = (\<Sum>x \<leftarrow> ts. mset x)"
  by (induction ts arbitrary: t) (auto dest: mset_shuffles)

lemma issues_par2: "issues P p \<Longrightarrow> issues P q \<Longrightarrow> issues P (par2 p q)"
  by (induction p q rule: par2.induct) auto

lemma issues_par_list: "(\<And>p. p \<in> set ps \<Longrightarrow> issues P p) \<Longrightarrow> issues P (par_list ps)"
  by (induction ps) (auto intro: issues_par2)

end
