(* ===== verification/Go_Base.thy ===== *)
theory Go_Base
  imports Effects Complex_Main "HOL-Library.Finite_Map" "HOL-Library.List_Lexorder"
    "HOL-Library.Char_ord" "HOL-Library.Word"
begin

text \<open>
  The prelude: the parts of Go and of the Kubernetes error package that every component uses, and
  the generic facts about them.

  \<^item> strings are byte lists (\<open>string\<close>), with the functions of the package \<open>strings\<close>;
  \<^item> a slice is an optional list, \<open>None\<close> for the nil slice: \<open>append\<close>, \<open>len\<close> and \<open>range\<close> treat nil
    as empty, \<open>reflect.DeepEqual\<close> does not;
  \<^item> a map is an optional finite map, \<open>None\<close> for the nil map, which may be read but panics when
    written; a \<open>range\<close> over it visits the keys in arbitrary order (\<open>range_keys\<close>);
  \<^item> an error value is a member of \<open>error\<close>; \<open>IsNotFound\<close> and \<open>IsAlreadyExists\<close> look through wrapped
    errors, as \<open>errors.As\<close> does.
\<close>

named_theorems go_defs \<open>definitions that are unfolded in component proofs\<close>
named_theorems wp_simps \<open>rewrite rules for weakest preconditions of library programs\<close>

section \<open>Strings\<close>

definition HasPrefix :: "string \<Rightarrow> string \<Rightarrow> bool" where
  "HasPrefix s p \<longleftrightarrow> take (length p) s = p"

definition TrimPrefix :: "string \<Rightarrow> string \<Rightarrow> string" where
  "TrimPrefix s p = (if HasPrefix s p then drop (length p) s else s)"

fun Join :: "string list \<Rightarrow> string \<Rightarrow> string" where
  "Join [] sep = []"
| "Join [x] sep = x"
| "Join (x # y # xs) sep = x @ sep @ Join (y # xs) sep"

lemma HasPrefix_append [simp]: "HasPrefix (p @ s) p"
  by (simp add: HasPrefix_def)

lemma HasPrefix_iff: "HasPrefix s p \<longleftrightarrow> (\<exists>r. s = p @ r)"
  by (metis HasPrefix_def HasPrefix_append append_take_drop_id)

lemma TrimPrefix_append [simp]: "TrimPrefix (p @ s) p = s"
  by (simp add: TrimPrefix_def)

section \<open>Slices\<close>

type_synonym 'a slice = "'a list option"

definition elems :: "'a slice \<Rightarrow> 'a list" where
  "elems s = (case s of None \<Rightarrow> [] | Some xs \<Rightarrow> xs)"

text \<open>\<open>append(s, xs...)\<close>: nil only when both are without elements and \<open>s\<close> is nil.\<close>

definition go_append :: "'a slice \<Rightarrow> 'a list \<Rightarrow> 'a slice" where
  "go_append s xs = (if s = None \<and> xs = [] then None else Some (elems s @ xs))"

text \<open>What \<open>var s []T\<close> followed by one \<open>append\<close> per element leaves in \<open>s\<close>.\<close>

definition appended :: "'a list \<Rightarrow> 'a slice" where
  "appended xs = (if xs = [] then None else Some xs)"

lemma elems_simps [simp]: "elems None = []" "elems (Some xs) = xs"
  by (simp_all add: elems_def)

lemma elems_go_append [simp]: "elems (go_append s xs) = elems s @ xs"
  by (auto simp: go_append_def)

lemma elems_appended [simp]: "elems (appended xs) = xs"
  by (simp add: appended_def)

lemma go_append_nil [simp]: "go_append None xs = appended xs"
  by (simp add: go_append_def appended_def)

lemma go_append_appended [simp]: "go_append (appended xs) ys = appended (xs @ ys)"
  by (auto simp: go_append_def appended_def)

section \<open>Maps\<close>

type_synonym ('k, 'v) gomap = "('k, 'v) fmap option"

definition entries :: "('k, 'v) gomap \<Rightarrow> ('k, 'v) fmap" where
  "entries m = (case m of None \<Rightarrow> fmempty | Some f \<Rightarrow> f)"

definition mget :: "('k, 'v) gomap \<Rightarrow> 'k \<Rightarrow> 'v option" where
  "mget m k = fmlookup (entries m) k"

text \<open>\<open>delete(m, k)\<close>: no effect on a nil map.\<close>

definition mdelete :: "'k \<Rightarrow> ('k, 'v) gomap \<Rightarrow> ('k, 'v) gomap" where
  "mdelete k m = map_option (fmdrop k) m"

definition mkeys :: "('k, 'v) gomap \<Rightarrow> 'k set" where
  "mkeys m = fmdom' (entries m)"

definition range_keys :: "(string, 'v) gomap \<Rightarrow> ('q, 'r, string list) prog" where
  "range_keys m = pick_perm (sorted_list_of_fset (fmdom (entries m)))"

lemma entries_simps [simp]: "entries None = fmempty" "entries (Some f) = f"
  by (simp_all add: entries_def)

lemma mget_simps [simp]: "mget None k = None" "mget (Some f) k = fmlookup f k"
  by (simp_all add: mget_def)

lemma mdelete_simps [simp]: "mdelete k None = None" "mdelete k (Some f) = Some (fmdrop k f)"
  by (simp_all add: mdelete_def)

lemma mget_mdelete [simp]: "mget (mdelete k m) j = (if j = k then None else mget m j)"
  by (cases m) auto

lemma mkeys_simps [simp]: "mkeys None = {}" "mkeys (Some f) = fmdom' f"
  by (simp_all add: mkeys_def)

lemma mkeys_iff: "k \<in> mkeys m \<longleftrightarrow> mget m k \<noteq> None"
  by (cases m) (auto simp: fmlookup_dom'_iff)

lemma distinct_sorted_list_of_fset [simp]: "distinct (sorted_list_of_fset A)"
  by (simp add: sorted_list_of_fset.rep_eq)

lemma mset_keys_iff:
  "mset ys = mset (sorted_list_of_fset A) \<longleftrightarrow> distinct ys \<and> set ys = fset A"
  using set_eq_iff_mset_eq_distinct [of ys "sorted_list_of_fset A"]
    mset_eq_imp_distinct_iff [of ys "sorted_list_of_fset A"]
  by auto

lemma wp_range_keys [simp]:
  "wp (range_keys m) \<Phi> \<longleftrightarrow> (\<forall>ks. distinct ks \<and> set ks = mkeys m \<longrightarrow> \<Phi> [] (Returned ks))"
  by (simp add: range_keys_def mset_keys_iff mkeys_def fmdom'_alt_def)

lemma exec_range_keys:
  "exec (range_keys m) t out \<longleftrightarrow> t = [] \<and> (\<exists>ks. out = Returned ks \<and> distinct ks \<and> set ks = mkeys m)"
  by (simp add: range_keys_def exec_pick_perm mset_keys_iff mkeys_def fmdom'_alt_def)

lemma issues_range_keys [simp]: "issues P (range_keys m)"
  by (simp add: range_keys_def)

section \<open>Errors\<close>

text \<open>The reason of a Kubernetes API status.\<close>

datatype status_reason = NotFound | AlreadyExists | Conflict | KnownReason string | UnknownReason string

text \<open>
  \<open>StatusError\<close>: an error that carries an API status (reason, HTTP code, message).
  \<open>PlainError\<close>: \<open>errors.New\<close> or \<open>fmt.Errorf\<close> without \<open>%w\<close>.
  \<open>WrapError msg e\<close>: \<open>fmt.Errorf\<close> with \<open>%w\<close>, \<open>msg\<close> the whole formatted message.
  \<open>NotApproved e\<close>: \<open>backend.NotApproved\<close>, whose \<open>Unwrap\<close> is \<open>e\<close>.
\<close>

datatype error =
    StatusError status_reason int string
  | PlainError string
  | WrapError string error
  | NotApproved error

fun Error :: "error \<Rightarrow> string" where
  "Error (StatusError _ _ msg) = msg"
| "Error (PlainError msg) = msg"
| "Error (WrapError msg _) = msg"
| "Error (NotApproved _) = ''not approved''"

fun status_of :: "error \<Rightarrow> (status_reason \<times> int) option" where
  "status_of (StatusError r c _) = Some (r, c)"
| "status_of (PlainError _) = None"
| "status_of (WrapError _ e) = status_of e"
| "status_of (NotApproved e) = status_of e"

fun is_known_reason :: "status_reason \<Rightarrow> bool" where
  "is_known_reason (UnknownReason _) = False"
| "is_known_reason _ = True"

definition IsNotFound :: "error \<Rightarrow> bool" where
  "IsNotFound e = (case status_of e of
      None \<Rightarrow> False
    | Some (r, code) \<Rightarrow> r = NotFound \<or> (\<not> is_known_reason r \<and> code = 404))"

definition IsAlreadyExists :: "error \<Rightarrow> bool" where
  "IsAlreadyExists e = (case status_of e of None \<Rightarrow> False | Some (r, _) \<Rightarrow> r = AlreadyExists)"

lemma IsNotFound_simps [simp]:
  "\<not> IsNotFound (PlainError m)"
  "IsNotFound (WrapError m e) = IsNotFound e"
  "IsNotFound (NotApproved e) = IsNotFound e"
  "IsNotFound (StatusError r c m) = (r = NotFound \<or> (\<not> is_known_reason r \<and> c = 404))"
  by (simp_all add: IsNotFound_def)

lemma IsAlreadyExists_simps [simp]:
  "\<not> IsAlreadyExists (PlainError m)"
  "IsAlreadyExists (WrapError m e) = IsAlreadyExists e"
  "IsAlreadyExists (NotApproved e) = IsAlreadyExists e"
  "IsAlreadyExists (StatusError r c m) = (r = AlreadyExists)"
  by (simp_all add: IsAlreadyExists_def)

section \<open>Further runtime types\<close>

text \<open>A point in time: nanoseconds since the zero value of \<open>time.Time\<close>.\<close>

type_synonym Time = int

text \<open>A byte slice that is only stored and compared.\<close>

type_synonym bytes = string

text \<open>Run-time panics.\<close>

definition nil_dereference :: string where
  "nil_dereference = ''invalid memory address or nil pointer dereference''"

definition nil_map_write :: string where
  "nil_map_write = ''assignment to entry in nil map''"

definition index_out_of_range :: string where
  "index_out_of_range = ''index out of range''"

definition slice_out_of_range :: string where
  "slice_out_of_range = ''slice bounds out of range''"

text \<open>A pointer that is dereferenced.\<close>

definition deref :: "'a option \<Rightarrow> ('q, 'r, 'a) prog" where
  "deref p = (case p of None \<Rightarrow> Panic nil_dereference | Some a \<Rightarrow> Ret a)"

lemma wp_deref [simp]:
  "wp (deref p) \<Phi> \<longleftrightarrow>
     (case p of None \<Rightarrow> \<Phi> [] (Panicked nil_dereference) | Some a \<Rightarrow> \<Phi> [] (Returned a))"
  by (simp add: deref_def split: option.split)

lemma issues_deref [simp]: "issues P (deref p)"
  by (simp add: deref_def split: option.split)

text \<open>A loop that collects one result per element.\<close>

primrec for_each :: "('a \<Rightarrow> ('q, 'r, 'b) prog) \<Rightarrow> 'a list \<Rightarrow> ('q, 'r, 'b list) prog" where
  "for_each f [] = Ret []"
| "for_each f (x # xs) = bindp (f x) (\<lambda>y. mapp (Cons y) (for_each f xs))"

lemma issues_for_each: "(\<And>x. x \<in> set xs \<Longrightarrow> issues P (f x)) \<Longrightarrow> issues P (for_each f xs)"
  by (induction xs) (auto intro!: issues_bindpI)

text \<open>The rules every proof about a program starts from.\<close>

lemmas wp_base = wp_bindp wp_mapp wp_conj

end
