(* ===== verification/Api_Types.thy ===== *)
theory Api_Types
  imports Go_Base
begin

text \<open>
  The custom resources of the group \<open>management.project-flotta.io/v1alpha1\<close>
  (\<open>src/api/v1alpha1/*_types.go\<close>) and the fields of the core Kubernetes objects the operator reads.
  A Go struct is a record with the source's fields, a pointer an option, a slice or a map of the
  status (which \<open>reflect.DeepEqual\<close> compares) keeps the difference between nil and empty.
  Integers that are only copied or compared are \<open>int\<close>; the identifiers of a host device, which are
  converted between widths, are words.
\<close>

section \<open>Object metadata and core objects\<close>

record owner_reference =
  or_APIVersion :: string
  or_Kind :: string
  or_Name :: string
  or_UID :: string

record object_meta =
  om_Name :: string
  om_Namespace :: string
  om_Labels :: "(string, string) gomap"
  om_Annotations :: "(string, string) gomap"
  om_Finalizers :: "string list"
  om_DeletionTimestamp :: "Time option"
  om_ResourceVersion :: string
  om_UID :: string
  om_OwnerReferences :: "owner_reference list"

definition zero_meta :: object_meta where
  "zero_meta = \<lparr>om_Name = [], om_Namespace = [], om_Labels = None, om_Annotations = None,
     om_Finalizers = [], om_DeletionTimestamp = None, om_ResourceVersion = [], om_UID = [],
     om_OwnerReferences = []\<rparr>"

text \<open>A label selector: operators are strings, as the API has them.\<close>

record selector_requirement =
  sr_Key :: string
  sr_Operator :: string
  sr_Values :: "string list"

record label_selector =
  ls_MatchLabels :: "(string, string) gomap"
  ls_MatchExpressions :: "selector_requirement list"

text \<open>The fields of pod specifications and config maps that the operator reads; everything else stays opaque.\<close>

record object_ref =
  ref_Name :: string
  ref_Optional :: "bool option"

record key_ref =
  kr_Name :: string
  kr_Key :: string
  kr_Optional :: "bool option"

record env_from_source =
  ef_SecretRef :: "object_ref option"
  ef_ConfigMapRef :: "object_ref option"

record env_var_source =
  vs_SecretKeyRef :: "key_ref option"
  vs_ConfigMapKeyRef :: "key_ref option"
  vs_FieldRef :: "string option"
  vs_ResourceFieldRef :: "string option"

record env_var =
  ev_Name :: string
  ev_ValueFrom :: "env_var_source option"

record container =
  ct_Name :: string
  ct_EnvFrom :: "env_from_source list"
  ct_Env :: "env_var list"
  ct_Lifecycle :: "string option"
  ct_LivenessProbe :: "string option"
  ct_ReadinessProbe :: "string option"
  ct_StartupProbe :: "string option"
  ct_VolumeDevices :: "string list"
  ct_Limits :: "string list"
  ct_Requests :: "string list"
  ct_HostPorts :: "int list"
  ct_Rest :: string

record volume =
  vo_Name :: string
  vo_HostPath :: "string option"
  vo_ConfigMap :: "object_ref option"

record pod_spec =
  ps_InitContainers :: "container list"
  ps_Containers :: "container list"
  ps_Volumes :: "volume list"
  ps_Rest :: string

record secret =
  se_meta :: object_meta
  se_Data :: "(string, bytes) gomap"

record config_map =
  cm_meta :: object_meta
  cm_Data :: "(string, string) gomap"
  cm_Rest :: string

section \<open>EdgeDevice\<close>

record name_ref =
  nr_Name :: string

record metrics_receiver_configuration =
  mr_RequestNumSamples :: int
  mr_TimeoutSeconds :: int
  mr_URL :: string
  mr_CaSecretName :: string

record log_collection_config =
  lc_Kind :: string
  lc_BufferSize :: int
  lc_SyslogConfig :: "name_ref option"

record component_metrics_configuration =
  cmc_Interval :: int
  cmc_AllowList :: "name_ref option"
  cmc_Disabled :: bool

record retention =
  rt_MaxMiB :: int
  rt_MaxHours :: int

record metrics_configuration =
  mc_Retention :: "retention option"
  mc_SystemMetrics :: "component_metrics_configuration option"
  mc_DataTransferMetrics :: "component_metrics_configuration option"
  mc_ReceiverConfiguration :: "metrics_receiver_configuration option"

record s3_storage =
  s3_SecretName :: string
  s3_ConfigMapName :: string
  s3_CreateOBC :: bool

record storage =
  st_S3 :: "s3_storage option"

record os_information =
  os_AutomaticallyUpgrade :: bool
  os_CommitID :: string
  os_HostedObjectsURL :: string

record hardware_profile_configuration =
  hp_Include :: bool
  hp_Scope :: string

record heartbeat_configuration =
  hc_HardwareProfile :: "hardware_profile_configuration option"
  hc_PeriodSeconds :: int

record mount =
  mo_Device :: string
  mo_Directory :: string
  mo_Type :: string
  mo_Options :: string

record data_array =
  da_Name :: string
  da_Value :: string

record tags_array =
  ta_Name :: string
  ta_Value :: string

record location =
  lo_Longitude :: string
  lo_Latitude :: string
  lo_LocationSource :: string

record region =
  rg_RegionName :: string
  rg_Bandwidth :: int

record transmit_info =
  ti_Frequency :: int
  ti_Power :: string
  ti_SpreadingFactor :: int
  ti_CodeRate :: string
  ti_PolarizationInversion :: bool

record wireless_device_info =
  wi_TenantId :: string
  wi_TenantName :: string
  wi_ApplicationId :: string
  wi_ApplicationName :: string
  wi_DeviceProfileId :: string
  wi_DeviceProfileName :: string
  wi_DeviceName :: string
  wi_DevEui :: string
  wi_DevAddr :: string
  wi_Location :: location
  wi_Region :: region
  wi_TransmitInfo :: transmit_info
  wi_BatteryLevel :: string
  wi_Data :: "data_array slice"
  wi_Confirmed :: bool
  wi_LastSeen :: string
  wi_Tags :: "tags_array slice"
  wi_EventType :: string

record wireless_devices =
  wd_InterfaceType :: string
  wd_Info :: wireless_device_info

text \<open>The values of \<open>WirelessInterfaceType\<close>.\<close>

definition WirelessInterfaceTypeLora :: string where "WirelessInterfaceTypeLora = ''Lora''"
definition WirelessInterfaceTypeWiFi :: string where "WirelessInterfaceTypeWiFi = ''WiFi''"

record edge_device_spec =
  ds_OsInformation :: "os_information option"
  ds_WirelessDevices :: "wireless_devices option slice"
  ds_RequestTime :: "Time option"
  ds_Heartbeat :: "heartbeat_configuration option"
  ds_Storage :: "storage option"
  ds_Metrics :: "metrics_configuration option"
  ds_LogCollection :: "(string, log_collection_config option) gomap"
  ds_Mounts :: "mount option slice"

text \<open>
  The phase of a workload on a device. It is a string type whose named values are \<open>Deploying\<close>,
  \<open>Running\<close> and \<open>Exited\<close>; a heartbeat may report any other text.
\<close>

type_synonym workload_phase = string

definition Deploying :: workload_phase where "Deploying = ''Deploying''"
definition Running :: workload_phase where "Running = ''Running''"
definition Exited :: workload_phase where "Exited = ''Exited''"

record workload =
  wl_Name :: string
  wl_Phase :: workload_phase
  wl_LastTransitionTime :: Time
  wl_LastDataUpload :: Time

text \<open>The zero value of \<open>metav1.Time\<close>.\<close>

definition zero_time :: Time where "zero_time = 0"

section \<open>PlaybookExecution\<close>

text \<open>\<open>metav1.ConditionStatus\<close> is a string type with three named values; the code also stores others.\<close>

type_synonym condition_status = string

definition ConditionTrue :: condition_status where "ConditionTrue = ''True''"
definition ConditionFalse :: condition_status where "ConditionFalse = ''False''"

type_synonym pe_condition_type = string

definition PlaybookExecutionDeploying :: pe_condition_type where
  "PlaybookExecutionDeploying = ''Deploying''"
definition PlaybookExecutionTargetVerification :: pe_condition_type where
  "PlaybookExecutionTargetVerification = ''TargetVerification''"
definition PlaybookExecutionRunning :: pe_condition_type where
  "PlaybookExecutionRunning = ''Running''"
definition PlaybookExecutionSuccessfullyCompleted :: pe_condition_type where
  "PlaybookExecutionSuccessfullyCompleted = ''SuccessfullyCompleted''"
definition PlaybookExecutionCompletedWithError :: pe_condition_type where
  "PlaybookExecutionCompletedWithError = ''CompletedWithError''"

record pe_condition =
  pc_Type :: pe_condition_type
  pc_Status :: condition_status
  pc_Reason :: "string option"
  pc_Message :: "string option"
  pc_LastTransitionTime :: "Time option"

record pe_status =
  pes_Conditions :: "pe_condition slice"

record playbook_exec =
  px_Name :: string
  px_Status :: pe_status

record required_privilege_level =
  pl_CapAdd :: "int list"
  pl_CapDrop :: "int list"

record privilege_escalation_options =
  pe_Become :: bool
  pe_BecomeMethod :: string
  pe_BecomeUser :: string

record ansible_options =
  ao_Check :: bool

record playbook =
  pb_Content :: bytes
  pb_TimeoutSeconds :: int
  pb_RequiredPrivilegeLevel :: "required_privilege_level option"
  pb_Options :: "ansible_options option"
  pb_PrivilegeEscalationOptions :: "privilege_escalation_options option"
  pb_ExecutionStrategy :: string

record pe_spec =
  psp_Playbook :: playbook
  psp_ExecutionAttempt :: "8 word"

record playbook_execution =
  pex_meta :: object_meta
  pex_Spec :: pe_spec
  pex_Status :: pe_status

definition zero_playbook :: playbook where
  "zero_playbook = \<lparr>pb_Content = [], pb_TimeoutSeconds = 0, pb_RequiredPrivilegeLevel = None,
     pb_Options = None, pb_PrivilegeEscalationOptions = None, pb_ExecutionStrategy = []\<rparr>"

definition zero_playbook_execution :: playbook_execution where
  "zero_playbook_execution = \<lparr>pex_meta = zero_meta,
     pex_Spec = \<lparr>psp_Playbook = zero_playbook, psp_ExecutionAttempt = 0\<rparr>,
     pex_Status = \<lparr>pes_Conditions = None\<rparr>\<rparr>"

section \<open>Hardware\<close>

record boot =
  bo_CurrentBootMode :: string
  bo_PxeInterface :: string

record cpu =
  cp_Architecture :: string
  cp_Count :: int
  cp_Flags :: "string slice"
  cp_Frequency :: string
  cp_ModelName :: string

record io_perf =
  ip_SyncDuration :: int

record disk =
  dk_Bootable :: bool
  dk_ByID :: string
  dk_ByPath :: string
  dk_DriveType :: string
  dk_Hctl :: string
  dk_ID :: string
  dk_IoPerf :: "io_perf option"
  dk_IsInstallationMedia :: bool
  dk_Model :: string
  dk_Name :: string
  dk_Path :: string
  dk_Serial :: string
  dk_SizeBytes :: int
  dk_Smart :: string
  dk_Vendor :: string
  dk_Wwn :: string

record gpu =
  gp_Address :: string
  gp_DeviceID :: string
  gp_Name :: string
  gp_Vendor :: string
  gp_VendorID :: string

record iface =
  if_Biosdevname :: string
  if_ClientID :: string
  if_Flags :: "string slice"
  if_HasCarrier :: bool
  if_IPV4Addresses :: "string slice"
  if_IPV6Addresses :: "string slice"
  if_MacAddress :: string
  if_Mtu :: int
  if_Name :: string
  if_Product :: string
  if_SpeedMbps :: int
  if_Vendor :: string

record memory =
  me_PhysicalBytes :: int
  me_UsableBytes :: int

record system_vendor =
  sv_Manufacturer :: string
  sv_ProductName :: string
  sv_SerialNumber :: string
  sv_Virtual :: bool

record host_device =
  hd_Path :: string
  hd_DeviceType :: string
  hd_UID :: "32 word"
  hd_GID :: "32 word"
  hd_Major :: "32 word"
  hd_Minor :: "32 word"

record hardware =
  hw_Boot :: "boot option"
  hw_CPU :: "cpu option"
  hw_Disks :: "disk option slice"
  hw_Gpus :: "gpu option slice"
  hw_Hostname :: string
  hw_Interfaces :: "iface option slice"
  hw_Memory :: "memory option"
  hw_SystemVendor :: "system_vendor option"
  hw_HostDevices :: "host_device option slice"
  hw_Mounts :: "mount option slice"

record upgrade_information =
  ui_CurrentCommitID :: string
  ui_LastUpgradeStatus :: string
  ui_LastUpgradeTime :: string

record edge_device_status =
  es_Phase :: string
  es_LastSyncedResourceVersion :: string
  es_Hardware :: "hardware option"
  es_Workloads :: "workload slice"
  es_PlaybookExecutions :: "playbook_exec slice"
  es_DataOBC :: "string option"
  es_UpgradeInformation :: "upgrade_information option"
  es_WirelessDevices :: "wireless_devices option slice"

record edge_device =
  ed_meta :: object_meta
  ed_Spec :: edge_device_spec
  ed_Status :: edge_device_status

definition zero_edge_device_spec :: edge_device_spec where
  "zero_edge_device_spec = \<lparr>ds_OsInformation = None, ds_WirelessDevices = None,
     ds_RequestTime = None, ds_Heartbeat = None, ds_Storage = None, ds_Metrics = None,
     ds_LogCollection = None, ds_Mounts = None\<rparr>"

definition zero_edge_device_status :: edge_device_status where
  "zero_edge_device_status = \<lparr>es_Phase = [], es_LastSyncedResourceVersion = [],
     es_Hardware = None, es_Workloads = None, es_PlaybookExecutions = None, es_DataOBC = None,
     es_UpgradeInformation = None, es_WirelessDevices = None\<rparr>"

definition zero_edge_device :: edge_device where
  "zero_edge_device = \<lparr>ed_meta = zero_meta, ed_Spec = zero_edge_device_spec,
     ed_Status = zero_edge_device_status\<rparr>"

section \<open>EdgeDeviceSet\<close>

definition EdgedeviceSetLabel :: string where "EdgedeviceSetLabel = ''flotta/member-of''"

record edge_device_set_spec =
  dss_Heartbeat :: "heartbeat_configuration option"
  dss_Storage :: "storage option"
  dss_Metrics :: "metrics_configuration option"
  dss_LogCollection :: "(string, log_collection_config option) gomap"
  dss_OsInformation :: "os_information option"
  dss_Mounts :: "mount option slice"

record edge_device_set =
  eds_meta :: object_meta
  eds_Spec :: edge_device_set_spec

definition zero_edge_device_set :: edge_device_set where
  "zero_edge_device_set = \<lparr>eds_meta = zero_meta, eds_Spec = \<lparr>dss_Heartbeat = None, dss_Storage = None,
     dss_Metrics = None, dss_LogCollection = None, dss_OsInformation = None, dss_Mounts = None\<rparr>\<rparr>"

section \<open>EdgeDeviceSignedRequest\<close>

definition EdgeDeviceSignedRequestLabelName :: string where
  "EdgeDeviceSignedRequestLabelName = ''edgedeviceSignedRequest''"
definition EdgeDeviceSignedRequestLabelValue :: string where
  "EdgeDeviceSignedRequestLabelValue = ''true''"

datatype edsr_status_type = EdgeDeviceSignedRequestStatusApproved
  | EdgeDeviceSignedRequestStatusPending | EdgeDeviceSignedRequestStatusDeclined

record features =
  ft_ModelName :: string
  ft_Hardware :: "hardware option"

record edsr_spec =
  rs_TargetNamespace :: string
  rs_TargetSet :: string
  rs_Approved :: bool
  rs_Features :: "features option"

record edsr_condition =
  rc_Type :: edsr_status_type
  rc_Status :: condition_status
  rc_Message :: "string option"
  rc_LastTransitionTime :: "Time option"

record edsr_status =
  rst_Conditions :: "edsr_condition list"

record edsr =
  sr_meta :: object_meta
  sr_Spec :: edsr_spec
  sr_Status :: edsr_status

definition zero_edsr :: edsr where
  "zero_edsr = \<lparr>sr_meta = zero_meta,
     sr_Spec = \<lparr>rs_TargetNamespace = [], rs_TargetSet = [], rs_Approved = False, rs_Features = None\<rparr>,
     sr_Status = \<lparr>rst_Conditions = []\<rparr>\<rparr>"

section \<open>EdgeWorkload\<close>

record image_registries_configuration =
  ir_AuthFileSecret :: "name_ref option"

record metrics_config_entity =
  mce_Path :: string
  mce_Port :: int
  mce_Disabled :: bool

record container_metrics_configuration =
  cmet_Path :: string
  cmet_Port :: int
  cmet_Interval :: int
  cmet_AllowList :: "name_ref option"
  cmet_Containers :: "(string, metrics_config_entity option) gomap"

record data_path =
  dp_Source :: string
  dp_Target :: string

record data_configuration =
  dc_Ingress :: "data_path list"
  dc_Egress :: "data_path list"

record edge_workload_spec =
  ws_DeviceSelector :: "label_selector option"
  ws_Device :: string
  ws_Type :: string
  ws_Pod :: pod_spec
  ws_Data :: "data_configuration option"
  ws_ImageRegistries :: "image_registries_configuration option"
  ws_Metrics :: "container_metrics_configuration option"
  ws_LogCollection :: string

record edge_workload =
  ew_meta :: object_meta
  ew_Spec :: edge_workload_spec

definition zero_pod_spec :: pod_spec where
  "zero_pod_spec = \<lparr>ps_InitContainers = [], ps_Containers = [], ps_Volumes = [], ps_Rest = []\<rparr>"

definition zero_edge_workload :: edge_workload where
  "zero_edge_workload = \<lparr>ew_meta = zero_meta,
     ew_Spec = \<lparr>ws_DeviceSelector = None, ws_Device = [], ws_Type = [], ws_Pod = zero_pod_spec,
       ws_Data = None, ws_ImageRegistries = None, ws_Metrics = None, ws_LogCollection = []\<rparr>\<rparr>"

section \<open>EdgeConfig\<close>

record edge_playbook_spec =
  eps_User :: string
  eps_Playbooks :: "playbook list"

record edge_playbook_condition =
  epc_Type :: string
  epc_Status :: string
  epc_Reason :: "string option"
  epc_Message :: "string option"
  epc_LastTransitionTime :: "Time option"

record edge_playbook_status =
  ept_Conditions :: "edge_playbook_condition list"

text \<open>\<open>EdgeConfigSpec\<close> and \<open>EdgeConfigStatus\<close> have one field each, written here as fields of the object.\<close>

record edge_config =
  ec_APIVersion :: string
  ec_Kind :: string
  ec_meta :: object_meta
  ec_EdgePlaybook :: "edge_playbook_spec option"
  ec_EdgePlaybookStatus :: "edge_playbook_status option"

definition zero_edge_config :: edge_config where
  "zero_edge_config = \<lparr>ec_APIVersion = [], ec_Kind = [], ec_meta = zero_meta, ec_EdgePlaybook = None,
     ec_EdgePlaybookStatus = None\<rparr>"

section \<open>Object bucket claims and routes\<close>

text \<open>The fields of \<open>objectbucket.io\<close> claims and OpenShift routes that the storage package uses.\<close>

record object_bucket_claim =
  obc_meta :: object_meta
  obc_GenerateBucketName :: string
  obc_StorageClassName :: string

record route =
  ro_Host :: string

section \<open>Accessors\<close>

text \<open>Names, namespaces and labels of an embedded \<open>ObjectMeta\<close>, and the updates the code makes.\<close>

abbreviation ed_Name :: "edge_device \<Rightarrow> string" where "ed_Name d \<equiv> om_Name (ed_meta d)"
abbreviation ed_Namespace :: "edge_device \<Rightarrow> string" where "ed_Namespace d \<equiv> om_Namespace (ed_meta d)"
abbreviation ed_Labels :: "edge_device \<Rightarrow> (string, string) gomap" where "ed_Labels d \<equiv> om_Labels (ed_meta d)"
abbreviation ew_Name :: "edge_workload \<Rightarrow> string" where "ew_Name w \<equiv> om_Name (ew_meta w)"
abbreviation ew_Namespace :: "edge_workload \<Rightarrow> string" where "ew_Namespace w \<equiv> om_Namespace (ew_meta w)"
abbreviation ew_Labels :: "edge_workload \<Rightarrow> (string, string) gomap" where "ew_Labels w \<equiv> om_Labels (ew_meta w)"

definition set_ed_Labels :: "(string, string) gomap \<Rightarrow> edge_device \<Rightarrow> edge_device" where
  "set_ed_Labels m d = d\<lparr>ed_meta := (ed_meta d)\<lparr>om_Labels := m\<rparr>\<rparr>"

definition set_ed_Workloads :: "workload slice \<Rightarrow> edge_device \<Rightarrow> edge_device" where
  "set_ed_Workloads ws d = d\<lparr>ed_Status := (ed_Status d)\<lparr>es_Workloads := ws\<rparr>\<rparr>"

definition set_ew_Labels :: "(string, string) gomap \<Rightarrow> edge_workload \<Rightarrow> edge_workload" where
  "set_ew_Labels m w = w\<lparr>ew_meta := (ew_meta w)\<lparr>om_Labels := m\<rparr>\<rparr>"

lemma set_ed_Labels_simps [simp]:
  "ed_Labels (set_ed_Labels m d) = m" "ed_Name (set_ed_Labels m d) = ed_Name d"
  "ed_Namespace (set_ed_Labels m d) = ed_Namespace d" "ed_Status (set_ed_Labels m d) = ed_Status d"
  "ed_Spec (set_ed_Labels m d) = ed_Spec d"
  "om_Finalizers (ed_meta (set_ed_Labels m d)) = om_Finalizers (ed_meta d)"
  "set_ed_Labels m (set_ed_Labels m' d) = set_ed_Labels m d"
  "set_ed_Labels (ed_Labels d) d = d"
  by (simp_all add: set_ed_Labels_def)

lemma set_ed_Workloads_simps [simp]:
  "es_Workloads (ed_Status (set_ed_Workloads ws d)) = ws" "ed_meta (set_ed_Workloads ws d) = ed_meta d"
  "ed_Spec (set_ed_Workloads ws d) = ed_Spec d"
  "es_PlaybookExecutions (ed_Status (set_ed_Workloads ws d)) = es_PlaybookExecutions (ed_Status d)"
  by (simp_all add: set_ed_Workloads_def)

lemma set_ew_Labels_simps [simp]:
  "ew_Labels (set_ew_Labels m w) = m" "ew_Name (set_ew_Labels m w) = ew_Name w"
  "ew_Namespace (set_ew_Labels m w) = ew_Namespace w" "ew_Spec (set_ew_Labels m w) = ew_Spec w"
  "om_Finalizers (ew_meta (set_ew_Labels m w)) = om_Finalizers (ew_meta w)"
  "om_DeletionTimestamp (ew_meta (set_ew_Labels m w)) = om_DeletionTimestamp (ew_meta w)"
  "set_ew_Labels m (set_ew_Labels m' w) = set_ew_Labels m w"
  "set_ew_Labels (ew_Labels w) w = w"
  by (simp_all add: set_ew_Labels_def)

end
