(* ===== verification/Model_Types.thy ===== *)
theory Model_Types
  imports Api_Types
begin

text \<open>
  The messages exchanged with a device (\<open>src/models\<close>): the hardware description, heartbeats,
  enrolment and registration, and the configuration sent back. Field values that Go copies between
  a message type and a resource type of the same shape (\<open>(*v1alpha1.Gpu)(g)\<close>) share one record.
  A \<open>float64\<close> that arrives in JSON is finite, so it is a rational number.
\<close>

section \<open>JSON values\<close>

text \<open>What \<open>encoding/json\<close> puts into an \<open>interface{}\<close>.\<close>

datatype json =
    JNull
  | JBool bool
  | JNumber rat
  | JString string
  | JArray "json list"
  | JObject "(string \<times> json) list"

section \<open>Hardware\<close>

record m_cpu =
  mcp_Architecture :: string
  mcp_Count :: int
  mcp_Flags :: "string slice"
  mcp_Frequency :: rat
  mcp_ModelName :: string

type_synonym m_boot = boot
type_synonym m_disk = disk
type_synonym m_gpu = gpu
type_synonym m_iface = iface
type_synonym m_io_perf = io_perf
type_synonym m_memory = memory
type_synonym m_mount = mount
type_synonym m_system_vendor = system_vendor

record m_host_device =
  mhd_DeviceType :: string
  mhd_Gid :: "64 word"
  mhd_Major :: "64 word"
  mhd_Minor :: "64 word"
  mhd_Path :: string
  mhd_UID :: "64 word"

record m_location =
  mlo_Latitude :: string
  mlo_Longitude :: string

record m_region =
  mrg_Bandwidth :: string

record m_transmit_info =
  mti_CodeRate :: string
  mti_Frequency :: string
  mti_PolarizationInversion :: string
  mti_Power :: string
  mti_SpreadingFactor :: string

record m_wireless_device_info =
  mwi_ApplicationID :: string
  mwi_ApplicationName :: string
  mwi_Battery :: string
  mwi_Confirmed :: bool
  mwi_Data :: string
  mwi_DevAddr :: string
  mwi_DevEui :: string
  mwi_DeviceName :: string
  mwi_DeviceProfileID :: string
  mwi_DeviceProfileName :: string
  mwi_LastSeen :: string
  mwi_Location :: "m_location option"
  mwi_Region :: "m_region option"
  mwi_TenantID :: string
  mwi_TenantName :: string
  mwi_TransmitInfo :: "m_transmit_info option"

type_synonym connected_wireless_devices = "m_wireless_device_info option list"

record hardware_info =
  hi_Boot :: "m_boot option"
  hi_ConnectedWirelessDevices :: connected_wireless_devices
  hi_CPU :: "m_cpu option"
  hi_Disks :: "m_disk option list"
  hi_Gpus :: "m_gpu option list"
  hi_HostDevices :: "m_host_device option list"
  hi_Hostname :: string
  hi_Interfaces :: "m_iface option list"
  hi_Memory :: "m_memory option"
  hi_Mounts :: "m_mount option list"
  hi_SystemVendor :: "m_system_vendor option"

section \<open>Heartbeat, enrolment, registration\<close>

record event_info =
  ei_Message :: string
  ei_Reason :: string
  ei_Type :: string

definition EventInfoTypeWarn :: string where "EventInfoTypeWarn = ''warn''"

record playbook_execution_status =
  ps_LastDataUpload :: Time
  ps_Name :: string
  ps_Status :: string

record workload_status =
  wst_LastDataUpload :: Time
  wst_Name :: string
  wst_Status :: string

type_synonym upgrade_status = upgrade_information

record heartbeat =
  hb_Events :: "event_info option list"
  hb_Hardware :: "hardware_info option"
  hb_PlaybookExecutions :: "playbook_execution_status option list"
  hb_Status :: string
  hb_Upgrade :: "upgrade_status option"
  hb_Version :: string
  hb_Workloads :: "workload_status option list"

record enrolment_info_features =
  ef_Hardware :: "hardware_info option"
  ef_ModelName :: string

record enrolment_info =
  en_Features :: "enrolment_info_features option"
  en_TargetNamespace :: "string option"

record registration_info =
  ri_CertificateRequest :: string
  ri_Hardware :: "hardware_info option"

record m_playbook_execution =
  mpe_AnsiblePlaybookString :: string
  mpe_LastDataUpload :: Time
  mpe_Name :: string

section \<open>Device configuration\<close>

type_synonym m_hardware_profile_configuration = hardware_profile_configuration
type_synonym m_os_information = os_information
type_synonym m_data_path = data_path

record m_heartbeat_configuration =
  mh_HardwareProfile :: "m_hardware_profile_configuration option"
  mh_PeriodSeconds :: int

record syslog_config =
  sy_Address :: string
  sy_Protocol :: string

record logs_collection_information =
  li_BufferSize :: int
  li_Kind :: string
  li_SyslogConfig :: "syslog_config option"

record metrics_allow_list =
  al_Names :: "string list"

record m_component_metrics_configuration =
  mcm_AllowList :: "metrics_allow_list option"
  mcm_Disabled :: bool
  mcm_Interval :: int

record m_metrics_receiver_configuration =
  mmr_CaCert :: string
  mmr_RequestNumSamples :: int
  mmr_TimeoutSeconds :: int
  mmr_URL :: string

record metrics_retention =
  mrt_MaxHours :: int
  mrt_MaxMib :: int

record m_metrics_configuration =
  mmc_DataTransfer :: "m_component_metrics_configuration option"
  mmc_Receiver :: "m_metrics_receiver_configuration option"
  mmc_Retention :: "metrics_retention option"
  mmc_System :: "m_component_metrics_configuration option"

record s3_storage_configuration =
  s3c_AwsAccessKeyID :: string
  s3c_AwsCaBundle :: string
  s3c_AwsSecretAccessKey :: string
  s3c_BucketHost :: string
  s3c_BucketName :: string
  s3c_BucketPort :: int
  s3c_BucketRegion :: string

record storage_configuration =
  stc_S3 :: "s3_storage_configuration option"

record ansible_manager_configuration =
  am_PeriodSeconds :: int

record device_configuration =
  cfg_AnsibleManager :: "ansible_manager_configuration option"
  cfg_Heartbeat :: "m_heartbeat_configuration option"
  cfg_LogCollection :: "(string, logs_collection_information) gomap"
  cfg_Metrics :: "m_metrics_configuration option"
  cfg_Mounts :: "m_mount list"
  cfg_Os :: "m_os_information option"
  cfg_Storage :: "storage_configuration option"

record container_metrics =
  cme_Disabled :: bool
  cme_Path :: string
  cme_Port :: int

record m_metrics =
  mm_AllowList :: "metrics_allow_list option"
  mm_Containers :: "(string, container_metrics) gomap"
  mm_Interval :: int
  mm_Path :: string
  mm_Port :: int

record m_data_configuration =
  md_Egress :: "m_data_path slice"
  md_Ingress :: "m_data_path slice"

record image_registries =
  ig_AuthFile :: string

record m_workload =
  mw_Annotations :: "(string, string) fmap"
  mw_Configmaps :: "string list"
  mw_Data :: "m_data_configuration option"
  mw_ImageRegistries :: "image_registries option"
  mw_Labels :: "(string, string) fmap"
  mw_LogCollection :: string
  mw_Metrics :: "m_metrics option"
  mw_Name :: string
  mw_Namespace :: string
  mw_Specification :: string

record m_secret =
  ms_Data :: string
  ms_Name :: string

text \<open>\<open>SecretList\<close> and \<open>WorkloadList\<close>: \<open>None\<close> is the nil list of a device that is being deleted.\<close>

type_synonym secret_list = "m_secret slice"
type_synonym workload_list = "m_workload slice"

record device_configuration_message =
  cf_Configuration :: "device_configuration option"
  cf_DeviceID :: string
  cf_Secrets :: secret_list
  cf_Version :: string
  cf_Workloads :: workload_list
  cf_WorkloadsMonitoringInterval :: int

end
