(* ===== verification/System_Calls.thy ===== *)
theory System_Calls
  imports Model_Types
begin

text \<open>
  What the two processes ask for besides objects of the cluster: the remote store of devices over HTTP, and the
  calls that set a process up (environment, files, connections, servers, controllers) or keep it informed (the
  message broker, the watch on a config map). They are separate types so that a component that issues none of
  them need not mention them.
\<close>

section \<open>The remote store\<close>

text \<open>
  The operations of \<open>src/swagger-backend.yaml\<close>. A call names the namespace and the device of the path and the
  time-out in nanoseconds.
\<close>

datatype remote_op =
    OpGetRegistrationStatus
  | OpGetDeviceConfiguration
  | OpGetPlaybookExecutions
  | OpEnrolDevice enrolment_info
  | OpRegisterDevice registration_info
  | OpUpdateHeartBeat heartbeat

record remote_call =
  rc_Op :: remote_op
  rc_Namespace :: string
  rc_DeviceID :: string
  rc_Timeout :: int

record device_registration_status_response =
  rsr_Message :: string
  rsr_Namespace :: string
  rsr_Status :: string

record device_configuration_response =
  dcr_DeviceConfiguration :: device_configuration_message
  dcr_Message :: string

text \<open>The decoded body of an answer.\<close>

datatype remote_body =
    NoBody
  | StatusBody device_registration_status_response
  | ConfigurationBody device_configuration_response
  | PlaybooksBody "m_playbook_execution list"
  | ErrorBody string
  | BadBody

primrec is_remote_write :: "remote_op \<Rightarrow> bool" where
  "is_remote_write OpGetRegistrationStatus = False"
| "is_remote_write OpGetDeviceConfiguration = False"
| "is_remote_write OpGetPlaybookExecutions = False"
| "is_remote_write (OpEnrolDevice _) = True"
| "is_remote_write (OpRegisterDevice _) = True"
| "is_remote_write (OpUpdateHeartBeat _) = True"

section \<open>Settings\<close>

text \<open>\<open>src/internal/edgeapi/config.go\<close>; a duration is in nanoseconds.\<close>

record api_config =
  ac_HttpsPort :: "16 word"
  ac_Domain :: string
  ac_TLSLocalhostEnabled :: bool
  ac_MetricsAddr :: string
  ac_LogLevel :: string
  ac_ClientCertExpirationTime :: "64 word"
  ac_Kubeconfig :: string
  ac_Backend :: string
  ac_RemoteBackendURL :: string
  ac_RemoteBackendTimeout :: int
  ac_MqttBroker :: string
  ac_InfluxDbHost :: string
  ac_InfluxDbToken :: string

text \<open>The settings of the operator (\<open>src/cmd/manager/main.go\<close>).\<close>

record manager_config =
  mf_MetricsAddr :: string
  mf_ProbeAddr :: string
  mf_EnableLeaderElection :: bool
  mf_WebhookPort :: int
  mf_EnableObcAutoCreation :: bool
  mf_LogLevel :: string
  mf_EdgeWorkloadConcurrency :: "64 word"
  mf_EdgeConfigConcurrency :: "64 word"
  mf_MaxConcurrentReconciles :: "64 word"
  mf_AutoApproval :: bool
  mf_EnableWebhooks :: bool

text \<open>
  The controllers the operator registers, with what their reconcilers are given besides clients: the number of
  concurrent reconciliations, the approval and claim switches, the size of the worker pool.
\<close>

datatype controller_setup =
    SignedRequestController int bool
  | DeviceController int string bool
  | DeviceLabelsController int
  | WorkloadController int "64 word"
  | ConfigController int "64 word"

section \<open>Process calls\<close>

text \<open>An event of a watch: its type and, when it is one, the config map it carries.\<close>

datatype event_kind = EvAdded | EvModified | EvDeleted | EvOther

record watch_event =
  we_Type :: event_kind
  we_Object :: "config_map option"

datatype system_call =
    ReadEnvironment
  | ParseLogLevel string
  | BuildLogger
  | GetRestConfig string
  | NewClientset
  | NewClient
  | NewCache
  | StartCache
  | WaitForCacheSync
  | NewDelegatingClient
  | NewEventClient
  | NewAPIHandler
  | MqttConnect string string
  | MqttSubscribe string nat
  | MqttPublish string nat string
  | FlushPoints
  | CloseInflux
  | ServeTLS "16 word"
  | ServeMetrics string
  | StatPath string
  | ReadFileText string
  | NewManager manager_config
  | IndexField string
  | SetupController controller_setup
  | SetupWebhook string
  | AddCheck string
  | GetInformer
  | AddEventHandler
  | NewRetryWatcher string
  | ReceiveEvent
  | StartManager

end
