(* ===== verification/Crypto.thy ===== *)
theory Crypto
  imports Go_Base
begin

text \<open>
  Certificates, keys and dates as the package \<open>src/pkg/mtls\<close> uses them. A certificate is the record of the
  fields the program writes or reads (\<open>x509.Certificate\<close>); what it never looks at stays in \<open>xc_Rest\<close>. A key is
  its kind and its material.

  \<open>time.Time.AddDate\<close> works on the proleptic Gregorian calendar in UTC. A point in time counts nanoseconds
  since the zero value of \<open>time.Time\<close>, 1 January of the year 1.
\<close>

section \<open>Keys and certificates\<close>

datatype private_key = EcdsaKey bytes | RsaKey bytes | OtherKey bytes

datatype key_kind = P256 | Rsa4096

record pkix_name =
  pn_CommonName :: string
  pn_Organization :: "string list"
  pn_OrganizationalUnit :: "string list"
  pn_SerialNumber :: string
  pn_Rest :: string

definition zero_name :: pkix_name where
  "zero_name = \<lparr>pn_CommonName = [], pn_Organization = [], pn_OrganizationalUnit = [], pn_SerialNumber = [], pn_Rest = []\<rparr>"

datatype ext_key_usage = ExtKeyUsageClientAuth | ExtKeyUsageServerAuth
datatype key_usage = KeyUsageDigitalSignature | KeyUsageCertSign

record certificate =
  xc_SerialNumber :: int
  xc_Subject :: pkix_name
  xc_NotBefore :: Time
  xc_NotAfter :: Time
  xc_IsCA :: bool
  xc_BasicConstraintsValid :: bool
  xc_KeyUsage :: "key_usage list"
  xc_ExtKeyUsage :: "ext_key_usage list"
  xc_DNSNames :: "string list"
  xc_IPAddresses :: "string list"
  xc_SubjectKeyId :: "nat list"
  xc_Signature :: bytes
  xc_SignatureAlgorithm :: string
  xc_PublicKeyAlgorithm :: string
  xc_PublicKey :: bytes
  xc_Rest :: bytes

definition zero_certificate :: certificate where
  "zero_certificate = \<lparr>xc_SerialNumber = 0, xc_Subject = zero_name, xc_NotBefore = 0, xc_NotAfter = 0, xc_IsCA = False,
     xc_BasicConstraintsValid = False, xc_KeyUsage = [], xc_ExtKeyUsage = [], xc_DNSNames = [], xc_IPAddresses = [],
     xc_SubjectKeyId = [], xc_Signature = [], xc_SignatureAlgorithm = [], xc_PublicKeyAlgorithm = [], xc_PublicKey = [],
     xc_Rest = []\<rparr>"

record certificate_request =
  cr_Signature :: bytes
  cr_SignatureAlgorithm :: string
  cr_PublicKeyAlgorithm :: string
  cr_PublicKey :: bytes
  cr_Subject :: pkix_name

section \<open>Dates\<close>

text \<open>Days are counted from 1 March of the year 0, so that the leap day is the last of a year.\<close>

definition days_from_civil :: "int \<Rightarrow> int \<Rightarrow> int \<Rightarrow> int" where
  "days_from_civil y m d =
     (let y' = (if m \<le> 2 then y - 1 else y); m' = (if m > 2 then m - 3 else m + 9)
      in 365 * y' + y' div 4 - y' div 100 + y' div 400 + (153 * m' + 2) div 5 + (d - 1))"

definition civil_from_days :: "int \<Rightarrow> int \<times> int \<times> int" where
  "civil_from_days n =
     (let era = n div 146097; doe = n mod 146097;
          c = min 3 (doe div 36524); r = doe - 36524 * c;
          q = r div 1461; k = min 3 (r mod 1461 div 365);
          doy = r mod 1461 - 365 * k;
          mp = (5 * doy + 2) div 153;
          d = doy - (153 * mp + 2) div 5 + 1;
          m = (if mp < 10 then mp + 3 else mp - 9)
      in (400 * era + 100 * c + 4 * q + k + (if m \<le> 2 then 1 else 0), m, d))"

definition day_ns :: int where "day_ns = 86400 * 10 ^ 9"

definition zero_day :: int where "zero_day = days_from_civil 1 1 1"

definition AddDate :: "Time \<Rightarrow> int \<Rightarrow> int \<Rightarrow> Time" where
  "AddDate t years days =
     (case civil_from_days (t div day_ns + zero_day) of (y, m, d) \<Rightarrow>
       (days_from_civil (y + years) m d + days - zero_day) * day_ns + t mod day_ns)"

text \<open>Seconds since 1 January 1970.\<close>

definition Unix :: "Time \<Rightarrow> int" where
  "Unix t = t div 10 ^ 9 - 62135596800"

text \<open>The decomposition of a day count is undone by its inverse, so adding days is exact.\<close>

lemma civil_roundtrip: "(case civil_from_days n of (y, m, d) \<Rightarrow> days_from_civil y m d) = n"
proof -
  define era doe where "era = n div 146097" and "doe = n mod 146097"
  define c r where "c = min 3 (doe div 36524)" and "r = doe - 36524 * c"
  define q k where "q = r div 1461" and "k = min 3 (r mod 1461 div 365)"
  define doy where "doy = r mod 1461 - 365 * k"
  define mp where "mp = (5 * doy + 2) div 153"
  define y where "y = 400 * era + 100 * c + 4 * q + k"
  have n: "n = 146097 * era + doe" and doe: "0 \<le> doe" "doe < 146097"
    by (simp_all add: era_def doe_def)
  have c: "0 \<le> c" "c \<le> 3" "0 \<le> r" "r \<le> 36524" using doe by (auto simp: c_def r_def)
  have q: "0 \<le> q" "q \<le> 24" using c by (auto simp: q_def)
  have k: "0 \<le> k" "k \<le> 3" "0 \<le> doy" "doy \<le> 365" by (auto simp: k_def doy_def)
  have mp: "0 \<le> mp" "mp \<le> 11" using k by (auto simp: mp_def)
  have "doe = 36524 * c + 1461 * q + 365 * k + doy"
    by (simp add: doy_def q_def r_def)
  moreover have "y div 4 = 100 * era + 25 * c + q" "y div 100 = 4 * era + c" "y div 400 = era"
    using c q k by (simp_all add: y_def)
  ultimately have start: "365 * y + y div 4 - y div 100 + y div 400 = n - doy"
    using n by (simp add: y_def)
  have "civil_from_days n = (y + (if (if mp < 10 then mp + 3 else mp - 9) \<le> 2 then 1 else 0),
      if mp < 10 then mp + 3 else mp - 9, doy - (153 * mp + 2) div 5 + 1)"
    by (simp only: civil_from_days_def Let_def era_def doe_def c_def r_def q_def k_def doy_def mp_def y_def)
  then show ?thesis
    using mp start by (auto simp: days_from_civil_def Let_def)
qed

lemma AddDate_days: "AddDate t 0 days = t + days * day_ns"
proof -
  obtain y m d where c: "civil_from_days (t div day_ns + zero_day) = (y, m, d)"
    by (cases "civil_from_days (t div day_ns + zero_day)") auto
  with civil_roundtrip [of "t div day_ns + zero_day"] have "days_from_civil y m d = t div day_ns + zero_day" by simp
  then show ?thesis
    unfolding AddDate_def c by (simp add: algebra_simps)
qed

end
