(* ===== verification/Cluster.thy ===== *)
theory Cluster
  imports System_Calls Crypto
begin

text \<open>
  The outside of the program. A \<open>request\<close> is a call of the controller-runtime client, the event
  recorder, the metrics registry, the clock, the source of randomness (UUIDs, keys, signatures), the time
  series database, the remote store, the request context or the operating system; a \<open>response\<close> is what comes
  back.
  The Kubernetes API server, its cache and the clock are not part of the repository: they are the
  environment of every program, and nothing is assumed of their answers. An answer of the wrong kind
  (an object that does not decode) is an error of the call.

  A merge patch is a pair of objects: \<open>client.MergeFrom(old)\<close> and the object handed to \<open>Patch\<close>; the
  client writes the server's answer back into the latter, so the answer to a patch is the updated
  object.
\<close>

text \<open>Which devices or workloads a \<open>List\<close> asks for, besides the namespace.\<close>

datatype list_option =
    MatchAll
  | MatchNothing
  | MatchingLabels "(string \<times> string) list"
  | MatchingFields "(string \<times> string) list"
  | MatchingSelector label_selector

datatype metric_op =
    IncEdgeDeviceSuccessfulRegistration
  | IncEdgeDeviceFailedRegistration
  | IncEdgeDeviceUnregistration
  | RecordEdgeDevicePresence string string
  | RemoveDeviceCounter string string
  | RegisterDeviceCounter string string
  | IncEdgeDeviceFailedAuthenticationCounter
  | IncEdgeDeviceInvalidOwnerCounter

datatype event_type = EventTypeWarning | EventTypeNormal

datatype request =
    GetDevice string string
  | ListDevices string list_option
  | CreateDevice edge_device
  | PatchDevice edge_device edge_device
  | PatchDeviceStatus edge_device edge_device
  | GetWorkload string string
  | PatchWorkload edge_workload edge_workload
  | ListWorkloads string list_option
  | GetEDSR string string
  | CreateEDSR edsr
  | PatchEDSR edsr edsr
  | PatchEDSRStatus edsr edsr
  | DeleteEDSR edsr
  | GetPlaybookExec string string
  | CreatePlaybookExec playbook_execution
  | PatchPlaybookExec "playbook_execution option" playbook_execution
  | ListPlaybookExecs string
  | GetConfig string string
  | PatchConfig edge_config edge_config
  | ListConfigs string list_option
  | GetDeviceSet string string
  | GetOBC string string
  | CreateOBC object_bucket_claim
  | GetConfigMap string string
  | GetSecret string string
  | CreateSecret secret
  | GetRoute string string
  | UpdateDevice edge_device
  | UpdateDeviceStatus edge_device
  | ListNamespaces
  | WritePoint "(string \<times> json) list" "(string \<times> string) list" Time
  | NewUUID
  | RandString nat
  | GenerateKey key_kind
  | CreateCertificate certificate certificate bytes "private_key option"
  | RecordEvent edge_device event_type string string
  | Metric metric_op
  | SleepMs nat
  | Now
  | CtxDone
  | Remote remote_call
  | System system_call

datatype response =
    RErr error
  | ROk
  | RDevice edge_device
  | RDevices "edge_device list"
  | RWorkload edge_workload
  | RWorkloads "edge_workload list"
  | REdsr edsr
  | RPlaybookExec playbook_execution
  | RPlaybookExecs "playbook_execution list"
  | RConfig edge_config
  | RConfigs "edge_config list"
  | RDeviceSet edge_device_set
  | ROBC object_bucket_claim
  | RConfigMap config_map
  | RSecret secret
  | RRoute route
  | RTime Time
  | RText string
  | RNames "string list"
  | RKey private_key bytes
  | RDone error
  | RHttp nat remote_body
  | REnv api_config
  | RManagerEnv manager_config
  | REvent watch_event
  | RClosed
  | RNotExist

type_synonym 'a io = "(request, response, 'a) prog"
type_synonym io_trace = "(request, response) trace"

section \<open>Typed calls\<close>

text \<open>What the client reports when an answer cannot be decoded into the expected object.\<close>

definition decode_error :: error where
  "decode_error = PlainError ''unexpected object''"

definition call_object :: "request \<Rightarrow> (response \<Rightarrow> 'a option) \<Rightarrow> (error + 'a) io" where
  "call_object q sel = Call q (\<lambda>r. Ret (case r of
      RErr e \<Rightarrow> Inl e
    | _ \<Rightarrow> (case sel r of Some a \<Rightarrow> Inr a | None \<Rightarrow> Inl decode_error)))"

definition call_unit :: "request \<Rightarrow> error option io" where
  "call_unit q = Call q (\<lambda>r. Ret (case r of RErr e \<Rightarrow> Some e | _ \<Rightarrow> None))"

text \<open>A call whose answer the program ignores.\<close>

definition tell :: "request \<Rightarrow> unit io" where
  "tell q = Call q (\<lambda>_. Ret ())"

definition as_device :: "response \<Rightarrow> edge_device option" where
  "as_device r = (case r of RDevice d \<Rightarrow> Some d | _ \<Rightarrow> None)"
definition as_devices :: "response \<Rightarrow> edge_device list option" where
  "as_devices r = (case r of RDevices d \<Rightarrow> Some d | _ \<Rightarrow> None)"
definition as_workload :: "response \<Rightarrow> edge_workload option" where
  "as_workload r = (case r of RWorkload d \<Rightarrow> Some d | _ \<Rightarrow> None)"
definition as_workloads :: "response \<Rightarrow> edge_workload list option" where
  "as_workloads r = (case r of RWorkloads d \<Rightarrow> Some d | _ \<Rightarrow> None)"
definition as_edsr :: "response \<Rightarrow> edsr option" where
  "as_edsr r = (case r of REdsr d \<Rightarrow> Some d | _ \<Rightarrow> None)"
definition as_playbook_exec :: "response \<Rightarrow> playbook_execution option" where
  "as_playbook_exec r = (case r of RPlaybookExec d \<Rightarrow> Some d | _ \<Rightarrow> None)"
definition as_playbook_execs :: "response \<Rightarrow> playbook_execution list option" where
  "as_playbook_execs r = (case r of RPlaybookExecs d \<Rightarrow> Some d | _ \<Rightarrow> None)"
definition as_config :: "response \<Rightarrow> edge_config option" where
  "as_config r = (case r of RConfig d \<Rightarrow> Some d | _ \<Rightarrow> None)"
definition as_configs :: "response \<Rightarrow> edge_config list option" where
  "as_configs r = (case r of RConfigs d \<Rightarrow> Some d | _ \<Rightarrow> None)"
definition as_device_set :: "response \<Rightarrow> edge_device_set option" where
  "as_device_set r = (case r of RDeviceSet d \<Rightarrow> Some d | _ \<Rightarrow> None)"
definition as_obc :: "response \<Rightarrow> object_bucket_claim option" where
  "as_obc r = (case r of ROBC d \<Rightarrow> Some d | _ \<Rightarrow> None)"
definition as_config_map :: "response \<Rightarrow> config_map option" where
  "as_config_map r = (case r of RConfigMap d \<Rightarrow> Some d | _ \<Rightarrow> None)"
definition as_secret :: "response \<Rightarrow> secret option" where
  "as_secret r = (case r of RSecret d \<Rightarrow> Some d | _ \<Rightarrow> None)"
definition as_route :: "response \<Rightarrow> route option" where
  "as_route r = (case r of RRoute d \<Rightarrow> Some d | _ \<Rightarrow> None)"
definition as_text :: "response \<Rightarrow> string option" where
  "as_text r = (case r of RText x \<Rightarrow> Some x | _ \<Rightarrow> None)"
definition as_names :: "response \<Rightarrow> string list option" where
  "as_names r = (case r of RNames x \<Rightarrow> Some x | _ \<Rightarrow> None)"
definition as_key :: "response \<Rightarrow> (private_key \<times> bytes) option" where
  "as_key r = (case r of RKey k p \<Rightarrow> Some (k, p) | _ \<Rightarrow> None)"

definition as_env :: "response \<Rightarrow> api_config option" where
  "as_env r = (case r of REnv x \<Rightarrow> Some x | _ \<Rightarrow> None)"
definition as_manager_env :: "response \<Rightarrow> manager_config option" where
  "as_manager_env r = (case r of RManagerEnv x \<Rightarrow> Some x | _ \<Rightarrow> None)"

lemmas as_defs = as_device_def as_devices_def as_workload_def as_workloads_def as_edsr_def
  as_playbook_exec_def as_playbook_execs_def as_config_def as_configs_def as_device_set_def
  as_obc_def as_config_map_def as_secret_def as_route_def as_text_def as_names_def as_key_def as_env_def
  as_manager_env_def

text \<open>The clock and the context of the request.\<close>

definition go_now :: "Time io" where
  "go_now = Call Now (\<lambda>r. Ret (case r of RTime t \<Rightarrow> t | _ \<Rightarrow> zero_time))"

text \<open>\<open>uuid.New().String()\<close> and \<open>utilrand.String(n)\<close>.\<close>

definition go_uuid :: "string io" where
  "go_uuid = Call NewUUID (\<lambda>r. Ret (case r of RText s \<Rightarrow> s | _ \<Rightarrow> []))"

definition go_rand_string :: "nat \<Rightarrow> string io" where
  "go_rand_string n = Call (RandString n) (\<lambda>r. Ret (case r of RText s \<Rightarrow> s | _ \<Rightarrow> []))"

text \<open>\<open>ctx.Done()\<close>: \<open>Some e\<close> when the context is cancelled, \<open>e\<close> being \<open>ctx.Err()\<close>.\<close>

definition ctx_done :: "error option io" where
  "ctx_done = Call CtxDone (\<lambda>r. Ret (case r of RDone e \<Rightarrow> Some e | _ \<Rightarrow> None))"

section \<open>Reasoning about calls\<close>

definition object_result :: "(response \<Rightarrow> 'a option) \<Rightarrow> response \<Rightarrow> error + 'a" where
  "object_result sel r = (case r of
      RErr e \<Rightarrow> Inl e
    | _ \<Rightarrow> (case sel r of Some a \<Rightarrow> Inr a | None \<Rightarrow> Inl decode_error))"

definition unit_result :: "response \<Rightarrow> error option" where
  "unit_result r = (case r of RErr e \<Rightarrow> Some e | _ \<Rightarrow> None)"

lemma wp_call_object [simp]:
  "wp (call_object q sel) \<Phi> \<longleftrightarrow> (\<forall>r. \<Phi> [(q, r)] (Returned (object_result sel r)))"
  by (simp add: call_object_def object_result_def)

lemma wp_call_unit [simp]:
  "wp (call_unit q) \<Phi> \<longleftrightarrow> (\<forall>r. \<Phi> [(q, r)] (Returned (unit_result r)))"
  by (simp add: call_unit_def unit_result_def)

lemma wp_tell [simp]: "wp (tell q) \<Phi> \<longleftrightarrow> (\<forall>r. \<Phi> [(q, r)] (Returned ()))"
  by (simp add: tell_def)

lemma wp_go_now [simp]:
  "wp go_now \<Phi> \<longleftrightarrow> (\<forall>r. \<Phi> [(Now, r)] (Returned (case r of RTime t \<Rightarrow> t | _ \<Rightarrow> zero_time)))"
  by (simp add: go_now_def)

lemma wp_ctx_done [simp]:
  "wp ctx_done \<Phi> \<longleftrightarrow> (\<forall>r. \<Phi> [(CtxDone, r)] (Returned (case r of RDone e \<Rightarrow> Some e | _ \<Rightarrow> None)))"
  by (simp add: ctx_done_def)

lemma issues_calls [simp]:
  "issues P (call_object q sel) = P q"
  "issues P (call_unit q) = P q"
  "issues P (tell q) = P q"
  "issues P go_now = P Now"
  "issues P ctx_done = P CtxDone"
  "issues P go_uuid = P NewUUID"
  "issues P (go_rand_string n) = P (RandString n)"
  by (simp_all add: call_object_def call_unit_def tell_def go_now_def ctx_done_def go_uuid_def go_rand_string_def)

lemma exec_call_object:
  "exec (call_object q sel) t out \<longleftrightarrow> (\<exists>r. t = [(q, r)] \<and> out = Returned (object_result sel r))"
  by (auto simp: call_object_def object_result_def exec_Call)

lemma exec_call_unit:
  "exec (call_unit q) t out \<longleftrightarrow> (\<exists>r. t = [(q, r)] \<and> out = Returned (unit_result r))"
  by (auto simp: call_unit_def unit_result_def exec_Call)

lemma runp_calls [simp]:
  "runp h ch (call_object q sel) w = (case h w q of (r, w') \<Rightarrow> (Returned (object_result sel r), w'))"
  "runp h ch (call_unit q) w = (case h w q of (r, w') \<Rightarrow> (Returned (unit_result r), w'))"
  "runp h ch (tell q) w = (case h w q of (r, w') \<Rightarrow> (Returned (), w'))"
  by (simp_all add: call_object_def call_unit_def tell_def object_result_def unit_result_def)

lemma unit_result_simps [simp]:
  "unit_result (RErr e) = Some e" "unit_result ROk = None"
  by (simp_all add: unit_result_def)

lemma object_result_RErr [simp]: "object_result sel (RErr e) = Inl e"
  by (simp add: object_result_def)

text \<open>The requests that change an object of the cluster.\<close>

fun is_write :: "request \<Rightarrow> bool" where
  "is_write (CreateDevice _) = True"
| "is_write (PatchDevice _ _) = True"
| "is_write (PatchDeviceStatus _ _) = True"
| "is_write (PatchWorkload _ _) = True"
| "is_write (CreateEDSR _) = True"
| "is_write (PatchEDSR _ _) = True"
| "is_write (PatchEDSRStatus _ _) = True"
| "is_write (DeleteEDSR _) = True"
| "is_write (CreatePlaybookExec _) = True"
| "is_write (PatchPlaybookExec _ _) = True"
| "is_write (PatchConfig _ _) = True"
| "is_write (CreateOBC _) = True"
| "is_write (CreateSecret _) = True"
| "is_write (UpdateDevice _) = True"
| "is_write (UpdateDeviceStatus _) = True"
| "is_write (Remote c) = is_remote_write (rc_Op c)"
| "is_write _ = False"

text \<open>A program that leaves the cluster as it is.\<close>

definition reads_only :: "'a io \<Rightarrow> bool" where
  "reads_only p \<longleftrightarrow> issues (\<lambda>q. \<not> is_write q) p"

end
