(* ===== verification/Go_Text.thy ===== *)
theory Go_Text
  imports Go_Base
begin

text \<open>
  Text handling of the Go standard library that the operator relies on: ASCII classes,
  \<open>strings.Split\<close>, UTF-8 decoding and encoding of runes, \<open>strings.ToLower\<close>, \<open>strings.IndexFunc\<close> and
  \<open>strings.LastIndexFunc\<close>, \<open>fmt.Errorf\<close> called with a format and no argument, decimal printing.
  The Unicode tables beyond ASCII are the argument \<open>unicode_tables\<close> of what uses them.
\<close>

section \<open>Characters and splitting\<close>

definition byte :: "char \<Rightarrow> nat" where
  "byte c = of_char c"

definition chr :: "nat \<Rightarrow> char" where
  "chr n = char_of n"

lemma byte_chr [simp]: "n < 256 \<Longrightarrow> byte (chr n) = n"
  by (simp add: byte_def chr_def)

lemma chr_byte [simp]: "chr (byte c) = c"
  by (simp add: byte_def chr_def)

definition is_lower_ascii :: "nat \<Rightarrow> bool" where "is_lower_ascii b \<longleftrightarrow> 97 \<le> b \<and> b \<le> 122"
definition is_upper_ascii :: "nat \<Rightarrow> bool" where "is_upper_ascii b \<longleftrightarrow> 65 \<le> b \<and> b \<le> 90"
definition is_digit_ascii :: "nat \<Rightarrow> bool" where "is_digit_ascii b \<longleftrightarrow> 48 \<le> b \<and> b \<le> 57"

definition is_alnum :: "char \<Rightarrow> bool" where
  "is_alnum c \<longleftrightarrow> is_lower_ascii (byte c) \<or> is_upper_ascii (byte c) \<or> is_digit_ascii (byte c)"

definition is_lower_alnum :: "char \<Rightarrow> bool" where
  "is_lower_alnum c \<longleftrightarrow> is_lower_ascii (byte c) \<or> is_digit_ascii (byte c)"

text \<open>\<open>strings.Split\<close> with a one-byte separator.\<close>

fun Split :: "string \<Rightarrow> char \<Rightarrow> string list" where
  "Split [] sep = [[]]"
| "Split (c # s) sep = (if c = sep then [] # Split s sep
     else (case Split s sep of [] \<Rightarrow> [[c]] | p # ps \<Rightarrow> (c # p) # ps))"

lemma Split_not_Nil [simp]: "Split s sep \<noteq> []"
  by (induction s) (auto split: list.split)

lemma Join_Split: "Join (Split s sep) [sep] = s"
proof (induction s)
  case (Cons c s)
  obtain p ps where "Split s sep = p # ps" by (cases "Split s sep") auto
  then show ?case using Cons by (cases ps) auto
qed simp

section \<open>Runes\<close>

definition RuneError :: nat where "RuneError = 0xFFFD"

definition cont_byte :: "nat \<Rightarrow> bool" where "cont_byte b \<longleftrightarrow> 0x80 \<le> b \<and> b \<le> 0xBF"

text \<open>\<open>utf8.DecodeRune\<close> on a non-empty string: the rune and its width.\<close>

fun decode_rune :: "nat list \<Rightarrow> nat \<times> nat" where
  "decode_rune [] = (RuneError, 0)"
| "decode_rune (b0 # bs) =
     (if b0 < 0x80 then (b0, 1)
      else case bs of
        [] \<Rightarrow> (RuneError, 1)
      | b1 # bs1 \<Rightarrow>
        (if 0xC2 \<le> b0 \<and> b0 \<le> 0xDF then
           (if cont_byte b1 then ((b0 - 0xC0) * 64 + (b1 - 0x80), 2) else (RuneError, 1))
         else case bs1 of
           [] \<Rightarrow> (RuneError, 1)
         | b2 # bs2 \<Rightarrow>
           (if 0xE0 \<le> b0 \<and> b0 \<le> 0xEF then
              (if cont_byte b1 \<and> cont_byte b2 \<and> (b0 = 0xE0 \<longrightarrow> 0xA0 \<le> b1) \<and> (b0 = 0xED \<longrightarrow> b1 \<le> 0x9F)
               then ((b0 - 0xE0) * 4096 + (b1 - 0x80) * 64 + (b2 - 0x80), 3) else (RuneError, 1))
            else case bs2 of
              [] \<Rightarrow> (RuneError, 1)
            | b3 # _ \<Rightarrow>
              (if 0xF0 \<le> b0 \<and> b0 \<le> 0xF4 \<and> cont_byte b1 \<and> cont_byte b2 \<and> cont_byte b3
                  \<and> (b0 = 0xF0 \<longrightarrow> 0x90 \<le> b1) \<and> (b0 = 0xF4 \<longrightarrow> b1 \<le> 0x8F)
               then ((b0 - 0xF0) * 262144 + (b1 - 0x80) * 4096 + (b2 - 0x80) * 64 + (b3 - 0x80), 4)
               else (RuneError, 1)))))"

lemma decode_rune_width: "bs \<noteq> [] \<Longrightarrow> 0 < snd (decode_rune bs)"
  by (cases bs) (auto split: list.split)

lemma decode_rune_less: "bs \<noteq> [] \<Longrightarrow> (r, w) = decode_rune bs \<Longrightarrow> length bs - w < length bs"
  using decode_rune_width [of bs] by (cases bs) (auto simp: prod_eq_iff)

text \<open>The runes a \<open>range\<close> over a string visits, each with its byte offset.\<close>

function decode_from :: "nat \<Rightarrow> nat list \<Rightarrow> (nat \<times> nat) list" where
  "decode_from i bs = (if bs = [] then []
     else (case decode_rune bs of (r, w) \<Rightarrow> (i, r) # decode_from (i + w) (drop w bs)))"
  by pat_completeness auto
termination
  by (relation "measure (length \<circ> snd)") (auto simp: decode_rune_less)

declare decode_from.simps [simp del]

definition runes :: "string \<Rightarrow> (nat \<times> nat) list" where
  "runes s = decode_from 0 (map byte s)"

text \<open>\<open>utf8.EncodeRune\<close>: surrogates and values out of range become \<open>RuneError\<close>.\<close>

definition encode_rune :: "nat \<Rightarrow> string" where
  "encode_rune r0 = (let r = (if r0 > 0x10FFFF \<or> (0xD800 \<le> r0 \<and> r0 \<le> 0xDFFF) then RuneError else r0) in
     map chr
      (if r < 0x80 then [r]
       else if r < 0x800 then [0xC0 + r div 64, 0x80 + r mod 64]
       else if r < 0x10000 then [0xE0 + r div 4096, 0x80 + r div 64 mod 64, 0x80 + r mod 64]
       else [0xF0 + r div 262144, 0x80 + r div 4096 mod 64, 0x80 + r div 64 mod 64, 0x80 + r mod 64]))"

text \<open>The Unicode character tables for code points beyond ASCII.\<close>

record unicode_tables =
  u_to_lower :: "nat \<Rightarrow> nat"
  u_is_lower :: "nat \<Rightarrow> bool"
  u_is_digit :: "nat \<Rightarrow> bool"

definition unicode_ToLower :: "unicode_tables \<Rightarrow> nat \<Rightarrow> nat" where
  "unicode_ToLower u r = (if r < 0x80 then (if is_upper_ascii r then r + 32 else r) else u_to_lower u r)"

definition unicode_IsLower :: "unicode_tables \<Rightarrow> nat \<Rightarrow> bool" where
  "unicode_IsLower u r = (if r < 0x80 then is_lower_ascii r else u_is_lower u r)"

definition unicode_IsDigit :: "unicode_tables \<Rightarrow> nat \<Rightarrow> bool" where
  "unicode_IsDigit u r = (if r < 0x80 then is_digit_ascii r else u_is_digit u r)"

definition ToLower :: "unicode_tables \<Rightarrow> string \<Rightarrow> string" where
  "ToLower u s = concat (map (\<lambda>(_, r). encode_rune (unicode_ToLower u r)) (runes s))"

definition IndexFunc :: "string \<Rightarrow> (nat \<Rightarrow> bool) \<Rightarrow> nat option" where
  "IndexFunc s f = map_option fst (find (f \<circ> snd) (runes s))"

text \<open>On valid UTF-8, which \<open>ToLower\<close> returns, decoding backwards meets the same runes.\<close>

definition LastIndexFunc :: "string \<Rightarrow> (nat \<Rightarrow> bool) \<Rightarrow> nat option" where
  "LastIndexFunc s f = map_option fst (find (f \<circ> snd) (rev (runes s)))"

text \<open>On ASCII text runes are bytes.\<close>

definition ascii :: "string \<Rightarrow> bool" where
  "ascii s \<longleftrightarrow> (\<forall>c \<in> set s. byte c < 0x80)"

lemma decode_from_ascii:
  "\<forall>b \<in> set bs. b < 0x80 \<Longrightarrow> decode_from i bs = zip [i..<i + length bs] bs"
proof (induction bs arbitrary: i)
  case Nil
  then show ?case by (simp add: decode_from.simps)
next
  case (Cons b bs)
  then show ?case
    by (subst decode_from.simps) (simp add: upt_conv_Cons del: upt_Suc)
qed

lemma runes_ascii: "ascii s \<Longrightarrow> runes s = zip [0..<length s] (map byte s)"
  by (auto simp: runes_def ascii_def decode_from_ascii)

section \<open>Formatting\<close>

text \<open>\<open>fmt.Sprintf\<close> of a format without operands, as \<open>fmt.Errorf(msg)\<close> uses it.\<close>

definition is_flag :: "char \<Rightarrow> bool" where
  "is_flag c \<longleftrightarrow> c = CHR ''#'' \<or> c = CHR ''0'' \<or> c = CHR ''+'' \<or> c = CHR ''-'' \<or> c = CHR '' ''"

fun parsenum_from :: "nat \<Rightarrow> bool \<Rightarrow> string \<Rightarrow> bool \<times> string" where
  "parsenum_from n p [] = (p, [])"
| "parsenum_from n p (c # s) = (if is_digit_ascii (byte c)
     then (if n > 1000000 then (False, []) else parsenum_from (n * 10 + (byte c - 48)) True s)
     else (p, c # s))"

definition parsenum :: "string \<Rightarrow> bool \<times> string" where
  "parsenum s = parsenum_from 0 False s"

text \<open>
  \<open>(*pp).argNumber\<close> with no operands: any explicit index is a bad one. The result is whether the
  argument numbers are still good, whether an index was parsed, and the rest of the format.
\<close>

definition argNumber :: "bool \<Rightarrow> string \<Rightarrow> bool \<times> bool \<times> string" where
  "argNumber good s = (case s of
      c # s' \<Rightarrow> if c \<noteq> CHR ''['' then (good, False, s) else
        (if CHR '']'' \<in> set s'
         then (let inner = takeWhile (\<lambda>x. x \<noteq> CHR '']'') s';
                   rest = drop (length inner + 1) s'
               in (case parsenum inner of (ok, r) \<Rightarrow> (False, ok \<and> r = [], rest)))
         else (False, False, s'))
    | [] \<Rightarrow> (good, False, s))"

text \<open>One verb after \<open>%\<close>: what is written and the rest of the format.\<close>

definition format_verb :: "string \<Rightarrow> string \<times> string" where
  "format_verb s0 =
    (let s1 = dropWhile is_flag s0;
         (good1, after1, s2) = argNumber True s1;
         (w, good2, after2, s3) =
           (if s2 \<noteq> [] \<and> hd s2 = CHR ''*'' then (''%!(BADWIDTH)'', good1, False, tl s2)
            else (case parsenum s2 of (present, r) \<Rightarrow> ([], good1 \<and> \<not> (after1 \<and> present), after1, r)));
         (p, good3, after3, s4) =
           (if s3 \<noteq> [] \<and> hd s3 = CHR ''.'' then
              (case argNumber (good2 \<and> \<not> after2) (tl s3) of (g, a, r) \<Rightarrow>
                 if r \<noteq> [] \<and> hd r = CHR ''*'' then (''%!(BADPREC)'', g, False, tl r)
                 else ([], g, a, snd (parsenum r)))
            else ([], good2, after2, s3));
         (good4, s5) =
           (if after3 then (good3, s4) else (case argNumber good3 s4 of (g, _, r) \<Rightarrow> (g, r)))
     in if s5 = [] then (w @ p @ ''%!(NOVERB)'', [])
        else (let n = snd (decode_rune (map byte s5)); verb = take n s5; rest = drop n s5 in
          if verb = ''%'' then (w @ p @ ''%'', rest)
          else if \<not> good4 then (w @ p @ ''%!'' @ verb @ ''(BADINDEX)'', rest)
          else (w @ p @ ''%!'' @ verb @ ''(MISSING)'', rest)))"

fun format_noargs :: "nat \<Rightarrow> string \<Rightarrow> string" where
  "format_noargs 0 s = s"
| "format_noargs (Suc n) s = (case s of
      [] \<Rightarrow> []
    | c # s' \<Rightarrow> if c \<noteq> CHR ''%'' then c # format_noargs n s'
        else (case format_verb s' of (out, rest) \<Rightarrow> out @ format_noargs n rest))"

text \<open>Every step consumes at least one byte of the format, so its length is enough fuel.\<close>

definition Errorf0 :: "string \<Rightarrow> error" where
  "Errorf0 s = PlainError (format_noargs (length s) s)"

lemma format_noargs_plain:
  "CHR ''%'' \<notin> set s \<Longrightarrow> length s \<le> n \<Longrightarrow> format_noargs n s = s"
proof (induction s arbitrary: n)
  case Nil
  then show ?case by (cases n) auto
next
  case (Cons c s)
  then show ?case by (cases n) auto
qed

lemma Errorf0_plain: "CHR ''%'' \<notin> set s \<Longrightarrow> Errorf0 s = PlainError s"
  by (simp add: Errorf0_def format_noargs_plain)

lemma Errorf0_status [simp]: "\<not> IsNotFound (Errorf0 s)" "\<not> IsAlreadyExists (Errorf0 s)"
  by (simp_all add: Errorf0_def)

text \<open>Decimal printing of integers (\<open>%d\<close>, \<open>strconv.Itoa\<close>).\<close>

fun print_nat :: "nat \<Rightarrow> string" where
  "print_nat n = (if n < 10 then [chr (48 + n)] else print_nat (n div 10) @ [chr (48 + n mod 10)])"

declare print_nat.simps [simp del]

definition print_int :: "int \<Rightarrow> string" where
  "print_int i = (if i < 0 then CHR ''-'' # print_nat (nat (- i)) else print_nat (nat i))"

end
