(* ===== verification/Labels.thy ===== *)
theory Labels
  imports Api_Types Go_Text
begin

text \<open>
  The label conventions of the operator (\<open>src/internal/common/labels\<close>), the cache indexes built on
  them (\<open>src/internal/common/indexer\<close>), the helpers of \<open>src/internal/common/utils\<close>, and the label
  selectors of the vendored \<open>apimachinery\<close> that decide which device a workload goes to.
\<close>

section \<open>Label names\<close>

definition DeviceNameLabel :: string where "DeviceNameLabel = ''devicename''"
definition DoesNotExistLabel :: string where "DoesNotExistLabel = ''doesnotexist''"
definition WorkloadLabelPrefix :: string where "WorkloadLabelPrefix = ''workload/''"
definition SelectorLabelPrefix :: string where "SelectorLabelPrefix = ''selector/''"
definition ConfigLabelPrefix :: string where "ConfigLabelPrefix = ''config/''"

definition WorkloadLabel :: "string \<Rightarrow> string" where
  "WorkloadLabel workloadName = WorkloadLabelPrefix @ workloadName"

definition IsWorkloadLabel :: "string \<Rightarrow> bool" where
  "IsWorkloadLabel label = HasPrefix label WorkloadLabelPrefix"

definition IsSelectorLabel :: "string \<Rightarrow> bool" where
  "IsSelectorLabel label = HasPrefix label SelectorLabelPrefix"

definition CreateSelectorLabel :: "string \<Rightarrow> string" where
  "CreateSelectorLabel label = SelectorLabelPrefix @ label"

definition IsEdgeConfigLabel :: "string \<Rightarrow> bool" where
  "IsEdgeConfigLabel label = HasPrefix label ConfigLabelPrefix"

lemmas label_prefix_defs = DeviceNameLabel_def DoesNotExistLabel_def WorkloadLabelPrefix_def
  SelectorLabelPrefix_def ConfigLabelPrefix_def

lemma IsWorkloadLabel_iff: "IsWorkloadLabel l \<longleftrightarrow> (\<exists>n. l = WorkloadLabel n)"
  by (simp add: IsWorkloadLabel_def WorkloadLabel_def HasPrefix_iff)

lemma IsSelectorLabel_iff: "IsSelectorLabel l \<longleftrightarrow> (\<exists>n. l = CreateSelectorLabel n)"
  by (simp add: IsSelectorLabel_def CreateSelectorLabel_def HasPrefix_iff)

lemma WorkloadLabel_inject [simp]: "WorkloadLabel a = WorkloadLabel b \<longleftrightarrow> a = b"
  by (simp add: WorkloadLabel_def)

lemma CreateSelectorLabel_inject [simp]: "CreateSelectorLabel a = CreateSelectorLabel b \<longleftrightarrow> a = b"
  by (simp add: CreateSelectorLabel_def)

lemma label_kinds [simp]:
  "IsWorkloadLabel (WorkloadLabel n)" "IsSelectorLabel (CreateSelectorLabel n)"
  "\<not> IsSelectorLabel (WorkloadLabel n)" "\<not> IsWorkloadLabel (CreateSelectorLabel n)"
  by (simp_all add: IsWorkloadLabel_def WorkloadLabel_def IsSelectorLabel_def CreateSelectorLabel_def
      WorkloadLabelPrefix_def SelectorLabelPrefix_def HasPrefix_def)

section \<open>Cache indexes\<close>

definition WorkloadByDeviceIndexKey :: string where "WorkloadByDeviceIndexKey = ''workload-by-device''"
definition DeviceByWorkloadIndexKey :: string where "DeviceByWorkloadIndexKey = ''device-by-workload''"
definition DeviceByConfigIndexKey :: string where "DeviceByConfigIndexKey = ''device-by-config''"

definition CreateDeviceIndexKey :: "string \<Rightarrow> string" where
  "CreateDeviceIndexKey label = TrimPrefix label WorkloadLabelPrefix"

definition CreateDeviceConfigIndexKey :: "string \<Rightarrow> string" where
  "CreateDeviceConfigIndexKey label = TrimPrefix label ConfigLabelPrefix"

definition CreateWorkloadIndexKey :: "string \<Rightarrow> string \<Rightarrow> string" where
  "CreateWorkloadIndexKey label v =
     (let suffix = TrimPrefix label SelectorLabelPrefix in
      if suffix = DeviceNameLabel then v else suffix)"

text \<open>The objects an index function may be handed.\<close>

datatype client_object = WorkloadObject edge_workload | DeviceObject edge_device | OtherObject

text \<open>The keys come in the arbitrary order of the map of labels.\<close>

definition WorkloadByDeviceIndexFunc :: "client_object \<Rightarrow> ('q, 'r, string slice) prog" where
  "WorkloadByDeviceIndexFunc obj = (case obj of
      WorkloadObject w \<Rightarrow>
        if om_DeletionTimestamp (ew_meta w) \<noteq> None then Ret (Some [])
        else bindp (range_keys (ew_Labels w)) (\<lambda>names.
          Ret (appended (map (\<lambda>n. CreateWorkloadIndexKey n (the (mget (ew_Labels w) n)))
                 (filter IsSelectorLabel names))))
    | _ \<Rightarrow> Ret (Some []))"

definition DeviceByWorkloadIndexFunc :: "client_object \<Rightarrow> ('q, 'r, string slice) prog" where
  "DeviceByWorkloadIndexFunc obj = (case obj of
      DeviceObject d \<Rightarrow> bindp (range_keys (ed_Labels d)) (\<lambda>names.
          Ret (appended (map CreateDeviceIndexKey (filter IsWorkloadLabel names))))
    | _ \<Rightarrow> Ret (Some []))"

definition DeviceByConfigIndexFunc :: "client_object \<Rightarrow> ('q, 'r, string slice) prog" where
  "DeviceByConfigIndexFunc obj = (case obj of
      DeviceObject d \<Rightarrow> bindp (range_keys (ed_Labels d)) (\<lambda>names.
          Ret (appended (map CreateDeviceConfigIndexKey (filter IsEdgeConfigLabel names))))
    | _ \<Rightarrow> Ret (Some []))"

lemma index_key_simps [simp]:
  "CreateDeviceIndexKey (WorkloadLabel n) = n"
  "CreateWorkloadIndexKey (CreateSelectorLabel n) v = (if n = DeviceNameLabel then v else n)"
  by (simp_all add: CreateDeviceIndexKey_def WorkloadLabel_def CreateWorkloadIndexKey_def
      CreateSelectorLabel_def)

text \<open>The index of a device holds exactly the workloads whose label it carries.\<close>

lemma device_index_keys:
  assumes "exec (DeviceByWorkloadIndexFunc (DeviceObject d)) t (Returned keys)"
  shows "distinct (elems keys) \<and>
    (\<forall>n. n \<in> set (elems keys) \<longleftrightarrow> mget (ed_Labels d) (WorkloadLabel n) \<noteq> None)"
proof -
  obtain names where names: "distinct names" "set names = mkeys (ed_Labels d)"
    and keys: "keys = appended (map CreateDeviceIndexKey (filter IsWorkloadLabel names))"
    using assms by (auto simp: DeviceByWorkloadIndexFunc_def exec_bindp exec_range_keys)
  have "inj_on CreateDeviceIndexKey (set (filter IsWorkloadLabel names))"
    by (auto simp: inj_on_def IsWorkloadLabel_iff)
  moreover have "n \<in> CreateDeviceIndexKey ` {l \<in> mkeys (ed_Labels d). IsWorkloadLabel l} \<longleftrightarrow>
      WorkloadLabel n \<in> mkeys (ed_Labels d)" for n
    by (force simp: IsWorkloadLabel_iff image_iff)
  ultimately show ?thesis
    using names by (simp add: keys distinct_map mkeys_iff)
qed

definition workload_index_keys :: "edge_workload \<Rightarrow> string set" where
  "workload_index_keys w = (if om_DeletionTimestamp (ew_meta w) \<noteq> None then {} else
     {CreateWorkloadIndexKey (CreateSelectorLabel n) v | n v. mget (ew_Labels w) (CreateSelectorLabel n) = Some v})"

lemma workload_index_elems:
  assumes "exec (WorkloadByDeviceIndexFunc (WorkloadObject w)) t (Returned keys)"
  shows "set (elems keys) = workload_index_keys w"
proof (cases "om_DeletionTimestamp (ew_meta w)")
  case None
  then obtain names where names: "set names = mkeys (ew_Labels w)" and keys: "keys = appended
      (map (\<lambda>n. CreateWorkloadIndexKey n (the (mget (ew_Labels w) n))) (filter IsSelectorLabel names))"
    using assms by (auto simp: WorkloadByDeviceIndexFunc_def exec_bindp exec_range_keys)
  let ?key = "\<lambda>l. CreateWorkloadIndexKey l (the (mget (ew_Labels w) l))"
  have "set (elems keys) = ?key ` {l. l \<in> mkeys (ew_Labels w) \<and> IsSelectorLabel l}"
    using names by (auto simp: keys)
  also have "\<dots> = {?key (CreateSelectorLabel n) | n. CreateSelectorLabel n \<in> mkeys (ew_Labels w)}"
    unfolding IsSelectorLabel_iff by blast
  also have "\<dots> = {CreateWorkloadIndexKey (CreateSelectorLabel n) v | n v.
      mget (ew_Labels w) (CreateSelectorLabel n) = Some v}"
    unfolding mkeys_iff by (metis (no_types, opaque_lifting) option.distinct(1) option.exhaust_sel option.sel)
  finally show ?thesis
    using None unfolding workload_index_keys_def by simp
next
  case (Some ts)
  then show ?thesis
    using assms by (simp add: WorkloadByDeviceIndexFunc_def workload_index_keys_def)
qed

section \<open>Helpers of the utils package\<close>

definition HasFinalizer :: "object_meta \<Rightarrow> string \<Rightarrow> bool" where
  "HasFinalizer cr name = (\<exists>f \<in> set (om_Finalizers cr). f = name)"

definition legal_label_char :: "char \<Rightarrow> bool" where
  "legal_label_char c \<longleftrightarrow> is_lower_ascii (byte c) \<or> is_digit_ascii (byte c) \<or>
     c = CHR ''-'' \<or> c = CHR ''_'' \<or> c = CHR ''.''"

text \<open>
  The regular expression removes every rune that is not legal; legal runes are single ASCII bytes,
  and no byte of a longer or malformed rune is one.
\<close>

definition NormalizeLabel :: "unicode_tables \<Rightarrow> string \<Rightarrow> error + string" where
  "NormalizeLabel u name0 =
     (let name = ToLower u name0;
          legal = (\<lambda>r. unicode_IsLower u r \<or> unicode_IsDigit u r)
      in case (IndexFunc name legal, LastIndexFunc name legal) of
           (Some firstLegal, Some lastLegal) \<Rightarrow>
             Inr (filter legal_label_char (drop firstLegal (take (lastLegal + 1) name)))
         | _ \<Rightarrow> Inl (PlainError ''The name doesn't contain a legal alphanumeric character''))"

text \<open>A set of keys, nil for an object that is only referenced optionally.\<close>

type_synonym StringSet = "string fset option"
type_synonym MapType = "(string, StringSet) fmap"

text \<open>What one reference does to the map: shared by \<open>ExtractInfoFromEnvFrom\<close> and \<open>ExtractInfoFromVolume\<close>.\<close>

definition extract_ref :: "bool \<times> bool option \<times> string \<Rightarrow> MapType \<Rightarrow> MapType" where
  "extract_ref ref m = (case ref of (exist, opt, name) \<Rightarrow>
     if \<not> exist then m else
       (let optional = (case opt of None \<Rightarrow> False | Some b \<Rightarrow> b) in
        case fmlookup m name of
          Some keys \<Rightarrow> if \<not> optional \<and> keys = None then fmupd name (Some {||}) m else m
        | None \<Rightarrow> if optional then fmupd name None m else fmupd name (Some {||}) m))"

fun ExtractInfoFromEnvFrom :: "env_from_source list \<Rightarrow> MapType \<Rightarrow> (env_from_source \<Rightarrow> bool \<times> bool option \<times> string) \<Rightarrow> MapType" where
  "ExtractInfoFromEnvFrom [] m ref = m"
| "ExtractInfoFromEnvFrom (e # envs) m ref = ExtractInfoFromEnvFrom envs (extract_ref (ref e) m) ref"

fun ExtractInfoFromVolume :: "volume list \<Rightarrow> MapType \<Rightarrow> (volume \<Rightarrow> bool \<times> bool option \<times> string) \<Rightarrow> MapType" where
  "ExtractInfoFromVolume [] m ref = m"
| "ExtractInfoFromVolume (v # vs) m ref = ExtractInfoFromVolume vs (extract_ref (ref v) m) ref"

text \<open>
  A reference to one key. \<open>ExtractInfoFromEnv\<close> calls \<open>ref\<close> on a variable before it looks whether the
  variable has a \<open>ValueFrom\<close> at all, so \<open>ref\<close> may panic.
\<close>

definition extract_key_ref :: "bool option \<Rightarrow> string \<Rightarrow> string \<Rightarrow> MapType \<Rightarrow> MapType" where
  "extract_key_ref opt name key m =
     (let optional = (case opt of None \<Rightarrow> False | Some b \<Rightarrow> b) in
      case fmlookup m name of
        Some keys \<Rightarrow> if \<not> optional then
            (case keys of None \<Rightarrow> fmupd name (Some {|key|}) m
                        | Some ks \<Rightarrow> fmupd name (Some (finsert key ks)) m)
          else m
      | None \<Rightarrow> if optional then fmupd name None m else fmupd name (Some {|key|}) m)"

primrec ExtractInfoFromEnv :: "env_var list \<Rightarrow> MapType \<Rightarrow>
    (env_var \<Rightarrow> ('q, 'r, bool \<times> bool option \<times> string \<times> string) prog) \<Rightarrow> ('q, 'r, MapType) prog" where
  "ExtractInfoFromEnv [] m ref = Ret m"
| "ExtractInfoFromEnv (e # env) m ref =
     bindp (ref e) (\<lambda>(exist, opt, name, key).
       ExtractInfoFromEnv env
         (if ev_ValueFrom e = None \<or> \<not> exist then m else extract_key_ref opt name key m) ref)"

definition podman_prefix :: string where "podman_prefix = ''podman/''"

text \<open>
  Distinct keys with the prefix have distinct remainders, so the order of the writes does not show.
\<close>

definition FilterByPodmanPrefix :: "(string, string) gomap \<Rightarrow> (string, string) fmap" where
  "FilterByPodmanPrefix keyValues =
     fmap_of_list (map (\<lambda>k. (drop 7 k, the (mget keyValues k)))
       (filter (\<lambda>k. HasPrefix k podman_prefix) (sorted_list_of_fset (fmdom (entries keyValues)))))"

lemma map_of_podman:
  "map_of (map (\<lambda>k. (drop 7 k, g k)) (filter (\<lambda>k. HasPrefix k podman_prefix) ks)) k =
     (if podman_prefix @ k \<in> set ks then Some (g (podman_prefix @ k)) else None)"
proof (induction ks)
  case (Cons a ks)
  show ?case
  proof (cases "HasPrefix a podman_prefix")
    case True
    then obtain r where "a = podman_prefix @ r" by (auto simp: HasPrefix_iff)
    moreover have "drop 7 (podman_prefix @ r) = r" by (simp add: podman_prefix_def)
    ultimately show ?thesis using Cons True by auto
  next
    case False
    then show ?thesis using Cons by auto
  qed
qed simp

lemma FilterByPodmanPrefix_lookup:
  "fmlookup (FilterByPodmanPrefix m) k = mget m (podman_prefix @ k)"
  by (cases m) (auto simp: FilterByPodmanPrefix_def fmlookup_of_list map_of_podman fmlookup_dom_iff
      sorted_list_of_fset.rep_eq)

section \<open>Label selectors\<close>

text \<open>\<open>apimachinery/pkg/util/validation\<close>: whether the function reports no error.\<close>

definition qname_char :: "char \<Rightarrow> bool" where "qname_char c = is_alnum c"

definition qname_ext_char :: "char \<Rightarrow> bool" where
  "qname_ext_char c \<longleftrightarrow> is_alnum c \<or> c = CHR ''-'' \<or> c = CHR ''_'' \<or> c = CHR ''.''"

definition matches_qualified_name :: "string \<Rightarrow> bool" where
  "matches_qualified_name s \<longleftrightarrow>
     s \<noteq> [] \<and> qname_char (hd s) \<and> qname_char (last s) \<and> list_all qname_ext_char s"

definition matches_dns1123_label :: "string \<Rightarrow> bool" where
  "matches_dns1123_label s \<longleftrightarrow> s \<noteq> [] \<and> is_lower_alnum (hd s) \<and> is_lower_alnum (last s) \<and>
     list_all (\<lambda>c. is_lower_alnum c \<or> c = CHR ''-'') s"

definition IsDNS1123Subdomain :: "string \<Rightarrow> bool" where
  "IsDNS1123Subdomain v \<longleftrightarrow> length v \<le> 253 \<and> list_all matches_dns1123_label (Split v CHR ''.'')"

definition IsQualifiedName :: "string \<Rightarrow> bool" where
  "IsQualifiedName v = (case Split v CHR ''/'' of
      [name] \<Rightarrow> length name \<le> 63 \<and> matches_qualified_name name
    | [prefix, name] \<Rightarrow> prefix \<noteq> [] \<and> IsDNS1123Subdomain prefix \<and> length name \<le> 63 \<and> matches_qualified_name name
    | _ \<Rightarrow> False)"

definition IsValidLabelValue :: "string \<Rightarrow> bool" where
  "IsValidLabelValue v \<longleftrightarrow> length v \<le> 63 \<and> (v = [] \<or> matches_qualified_name v)"

text \<open>The operators \<open>LabelSelectorAsSelector\<close> creates requirements with.\<close>

datatype operator = Equals | In | NotIn | Exists | DoesNotExist

definition LabelSelectorOpIn :: string where "LabelSelectorOpIn = ''In''"
definition LabelSelectorOpNotIn :: string where "LabelSelectorOpNotIn = ''NotIn''"
definition LabelSelectorOpExists :: string where "LabelSelectorOpExists = ''Exists''"
definition LabelSelectorOpDoesNotExist :: string where "LabelSelectorOpDoesNotExist = ''DoesNotExist''"

lemmas selector_op_defs = LabelSelectorOpIn_def LabelSelectorOpNotIn_def LabelSelectorOpExists_def
  LabelSelectorOpDoesNotExist_def

record requirement =
  rq_key :: string
  rq_operator :: operator
  rq_values :: "string list"

text \<open>The text of a validation error is not modelled.\<close>

definition invalid_requirement :: error where
  "invalid_requirement = PlainError ''invalid label selector requirement''"

definition NewRequirement :: "string \<Rightarrow> operator \<Rightarrow> string list \<Rightarrow> error + requirement" where
  "NewRequirement key op vals =
     (if IsQualifiedName key \<and>
         (case op of
            In \<Rightarrow> vals \<noteq> [] | NotIn \<Rightarrow> vals \<noteq> []
          | Equals \<Rightarrow> length vals = 1
          | Exists \<Rightarrow> vals = [] | DoesNotExist \<Rightarrow> vals = []) \<and>
         list_all IsValidLabelValue vals
      then Inr \<lparr>rq_key = key, rq_operator = op, rq_values = vals\<rparr>
      else Inl invalid_requirement)"

definition Requirement_Matches :: "requirement \<Rightarrow> (string, string) gomap \<Rightarrow> bool" where
  "Requirement_Matches r ls = (case rq_operator r of
      In \<Rightarrow> (case mget ls (rq_key r) of None \<Rightarrow> False | Some v \<Rightarrow> v \<in> set (rq_values r))
    | Equals \<Rightarrow> (case mget ls (rq_key r) of None \<Rightarrow> False | Some v \<Rightarrow> v \<in> set (rq_values r))
    | NotIn \<Rightarrow> (case mget ls (rq_key r) of None \<Rightarrow> True | Some v \<Rightarrow> v \<notin> set (rq_values r))
    | Exists \<Rightarrow> mget ls (rq_key r) \<noteq> None
    | DoesNotExist \<Rightarrow> mget ls (rq_key r) = None)"

datatype selector = NothingSelector | InternalSelector "requirement list"

fun Selector_Matches :: "selector \<Rightarrow> (string, string) gomap \<Rightarrow> bool" where
  "Selector_Matches NothingSelector ls = False"
| "Selector_Matches (InternalSelector rs) ls = list_all (\<lambda>r. Requirement_Matches r ls) rs"

fun collect :: "('a \<Rightarrow> error + 'b) \<Rightarrow> 'a list \<Rightarrow> error + 'b list" where
  "collect f [] = Inr []"
| "collect f (x # xs) = (case f x of
      Inl e \<Rightarrow> Inl e
    | Inr y \<Rightarrow> (case collect f xs of Inl e \<Rightarrow> Inl e | Inr ys \<Rightarrow> Inr (y # ys)))"

definition expression_requirement :: "selector_requirement \<Rightarrow> error + requirement" where
  "expression_requirement e =
     (if sr_Operator e = LabelSelectorOpIn then NewRequirement (sr_Key e) In (sr_Values e)
      else if sr_Operator e = LabelSelectorOpNotIn then NewRequirement (sr_Key e) NotIn (sr_Values e)
      else if sr_Operator e = LabelSelectorOpExists then NewRequirement (sr_Key e) Exists (sr_Values e)
      else if sr_Operator e = LabelSelectorOpDoesNotExist then NewRequirement (sr_Key e) DoesNotExist (sr_Values e)
      else Inl invalid_requirement)"

text \<open>
  The requirements are sorted by key in the end and matching does not depend on their order; here
  the labels come in key order, followed by the expressions.
\<close>

definition LabelSelectorAsSelector :: "label_selector option \<Rightarrow> error + selector" where
  "LabelSelectorAsSelector ps = (case ps of
      None \<Rightarrow> Inr NothingSelector
    | Some s \<Rightarrow>
        (case collect (\<lambda>k. NewRequirement k Equals [the (mget (ls_MatchLabels s) k)])
                (sorted_list_of_fset (fmdom (entries (ls_MatchLabels s)))) of
           Inl e \<Rightarrow> Inl e
         | Inr rs1 \<Rightarrow> (case collect expression_requirement (ls_MatchExpressions s) of
             Inl e \<Rightarrow> Inl e
           | Inr rs2 \<Rightarrow> Inr (InternalSelector (rs1 @ rs2)))))"

lemma collect_Inr: "collect f xs = Inr ys \<longleftrightarrow> list_all2 (\<lambda>x y. f x = Inr y) xs ys"
proof (induction xs arbitrary: ys)
  case Nil
  then show ?case by auto
next
  case (Cons x xs)
  show ?case
  proof (cases "f x")
    case (Inr y)
    then show ?thesis using Cons by (cases ys; cases "collect f xs") auto
  qed (auto simp: list_all2_Cons1)
qed

lemma NewRequirement_Inr:
  "NewRequirement key op vals = Inr r \<Longrightarrow>
     r = \<lparr>rq_key = key, rq_operator = op, rq_values = vals\<rparr>"
  by (simp add: NewRequirement_def split: if_splits)

end
