(* ===== verification/Repositories.thy ===== *)
theory Repositories
  imports Cluster Labels
begin

text \<open>
  The repositories over the controller-runtime client (\<open>src/internal/common/repository\<close>) and the
  facade the edge API puts in front of them (\<open>src/internal/edgeapi/backend/k8s/repository.go\<close>).

  \<open>Read\<close> hands back the object even when the call failed: the zero object, next to the error. An
  operation that writes into the object it is given (\<open>Patch\<close>, \<open>RemoveFinalizer\<close>, \<open>UpdateLabels\<close>)
  returns the object as it is left, next to the error.

  The locale \<open>object_reader\<close> is the reading half of every repository interface and \<open>finalizer_store\<close>
  extends it with the finalizer protocol; both are interpreted on each repository that has it.
\<close>

section \<open>Shared shapes\<close>

definition read_object :: "'a \<Rightarrow> request \<Rightarrow> (response \<Rightarrow> 'a option) \<Rightarrow> ('a \<times> error option) io" where
  "read_object zero q sel = mapp (\<lambda>r. case r of Inl e \<Rightarrow> (zero, Some e) | Inr a \<Rightarrow> (a, None)) (call_object q sel)"

text \<open>
  \<open>client.Patch(ctx, new, MergeFrom(old))\<close>: the error and the object \<open>new\<close> after the call, which
  holds the server's answer on success.
\<close>

definition patch_object :: "request \<Rightarrow> (response \<Rightarrow> 'a option) \<Rightarrow> 'a \<Rightarrow> (error option \<times> 'a) io" where
  "patch_object q sel new =
     mapp (\<lambda>r. case r of Inl e \<Rightarrow> (Some e, new) | Inr a \<Rightarrow> (None, a)) (call_object q sel)"

lemma wp_read_object [simp]:
  "wp (read_object z q sel) \<Phi> \<longleftrightarrow> (\<forall>r. \<Phi> [(q, r)] (Returned
     (case object_result sel r of Inl e \<Rightarrow> (z, Some e) | Inr a \<Rightarrow> (a, None))))"
  by (simp add: read_object_def wp_mapp)

lemma wp_patch_object [simp]:
  "wp (patch_object q sel new) \<Phi> \<longleftrightarrow> (\<forall>r. \<Phi> [(q, r)] (Returned
     (case object_result sel r of Inl e \<Rightarrow> (Some e, new) | Inr a \<Rightarrow> (None, a))))"
  by (simp add: patch_object_def wp_mapp)

lemma exec_read_object:
  "exec (read_object z q sel) t out \<longleftrightarrow> (\<exists>r. t = [(q, r)] \<and> out = Returned
     (case object_result sel r of Inl e \<Rightarrow> (z, Some e) | Inr a \<Rightarrow> (a, None)))"
  by (auto simp: read_object_def exec_mapp exec_call_object)

lemma exec_bind_read:
  "exec (bindp (read_object z q sel) f) t out \<longleftrightarrow> (\<exists>r t'. t = (q, r) # t' \<and>
     exec (f (case object_result sel r of Inl e \<Rightarrow> (z, Some e) | Inr a \<Rightarrow> (a, None))) t' out)"
  by (auto simp: read_object_def call_object_def object_result_def mapp_def exec_Call)

lemma exec_bind_read_sum:
  "exec (bindp (read_object z q sel) f) t out \<longleftrightarrow> (\<exists>r t'. t = (q, r) # t' \<and>
     exec (case object_result sel r of Inl e \<Rightarrow> f (z, Some e) | Inr a \<Rightarrow> f (a, None)) t' out)"
  by (simp add: exec_bind_read sum.case_distrib [of f])

lemma exec_patch_object:
  "exec (patch_object q sel new) t out \<longleftrightarrow> (\<exists>r. t = [(q, r)] \<and> out = Returned
     (case object_result sel r of Inl e \<Rightarrow> (Some e, new) | Inr a \<Rightarrow> (None, a)))"
  by (auto simp: patch_object_def exec_mapp exec_call_object)

lemma issues_object_calls [simp]:
  "issues P (read_object z q sel) = P q" "issues P (patch_object q sel' new) = P q"
  by (simp_all add: read_object_def patch_object_def)

lemma runp_object_calls [simp]:
  "runp h ch (read_object z q sel) w = (case h w q of (r, w') \<Rightarrow>
     (Returned (case object_result sel r of Inl e \<Rightarrow> (z, Some e) | Inr a \<Rightarrow> (a, None)), w'))"
  "runp h ch (patch_object q sel new) w = (case h w q of (r, w') \<Rightarrow>
     (Returned (case object_result sel r of Inl e \<Rightarrow> (Some e, new) | Inr a \<Rightarrow> (None, a)), w'))"
  by (simp_all add: read_object_def patch_object_def mapp_def runp_bindp split: prod.splits)

text \<open>Continue with the result of a call or return its error.\<close>

definition tryp :: "(error + 'a) io \<Rightarrow> ('a \<Rightarrow> (error + 'b) io) \<Rightarrow> (error + 'b) io" where
  "tryp p f = bindp p (\<lambda>r. case r of Inl e \<Rightarrow> Ret (Inl e) | Inr a \<Rightarrow> f a)"

lemma wp_tryp:
  "wp (tryp p f) \<Phi> \<longleftrightarrow> wp p (\<lambda>t out. case out of
      Returned (Inl e) \<Rightarrow> \<Phi> t (Returned (Inl e))
    | Returned (Inr a) \<Rightarrow> wp (f a) (\<lambda>t' out'. \<Phi> (t @ t') out')
    | Panicked m \<Rightarrow> \<Phi> t (Panicked m))"
  by (auto simp: tryp_def wp_bindp elim!: wp_conseq split: outcome.splits sum.splits)

lemma exec_bind_sum:
  "exec (bindp p (case_sum f g)) t out \<longleftrightarrow>
     (\<exists>t1 t2 e. exec p t1 (Returned (Inl e)) \<and> exec (f e) t2 out \<and> t = t1 @ t2) \<or>
     (\<exists>t1 t2 a. exec p t1 (Returned (Inr a)) \<and> exec (g a) t2 out \<and> t = t1 @ t2) \<or>
     (\<exists>m. exec p t (Panicked m) \<and> out = Panicked m)"
proof
  assume "exec (bindp p (case_sum f g)) t out"
  then consider (ret) t1 t2 r where "exec p t1 (Returned r)" "exec (case_sum f g r) t2 out" "t = t1 @ t2"
    | (panic) m where "exec p t (Panicked m)" "out = Panicked m"
    unfolding exec_bindp by blast
  then show "(\<exists>t1 t2 e. exec p t1 (Returned (Inl e)) \<and> exec (f e) t2 out \<and> t = t1 @ t2) \<or>
     (\<exists>t1 t2 a. exec p t1 (Returned (Inr a)) \<and> exec (g a) t2 out \<and> t = t1 @ t2) \<or>
     (\<exists>m. exec p t (Panicked m) \<and> out = Panicked m)"
  proof cases
    case ret
    show ?thesis
    proof (cases r)
      case (Inl e)
      with ret have "exec p t1 (Returned (Inl e)) \<and> exec (f e) t2 out \<and> t = t1 @ t2" by simp
      then show ?thesis by blast
    next
      case (Inr a)
      with ret have "exec p t1 (Returned (Inr a)) \<and> exec (g a) t2 out \<and> t = t1 @ t2" by simp
      then show ?thesis by blast
    qed
  qed blast
qed (force simp: exec_bindp)

lemma exec_tryp:
  "exec (tryp p f) t out \<longleftrightarrow>
     (\<exists>e. exec p t (Returned (Inl e)) \<and> out = Returned (Inl e)) \<or>
     (\<exists>t1 t2 a. exec p t1 (Returned (Inr a)) \<and> exec (f a) t2 out \<and> t = t1 @ t2) \<or>
     (\<exists>m. exec p t (Panicked m) \<and> out = Panicked m)"
  by (simp add: tryp_def exec_bind_sum)

lemma issues_trypI: "issues P p \<Longrightarrow> (\<And>a. issues P (f a)) \<Longrightarrow> issues P (tryp p f)"
  by (auto simp: tryp_def intro!: issues_bindpI split: sum.splits)

text \<open>
  The retry loops of the repository and of the backend: \<open>for i := 1; i < 4; i++\<close> with a pause before every
  attempt. \<open>err\<close> is the error of the first attempt, outside the loop; the loop's own errors are assigned to
  a variable that shadows it, so \<open>err\<close> is what the loop ends with.
\<close>

primrec retries :: "nat list \<Rightarrow> error option io \<Rightarrow> error \<Rightarrow> error option io" where
  "retries [] attempt err = Ret (Some err)"
| "retries (i # is) attempt err =
     bindp (tell (SleepMs (i * 50))) (\<lambda>_.
     bindp attempt (\<lambda>e. if e = None then Ret None else retries is attempt err))"

declare retries.simps [simp del]

definition without :: "string \<Rightarrow> string list \<Rightarrow> string list" where
  "without finalizer fs = filter (\<lambda>f. f \<noteq> finalizer) fs"

section \<open>edgedevice.CRRepository\<close>

definition EdgeDevice_Read :: "string \<Rightarrow> string \<Rightarrow> (edge_device \<times> error option) io" where
  "EdgeDevice_Read name namespace = read_object zero_edge_device (GetDevice name namespace) as_device"

definition EdgeDevice_ReadForPlaybookExecution :: "string \<Rightarrow> string \<Rightarrow> (error + edge_device) io" where
  "EdgeDevice_ReadForPlaybookExecution playbookExecutionName namespace =
     mapp (\<lambda>r. case r of
         Inl e \<Rightarrow> Inl e
       | Inr items \<Rightarrow>
           (case find (\<lambda>d. \<exists>pe \<in> set (elems (es_PlaybookExecutions (ed_Status d))).
                         px_Name pe = playbookExecutionName) items of
              Some d \<Rightarrow> Inr d
            | None \<Rightarrow> Inl (PlainError ''cannot find edge device'')))
       (call_object (ListDevices namespace MatchAll) as_devices)"

definition EdgeDevice_Create :: "edge_device \<Rightarrow> error option io" where
  "EdgeDevice_Create d = call_unit (CreateDevice d)"

definition EdgeDevice_PatchStatus :: "edge_device \<Rightarrow> edge_device \<Rightarrow> (error option \<times> edge_device) io" where
  "EdgeDevice_PatchStatus base d = patch_object (PatchDeviceStatus base d) as_device d"

definition EdgeDevice_Patch :: "edge_device \<Rightarrow> edge_device \<Rightarrow> (error option \<times> edge_device) io" where
  "EdgeDevice_Patch old new = patch_object (PatchDevice old new) as_device new"

definition EdgeDevice_ListForSelector :: "label_selector option \<Rightarrow> string \<Rightarrow> (error + edge_device list) io" where
  "EdgeDevice_ListForSelector selector namespace = (case LabelSelectorAsSelector selector of
      Inl e \<Rightarrow> Ret (Inl e)
    | Inr s \<Rightarrow> call_object (ListDevices namespace
        (case selector of Some sel \<Rightarrow> MatchingSelector sel | None \<Rightarrow> MatchNothing)) as_devices)"

definition EdgeDevice_ListForWorkload :: "string \<Rightarrow> string \<Rightarrow> (error + edge_device list) io" where
  "EdgeDevice_ListForWorkload name namespace =
     call_object (ListDevices namespace (MatchingLabels [(DeviceByWorkloadIndexKey, name)])) as_devices"

definition EdgeDevice_ListForEdgeConfig :: "string \<Rightarrow> string \<Rightarrow> (error + edge_device list) io" where
  "EdgeDevice_ListForEdgeConfig name namespace =
     call_object (ListDevices namespace
       (MatchingLabels [(ConfigLabelPrefix @ DeviceByConfigIndexKey, name)])) as_devices"

definition set_ed_Finalizers :: "string list \<Rightarrow> edge_device \<Rightarrow> edge_device" where
  "set_ed_Finalizers fs d = d\<lparr>ed_meta := (ed_meta d)\<lparr>om_Finalizers := fs\<rparr>\<rparr>"

definition EdgeDevice_RemoveFinalizer :: "edge_device \<Rightarrow> string \<Rightarrow> (error option \<times> edge_device) io" where
  "EdgeDevice_RemoveFinalizer d finalizer =
     (let cp = set_ed_Finalizers (without finalizer (om_Finalizers (ed_meta d))) d in
      mapp (\<lambda>(err, cp'). (None, if err = None then set_ed_Finalizers (om_Finalizers (ed_meta cp')) d else d))
        (EdgeDevice_Patch d cp))"

text \<open>The labels a device would have after taking over \<open>labels\<close>.\<close>

definition overlay_labels :: "edge_device \<Rightarrow> (string, string) gomap \<Rightarrow> (string, string) gomap" where
  "overlay_labels device labels = Some (entries (ed_Labels device) ++\<^sub>f entries labels)"

definition EdgeDevice_updateLabels :: "edge_device \<Rightarrow> (string, string) gomap \<Rightarrow> (error option \<times> edge_device) io" where
  "EdgeDevice_updateLabels device labels =
     (let deviceLabels = overlay_labels device labels in
      if deviceLabels = ed_Labels device then Ret (None, device)
      else mapp (\<lambda>(err, cp). (err, if err = None then set_ed_Labels (ed_Labels cp) device else device))
             (EdgeDevice_Patch device (set_ed_Labels deviceLabels device)))"

text \<open>One more attempt after a conflict: the device is read again first.\<close>

definition label_attempt :: "edge_device \<Rightarrow> (string, string) gomap \<Rightarrow> error option io" where
  "label_attempt device labels =
     bindp (EdgeDevice_Read (ed_Name device) (ed_Namespace device)) (\<lambda>(device2, e).
       if e \<noteq> None then Ret e else mapp fst (EdgeDevice_updateLabels device2 labels))"

definition EdgeDevice_UpdateLabels :: "edge_device \<Rightarrow> (string, string) gomap \<Rightarrow> (error option \<times> edge_device) io" where
  "EdgeDevice_UpdateLabels device labels =
     bindp (EdgeDevice_updateLabels device labels) (\<lambda>(err, device').
       case err of
         None \<Rightarrow> Ret (None, device')
       | Some e \<Rightarrow> mapp (\<lambda>r. (r, device')) (retries [1, 2, 3] (label_attempt device' labels) e))"

section \<open>The other repositories\<close>

definition EdgeWorkload_Read :: "string \<Rightarrow> string \<Rightarrow> (edge_workload \<times> error option) io" where
  "EdgeWorkload_Read name namespace = read_object zero_edge_workload (GetWorkload name namespace) as_workload"

definition EdgeWorkload_Patch :: "edge_workload \<Rightarrow> edge_workload \<Rightarrow> (error option \<times> edge_workload) io" where
  "EdgeWorkload_Patch old new = patch_object (PatchWorkload old new) as_workload new"

definition set_ew_Finalizers :: "string list \<Rightarrow> edge_workload \<Rightarrow> edge_workload" where
  "set_ew_Finalizers fs d = d\<lparr>ew_meta := (ew_meta d)\<lparr>om_Finalizers := fs\<rparr>\<rparr>"

definition EdgeWorkload_RemoveFinalizer :: "edge_workload \<Rightarrow> string \<Rightarrow> (error option \<times> edge_workload) io" where
  "EdgeWorkload_RemoveFinalizer w finalizer =
     (let cp = set_ew_Finalizers (without finalizer (om_Finalizers (ew_meta w))) w in
      mapp (\<lambda>(err, cp'). (None, if err = None then set_ew_Finalizers (om_Finalizers (ew_meta cp')) w else w))
        (EdgeWorkload_Patch w cp))"

definition EdgeWorkload_ListByLabel :: "string \<Rightarrow> string \<Rightarrow> string \<Rightarrow> (error + edge_workload list) io" where
  "EdgeWorkload_ListByLabel labelName labelValue namespace =
     call_object (ListWorkloads namespace
       (MatchingFields [(WorkloadByDeviceIndexKey, CreateWorkloadIndexKey labelName labelValue)])) as_workloads"

definition EdgeConfig_Read :: "string \<Rightarrow> string \<Rightarrow> (edge_config \<times> error option) io" where
  "EdgeConfig_Read name namespace = read_object zero_edge_config (GetConfig name namespace) as_config"

definition EdgeConfig_Patch :: "edge_config \<Rightarrow> edge_config \<Rightarrow> (error option \<times> edge_config) io" where
  "EdgeConfig_Patch old new = patch_object (PatchConfig old new) as_config new"

definition set_ec_Finalizers :: "string list \<Rightarrow> edge_config \<Rightarrow> edge_config" where
  "set_ec_Finalizers fs d = d\<lparr>ec_meta := (ec_meta d)\<lparr>om_Finalizers := fs\<rparr>\<rparr>"

definition EdgeConfig_RemoveFinalizer :: "edge_config \<Rightarrow> string \<Rightarrow> (error option \<times> edge_config) io" where
  "EdgeConfig_RemoveFinalizer c finalizer =
     (let cp = set_ec_Finalizers (without finalizer (om_Finalizers (ec_meta c))) c in
      mapp (\<lambda>(err, cp'). (None, if err = None then set_ec_Finalizers (om_Finalizers (ec_meta cp')) c else c))
        (EdgeConfig_Patch c cp))"

definition EdgeConfig_ListByLabel :: "string \<Rightarrow> string \<Rightarrow> string \<Rightarrow> (error + edge_config list) io" where
  "EdgeConfig_ListByLabel labelName labelValue namespace =
     call_object (ListConfigs namespace
       (MatchingLabels [(DeviceByConfigIndexKey, CreateDeviceConfigIndexKey labelValue)])) as_configs"

definition PlaybookExecution_Read :: "string \<Rightarrow> string \<Rightarrow> (playbook_execution \<times> error option) io" where
  "PlaybookExecution_Read name namespace =
     read_object zero_playbook_execution (GetPlaybookExec name namespace) as_playbook_exec"

definition PlaybookExecution_Create :: "playbook_execution \<Rightarrow> error option io" where
  "PlaybookExecution_Create p = call_unit (CreatePlaybookExec p)"

text \<open>The base of a merge patch may be a nil pointer here (\<open>None\<close>).\<close>

definition PlaybookExecution_Patch ::
  "playbook_execution option \<Rightarrow> playbook_execution \<Rightarrow> (error option \<times> playbook_execution) io" where
  "PlaybookExecution_Patch old new = patch_object (PatchPlaybookExec old new) as_playbook_exec new"

definition set_pex_Finalizers :: "string list \<Rightarrow> playbook_execution \<Rightarrow> playbook_execution" where
  "set_pex_Finalizers fs d = d\<lparr>pex_meta := (pex_meta d)\<lparr>om_Finalizers := fs\<rparr>\<rparr>"

definition PlaybookExecution_RemoveFinalizer ::
  "playbook_execution \<Rightarrow> string \<Rightarrow> (error option \<times> playbook_execution) io" where
  "PlaybookExecution_RemoveFinalizer p finalizer =
     (let cp = set_pex_Finalizers (without finalizer (om_Finalizers (pex_meta p))) p in
      mapp (\<lambda>(err, cp'). (None, if err = None then set_pex_Finalizers (om_Finalizers (pex_meta cp')) p else p))
        (PlaybookExecution_Patch (Some p) cp))"

definition PlaybookExecution_ListByLabel :: "string \<Rightarrow> string \<Rightarrow> string \<Rightarrow> (error + playbook_execution list) io" where
  "PlaybookExecution_ListByLabel labelName labelValue namespace =
     call_object (ListPlaybookExecs namespace) as_playbook_execs"

definition EdgeDeviceSet_Read :: "string \<Rightarrow> string \<Rightarrow> (edge_device_set \<times> error option) io" where
  "EdgeDeviceSet_Read name namespace =
     read_object zero_edge_device_set (GetDeviceSet name namespace) as_device_set"

definition EDSR_Read :: "string \<Rightarrow> string \<Rightarrow> (edsr \<times> error option) io" where
  "EDSR_Read name namespace = read_object zero_edsr (GetEDSR name namespace) as_edsr"

definition EDSR_Create :: "edsr \<Rightarrow> error option io" where
  "EDSR_Create r = call_unit (CreateEDSR r)"

definition EDSR_PatchStatus :: "edsr \<Rightarrow> edsr \<Rightarrow> (error option \<times> edsr) io" where
  "EDSR_PatchStatus base r = patch_object (PatchEDSRStatus base r) as_edsr r"

definition EDSR_Patch :: "edsr \<Rightarrow> edsr \<Rightarrow> (error option \<times> edsr) io" where
  "EDSR_Patch old new = patch_object (PatchEDSR old new) as_edsr new"

definition EDSR_Delete :: "edsr \<Rightarrow> error option io" where
  "EDSR_Delete r = call_unit (DeleteEDSR r)"

section \<open>The facade of the edge API\<close>

definition GetEdgeDevice :: "string \<Rightarrow> string \<Rightarrow> (edge_device \<times> error option) io" where
  "GetEdgeDevice = EdgeDevice_Read"
definition PatchEdgeDeviceStatus :: "edge_device \<Rightarrow> edge_device \<Rightarrow> (error option \<times> edge_device) io" where
  "PatchEdgeDeviceStatus = EdgeDevice_PatchStatus"
definition UpdateEdgeDeviceLabels :: "edge_device \<Rightarrow> (string, string) gomap \<Rightarrow> (error option \<times> edge_device) io" where
  "UpdateEdgeDeviceLabels = EdgeDevice_UpdateLabels"
definition PatchEdgeDevice :: "edge_device \<Rightarrow> edge_device \<Rightarrow> (error option \<times> edge_device) io" where
  "PatchEdgeDevice = EdgeDevice_Patch"
definition GetEdgeDeviceSignedRequest :: "string \<Rightarrow> string \<Rightarrow> (edsr \<times> error option) io" where
  "GetEdgeDeviceSignedRequest = EDSR_Read"
definition CreateEdgeDeviceSignedRequest :: "edsr \<Rightarrow> error option io" where
  "CreateEdgeDeviceSignedRequest = EDSR_Create"
definition GetEdgeWorkload :: "string \<Rightarrow> string \<Rightarrow> (edge_workload \<times> error option) io" where
  "GetEdgeWorkload = EdgeWorkload_Read"
definition GetEdgeDeviceSet :: "string \<Rightarrow> string \<Rightarrow> (edge_device_set \<times> error option) io" where
  "GetEdgeDeviceSet = EdgeDeviceSet_Read"
definition GetPlaybookExecution :: "string \<Rightarrow> string \<Rightarrow> (playbook_execution \<times> error option) io" where
  "GetPlaybookExecution = PlaybookExecution_Read"
definition PatchPlaybookExecution ::
  "playbook_execution option \<Rightarrow> playbook_execution \<Rightarrow> (error option \<times> playbook_execution) io" where
  "PatchPlaybookExecution = PlaybookExecution_Patch"
definition Facade_GetSecret :: "string \<Rightarrow> string \<Rightarrow> (error + secret) io" where
  "Facade_GetSecret name namespace = call_object (GetSecret name namespace) as_secret"
definition Facade_GetConfigMap :: "string \<Rightarrow> string \<Rightarrow> (error + config_map) io" where
  "Facade_GetConfigMap name namespace = call_object (GetConfigMap name namespace) as_config_map"

lemmas repository_defs [go_defs] =
  EdgeDevice_Read_def EdgeDevice_ReadForPlaybookExecution_def EdgeDevice_Create_def
  EdgeDevice_PatchStatus_def EdgeDevice_Patch_def EdgeDevice_ListForWorkload_def
  EdgeDevice_ListForEdgeConfig_def EdgeWorkload_Read_def EdgeWorkload_Patch_def
  EdgeWorkload_ListByLabel_def EdgeConfig_Read_def EdgeConfig_Patch_def EdgeConfig_ListByLabel_def
  PlaybookExecution_Read_def PlaybookExecution_Create_def PlaybookExecution_Patch_def
  PlaybookExecution_ListByLabel_def EdgeDeviceSet_Read_def EDSR_Read_def EDSR_Create_def
  EDSR_PatchStatus_def EDSR_Patch_def EDSR_Delete_def

lemmas facade_defs [go_defs] =
  GetEdgeDevice_def PatchEdgeDeviceStatus_def UpdateEdgeDeviceLabels_def PatchEdgeDevice_def
  GetEdgeDeviceSignedRequest_def CreateEdgeDeviceSignedRequest_def GetEdgeWorkload_def
  GetEdgeDeviceSet_def GetPlaybookExecution_def PatchPlaybookExecution_def Facade_GetSecret_def
  Facade_GetConfigMap_def

section \<open>The interfaces\<close>

text \<open>Reading an object by name: one request, no change to the cluster, the zero object on error.\<close>

lemma object_result_InrD: "object_result sel r = Inr a \<Longrightarrow> sel r = Some a"
  unfolding object_result_def by (cases r) (simp_all split: option.splits)

locale object_reader =
  fixes Read :: "string \<Rightarrow> string \<Rightarrow> ('o \<times> error option) io"
    and zero :: 'o
    and get :: "string \<Rightarrow> string \<Rightarrow> request"
    and decode :: "response \<Rightarrow> 'o option"
  assumes Read_call: "Read n ns = read_object zero (get n ns) decode"
    and get_no_write: "\<not> is_write (get n ns)"
begin

lemma reads_only_Read: "reads_only (Read n ns)"
  by (simp add: reads_only_def Read_call get_no_write)

lemma Read_error_zero: "exec (Read n ns) t (Returned (obj, Some e)) \<Longrightarrow> obj = zero"
  by (cases "object_result decode (snd (hd t))") (auto simp: Read_call exec_read_object)

lemma Read_one_call: "exec (Read n ns) t out \<Longrightarrow> \<exists>r. t = [(get n ns, r)]"
  by (auto simp: Read_call exec_read_object)

lemma Read_found:
  "exec (Read n ns) t (Returned (obj, None)) \<Longrightarrow> \<exists>r. t = [(get n ns, r)] \<and> decode r = Some obj"
proof -
  assume "exec (Read n ns) t (Returned (obj, None))"
  then obtain r where t: "t = [(get n ns, r)]"
    and r: "(obj, None) = (case object_result decode r of Inl e \<Rightarrow> (zero, Some e) | Inr a \<Rightarrow> (a, None))"
    unfolding Read_call exec_read_object outcome.inject by blast
  from r have "object_result decode r = Inr obj" by (cases "object_result decode r") simp_all
  from object_result_InrD [OF this] t show ?thesis by simp
qed

end

text \<open>
  The finalizer protocol: \<open>RemoveFinalizer\<close> is one patch from the object to its copy without the
  finalizer. It reports success whatever the server answers.
\<close>

locale finalizer_store = object_reader Read zero get decode
  for Read :: "string \<Rightarrow> string \<Rightarrow> ('o \<times> error option) io"
    and zero get decode +
  fixes RemoveFinalizer :: "'o \<Rightarrow> string \<Rightarrow> (error option \<times> 'o) io"
    and patch :: "'o \<Rightarrow> 'o \<Rightarrow> request"
    and fins :: "'o \<Rightarrow> string list"
    and set_fins :: "string list \<Rightarrow> 'o \<Rightarrow> 'o"
  assumes RemoveFinalizer_call: "RemoveFinalizer obj f =
      mapp (\<lambda>(err, cp). (None, if err = None then set_fins (fins cp) obj else obj))
        (patch_object (patch obj (set_fins (without f (fins obj)) obj)) decode
           (set_fins (without f (fins obj)) obj))"
    and fins_set [simp]: "fins (set_fins fs obj) = fs"
begin

lemma RemoveFinalizer_request:
  "exec (RemoveFinalizer obj f) t out \<Longrightarrow>
     \<exists>r. t = [(patch obj (set_fins (without f (fins obj)) obj), r)]"
  by (auto simp: RemoveFinalizer_call exec_mapp exec_patch_object)

lemma RemoveFinalizer_no_error: "exec (RemoveFinalizer obj f) t (Returned (err, obj')) \<Longrightarrow> err = None"
  by (auto simp: RemoveFinalizer_call exec_mapp split: prod.splits)

lemma RemoveFinalizer_rejected:
  "exec (RemoveFinalizer obj f) [(q, RErr e)] (Returned (err, obj')) \<Longrightarrow> obj' = obj"
  by (auto simp: RemoveFinalizer_call exec_mapp exec_patch_object split: prod.splits)

lemma removed: "f \<notin> set (fins (set_fins (without f (fins obj)) obj))"
  by (simp add: without_def)

lemma others_kept: "g \<noteq> f \<Longrightarrow> g \<in> set (fins (set_fins (without f (fins obj)) obj)) \<longleftrightarrow> g \<in> set (fins obj)"
  by (simp add: without_def)

lemma issues_RemoveFinalizer [simp]:
  "issues P (RemoveFinalizer obj f) = P (patch obj (set_fins (without f (fins obj)) obj))"
  by (simp add: RemoveFinalizer_call)

end

interpretation device_set_repo: object_reader EdgeDeviceSet_Read zero_edge_device_set GetDeviceSet as_device_set
  by unfold_locales (simp_all add: go_defs)

interpretation edsr_repo: object_reader EDSR_Read zero_edsr GetEDSR as_edsr
  by unfold_locales (simp_all add: go_defs)

interpretation device_repo: finalizer_store EdgeDevice_Read zero_edge_device GetDevice as_device
  EdgeDevice_RemoveFinalizer PatchDevice "\<lambda>d. om_Finalizers (ed_meta d)" set_ed_Finalizers
  by unfold_locales (simp_all add: go_defs EdgeDevice_RemoveFinalizer_def set_ed_Finalizers_def Let_def)

interpretation workload_repo: finalizer_store EdgeWorkload_Read zero_edge_workload GetWorkload as_workload
  EdgeWorkload_RemoveFinalizer PatchWorkload "\<lambda>d. om_Finalizers (ew_meta d)" set_ew_Finalizers
  by unfold_locales (simp_all add: go_defs EdgeWorkload_RemoveFinalizer_def set_ew_Finalizers_def Let_def)

interpretation config_repo: finalizer_store EdgeConfig_Read zero_edge_config GetConfig as_config
  EdgeConfig_RemoveFinalizer PatchConfig "\<lambda>d. om_Finalizers (ec_meta d)" set_ec_Finalizers
  by unfold_locales (simp_all add: go_defs EdgeConfig_RemoveFinalizer_def set_ec_Finalizers_def Let_def)

interpretation playbook_repo: finalizer_store PlaybookExecution_Read zero_playbook_execution GetPlaybookExec
  as_playbook_exec PlaybookExecution_RemoveFinalizer "\<lambda>old. PatchPlaybookExec (Some old)"
  "\<lambda>d. om_Finalizers (pex_meta d)" set_pex_Finalizers
  by unfold_locales (simp_all add: go_defs PlaybookExecution_RemoveFinalizer_def set_pex_Finalizers_def Let_def)

section \<open>Updating labels\<close>

lemma overlay_labels_lookup:
  "mget (overlay_labels d ls) k = (case mget ls k of Some v \<Rightarrow> Some v | None \<Rightarrow> mget (ed_Labels d) k)"
  by (auto simp: overlay_labels_def mget_def fmlookup_dom_iff split: option.splits)

text \<open>Every patch the label update issues only adds or overwrites labels.\<close>

fun adds_labels :: "(string, string) gomap \<Rightarrow> request \<Rightarrow> bool" where
  "adds_labels labels (PatchDevice old new) = (new = set_ed_Labels (overlay_labels old labels) old)"
| "adds_labels labels (SleepMs _) = True"
| "adds_labels labels (GetDevice _ _) = True"
| "adds_labels labels _ = False"

lemma issues_updateLabels: "issues (adds_labels labels) (EdgeDevice_updateLabels d labels)"
  by (simp add: EdgeDevice_updateLabels_def Let_def go_defs)

lemma issues_retries:
  "issues P attempt \<Longrightarrow> (\<And>ms. P (SleepMs ms)) \<Longrightarrow> issues P (retries is attempt err)"
  by (induction "is") (auto simp: retries.simps intro!: issues_bindpI)

lemma issues_UpdateLabels: "issues (adds_labels labels) (EdgeDevice_UpdateLabels d labels)"
proof -
  have "issues (adds_labels labels) (label_attempt d labels)" for d
    by (auto simp: label_attempt_def go_defs issues_updateLabels intro!: issues_bindpI)
  then show ?thesis
    by (auto simp: EdgeDevice_UpdateLabels_def issues_updateLabels intro!: issues_bindpI issues_retries
        split: prod.splits option.splits)
qed

text \<open>The number of patches an execution sends.\<close>

definition count_calls :: "(request \<Rightarrow> bool) \<Rightarrow> io_trace \<Rightarrow> nat" where
  "count_calls P t = length (filter (P \<circ> fst) t)"

lemma count_calls_simps [simp]:
  "count_calls P [] = 0" "count_calls P (t @ t') = count_calls P t + count_calls P t'"
  "count_calls P ((q, r) # t) = (if P q then Suc (count_calls P t) else count_calls P t)"
  by (simp_all add: count_calls_def)

text \<open>At most \<open>n\<close> requests of a kind, however a run goes.\<close>

definition at_most :: "nat \<Rightarrow> (request \<Rightarrow> bool) \<Rightarrow> 'a io \<Rightarrow> bool" where
  "at_most n P p \<longleftrightarrow> wp p (\<lambda>t out. count_calls P t \<le> n)"

lemma at_most_none: "issues (\<lambda>q. \<not> P q) p \<Longrightarrow> at_most n P p"
  by (auto simp: at_most_def wp_exec issues_exec count_calls_def)

lemma at_most_bindp:
  "at_most n P p \<Longrightarrow> (\<And>a. at_most m P (f a)) \<Longrightarrow> at_most (n + m) P (bindp p f)"
  by (fastforce simp: at_most_def wp_exec exec_bindp dest: add_mono)

lemma at_most_bind_none:
  "issues (\<lambda>q. \<not> P q) p \<Longrightarrow> (\<And>a. at_most m P (f a)) \<Longrightarrow> at_most m P (bindp p f)"
  using at_most_bindp [of 0 P p m f] at_most_none [of P p 0] by simp

lemma at_most_bind_last:
  "at_most n P p \<Longrightarrow> (\<And>a. issues (\<lambda>q. \<not> P q) (f a)) \<Longrightarrow> at_most n P (bindp p f)"
  using at_most_bindp [of n P p 0 f] by (simp add: at_most_none)

lemma at_most_simps [simp]:
  "at_most n P (Ret a)" "at_most n P (Panic m)" "at_most n P (mapp f p) = at_most n P p"
proof -
  have "wp (mapp f p) (\<lambda>t out. \<Phi> t) = wp p (\<lambda>t out. \<Phi> t)" for \<Phi>
    by (induction p arbitrary: \<Phi>) (simp_all add: mapp_def)
  then show "at_most n P (mapp f p) = at_most n P p" by (simp add: at_most_def)
qed (simp_all add: at_most_def)

lemma at_most_one [simp]:
  "at_most (Suc n) P (read_object z q sel)" "at_most (Suc n) P (patch_object q sel' new)"
  "at_most (Suc n) P (call_unit q)" "at_most (Suc n) P (call_object q sel'')"
  by (simp_all add: at_most_def)

lemma wp_updateLabels:
  "wp (EdgeDevice_updateLabels d labels) \<Phi> \<longleftrightarrow>
     (if overlay_labels d labels = ed_Labels d then \<Phi> [] (Returned (None, d))
      else \<forall>r. \<Phi> [(PatchDevice d (set_ed_Labels (overlay_labels d labels) d), r)] (Returned
        (case object_result as_device r of
           Inl e \<Rightarrow> (Some e, d) | Inr a \<Rightarrow> (None, set_ed_Labels (ed_Labels a) d))))"
  by (auto simp: EdgeDevice_updateLabels_def Let_def go_defs wp_mapp split: sum.splits)

text \<open>
  The contract of an attempt: it always returns and writes at most once. A loop over such an attempt then
  returns, writes at most once per round, and reports either success or the error it was given.
\<close>

locale update_attempt =
  fixes attempt :: "error option io"
  assumes one_write: "wp attempt (\<lambda>t out. (\<exists>e. out = Returned e) \<and> count_calls is_write t \<le> 1)"
begin

lemma retries_bound:
  "wp (retries is attempt err) (\<lambda>t out. (out = Returned None \<or> out = Returned (Some err)) \<and>
     count_calls is_write t \<le> length is)"
proof (induction "is")
  case Nil
  then show ?case by (simp add: retries.simps)
next
  case (Cons i "is")
  show ?case
    unfolding retries.simps wp_bindp wp_tell
    by (auto intro!: wp_conseq [OF one_write] wp_conseq [OF Cons])
qed

end

interpretation label_retry: update_attempt "label_attempt d labels"
  by unfold_locales (auto simp: label_attempt_def go_defs wp_base wp_updateLabels split: sum.split)

lemma UpdateLabels_bound:
  "wp (EdgeDevice_UpdateLabels d labels) (\<lambda>t out. \<exists>err d'. out = Returned (err, d') \<and>
     count_calls is_write t \<le> 4 \<and>
     (\<forall>e. err = Some e \<longrightarrow> (\<exists>r t'. t = (PatchDevice d (set_ed_Labels (overlay_labels d labels) d), r) # t'
        \<and> object_result as_device r = Inl e)))"
  by (auto simp: EdgeDevice_UpdateLabels_def wp_base wp_updateLabels split: sum.splits
      intro!: wp_conseq [OF label_retry.retries_bound])

end
