(* ===== verification/Workload_Reconciler.thy ===== *)
theory Workload_Reconciler
  imports Repositories "HOL-Library.Signed_Division" "HOL-Library.Sublist"
begin

text \<open>
  The controller that deploys workloads to devices (\<open>src/controllers/edgeworkload_controller.go\<close>):
  the splitting of the device list, the goroutines that work on the parts, the changes made to one
  device, the selector labels of a workload, and the reconciliation itself.

  The locale \<open>device_worker\<close> is the contract of a \<open>ConcurrentFunc\<close>: when it reports no error, the step
  of every device has been carried out. It is interpreted on the three workers of the controller,
  and the guarantee carries over to any schedule of the goroutines.
\<close>

definition YggdrasilDeviceReferenceFinalizer :: string where
  "YggdrasilDeviceReferenceFinalizer = ''yggdrasil-device-reference-finalizer''"

section \<open>Splitting the devices\<close>

text \<open>
  The loop of \<open>splitEdgeDevices\<close>: \<open>None\<close> if it does not end, \<open>Inl\<close> for a run-time panic. A new slice
  never ends beyond the length of the list, so the capacity of the slice plays no role.
\<close>

partial_function (option) split_loop :: "'a list \<Rightarrow> int \<Rightarrow> int \<Rightarrow> int \<Rightarrow> (string + 'a list list) option" where
  "split_loop ds splitLen usedLen residueLen =
     (if usedLen < int (length ds) then
        (let residueExtra = (if residueLen > 0 then 1 else 0);
             newSliceLen = splitLen + residueExtra
         in if newSliceLen < 0 \<or> usedLen + newSliceLen > int (length ds) then Some (Inl slice_out_of_range)
            else Option.bind (split_loop ds splitLen (usedLen + newSliceLen) (residueLen - residueExtra)) (\<lambda>r.
              Some (case r of
                Inl m \<Rightarrow> Inl m
              | Inr result \<Rightarrow> Inr (take (nat newSliceLen) (drop (nat usedLen) ds) # result))))
      else Some (Inr []))"

definition splitEdgeDevices :: "'a list \<Rightarrow> 64 word \<Rightarrow> (string + 'a list list) option" where
  "splitEdgeDevices edgeDevices splitSize =
     (if splitSize = 0 then Some (Inr [])
      else let intX = sint splitSize;
               sLen = int (length edgeDevices);
               splitLen = sLen sdiv intX;
               residueLen = sLen - splitLen * intX
           in split_loop edgeDevices splitLen 0 residueLen)"

section \<open>Running a worker on the parts\<close>

type_synonym concurrent_func = "edge_device list \<Rightarrow> error list io"

definition ExecuteConcurrent :: "64 word \<Rightarrow> concurrent_func \<Rightarrow> edge_device list \<Rightarrow> error list io" where
  "ExecuteConcurrent concurrency f edgeDevices =
     (if edgeDevices = [] \<or> concurrency = 0 then Ret []
      else case splitEdgeDevices edgeDevices concurrency of
        Some (Inr inputs) \<Rightarrow> mapp concat (par_list (map f inputs))
      | Some (Inl m) \<Rightarrow> Panic m
      | None \<Rightarrow> Panic ''does not return'')"

definition executeConcurrent :: "64 word \<Rightarrow> concurrent_func \<Rightarrow> edge_device list \<Rightarrow> error list io" where
  "executeConcurrent concurrency f edgeDevices =
     (if concurrency = 1 then f edgeDevices else ExecuteConcurrent concurrency f edgeDevices)"

section \<open>Helpers\<close>

definition hasLabelForWorkload :: "edge_device \<Rightarrow> string \<Rightarrow> bool" where
  "hasLabelForWorkload edgeDevice workloadName \<longleftrightarrow> mget (ed_Labels edgeDevice) (WorkloadLabel workloadName) \<noteq> None"

definition hasWorkload :: "edge_device \<Rightarrow> string \<Rightarrow> bool" where
  "hasWorkload edgeDevice name = (\<exists>w \<in> set (elems (es_Workloads (ed_Status edgeDevice))). wl_Name w = name)"

definition merge_devices :: "edge_device list \<Rightarrow> edge_device list \<Rightarrow> edge_device list" where
  "merge_devices edgeDevices1 edgeDevices2 =
     edgeDevices1 @ filter (\<lambda>d. ed_Name d \<notin> ed_Name ` set edgeDevices1) edgeDevices2"

definition mergeErrorMessages :: "error list \<Rightarrow> string" where
  "mergeErrorMessages errs = fold (\<lambda>err message.
     if message = [] then Error err else message @ '', '' @ Error err) errs []"

section \<open>Changing one device\<close>

definition removeWorkloadFromDevice :: "string \<Rightarrow> edge_device \<Rightarrow> error option io" where
  "removeWorkloadFromDevice name edgeDevice =
     (let newWorkloads = appended (filter (\<lambda>w. wl_Name w \<noteq> name) (elems (es_Workloads (ed_Status edgeDevice)))) in
      bindp (EdgeDevice_PatchStatus edgeDevice (set_ed_Workloads newWorkloads edgeDevice)) (\<lambda>(err, edgeDevice').
        case err of
          Some e \<Rightarrow> Ret (Some e)
        | None \<Rightarrow>
            if ed_Labels edgeDevice' \<noteq> None then
              mapp fst (EdgeDevice_Patch edgeDevice'
                (set_ed_Labels (mdelete (WorkloadLabel name) (ed_Labels edgeDevice')) edgeDevice'))
            else Ret None))"

definition new_workload :: "string \<Rightarrow> workload" where
  "new_workload name = \<lparr>wl_Name = name, wl_Phase = Deploying, wl_LastTransitionTime = zero_time,
     wl_LastDataUpload = zero_time\<rparr>"

text \<open>The body of the loop of \<open>addWorkloadsToDevices\<close> for one device.\<close>

definition addWorkloadToDevice :: "string \<Rightarrow> edge_device \<Rightarrow> error option io" where
  "addWorkloadToDevice name edgeDevice =
     bindp (if hasWorkload edgeDevice name then Ret (None, edgeDevice)
            else EdgeDevice_PatchStatus edgeDevice
              (set_ed_Workloads (go_append (es_Workloads (ed_Status edgeDevice)) [new_workload name]) edgeDevice))
     (\<lambda>(err, edgeDevice'). case err of
        Some e \<Rightarrow> Ret (Some e)
      | None \<Rightarrow>
          if hasLabelForWorkload edgeDevice' name then Ret None
          else mapp fst (EdgeDevice_Patch edgeDevice'
            (set_ed_Labels (Some (fmupd (WorkloadLabel name) ''true'' (entries (ed_Labels edgeDevice')))) edgeDevice')))"

section \<open>The workers\<close>

definition add_error :: "error option \<Rightarrow> error list \<Rightarrow> error list" where
  "add_error e es = (case e of None \<Rightarrow> es | Some x \<Rightarrow> x # es)"

primrec removeWorkloadFromDevices :: "string \<Rightarrow> edge_device list \<Rightarrow> error list io" where
  "removeWorkloadFromDevices name [] = Ret []"
| "removeWorkloadFromDevices name (d # ds) =
     bindp (removeWorkloadFromDevice name d) (\<lambda>e. mapp (add_error e) (removeWorkloadFromDevices name ds))"

text \<open>
  A loop over devices that first looks whether the context is cancelled, in which case it stops with
  the errors so far and one more.
\<close>

definition context_canceled :: "error \<Rightarrow> error" where
  "context_canceled e = WrapError (''context canceled: '' @ Error e) e"

primrec cancellable_loop :: "(edge_device \<Rightarrow> error option io) \<Rightarrow> edge_device list \<Rightarrow> error list io" where
  "cancellable_loop step [] = Ret []"
| "cancellable_loop step (d # ds) =
     bindp ctx_done (\<lambda>c. case c of
         Some e \<Rightarrow> Ret [context_canceled e]
       | None \<Rightarrow> bindp (step d) (\<lambda>e. mapp (add_error e) (cancellable_loop step ds)))"

definition removeUnlessMatching :: "string \<Rightarrow> edge_device list \<Rightarrow> edge_device \<Rightarrow> error option io" where
  "removeUnlessMatching name matchingDevices device =
     (if ed_Name device \<in> ed_Name ` set matchingDevices then Ret None
      else removeWorkloadFromDevice name device)"

definition errors_of :: "error list \<Rightarrow> error option" where
  "errors_of errs = (if errs = [] then None else Some (Errorf0 (mergeErrorMessages errs)))"

definition removeWorkloadFromNonMatchingDevices ::
  "64 word \<Rightarrow> string \<Rightarrow> edge_device list \<Rightarrow> edge_device list \<Rightarrow> error option io" where
  "removeWorkloadFromNonMatchingDevices concurrency name matchingDevices labelledDevices =
     mapp errors_of (executeConcurrent concurrency
       (cancellable_loop (removeUnlessMatching name matchingDevices)) labelledDevices)"

definition addWorkloadsToDevices :: "64 word \<Rightarrow> string \<Rightarrow> edge_device list \<Rightarrow> error option io" where
  "addWorkloadsToDevices concurrency name edgeDevices =
     mapp errors_of (executeConcurrent concurrency (cancellable_loop (addWorkloadToDevice name)) edgeDevices)"

definition finalizeRemoval :: "64 word \<Rightarrow> edge_device list \<Rightarrow> edge_workload \<Rightarrow> error option io" where
  "finalizeRemoval concurrency edgeDevices edgeWorkload =
     bindp (executeConcurrent concurrency (removeWorkloadFromDevices (ew_Name edgeWorkload)) edgeDevices) (\<lambda>errs.
       case errors_of errs of
         Some e \<Rightarrow> Ret (Some e)
       | None \<Rightarrow> mapp fst (EdgeWorkload_RemoveFinalizer edgeWorkload YggdrasilDeviceReferenceFinalizer))"

section \<open>Selector labels\<close>

definition requirement_label :: "selector_requirement \<Rightarrow> string" where
  "requirement_label r = (if sr_Operator r = LabelSelectorOpDoesNotExist then CreateSelectorLabel DoesNotExistLabel
     else CreateSelectorLabel (sr_Key r))"

text \<open>
  \<open>UpdateSelectorLabels\<close> for one workload. The loops over maps delete or write each key once, so their
  order does not show.
\<close>

definition UpdateSelectorLabels :: "edge_workload \<Rightarrow> edge_workload" where
  "UpdateSelectorLabels w =
     (let kept = fmfilter (\<lambda>l. \<not> IsSelectorLabel l) (entries (ew_Labels w));
          labels = (if ws_Device (ew_Spec w) \<noteq> [] then
              fmupd (CreateSelectorLabel DeviceNameLabel) (ws_Device (ew_Spec w)) kept
            else case ws_DeviceSelector (ew_Spec w) of
              None \<Rightarrow> kept
            | Some sel \<Rightarrow>
                fold (\<lambda>r m. fmupd (requirement_label r) ''true'' m) (ls_MatchExpressions sel)
                  (fold (\<lambda>l m. fmupd (CreateSelectorLabel l) ''true'' m)
                    (sorted_list_of_fset (fmdom (entries (ls_MatchLabels sel)))) kept))
      in set_ew_Labels (Some labels) w)"

definition updateLabelsFromSelector :: "edge_workload \<Rightarrow> (bool \<times> error option) io" where
  "updateLabelsFromSelector edgeWorkload =
     (let cp = UpdateSelectorLabels edgeWorkload; newLabels = ew_Labels cp in
      if (entries newLabels = fmempty \<and> ew_Labels edgeWorkload = None) \<or> newLabels = ew_Labels edgeWorkload
      then Ret (False, None)
      else mapp (\<lambda>(err, _). (True, err)) (EdgeWorkload_Patch edgeWorkload cp))"

section \<open>Reconcile\<close>

definition getMatchingEdgeDevices :: "edge_workload \<Rightarrow> (error + edge_device list) io" where
  "getMatchingEdgeDevices w =
     (if ws_Device (ew_Spec w) \<noteq> [] then
        mapp (\<lambda>(d, err). case err of Some e \<Rightarrow> Inl e | None \<Rightarrow> Inr [d])
          (EdgeDevice_Read (ws_Device (ew_Spec w)) (ew_Namespace w))
      else if ws_DeviceSelector (ew_Spec w) \<noteq> None then
        EdgeDevice_ListForSelector (ws_DeviceSelector (ew_Spec w)) (ew_Namespace w)
      else Ret (Inr []))"

definition getLabelledEdgeDevices :: "string \<Rightarrow> string \<Rightarrow> (error + edge_device list) io" where
  "getLabelledEdgeDevices name namespace = EdgeDevice_ListForWorkload name namespace"

text \<open>\<open>ctrl.Result{Requeue: ...}\<close> and the error of a reconciliation.\<close>

type_synonym reconcile_result = "bool \<times> error option"

definition requeue :: "error option \<Rightarrow> reconcile_result" where
  "requeue err = (True, err)"

definition no_requeue :: reconcile_result where
  "no_requeue = (False, None)"

text \<open>A list call whose NotFound error counts as an empty list.\<close>

definition or_not_found ::
  "(error + 'a list) io \<Rightarrow> ('a list \<Rightarrow> reconcile_result io) \<Rightarrow> reconcile_result io" where
  "or_not_found p k = bindp p (\<lambda>r. case r of
      Inl e \<Rightarrow> if IsNotFound e then k [] else Ret (requeue (Some e))
    | Inr xs \<Rightarrow> k xs)"

definition result_of :: "error option \<Rightarrow> reconcile_result" where
  "result_of err = (case err of None \<Rightarrow> no_requeue | Some e \<Rightarrow> requeue (Some e))"

text \<open>The part of \<open>Reconcile\<close> after both lists of devices are known.\<close>

definition reconcile_work ::
  "64 word \<Rightarrow> edge_workload \<Rightarrow> edge_device list \<Rightarrow> edge_device list \<Rightarrow> reconcile_result io" where
  "reconcile_work n w matching labelled =
     (if om_DeletionTimestamp (ew_meta w) \<noteq> None then
         (if HasFinalizer (ew_meta w) YggdrasilDeviceReferenceFinalizer then
            mapp result_of (finalizeRemoval n (merge_devices matching labelled) w)
          else Ret no_requeue)
       else bindp (addWorkloadsToDevices n (ew_Name w) matching) (\<lambda>err.
         case err of
           Some e \<Rightarrow> Ret (requeue (Some e))
         | None \<Rightarrow> mapp result_of
             (removeWorkloadFromNonMatchingDevices n (ew_Name w) matching labelled)))"

definition reconcile_devices :: "64 word \<Rightarrow> edge_workload \<Rightarrow> reconcile_result io" where
  "reconcile_devices concurrency w =
     or_not_found (getLabelledEdgeDevices (ew_Name w) (ew_Namespace w)) (\<lambda>labelledDevices.
     or_not_found (getMatchingEdgeDevices w) (\<lambda>edgeDevices.
       reconcile_work concurrency w edgeDevices labelledDevices))"

definition EdgeWorkload_Reconcile :: "64 word \<Rightarrow> string \<Rightarrow> string \<Rightarrow> reconcile_result io" where
  "EdgeWorkload_Reconcile concurrency name namespace =
     bindp (EdgeWorkload_Read name namespace) (\<lambda>(w, err).
       case err of
         Some e \<Rightarrow> Ret (if IsNotFound e then no_requeue else requeue (Some e))
       | None \<Rightarrow>
           if om_DeletionTimestamp (ew_meta w) = None \<and> \<not> HasFinalizer (ew_meta w) YggdrasilDeviceReferenceFinalizer then
             mapp (\<lambda>(err, _). requeue err)
               (EdgeWorkload_Patch w (set_ew_Finalizers [YggdrasilDeviceReferenceFinalizer] w))
           else if om_DeletionTimestamp (ew_meta w) = None then
             bindp (updateLabelsFromSelector w) (\<lambda>(updated, err). case err of
                 Some e \<Rightarrow> Ret (requeue (Some e))
               | None \<Rightarrow> if updated then Ret no_requeue else reconcile_devices concurrency w)
           else reconcile_devices concurrency w)"

section \<open>The split is exact and balanced\<close>

lemma split_loop_ok:
  assumes "0 \<le> r" "r \<le> int k" "0 \<le> s" "0 \<le> u" "u + int k * s + r = int (length ds)" "s = 0 \<longrightarrow> r = int k"
  shows "\<exists>chunks. split_loop ds s u r = Some (Inr chunks) \<and> concat chunks = drop (nat u) ds \<and> length chunks = k
    \<and> (\<forall>c \<in> set chunks. int (length c) = s \<or> int (length c) = s + 1) \<and> [] \<notin> set chunks"
  using assms
proof (induction k arbitrary: u r)
  case 0
  then show ?case by (subst split_loop.simps) simp
next
  case (Suc k)
  define x where "x = (if r > 0 then 1 else 0 :: int)"
  have len: "int (length ds) = u + s + int k * s + r" using Suc.prems by (simp add: algebra_simps)
  have pos: "0 < s + x" using Suc.prems by (cases "s = 0") (auto simp: x_def)
  have ks: "0 \<le> int k * s" using Suc.prems by simp
  have "x \<le> r" using Suc.prems by (auto simp: x_def)
  then have fits: "u + (s + x) \<le> int (length ds)" using len ks by linarith
  obtain chunks where c: "split_loop ds s (u + (s + x)) (r - x) = Some (Inr chunks)"
    "concat chunks = drop (nat (u + (s + x))) ds" "length chunks = k"
    "\<forall>c \<in> set chunks. int (length c) = s \<or> int (length c) = s + 1" "[] \<notin> set chunks"
    using Suc.IH [of "r - x" "u + (s + x)"] Suc.prems \<open>x \<le> r\<close> pos len by (auto simp: x_def split: if_splits)
  let ?c = "take (nat (s + x)) (drop (nat u) ds)"
  have "split_loop ds s u r = Some (Inr (?c # chunks))"
    using fits pos c(1) by (subst split_loop.simps) (auto simp: x_def Let_def)
  moreover have "?c @ drop (nat (u + (s + x))) ds = drop (nat u) ds"
    using pos Suc.prems by (metis add.commute append_take_drop_id drop_drop nat_add_distrib order_less_imp_le)
  moreover have "int (length ?c) = s + x" using fits pos Suc.prems by simp
  ultimately show ?case
    using c pos by (intro exI [of _ "?c # chunks"]) (auto simp: x_def split: if_splits)
qed

lemma split_loop_ends:
  assumes "s \<le> 0" "0 \<le> u" "s = 0 \<longrightarrow> u + int k = int (length ds)"
  shows "split_loop ds s u (int k) \<noteq> None"
  using assms
proof (induction k arbitrary: u)
  case 0
  then show ?case by (subst split_loop.simps) (auto simp: Let_def)
next
  case (Suc k)
  have "split_loop ds s (u + (s + 1)) (int k) \<noteq> None" if "0 \<le> s + 1"
    using that Suc.prems by (intro Suc.IH) auto
  then show ?case
    by (subst split_loop.simps) (fastforce simp: Let_def)
qed

lemma sdiv_neg: "0 \<le> a \<Longrightarrow> b < 0 \<Longrightarrow> (a::int) sdiv b = - (a div (- b))"
  by (cases "a = 0") (auto simp: signed_divide_int_def sgn_if)

lemma splitEdgeDevices_split:
  assumes "0 < sint n"
  shows "\<exists>chunks. splitEdgeDevices ds n = Some (Inr chunks) \<and> concat chunks = ds
    \<and> int (length chunks) = min (sint n) (int (length ds))
    \<and> (\<forall>c \<in> set chunks. int (length c) = int (length ds) div sint n \<or> int (length c) = int (length ds) div sint n + 1)
    \<and> [] \<notin> set chunks"
proof -
  let ?L = "int (length ds)"
  let ?k = "if ?L < sint n then length ds else nat (sint n)"
  have n: "n \<noteq> 0" using assms by auto
  have r: "0 \<le> ?L mod sint n" "?L mod sint n \<le> int ?k"
    using assms by (auto simp: mod_pos_pos_trivial intro: order_less_imp_le)
  have s: "0 \<le> ?L div sint n" using assms by (simp add: pos_imp_zdiv_nonneg_iff)
  have split: "0 + int ?k * (?L div sint n) + ?L mod sint n = ?L"
    using assms by (simp add: div_pos_pos_trivial)
  have zero: "?L div sint n = 0 \<longrightarrow> ?L mod sint n = int ?k"
    using assms by (auto simp: zdiv_eq_0_iff)
  have "int ?k = min (sint n) ?L" using assms by auto
  moreover have "splitEdgeDevices ds n = split_loop ds (?L div sint n) 0 (?L mod sint n)"
    using assms n by (simp add: splitEdgeDevices_def Let_def signed_divide_int_def minus_div_mult_eq_mod)
  ultimately show ?thesis
    using split_loop_ok [OF r s order_refl split zero] by auto
qed

lemma splitEdgeDevices_ends: "splitEdgeDevices ds n \<noteq> None"
proof -
  consider "n = 0" | "0 < sint n" | "sint n < 0"
    by (metis linorder_neqE_linordered_idom signed_eq_0_iff)
  then show ?thesis
  proof cases
    case 2
    then show ?thesis using splitEdgeDevices_split [of n ds] by auto
  next
    case 3
    let ?L = "int (length ds)" and ?X = "- sint n"
    have "?L sdiv sint n = - (?L div ?X)" using 3 by (simp add: sdiv_neg)
    moreover have "?L - (- (?L div ?X)) * sint n = ?L mod ?X"
      using div_mult_mod_eq [of ?L ?X] by simp
    moreover have "- (?L div ?X) = 0 \<longrightarrow> 0 + int (nat (?L mod ?X)) = ?L"
      using 3 by (auto simp: zdiv_eq_0_iff)
    ultimately show ?thesis
      using split_loop_ends [of "- (?L div ?X)" 0 "nat (?L mod ?X)" ds] 3
      by (auto simp: splitEdgeDevices_def Let_def pos_imp_zdiv_nonneg_iff)
  qed (simp add: splitEdgeDevices_def)
qed

section \<open>Workers under any schedule\<close>

lemma subseq_shuffles: "t \<in> shuffles xs ys \<Longrightarrow> subseq xs t \<and> subseq ys t"
  by (induction xs ys arbitrary: t rule: shuffles.induct) (auto intro: list_emb_Cons)

lemma subseq_shuffle_all: "t \<in> shuffle_all ts \<Longrightarrow> x \<in> set ts \<Longrightarrow> subseq x t"
  by (induction ts arbitrary: t) (auto dest: subseq_shuffles intro: subseq_order.order_trans)

text \<open>
  The contract of a \<open>ConcurrentFunc\<close> over the step it takes for one device: a run that reports no error
  has carried out the step of every device with success.
\<close>

locale device_worker =
  fixes worker :: concurrent_func
    and step :: "edge_device \<Rightarrow> error option io"
  assumes no_error_done: "exec (worker ds) t (Returned []) \<Longrightarrow> d \<in> set ds \<Longrightarrow>
      \<exists>td. exec (step d) td (Returned None) \<and> subseq td t"
begin

lemma ExecuteConcurrent_done:
  assumes n: "0 < sint n" and e: "exec (ExecuteConcurrent n worker ds) t (Returned [])" and d: "d \<in> set ds"
  shows "\<exists>td. exec (step d) td (Returned None) \<and> subseq td t"
proof -
  obtain chunks where c: "splitEdgeDevices ds n = Some (Inr chunks)" "concat chunks = ds"
    using splitEdgeDevices_split [OF n, of ds] by blast
  have "n \<noteq> 0" "ds \<noteq> []" using n d by auto
  then obtain es where "exec (par_list (map worker chunks)) t (Returned es)" "concat es = []"
    using e c by (auto simp: ExecuteConcurrent_def exec_mapp)
  then obtain ts where ts: "t \<in> shuffle_all ts" "length ts = length chunks" "length es = length chunks"
    "\<forall>i < length chunks. exec (worker (chunks ! i)) (ts ! i) (Returned (es ! i))"
    using exec_par_listD [of "map worker chunks" t es] by auto
  obtain i where i: "i < length chunks" "d \<in> set (chunks ! i)"
    using d c(2) by (metis concat_eq_concat_iff in_set_conv_nth set_concat UN_E)
  have "es ! i = []" using \<open>concat es = []\<close> i ts(3) by auto
  then obtain td where "exec (step d) td (Returned None)" "subseq td (ts ! i)"
    using no_error_done ts(4) i by metis
  moreover have "subseq (ts ! i) t" using ts i by (intro subseq_shuffle_all) auto
  ultimately show ?thesis by (meson subseq_order.order_trans)
qed

lemma executeConcurrent_done:
  assumes "0 < sint n" "exec (executeConcurrent n worker ds) t (Returned [])" "d \<in> set ds"
  shows "\<exists>td. exec (step d) td (Returned None) \<and> subseq td t"
  using assms ExecuteConcurrent_done no_error_done by (auto simp: executeConcurrent_def split: if_splits)

end

lemma add_error_Nil [simp]:
  "add_error e es = [] \<longleftrightarrow> e = None \<and> es = []" "[] = add_error e es \<longleftrightarrow> e = None \<and> es = []"
  by (auto simp: add_error_def split: option.splits)

lemma subseq_appendI: "subseq a x \<Longrightarrow> subseq a (x @ y)" "subseq a x \<Longrightarrow> subseq a (y @ x)"
  by (auto intro: subseq_rev_drop_many subseq_drop_many)

interpretation removal_worker: device_worker "removeWorkloadFromDevices name" "removeWorkloadFromDevice name"
proof unfold_locales
  fix ds t d
  show "exec (removeWorkloadFromDevices name ds) t (Returned []) \<Longrightarrow> d \<in> set ds \<Longrightarrow>
      \<exists>td. exec (removeWorkloadFromDevice name d) td (Returned None) \<and> subseq td t"
  proof (induction ds arbitrary: t)
    case (Cons x xs)
    then obtain t1 t2 where "exec (removeWorkloadFromDevice name x) t1 (Returned None)"
      "exec (removeWorkloadFromDevices name xs) t2 (Returned [])" "t = t1 @ t2"
      by (auto simp: exec_bindp exec_mapp)
    then show ?case
      using Cons by (metis set_ConsD subseq_order.order_refl subseq_appendI)
  qed simp
qed

lemma cancellable_loop_done:
  "exec (cancellable_loop step ds) t (Returned []) \<Longrightarrow> d \<in> set ds \<Longrightarrow>
     \<exists>td. exec (step d) td (Returned None) \<and> subseq td t"
proof (induction ds arbitrary: t)
  case (Cons x xs)
  then obtain t0 t1 t2 where t: "exec (step x) t1 (Returned None)"
    "exec (cancellable_loop step xs) t2 (Returned [])" "t = t0 @ t1 @ t2"
    by (auto simp: exec_bindp exec_mapp split: option.splits)
  show ?case
  proof (cases "d = x")
    case True
    then show ?thesis using t by (metis subseq_appendI subseq_order.order_refl)
  next
    case False
    then obtain td where "exec (step d) td (Returned None)" "subseq td t2" using Cons t by auto
    then show ?thesis using t by (metis subseq_appendI)
  qed
qed simp

interpretation add_worker: device_worker "cancellable_loop (addWorkloadToDevice name)" "addWorkloadToDevice name"
  by unfold_locales (rule cancellable_loop_done)

interpretation prune_worker: device_worker
  "cancellable_loop (removeUnlessMatching name matching)" "removeUnlessMatching name matching"
  by unfold_locales (rule cancellable_loop_done)

section \<open>What a worker may send\<close>

fun device_request :: "request \<Rightarrow> bool" where
  "device_request (PatchDevice _ _) = True"
| "device_request (PatchDeviceStatus _ _) = True"
| "device_request CtxDone = True"
| "device_request _ = False"

lemma issues_executeConcurrent:
  "(\<And>xs. issues P (f xs)) \<Longrightarrow> issues P (executeConcurrent n f ds)"
  by (auto simp: executeConcurrent_def ExecuteConcurrent_def intro!: issues_par_list
      split: option.splits sum.splits)

lemma issues_device_steps:
  "issues device_request (removeWorkloadFromDevice name d)"
  "issues device_request (addWorkloadToDevice name d)"
  "issues device_request (removeUnlessMatching name ms d)"
  by (auto simp: removeWorkloadFromDevice_def addWorkloadToDevice_def removeUnlessMatching_def Let_def
      go_defs intro!: issues_bindpI split: option.splits prod.splits)

lemma issues_cancellable_loop:
  "(\<And>d. issues P (step d)) \<Longrightarrow> P CtxDone \<Longrightarrow> issues P (cancellable_loop step ds)"
  by (induction ds) (auto intro!: issues_bindpI split: option.splits)

lemma issues_removeWorkloadFromDevices: "issues device_request (removeWorkloadFromDevices name ds)"
  by (induction ds) (auto intro!: issues_bindpI issues_device_steps)

lemma issues_workers:
  "issues device_request (addWorkloadsToDevices n name ds)"
  "issues device_request (removeWorkloadFromNonMatchingDevices n name ms ds)"
  by (auto simp: addWorkloadsToDevices_def removeWorkloadFromNonMatchingDevices_def
      intro!: issues_executeConcurrent issues_cancellable_loop issues_device_steps)

text \<open>The change made to one device when a workload leaves it.\<close>

abbreviation without_workload :: "string \<Rightarrow> edge_device \<Rightarrow> edge_device" where
  "without_workload name d \<equiv> set_ed_Workloads
     (appended (filter (\<lambda>w. wl_Name w \<noteq> name) (elems (es_Workloads (ed_Status d))))) d"

abbreviation without_label :: "string \<Rightarrow> edge_device \<Rightarrow> edge_device" where
  "without_label name d \<equiv> set_ed_Labels (mdelete (WorkloadLabel name) (ed_Labels d)) d"

definition removal_trace :: "string \<Rightarrow> edge_device \<Rightarrow> io_trace \<Rightarrow> error option \<Rightarrow> bool" where
  "removal_trace name d t err \<longleftrightarrow> (\<exists>r t'. t = (PatchDeviceStatus d (without_workload name d), r) # t' \<and>
     (case object_result as_device r of
        Inl e \<Rightarrow> t' = [] \<and> err = Some e
      | Inr d' \<Rightarrow> if ed_Labels d' = None then t' = [] \<and> err = None
          else \<exists>r'. t' = [(PatchDevice d' (without_label name d'), r')] \<and>
            err = (case object_result as_device r' of Inl e \<Rightarrow> Some e | Inr _ \<Rightarrow> None)))"

lemma removeWorkloadFromDevice_wp:
  "wp (removeWorkloadFromDevice name d) (\<lambda>t out. \<exists>err. out = Returned err \<and> removal_trace name d t err)"
  by (auto simp: removeWorkloadFromDevice_def Let_def go_defs wp_base removal_trace_def split: sum.split)

section \<open>Removal of a workload\<close>

abbreviation removal_patch :: "edge_workload \<Rightarrow> request" where
  "removal_patch w \<equiv> PatchWorkload w
     (set_ew_Finalizers (without YggdrasilDeviceReferenceFinalizer (om_Finalizers (ew_meta w))) w)"

lemma no_workload_patch:
  "issues device_request p \<Longrightarrow> exec p t out \<Longrightarrow> (PatchWorkload w w', r) \<notin> set t"
  by (fastforce simp: issues_exec)

lemma finalizeRemoval_trace:
  assumes n: "0 < sint n" and e: "exec (finalizeRemoval n ds w) t (Returned res)"
    and p: "(PatchWorkload v v', r) \<in> set t"
  shows "v = w \<and> (\<exists>t1. t = t1 @ [(removal_patch w, r)] \<and> (PatchWorkload v v', r) = (removal_patch w, r) \<and>
    (\<forall>c \<in> set t1. device_request (fst c)) \<and>
    (\<forall>d \<in> set ds. \<exists>td. exec (removeWorkloadFromDevice (ew_Name w) d) td (Returned None) \<and> subseq td t1))"
proof -
  let ?work = "executeConcurrent n (removeWorkloadFromDevices (ew_Name w)) ds"
  have dev: "issues device_request ?work"
    by (intro issues_executeConcurrent issues_removeWorkloadFromDevices)
  obtain t1 t2 errs where t: "exec ?work t1 (Returned errs)" "t = t1 @ t2"
    and rest: "exec (case errors_of errs of Some e \<Rightarrow> Ret (Some e)
      | None \<Rightarrow> mapp fst (EdgeWorkload_RemoveFinalizer w YggdrasilDeviceReferenceFinalizer)) t2 (Returned res)"
    using e by (auto simp: finalizeRemoval_def exec_bindp)
  have p2: "(PatchWorkload v v', r) \<in> set t2" using p t no_workload_patch [OF dev] by auto
  then have "errors_of errs = None" using rest by (auto split: option.splits)
  then have "errs = []" and "exec (mapp fst (EdgeWorkload_RemoveFinalizer w YggdrasilDeviceReferenceFinalizer)) t2 (Returned res)"
    using rest by (auto simp: errors_of_def split: if_splits)
  then have "t2 = [(removal_patch w, r)] \<and> (PatchWorkload v v', r) = (removal_patch w, r)"
    using p2 by (auto simp: exec_mapp dest: workload_repo.RemoveFinalizer_request)
  then show ?thesis
    using t \<open>errs = []\<close> dev [unfolded issues_exec] removal_worker.executeConcurrent_done [OF n, of "ew_Name w" ds t1] by auto
qed

definition devices_seen :: "io_trace \<Rightarrow> edge_device set" where
  "devices_seen t = {d. \<exists>ns opt ds. (ListDevices ns opt, RDevices ds) \<in> set t \<and> d \<in> set ds}
     \<union> {d. \<exists>n ns. (GetDevice n ns, RDevice d) \<in> set t}"

lemma devices_seen_simps [simp]:
  "devices_seen [] = {}" "devices_seen (t @ t') = devices_seen t \<union> devices_seen t'"
  by (auto simp: devices_seen_def)

lemma devices_seen_none: "issues device_request p \<Longrightarrow> exec p t out \<Longrightarrow> devices_seen t = {}"
  by (fastforce simp: issues_exec devices_seen_def)

definition listed :: "error + edge_device list \<Rightarrow> edge_device set" where
  "listed x = (case x of Inl _ \<Rightarrow> {} | Inr xs \<Rightarrow> set xs)"

lemma listed_simps [simp]: "listed (Inl e) = {}" "listed (Inr xs) = set xs"
  by (simp_all add: listed_def)

lemma seen_answer [simp]:
  "devices_seen [(ListDevices ns opt, r)] = listed (object_result as_devices r)"
  "devices_seen [(GetDevice n ns, r)] = (case object_result as_device r of Inl _ \<Rightarrow> {} | Inr d \<Rightarrow> {d})"
  by (cases r; auto simp: object_result_def as_defs devices_seen_def)+

lemma seen_labelled:
  "wp (getLabelledEdgeDevices n ns) (\<lambda>t out. \<exists>x. out = Returned x \<and> devices_seen t = listed x)"
  by (simp add: getLabelledEdgeDevices_def go_defs)

lemma seen_matching:
  "wp (getMatchingEdgeDevices w) (\<lambda>t out. \<exists>x. out = Returned x \<and> devices_seen t = listed x)"
  by (auto simp: getMatchingEdgeDevices_def EdgeDevice_ListForSelector_def go_defs wp_base split: sum.split)

lemma exec_or_not_found:
  assumes "exec (or_not_found p k) t out"
  obtains (failed) e where "exec p t (Returned (Inl e))" "\<not> IsNotFound e" "out = Returned (requeue (Some e))"
  | (panicked) m where "exec p t (Panicked m)" "out = Panicked m"
  | (listed) tp tk xs x where "t = tp @ tk" "exec p tp (Returned x)" "exec (k xs) tk out"
      "x = Inr xs \<or> (\<exists>e. x = Inl e \<and> IsNotFound e \<and> xs = [])"
proof -
  from assms consider m where "exec p t (Panicked m)" "out = Panicked m"
    | tp tk x where "t = tp @ tk" "exec p tp (Returned x)" "exec (case x of
        Inl e \<Rightarrow> if IsNotFound e then k [] else Ret (requeue (Some e)) | Inr xs \<Rightarrow> k xs) tk out"
    unfolding or_not_found_def exec_bindp by blast
  then show thesis
  proof cases
    case 1
    then show thesis by (rule panicked)
  next
    case (2 tp tk x)
    show thesis
    proof (cases x)
      case (Inl e)
      then show thesis using 2 failed [of e] listed [of tp tk x "[]"] by (cases "IsNotFound e") auto
    next
      case (Inr xs)
      then show thesis using 2 listed by auto
    qed
  qed
qed

fun reads_cluster :: "request \<Rightarrow> bool" where
  "reads_cluster (ListDevices _ _) = True"
| "reads_cluster (GetDevice _ _) = True"
| "reads_cluster _ = False"

lemma issues_reads:
  "issues reads_cluster (getLabelledEdgeDevices n ns)" "issues reads_cluster (getMatchingEdgeDevices w)"
  by (auto simp: getLabelledEdgeDevices_def getMatchingEdgeDevices_def EdgeDevice_ListForSelector_def go_defs
      split: sum.splits)

text \<open>The lists of devices a reconciliation works on, and the part of the run that follows.\<close>

lemma reconcile_devices_split:
  assumes "exec (reconcile_devices n w) t (Returned res)"
  obtains (failed) e where "\<forall>c \<in> set t. reads_cluster (fst c)" "res = requeue (Some e)"
  | (work) t0 tk labelled matching where "t = t0 @ tk" "\<forall>c \<in> set t0. reads_cluster (fst c)"
      "devices_seen t0 = set matching \<union> set labelled"
      "exec (reconcile_work n w matching labelled) tk (Returned res)"
proof -
  note reads = issues_reads [unfolded issues_exec, THEN spec, THEN spec, THEN mp]
  from assms [unfolded reconcile_devices_def] show ?thesis
  proof (cases rule: exec_or_not_found)
    case (failed e)
    then show ?thesis using that(1) [OF reads(1)] by blast
  next
    case (listed tp tk labelled x)
    note l = this
    from l(3) show ?thesis
    proof (cases rule: exec_or_not_found)
      case (failed e)
      then show ?thesis using that(1) [of e] reads(1) [OF l(2)] reads(2) [OF failed(1)] l(1) by auto
    next
      case (listed tp' tk' matching x')
      have "devices_seen (tp @ tp') = set matching \<union> set labelled"
        using wp_execD [OF seen_labelled l(2)] wp_execD [OF seen_matching listed(2)] l(4) listed(4) by auto
      then show ?thesis
        using that(2) [of "tp @ tp'" tk' matching labelled] reads(1) [OF l(2)] reads(2) [OF listed(2)]
          l(1) listed by auto
    qed auto
  qed auto
qed

lemma no_patch_in_reads: "\<forall>c \<in> set t. reads_cluster (fst c) \<Longrightarrow> (PatchWorkload v v', r) \<notin> set t"
  by fastforce

lemma merge_devices_names: "d \<in> set a \<union> set b \<Longrightarrow> \<exists>d2 \<in> set (merge_devices a b). ed_Name d2 = ed_Name d"
  unfolding merge_devices_def by (cases "ed_Name d \<in> ed_Name ` set a") auto

text \<open>When the finalizer goes, every device that was seen has been cleaned before.\<close>

definition all_removed :: "string \<Rightarrow> io_trace \<Rightarrow> bool" where
  "all_removed name t \<longleftrightarrow> (\<forall>d \<in> devices_seen t. \<exists>d2 td. ed_Name d2 = ed_Name d \<and>
     exec (removeWorkloadFromDevice name d2) td (Returned None) \<and> subseq td t)"

lemma reconcile_devices_removal:
  assumes n: "0 < sint n" and e: "exec (reconcile_devices n w) t (Returned res)"
    and p: "(PatchWorkload v v', r) \<in> set t"
  shows "PatchWorkload v v' = removal_patch w \<and> om_DeletionTimestamp (ew_meta w) \<noteq> None \<and>
    HasFinalizer (ew_meta w) YggdrasilDeviceReferenceFinalizer \<and>
    (\<exists>t1. t = t1 @ [(removal_patch w, r)] \<and> all_removed (ew_Name w) t1)"
  using e
proof (cases rule: reconcile_devices_split)
  case (failed e)
  then show ?thesis using p no_patch_in_reads [of t v v' r] by simp
next
  case (work t0 tk labelled matching)
  let ?ds = "merge_devices matching labelled"
  have pk: "(PatchWorkload v v', r) \<in> set tk" using p work(1) no_patch_in_reads [OF work(2)] by auto
  have no: "(PatchWorkload v v', r) \<notin> set t'" if "issues device_request q" "exec q t' out" for q :: "error option io" and t' out
    using no_workload_patch [OF that] .
  have del: "om_DeletionTimestamp (ew_meta w) \<noteq> None \<and> HasFinalizer (ew_meta w) YggdrasilDeviceReferenceFinalizer"
    using work(4) pk no [OF issues_workers(1)] no [OF issues_workers(2)]
    by (auto simp: reconcile_work_def exec_bindp exec_mapp split: if_split_asm option.split_asm)
  then obtain e where "exec (finalizeRemoval n ?ds w) tk (Returned e)"
    using work(4) by (auto simp: reconcile_work_def exec_mapp)
  from finalizeRemoval_trace [OF n this pk] obtain t1 where t1: "tk = t1 @ [(removal_patch w, r)]"
    "PatchWorkload v v' = removal_patch w" "\<forall>c \<in> set t1. device_request (fst c)"
    "\<forall>d \<in> set ?ds. \<exists>td. exec (removeWorkloadFromDevice (ew_Name w) d) td (Returned None) \<and> subseq td t1"
    by auto
  from t1(3) have "devices_seen t1 = {}" by (fastforce simp: devices_seen_def)
  then have "all_removed (ew_Name w) (t0 @ t1)"
    using t1(4) work(3) merge_devices_names [of _ matching labelled] unfolding all_removed_def
    by simp (metis subseq_appendI(2) Un_iff)
  then show ?thesis using work(1) t1 del by auto
qed

section \<open>The phases of a reconciliation\<close>

definition live :: "edge_workload \<Rightarrow> bool" where
  "live w \<longleftrightarrow> om_DeletionTimestamp (ew_meta w) = None"

definition protected :: "edge_workload \<Rightarrow> bool" where
  "protected w \<longleftrightarrow> HasFinalizer (ew_meta w) YggdrasilDeviceReferenceFinalizer"

definition labels_current :: "edge_workload \<Rightarrow> bool" where
  "labels_current w \<longleftrightarrow> entries (ew_Labels w) = entries (ew_Labels (UpdateSelectorLabels w))"

lemma updateLabelsFromSelector_exec:
  assumes "exec (updateLabelsFromSelector w) t (Returned (updated, err))"
  obtains (current) "t = []" "\<not> updated" "err = None" "labels_current w"
  | (patched) r where "t = [(PatchWorkload w (UpdateSelectorLabels w), r)]" "updated"
proof (cases "(entries (ew_Labels (UpdateSelectorLabels w)) = fmempty \<and> ew_Labels w = None)
    \<or> ew_Labels (UpdateSelectorLabels w) = ew_Labels w")
  case True
  moreover from this have "labels_current w" by (auto simp: labels_current_def)
  ultimately show ?thesis using assms current by (auto simp: updateLabelsFromSelector_def Let_def)
next
  case False
  then show ?thesis
    using assms patched by (auto simp: updateLabelsFromSelector_def Let_def exec_mapp go_defs exec_patch_object)
qed

lemma Reconcile_exec:
  assumes "exec (EdgeWorkload_Reconcile n name ns) t (Returned res)"
  obtains (unread) r e where "t = [(GetWorkload name ns, r)]" "object_result as_workload r = Inl e"
      "res = (if IsNotFound e then no_requeue else requeue (Some e))"
  | (adopt) r w r' err where "t = [(GetWorkload name ns, r),
        (PatchWorkload w (set_ew_Finalizers [YggdrasilDeviceReferenceFinalizer] w), r')]"
      "object_result as_workload r = Inr w" "live w" "\<not> protected w" "res = requeue err"
  | (relabel) r w r' where "t = [(GetWorkload name ns, r), (PatchWorkload w (UpdateSelectorLabels w), r')]"
      "object_result as_workload r = Inr w" "live w" "protected w"
  | (devices) r w t' where "t = (GetWorkload name ns, r) # t'" "object_result as_workload r = Inr w"
      "live w \<longrightarrow> protected w \<and> labels_current w" "exec (reconcile_devices n w) t' (Returned res)"
proof -
  obtain r t' w err where t: "t = (GetWorkload name ns, r) # t'"
    and rd: "(w, err) = (case object_result as_workload r of Inl e \<Rightarrow> (zero_edge_workload, Some e) | Inr a \<Rightarrow> (a, None))"
    and k: "exec (case err of
         Some e \<Rightarrow> Ret (if IsNotFound e then no_requeue else requeue (Some e))
       | None \<Rightarrow>
           if om_DeletionTimestamp (ew_meta w) = None \<and> \<not> HasFinalizer (ew_meta w) YggdrasilDeviceReferenceFinalizer then
             mapp (\<lambda>(err, _). requeue err)
               (EdgeWorkload_Patch w (set_ew_Finalizers [YggdrasilDeviceReferenceFinalizer] w))
           else if om_DeletionTimestamp (ew_meta w) = None then
             bindp (updateLabelsFromSelector w) (\<lambda>(updated, err). case err of
                 Some e \<Rightarrow> Ret (requeue (Some e))
               | None \<Rightarrow> if updated then Ret no_requeue else reconcile_devices n w)
           else reconcile_devices n w) t' (Returned res)"
    using assms by (auto simp: EdgeWorkload_Reconcile_def go_defs exec_bindp exec_read_object)
  show thesis
  proof (cases err)
    case (Some e)
    then have "object_result as_workload r = Inl e" using rd by (cases "object_result as_workload r") auto
    then show thesis using Some k t unread by auto
  next
    case None
    then have w: "object_result as_workload r = Inr w" using rd by (cases "object_result as_workload r") auto
    consider "live w" "\<not> protected w" | "live w" "protected w" | "\<not> live w" by blast
    then show thesis
    proof cases
      case 1
      then show thesis
        using k None t w adopt by (auto simp: live_def protected_def exec_mapp go_defs exec_patch_object)
    next
      case 2
      then obtain t1 t2 updated err' where u: "exec (updateLabelsFromSelector w) t1 (Returned (updated, err'))"
        "t' = t1 @ t2" and k2: "exec (case err' of Some e \<Rightarrow> Ret (requeue (Some e))
               | None \<Rightarrow> if updated then Ret no_requeue else reconcile_devices n w) t2 (Returned res)"
        using k None by (auto simp: live_def protected_def exec_bindp)
      from u(1) show thesis
      proof (cases rule: updateLabelsFromSelector_exec)
        case current
        then show thesis using devices 2 t u k2 w by auto
      next
        case (patched r')
        then have "t2 = []" using k2 by (auto split: option.split_asm)
        then show thesis using relabel patched 2 t u w by auto
      qed
    next
      case 3
      then show thesis using k None t w devices by (auto simp: live_def)
    qed
  qed
qed

end
