(* ===== verification/Workload_Properties.thy ===== *)
theory Workload_Properties
  imports Workload_Reconciler
begin

text \<open>
  What the workload controller guarantees: the split of the device list, the effect of a worker under
  any schedule, the finalizer protocol, convergence of the devices, and the selector labels.
\<close>

section \<open>Splitting and scheduling\<close>

text \<open>For a positive number of parts, \<open>splitEdgeDevices\<close> returns contiguous, non-empty parts
  that together are the list, as many as asked for or one per device, and their sizes differ by at most one.\<close>

theorem splitEdgeDevices_correct:
  assumes "0 < sint n"
  shows "\<exists>parts. splitEdgeDevices ds n = Some (Inr parts) \<and> concat parts = ds
    \<and> int (length parts) = min (sint n) (int (length ds))
    \<and> (\<forall>c \<in> set parts. int (length c) = int (length ds) div sint n \<or> int (length c) = int (length ds) div sint n + 1)
    \<and> [] \<notin> set parts"
  using assms by (rule splitEdgeDevices_split)

theorem splitEdgeDevices_correct_witness:
  "\<exists>parts. splitEdgeDevices [1, 2, 3, 4, 5 :: nat] 2 = Some (Inr parts) \<and> concat parts = [1, 2, 3, 4, 5]
    \<and> length parts = 2 \<and> (\<forall>c \<in> set parts. length c = 2 \<or> length c = 3)"
  using splitEdgeDevices_correct [of 2 "[1, 2, 3, 4, 5 :: nat]"] by (auto simp: min_def)

text \<open>Property C39: the loop of \<open>splitEdgeDevices\<close> ends for every list and every machine integer, also for
  those that are negative as an \<open>int\<close> (it then either finishes or panics on a slice bound).\<close>

theorem splitEdgeDevices_terminates: "\<exists>r. splitEdgeDevices ds n = Some r"
  using splitEdgeDevices_ends [of ds n] by auto

text \<open>Property C34: whatever the scheduler does, with a positive number of workers (as an \<open>int\<close>) and devices to divide among them,
  \<open>ExecuteConcurrent\<close> returns the errors of the parts in order, and its requests are an interleaving of one run of the worker on each
  part.\<close>

theorem ExecuteConcurrent_interleaves:
  assumes "0 < sint n" and "exec (ExecuteConcurrent n f ds) t (Returned errs)" and "ds \<noteq> []"
  shows "\<exists>parts ts ess. concat parts = ds \<and> errs = concat ess \<and> length ts = length parts \<and> length ess = length parts
    \<and> (\<forall>i < length parts. exec (f (parts ! i)) (ts ! i) (Returned (ess ! i)))
    \<and> t \<in> shuffle_all ts \<and> mset t = (\<Sum>x \<leftarrow> ts. mset x)"
proof -
  obtain parts where p: "splitEdgeDevices ds n = Some (Inr parts)" "concat parts = ds"
    using splitEdgeDevices_split [OF assms(1), of ds] by blast
  have "n \<noteq> 0" using assms(1) by auto
  then obtain ess where e: "exec (par_list (map f parts)) t (Returned ess)" "errs = concat ess"
    using assms p by (auto simp: ExecuteConcurrent_def exec_mapp)
  from exec_par_listD [OF e(1)] obtain ts where "t \<in> shuffle_all ts" "length ts = length parts"
    "length ess = length parts" "\<forall>i < length parts. exec (f (parts ! i)) (ts ! i) (Returned (ess ! i))"
    by auto
  then show ?thesis
    using p(2) e(2) mset_shuffle_all [of t ts] by (intro exI [of _ parts] exI [of _ ts] exI [of _ ess]) simp
qed

text \<open>A device for the witnesses.\<close>

definition sample_device :: "string \<Rightarrow> edge_device" where
  "sample_device name = set_ed_Workloads (Some [new_workload ''web''])
     (zero_edge_device\<lparr>ed_meta := zero_meta\<lparr>om_Name := name, om_Namespace := ''ns'',
        om_Labels := Some (fmap_of_list [(WorkloadLabel ''web'', ''true'')])\<rparr>\<rparr>)"

definition sample_workload :: edge_workload where
  "sample_workload = zero_edge_workload\<lparr>ew_meta := zero_meta\<lparr>om_Name := ''web'', om_Namespace := ''ns'',
     om_Finalizers := [YggdrasilDeviceReferenceFinalizer], om_DeletionTimestamp := Some 1\<rparr>\<rparr>"

lemma sample_removal_run:
  "exec (removeWorkloadFromDevices ''web'' [sample_device ''a''])
     [(PatchDeviceStatus (sample_device ''a'') (without_workload ''web'' (sample_device ''a'')), RDevice (sample_device ''a'')),
      (PatchDevice (sample_device ''a'') (without_label ''web'' (sample_device ''a'')), RDevice (sample_device ''a''))]
     (Returned [])"
proof -
  have l: "ed_Labels (sample_device ''a'') \<noteq> None" by (simp add: sample_device_def set_ed_Workloads_def)
  show ?thesis
    by (rule replay_exec [of _ "[RDevice (sample_device ''a''), RDevice (sample_device ''a'')]" "[]"])
      (use l in \<open>simp add: removeWorkloadFromDevice_def Let_def go_defs patch_object_def call_object_def mapp_def
        as_device_def add_error_def\<close>)
qed

theorem ExecuteConcurrent_interleaves_witness:
  "\<exists>parts ts ess. concat parts = [sample_device ''a''] \<and> [] = concat ess \<and> length ts = length parts
    \<and> (\<forall>i < length parts. exec (removeWorkloadFromDevices ''web'' (parts ! i)) (ts ! i) (Returned (ess ! i)))"
proof -
  have "exec (ExecuteConcurrent 1 (removeWorkloadFromDevices ''web'') [sample_device ''a''])
     [(PatchDeviceStatus (sample_device ''a'') (without_workload ''web'' (sample_device ''a'')), RDevice (sample_device ''a'')),
      (PatchDevice (sample_device ''a'') (without_label ''web'' (sample_device ''a'')), RDevice (sample_device ''a''))]
     (Returned [])"
  proof -
    obtain parts where "splitEdgeDevices [sample_device ''a''] 1 = Some (Inr parts)" "concat parts = [sample_device ''a'']"
      "length parts = 1"
      using splitEdgeDevices_split [of 1 "[sample_device ''a'']"] by auto
    then have "splitEdgeDevices [sample_device ''a''] 1 = Some (Inr [[sample_device ''a'']])"
      by (auto simp: length_Suc_conv)
    then show ?thesis
      using sample_removal_run
      by (auto simp: ExecuteConcurrent_def exec_mapp par2_Ret_right simp del: removeWorkloadFromDevices.simps)
  qed
  from ExecuteConcurrent_interleaves [OF _ this] show ?thesis by auto
qed

section \<open>One device\<close>

text \<open>Removing a workload from a device patches the status without the workload first, and the
  labels without the workload's label only after that patch was accepted; no other request is made, and
  the first error ends it.\<close>

theorem removeWorkloadFromDevice_requests:
  "exec (removeWorkloadFromDevice name d) t out \<longrightarrow> (\<exists>err. out = Returned err \<and> (\<exists>r t'.
     t = (PatchDeviceStatus d (without_workload name d), r) # t' \<and>
     (case object_result as_device r of
        Inl e \<Rightarrow> t' = [] \<and> err = Some e
      | Inr d' \<Rightarrow> if ed_Labels d' = None then t' = [] \<and> err = None
          else \<exists>r'. t' = [(PatchDevice d' (without_label name d'), r')] \<and>
            err = (case object_result as_device r' of Inl e \<Rightarrow> Some e | Inr _ \<Rightarrow> None))))"
  using wp_execD [OF removeWorkloadFromDevice_wp, of name d t out] by (auto simp: removal_trace_def)

theorem removeWorkloadFromDevice_requests_witness:
  "\<exists>t. exec (removeWorkloadFromDevice ''web'' (sample_device ''a'')) t (Returned None) \<and>
     fst (hd t) = PatchDeviceStatus (sample_device ''a'') (without_workload ''web'' (sample_device ''a''))"
proof -
  obtain t where t: "exec (removeWorkloadFromDevice ''web'' (sample_device ''a'')) t (Returned None)"
    using sample_removal_run by (auto simp: exec_bindp exec_mapp)
  then show ?thesis
    using removeWorkloadFromDevice_requests [THEN mp, OF t] by auto
qed

section \<open>The finalizer protocol\<close>

text \<open>Property C1: a reconciliation that takes the finalizer off a workload does so with its last request,
  the workload is being deleted, and before that request every device that was listed (by label, by
  selector or by name) has had the workload removed without an error, in every interleaving of the
  goroutines. The number of workers has to be positive as an \<open>int\<close>.\<close>

theorem finalizer_removed_last:
  assumes "0 < sint n" and "exec (EdgeWorkload_Reconcile n name ns) t (Returned res)"
    and "(PatchWorkload w w', r) \<in> set t"
    and "YggdrasilDeviceReferenceFinalizer \<in> set (om_Finalizers (ew_meta w))"
    and "YggdrasilDeviceReferenceFinalizer \<notin> set (om_Finalizers (ew_meta w'))"
  shows "om_DeletionTimestamp (ew_meta w) \<noteq> None \<and>
    (\<exists>t1. t = t1 @ [(PatchWorkload w w', r)] \<and> (\<forall>d \<in> devices_seen t1. \<exists>d2 td. ed_Name d2 = ed_Name d \<and>
       exec (removeWorkloadFromDevice (ew_Name w) d2) td (Returned None) \<and> subseq td t1))"
  using assms(2)
proof (cases rule: Reconcile_exec)
  case (adopt r0 v r' err)
  then show ?thesis using assms(3-5) by (auto simp: protected_def HasFinalizer_def)
next
  case (relabel r0 v r')
  then show ?thesis using assms(3-5) by (auto simp: UpdateSelectorLabels_def Let_def)
next
  case (devices r0 v t')
  then have "(PatchWorkload w w', r) \<in> set t'" using assms(3) by auto
  from reconcile_devices_removal [OF assms(1) devices(4) this] obtain t1 where
    "w = v" "PatchWorkload w w' = removal_patch v" "om_DeletionTimestamp (ew_meta v) \<noteq> None"
    "t' = t1 @ [(removal_patch v, r)]" "all_removed (ew_Name v) t1" by auto
  moreover have "devices_seen ((GetWorkload name ns, r0) # t1) = devices_seen t1"
    by (auto simp: devices_seen_def)
  then have "all_removed (ew_Name v) ((GetWorkload name ns, r0) # t1)"
    using \<open>all_removed (ew_Name v) t1\<close> unfolding all_removed_def by (metis list_emb_Cons)
  ultimately show ?thesis using devices(1) by (auto simp: all_removed_def)
qed (use assms(3) in auto)

text \<open>No device is written to on behalf of a workload before the workload carries the
  finalizer that guards its removal.\<close>

theorem device_writes_guarded:
  assumes "exec (EdgeWorkload_Reconcile n name ns) t (Returned res)" and "(q, r) \<in> set t"
    and "is_write q" and "\<forall>v v'. q \<noteq> PatchWorkload v v'"
  shows "\<exists>w r0. hd t = (GetWorkload name ns, r0) \<and> object_result as_workload r0 = Inr w \<and>
    HasFinalizer (ew_meta w) YggdrasilDeviceReferenceFinalizer"
  using assms(1)
proof (cases rule: Reconcile_exec)
  case (devices r0 w t')
  have "protected w"
  proof (rule ccontr)
    assume p: "\<not> protected w"
    then have del: "om_DeletionTimestamp (ew_meta w) \<noteq> None" using devices(3) by (auto simp: live_def)
    from devices(4) show False
    proof (cases rule: reconcile_devices_split)
      case (failed e)
      then show False using assms(2,3) devices(1) by (cases q) fastforce+
    next
      case (work t0 tk labelled matching)
      then have "tk = []" using del p by (auto simp: reconcile_work_def protected_def)
      then show False using assms(2,3) devices(1) work by (cases q) fastforce+
    qed
  qed
  then show ?thesis using devices by (simp add: protected_def)
qed (use assms(2-4) in auto)

section \<open>Convergence\<close>

text \<open>
  The two questions of a reconciliation: which devices carry the label of the workload, and which device or devices it is
  meant for; and the devices in the answers to a request of a run.
\<close>

definition devices_answered :: "request \<Rightarrow> io_trace \<Rightarrow> edge_device set" where
  "devices_answered q t = devices_seen (filter (\<lambda>c. fst c = q) t)"

definition labelled_request :: "edge_workload \<Rightarrow> request" where
  "labelled_request w = ListDevices (ew_Namespace w) (MatchingLabels [(DeviceByWorkloadIndexKey, ew_Name w)])"

definition matching_request :: "edge_workload \<Rightarrow> request option" where
  "matching_request w =
     (if ws_Device (ew_Spec w) \<noteq> [] then Some (GetDevice (ws_Device (ew_Spec w)) (ew_Namespace w))
      else map_option (\<lambda>s. ListDevices (ew_Namespace w) (MatchingSelector s)) (ws_DeviceSelector (ew_Spec w)))"

definition matching_devices :: "edge_workload \<Rightarrow> io_trace \<Rightarrow> edge_device set" where
  "matching_devices w t = (case matching_request w of None \<Rightarrow> {} | Some q \<Rightarrow> devices_answered q t)"

text \<open>
  What it takes for a device to have a workload: its status lists it, or a patch of its status that adds nothing but this workload was
  accepted; and the device that this leaves carries the label, or a patch that sets the label was accepted.
\<close>

abbreviation workload_names :: "edge_device \<Rightarrow> string set" where
  "workload_names d \<equiv> wl_Name ` set (elems (es_Workloads (ed_Status d)))"

definition status_lists :: "string \<Rightarrow> io_trace \<Rightarrow> edge_device \<Rightarrow> edge_device \<Rightarrow> bool" where
  "status_lists name t d d1 \<longleftrightarrow> name \<in> workload_names d \<and> d1 = d \<or>
     (\<exists>new. (PatchDeviceStatus d new, RDevice d1) \<in> set t \<and> workload_names new = insert name (workload_names d))"

definition labelled_with :: "string \<Rightarrow> io_trace \<Rightarrow> edge_device \<Rightarrow> bool" where
  "labelled_with name t d \<longleftrightarrow> mget (ed_Labels d) (WorkloadLabel name) \<noteq> None \<or>
     (\<exists>new d'. (PatchDevice d new, RDevice d') \<in> set t \<and> mget (ed_Labels new) (WorkloadLabel name) = Some ''true'')"

definition placed :: "string \<Rightarrow> io_trace \<Rightarrow> edge_device \<Rightarrow> bool" where
  "placed name t d \<longleftrightarrow> (\<exists>d1. status_lists name t d d1 \<and> labelled_with name t d1)"

text \<open>And to lose it: the status without it was accepted, and then the labels without its label, if there are labels.\<close>

definition status_drops :: "string \<Rightarrow> io_trace \<Rightarrow> edge_device \<Rightarrow> edge_device \<Rightarrow> bool" where
  "status_drops name t d d1 \<longleftrightarrow>
     (\<exists>new. (PatchDeviceStatus d new, RDevice d1) \<in> set t \<and> workload_names new = workload_names d - {name})"

definition unlabelled :: "string \<Rightarrow> io_trace \<Rightarrow> edge_device \<Rightarrow> bool" where
  "unlabelled name t d \<longleftrightarrow> ed_Labels d = None \<or>
     (\<exists>new d'. (PatchDevice d new, RDevice d') \<in> set t \<and> mget (ed_Labels new) (WorkloadLabel name) = None)"

definition displaced :: "string \<Rightarrow> io_trace \<Rightarrow> edge_device \<Rightarrow> bool" where
  "displaced name t d \<longleftrightarrow> (\<exists>d1. status_drops name t d d1 \<and> unlabelled name t d1)"

lemma subseq_set: "subseq xs ys \<Longrightarrow> set xs \<subseteq> set ys"
  by (auto dest: list_emb_set)

lemma placed_mono:
  assumes "set t \<subseteq> set t'"
  shows "placed name t d \<Longrightarrow> placed name t' d"
proof -
  have "status_lists name t d d1 \<Longrightarrow> status_lists name t' d d1" "labelled_with name t d1 \<Longrightarrow> labelled_with name t' d1" for d1
    using assms unfolding status_lists_def labelled_with_def by blast+
  then show "placed name t d \<Longrightarrow> placed name t' d" unfolding placed_def by blast
qed

lemma displaced_mono:
  assumes "set t \<subseteq> set t'"
  shows "displaced name t d \<Longrightarrow> displaced name t' d"
proof -
  have "status_drops name t d d1 \<Longrightarrow> status_drops name t' d d1" "unlabelled name t d1 \<Longrightarrow> unlabelled name t' d1" for d1
    using assms unfolding status_drops_def unlabelled_def by blast+
  then show "displaced name t d \<Longrightarrow> displaced name t' d" unfolding displaced_def by blast
qed

lemma object_result_device: "object_result as_device r = Inr d \<longleftrightarrow> r = RDevice d"
  by (cases r) (auto simp: object_result_def as_device_def)

lemma workload_names_set [simp]: "workload_names (set_ed_Workloads ws d) = wl_Name ` set (elems ws)"
  by (simp add: set_ed_Workloads_def)

lemma exec_patched_device:
  assumes "exec (patch_object q as_device new) t (Returned (None, d1))"
  shows "t = [(q, RDevice d1)]"
proof -
  from assms obtain r where t: "t = [(q, r)]"
    and r: "(None, d1) = (case object_result as_device r of Inl e \<Rightarrow> (Some e, new) | Inr a \<Rightarrow> (None, a))"
    by (auto simp: exec_patch_object)
  from r have "object_result as_device r = Inr d1" by (cases "object_result as_device r") auto
  then show ?thesis by (simp add: t object_result_device)
qed

lemma addWorkloadToDevice_places:
  assumes "exec (addWorkloadToDevice name d) t (Returned None)"
  shows "placed name t d"
proof -
  let ?with = "set_ed_Workloads (go_append (es_Workloads (ed_Status d)) [new_workload name]) d"
  let ?step = "if hasWorkload d name then Ret (None, d) else EdgeDevice_PatchStatus d ?with"
  let ?label = "\<lambda>d1. set_ed_Labels (Some (fmupd (WorkloadLabel name) ''true'' (entries (ed_Labels d1)))) d1"
  from assms obtain t1 t2 d1 where t: "t = t1 @ t2" and s: "exec ?step t1 (Returned (None, d1))"
    and l: "exec (if hasLabelForWorkload d1 name then Ret None else mapp fst (EdgeDevice_Patch d1 (?label d1))) t2 (Returned None)"
    unfolding addWorkloadToDevice_def exec_bindp by (auto split: option.splits)
  have names: "workload_names ?with = insert name (workload_names d)"
    by (auto simp: go_append_def new_workload_def)
  have "status_lists name t d d1"
  proof (cases "hasWorkload d name")
    case False
    with s have "t1 = [(PatchDeviceStatus d ?with, RDevice d1)]"
      by (auto simp: EdgeDevice_PatchStatus_def dest!: exec_patched_device)
    with names show ?thesis unfolding t status_lists_def by (intro disjI2 exI [of _ ?with]) simp
  next
    case True
    with s have "d1 = d" by simp
    with True show ?thesis by (auto simp: status_lists_def hasWorkload_def)
  qed
  moreover have "labelled_with name t d1"
  proof (cases "hasLabelForWorkload d1 name")
    case False
    with l obtain d2 where "t2 = [(PatchDevice d1 (?label d1), RDevice d2)]"
      by (auto simp: EdgeDevice_Patch_def exec_mapp dest!: exec_patched_device)
    moreover have "mget (ed_Labels (?label d1)) (WorkloadLabel name) = Some ''true''"
      by (simp add: set_ed_Labels_def mget_def)
    ultimately show ?thesis unfolding t labelled_with_def by (intro disjI2 exI [of _ "?label d1"] exI [of _ d2]) simp
  qed (simp add: labelled_with_def hasLabelForWorkload_def)
  ultimately show ?thesis unfolding placed_def by blast
qed

lemma removeWorkloadFromDevice_displaces:
  assumes "exec (removeWorkloadFromDevice name d) t (Returned None)"
  shows "displaced name t d"
proof -
  from wp_execD [OF removeWorkloadFromDevice_wp assms] obtain r t' where
    t: "t = (PatchDeviceStatus d (without_workload name d), r) # t'"
    and k: "case object_result as_device r of Inl e \<Rightarrow> t' = [] \<and> None = Some e
      | Inr d' \<Rightarrow> if ed_Labels d' = None then t' = [] \<and> (None :: error option) = None
          else \<exists>r'. t' = [(PatchDevice d' (without_label name d'), r')] \<and>
            None = (case object_result as_device r' of Inl e \<Rightarrow> Some e | Inr _ \<Rightarrow> None)"
    unfolding removal_trace_def outcome.inject by blast
  from k obtain d1 where r: "r = RDevice d1" 
    and l: "if ed_Labels d1 = None then t' = [] else \<exists>r'. t' = [(PatchDevice d1 (without_label name d1), r')] \<and>
            None = (case object_result as_device r' of Inl e \<Rightarrow> Some e | Inr _ \<Rightarrow> None)"
  proof (cases "object_result as_device r")
    case (Inr d1)
    with k that [of d1] show thesis by (simp add: object_result_device)
  qed simp
  have "workload_names (without_workload name d) = workload_names d - {name}" by auto
  with t r have "status_drops name t d d1" unfolding status_drops_def by auto
  moreover have "unlabelled name t d1"
  proof (cases "ed_Labels d1 = None")
    case False
    with l obtain r' where t': "t' = [(PatchDevice d1 (without_label name d1), r')]"
      and r': "None = (case object_result as_device r' of Inl e \<Rightarrow> Some e | Inr _ \<Rightarrow> None)" by auto
    from r' obtain d2 where "r' = RDevice d2" by (cases "object_result as_device r'") (auto simp: object_result_device)
    moreover have "mget (ed_Labels (without_label name d1)) (WorkloadLabel name) = None"
      by (cases "ed_Labels d1") (simp_all add: set_ed_Labels_def mget_def mdelete_def)
    ultimately show ?thesis unfolding t t' unlabelled_def by (intro disjI2 exI [of _ "without_label name d1"] exI [of _ d2]) simp
  qed (simp add: unlabelled_def)
  ultimately show ?thesis unfolding displaced_def by blast
qed

text \<open>The questions are asked first, and their answers are the lists that the rest of the run works on.\<close>

lemma collect_error: "collect f xs = Inl e \<Longrightarrow> \<exists>x \<in> set xs. f x = Inl e"
  by (induction xs) (auto split: sum.splits)

lemma selector_error: 
  assumes "LabelSelectorAsSelector s = Inl e" 
  shows "\<not> IsNotFound e"
  using assms
  by (auto simp: LabelSelectorAsSelector_def NewRequirement_def expression_requirement_def invalid_requirement_def
      dest!: collect_error split: option.splits sum.splits if_splits)

lemma exec_labelled_devices:
  assumes "exec (getLabelledEdgeDevices (ew_Name w) (ew_Namespace w)) t (Returned x)"
  shows "\<exists>r. t = [(labelled_request w, r)] \<and> devices_seen t = listed x"
  using assms by (auto simp: getLabelledEdgeDevices_def go_defs exec_call_object labelled_request_def)

lemma exec_matching_devices:
  assumes "exec (getMatchingEdgeDevices w) t (Returned x)" "x = Inr xs \<or> (\<exists>e. x = Inl e \<and> IsNotFound e \<and> xs = [])"
  shows "case matching_request w of None \<Rightarrow> t = [] \<and> xs = [] | Some q \<Rightarrow> \<exists>r. t = [(q, r)]"
proof -
  consider "ws_Device (ew_Spec w) \<noteq> []" | s where "ws_Device (ew_Spec w) = []" "ws_DeviceSelector (ew_Spec w) = Some s"
    | "ws_Device (ew_Spec w) = []" "ws_DeviceSelector (ew_Spec w) = None" by fastforce
  then show ?thesis
  proof cases
    case 1
    with assms(1) show ?thesis
      by (auto simp: getMatchingEdgeDevices_def EdgeDevice_Read_def exec_mapp exec_read_object matching_request_def)
  next
    case (2 s)
    with assms(1) have e: "exec (EdgeDevice_ListForSelector (Some s) (ew_Namespace w)) t (Returned x)"
      by (simp add: getMatchingEdgeDevices_def)
    show ?thesis
    proof (cases "LabelSelectorAsSelector (Some s)")
      case (Inl err)
      with e selector_error assms(2) show ?thesis by (auto simp: EdgeDevice_ListForSelector_def)
    next
      case (Inr sel)
      with e 2 show ?thesis by (auto simp: EdgeDevice_ListForSelector_def exec_call_object matching_request_def)
    qed
  next
    case 3
    with assms show ?thesis by (auto simp: getMatchingEdgeDevices_def matching_request_def)
  qed
qed


lemma worker_requests:
  assumes "exec (reconcile_work n w matching labelled) t out" "om_DeletionTimestamp (ew_meta w) = None" "(q, r) \<in> set t"
  shows "device_request q"
proof -
  have "issues device_request (reconcile_work n w matching labelled)"
    using assms(2) by (auto simp: reconcile_work_def intro!: issues_bindpI issues_workers split: option.split)
  with assms(1,3) show ?thesis by (fastforce simp: issues_exec)
qed

lemma devices_answered_simps [simp]:
  "devices_answered q [] = {}" "devices_answered q (t @ t') = devices_answered q t \<union> devices_answered q t'"
  by (simp_all add: devices_answered_def)

lemma devices_answered_Cons:
  "devices_answered q ((q', r) # t) = (if q' = q then devices_seen [(q', r)] else {}) \<union> devices_answered q t"
  using devices_seen_simps(2) [of "[(q', r)]" "filter (\<lambda>c. fst c = q) t"] by (auto simp: devices_answered_def)

lemma devices_answered_none:
  assumes "\<And>r. (q, r) \<notin> set t"
  shows "devices_answered q t = {}"
proof -
  have "filter (\<lambda>c. fst c = q) t = []" using assms by (auto simp: filter_empty_conv)
  then show ?thesis by (simp add: devices_answered_def)
qed

lemma reconcile_devices_reads:
  assumes "exec (reconcile_devices n w) t (Returned (False, None))" "om_DeletionTimestamp (ew_meta w) = None"
  obtains r tm tk labelled matching where "t = [(labelled_request w, r)] @ tm @ tk"
      "case matching_request w of None \<Rightarrow> tm = [] | Some q \<Rightarrow> \<exists>r'. tm = [(q, r')]"
      "devices_answered (labelled_request w) t = set labelled" "matching_devices w t = set matching"
      "exec (reconcile_work n w matching labelled) tk (Returned (False, None))"
proof -
  from assms(1) [unfolded reconcile_devices_def] obtain tl t1 labelled x where
    l: "t = tl @ t1" "exec (getLabelledEdgeDevices (ew_Name w) (ew_Namespace w)) tl (Returned x)"
      "x = Inr labelled \<or> (\<exists>e. x = Inl e \<and> IsNotFound e \<and> labelled = [])"
    and k: "exec (or_not_found (getMatchingEdgeDevices w) (\<lambda>ds. reconcile_work n w ds labelled)) t1 (Returned (False, None))"
    by (cases rule: exec_or_not_found) (auto simp: requeue_def)
  from k obtain tm tk matching y where
    m: "t1 = tm @ tk" "exec (getMatchingEdgeDevices w) tm (Returned y)"
      "y = Inr matching \<or> (\<exists>e. y = Inl e \<and> IsNotFound e \<and> matching = [])"
    and work: "exec (reconcile_work n w matching labelled) tk (Returned (False, None))"
    by (cases rule: exec_or_not_found) (auto simp: requeue_def)
  from exec_labelled_devices [OF l(2)] obtain r where tl: "tl = [(labelled_request w, r)]" and seen: "devices_seen tl = listed x" by blast
  have tm: "case matching_request w of None \<Rightarrow> tm = [] \<and> matching = [] | Some q \<Rightarrow> \<exists>r. tm = [(q, r)]"
    by (rule exec_matching_devices [OF m(2,3)])
  have differ: "matching_request w \<noteq> Some (labelled_request w)"
    by (simp add: matching_request_def labelled_request_def)
  have tk: "devices_answered q tk = {}" if "\<not> device_request q" for q
    using worker_requests [OF work assms(2)] that by (intro devices_answered_none) blast
  have lab: "\<not> device_request (labelled_request w)" by (simp add: labelled_request_def)
  have "devices_answered (labelled_request w) t = set labelled"
    using l(3) tm differ seen tk [OF lab] unfolding l(1) m(1) tl
    by (auto simp: devices_answered_Cons split: option.splits)
  moreover have "matching_devices w t = set matching"
  proof (cases "matching_request w")
    case None
    with tm show ?thesis by (simp add: matching_devices_def)
  next
    case (Some q)
    with tm obtain r' where tm': "tm = [(q, r')]" by auto
    have "\<not> device_request q" using Some by (auto simp: matching_request_def split: if_splits)
    from tk [OF this] differ Some have "matching_devices w t = devices_seen tm"
      unfolding l(1) m(1) tl tm' by (auto simp: matching_devices_def devices_answered_Cons)
    with wp_execD [OF seen_matching m(2)] m(3) show ?thesis by auto
  qed
  moreover have "case matching_request w of None \<Rightarrow> tm = [] | Some q \<Rightarrow> \<exists>r. tm = [(q, r)]"
    using tm by (simp split: option.splits)
  ultimately show thesis using that [of r tm tk labelled matching] work l(1) m(1) tl by simp
qed

text \<open>Property C2: when the reconciliation of a live workload ends without an error, with a positive number of workers (as an \<open>int\<close>),
  it has asked which devices carry the label of the workload and, when the workload names a device or has a selector, which devices match.
  Every device in the answer to the second question has got the workload in the course of the run: its status lists the workload, before or
  after a patch that was accepted, and its labels carry the label, before or after a patch that was accepted. Every device in the answer
  to the first question whose name is not among the matching ones has lost it: a status without the workload was accepted and, if the
  device has labels, labels without its label.\<close>

theorem reconcile_converges:
  assumes "0 < sint n" and "exec (reconcile_devices n w) t (Returned (False, None))"
    and "om_DeletionTimestamp (ew_meta w) = None"
  shows "labelled_request w \<in> fst ` set t \<and> (\<forall>q. matching_request w = Some q \<longrightarrow> q \<in> fst ` set t) \<and>
    (\<forall>d \<in> matching_devices w t. placed (ew_Name w) t d) \<and>
    (\<forall>d \<in> devices_answered (labelled_request w) t.
       ed_Name d \<notin> ed_Name ` matching_devices w t \<longrightarrow> displaced (ew_Name w) t d)"
proof -
  from assms(2,3) obtain r tm tk labelled matching where t: "t = [(labelled_request w, r)] @ tm @ tk"
    and tm: "case matching_request w of None \<Rightarrow> tm = [] | Some q \<Rightarrow> \<exists>r'. tm = [(q, r')]"
    and ds: "devices_answered (labelled_request w) t = set labelled" "matching_devices w t = set matching"
    and work: "exec (reconcile_work n w matching labelled) tk (Returned (False, None))"
    by (rule reconcile_devices_reads)
  let ?add = "executeConcurrent n (cancellable_loop (addWorkloadToDevice (ew_Name w))) matching"
  let ?prune = "executeConcurrent n (cancellable_loop (removeUnlessMatching (ew_Name w) matching)) labelled"
  obtain ta tb where tab: "tk = ta @ tb" "exec (addWorkloadsToDevices n (ew_Name w) matching) ta (Returned None)"
    "exec (removeWorkloadFromNonMatchingDevices n (ew_Name w) matching labelled) tb (Returned None)"
    using work assms(3)
    by (auto simp: reconcile_work_def exec_bindp exec_mapp requeue_def result_of_def no_requeue_def split: option.split_asm)
  have add: "exec ?add ta (Returned [])" and prune: "exec ?prune tb (Returned [])"
    using tab(2,3) by (auto simp: addWorkloadsToDevices_def removeWorkloadFromNonMatchingDevices_def exec_mapp
        errors_of_def split: if_splits)
  have sub: "set ta \<subseteq> set t" "set tb \<subseteq> set t" using t tab(1) by auto
  have "placed (ew_Name w) t d" if "d \<in> set matching" for d
  proof -
    from add_worker.executeConcurrent_done [OF assms(1) add that] obtain td where
      "exec (addWorkloadToDevice (ew_Name w) d) td (Returned None)" "subseq td ta" by blast
    with sub(1) show ?thesis by (blast intro: placed_mono addWorkloadToDevice_places dest: subseq_set)
  qed
  moreover have "displaced (ew_Name w) t d" if "d \<in> set labelled" "ed_Name d \<notin> ed_Name ` set matching" for d
  proof -
    from prune_worker.executeConcurrent_done [OF assms(1) prune that(1)] that(2) obtain td where
      "exec (removeWorkloadFromDevice (ew_Name w) d) td (Returned None)" "subseq td tb"
      by (auto simp: removeUnlessMatching_def)
    with sub(2) show ?thesis by (blast intro: displaced_mono removeWorkloadFromDevice_displaces dest: subseq_set)
  qed
  moreover have "q \<in> fst ` set t" if "matching_request w = Some q" for q using that tm t by auto
  ultimately show ?thesis unfolding ds using t by simp
qed

section \<open>Witnesses\<close>

text \<open>A deletion with one labelled device, by a single worker.\<close>

definition deletion_answers :: "response list" where
  "deletion_answers = [RWorkload sample_workload, RDevices [sample_device ''a''], RDevice (sample_device ''a''),
     RDevice (sample_device ''a''), ROk]"

lemma deletion_run:
  "map_option (\<lambda>(t, out). (out, fst (last t), fst (t ! 2), length t))
     (replay (EdgeWorkload_Reconcile 1 ''web'' ''ns'') deletion_answers []) =
   Some (Returned (False, None), removal_patch sample_workload,
     PatchDeviceStatus (sample_device ''a'') (without_workload ''web'' (sample_device ''a'')), 5)"
  by code_simp

lemma deletion_exec:
  obtains t r where "exec (EdgeWorkload_Reconcile 1 ''web'' ''ns'') t (Returned (False, None))"
    "(removal_patch sample_workload, r) \<in> set t"
    "(PatchDeviceStatus (sample_device ''a'') (without_workload ''web'' (sample_device ''a'')), snd (t ! 2)) \<in> set t"
proof -
  obtain t where t: "replay (EdgeWorkload_Reconcile 1 ''web'' ''ns'') deletion_answers [] = Some (t, Returned (False, None))"
    "fst (last t) = removal_patch sample_workload" "length t = 5"
    "fst (t ! 2) = PatchDeviceStatus (sample_device ''a'') (without_workload ''web'' (sample_device ''a''))"
    using deletion_run by auto
  moreover have "last t \<in> set t" "t ! 2 \<in> set t" using t(3) by (auto intro!: last_in_set)
  ultimately show ?thesis
    using that [OF replay_exec, of _ _ t "snd (last t)"] by (metis prod.collapse)
qed

lemma sample_finalizer:
  "YggdrasilDeviceReferenceFinalizer \<in> set (om_Finalizers (ew_meta sample_workload))"
  "YggdrasilDeviceReferenceFinalizer \<notin> set (om_Finalizers (ew_meta
     (set_ew_Finalizers (without YggdrasilDeviceReferenceFinalizer (om_Finalizers (ew_meta sample_workload))) sample_workload)))"
  by (simp_all add: sample_workload_def set_ew_Finalizers_def without_def)

theorem finalizer_removed_last_witness:
  "\<exists>t t1 r w'. exec (EdgeWorkload_Reconcile 1 ''web'' ''ns'') t (Returned (False, None)) \<and>
     t = t1 @ [(PatchWorkload sample_workload w', r)] \<and> (\<forall>d \<in> devices_seen t1. \<exists>d2 td. ed_Name d2 = ed_Name d \<and>
       exec (removeWorkloadFromDevice ''web'' d2) td (Returned None) \<and> subseq td t1)"
proof -
  have name: "ew_Name sample_workload = ''web''" by (simp add: sample_workload_def)
  obtain t r where t: "exec (EdgeWorkload_Reconcile 1 ''web'' ''ns'') t (Returned (False, None))"
    "(removal_patch sample_workload, r) \<in> set t"
    by (rule deletion_exec)
  show ?thesis
    using finalizer_removed_last [OF _ t sample_finalizer] t(1) unfolding name by auto
qed

theorem device_writes_guarded_witness:
  "\<exists>t w r0. exec (EdgeWorkload_Reconcile 1 ''web'' ''ns'') t (Returned (False, None)) \<and>
     hd t = (GetWorkload ''web'' ''ns'', r0) \<and> object_result as_workload r0 = Inr w \<and>
     HasFinalizer (ew_meta w) YggdrasilDeviceReferenceFinalizer"
proof -
  obtain t where t: "exec (EdgeWorkload_Reconcile 1 ''web'' ''ns'') t (Returned (False, None))"
    "(PatchDeviceStatus (sample_device ''a'') (without_workload ''web'' (sample_device ''a'')), snd (t ! 2)) \<in> set t"
    by (rule deletion_exec)
  then show ?thesis using device_writes_guarded [OF t] by auto
qed

definition live_workload :: edge_workload where
  "live_workload = sample_workload\<lparr>ew_meta := (ew_meta sample_workload)\<lparr>om_DeletionTimestamp := None\<rparr>,
     ew_Spec := (ew_Spec sample_workload)\<lparr>ws_Device := ''b''\<rparr>\<rparr>"

definition placement_answers :: "response list" where
  "placement_answers = [RDevices [sample_device ''a''], RDevice zero_edge_device, ROk, RDevice zero_edge_device,
     RDevice zero_edge_device, ROk, RDevice (sample_device ''a''), RDevice (sample_device ''a'')]"

theorem reconcile_converges_witness:
  "\<exists>t. exec (reconcile_devices 1 live_workload) t (Returned (False, None)) \<and>
    displaced ''web'' t (sample_device ''a'') \<and> (\<exists>d. d \<in> matching_devices live_workload t \<and> placed ''web'' t d)"
proof -
  have "map_option (\<lambda>(t, out). (out, map snd (take 2 t), map fst (take 2 t), list_all (device_request \<circ> fst) (drop 2 t))) (replay (reconcile_devices 1 live_workload) placement_answers [])
     = Some (Returned (False, None), [RDevices [sample_device ''a''], RDevice zero_edge_device],
       [labelled_request live_workload, GetDevice ''b'' ''ns''], True)"
    by code_simp
  then obtain t where r: "replay (reconcile_devices 1 live_workload) placement_answers [] = Some (t, Returned (False, None))"
    and answers: "map snd (take 2 t) = [RDevices [sample_device ''a''], RDevice zero_edge_device]"
    and asked: "map fst (take 2 t) = [labelled_request live_workload, GetDevice ''b'' ''ns'']"
    and rest: "list_all (device_request \<circ> fst) (drop 2 t)"
    by auto
  from r have t: "exec (reconcile_devices 1 live_workload) t (Returned (False, None))" by (rule replay_exec)
  have "take 2 t = zip (map fst (take 2 t)) (map snd (take 2 t))" by (simp only: zip_map_fst_snd)
  then have two: "take 2 t = [(labelled_request live_workload, RDevices [sample_device ''a'']),
      (GetDevice ''b'' ''ns'', RDevice zero_edge_device)]" unfolding answers asked by simp
  have live: "om_DeletionTimestamp (ew_meta live_workload) = None" by (simp add: live_workload_def)
  have match: "matching_request live_workload = Some (GetDevice ''b'' ''ns'')" "ew_Name live_workload = ''web''"
    "ed_Name zero_edge_device \<noteq> ed_Name (sample_device ''a'')" by code_simp+
  have t2: "t = [(labelled_request live_workload, RDevices [sample_device ''a'']),
      (GetDevice ''b'' ''ns'', RDevice zero_edge_device)] @ drop 2 t" by (simp only: two [symmetric] append_take_drop_id)
  have none: "devices_answered q (drop 2 t) = {}" if "\<not> device_request q" for q
    using rest that by (intro devices_answered_none) (fastforce simp: list_all_iff)
  have "devices_answered (labelled_request live_workload) t = {sample_device ''a''}"
    by (subst t2) (simp add: devices_answered_Cons none labelled_request_def object_result_def as_devices_def)
  moreover have "matching_devices live_workload t = {zero_edge_device}"
    by (subst t2) (simp add: matching_devices_def match devices_answered_Cons none labelled_request_def object_result_def as_device_def)
  ultimately show ?thesis using reconcile_converges [OF _ t live] t match by auto
qed

section \<open>Selector labels\<close>

text \<open>The labels that describe the device selector of a workload.\<close>

definition selector_labels :: "edge_workload \<Rightarrow> (string \<times> string) set" where
  "selector_labels w =
     (if ws_Device (ew_Spec w) \<noteq> [] then {(CreateSelectorLabel DeviceNameLabel, ws_Device (ew_Spec w))}
      else case ws_DeviceSelector (ew_Spec w) of
        None \<Rightarrow> {}
      | Some sel \<Rightarrow> (\<lambda>l. (CreateSelectorLabel l, ''true'')) ` mkeys (ls_MatchLabels sel)
          \<union> (\<lambda>r. (requirement_label r, ''true'')) ` set (ls_MatchExpressions sel))"

lemma fold_fmupd_const:
  "fmlookup (fold (\<lambda>x m. fmupd (f x) v m) xs m) k = (if k \<in> f ` set xs then Some v else fmlookup m k)"
  by (induction xs arbitrary: m) auto

lemma selector_label_kinds: "(k, v) \<in> selector_labels w \<Longrightarrow> IsSelectorLabel k"
  by (auto simp: selector_labels_def requirement_label_def split: if_splits option.splits)

lemma UpdateSelectorLabels_lookup:
  "mget (ew_Labels (UpdateSelectorLabels w)) k = Some v \<longleftrightarrow>
     (k, v) \<in> selector_labels w \<or> (\<not> IsSelectorLabel k \<and> mget (ew_Labels w) k = Some v)"
proof -
  have ml: "fset (fmdom (entries m)) = mkeys m" for m :: "(string, string) gomap"
    by (cases m) (auto simp: fmdom'_alt_def)
  show ?thesis
    by (auto simp: UpdateSelectorLabels_def Let_def selector_labels_def fold_fmupd_const ml mget_def
        requirement_label_def split: option.split if_splits)
qed

lemma UpdateSelectorLabels_twice: "UpdateSelectorLabels (UpdateSelectorLabels w) = UpdateSelectorLabels w"
proof -
  let ?U = UpdateSelectorLabels
  have U: "?U v = set_ew_Labels (ew_Labels (?U v)) v" and some: "ew_Labels (?U v) \<noteq> None" for v
    by (simp_all add: UpdateSelectorLabels_def Let_def)
  have "selector_labels (?U w) = selector_labels w"
    by (subst U) (simp add: selector_labels_def)
  then have "mget (ew_Labels (?U (?U w))) k = Some v \<longleftrightarrow> mget (ew_Labels (?U w)) k = Some v" for k v
    using selector_label_kinds [of k v w] by (auto simp: UpdateSelectorLabels_lookup)
  then have "mget (ew_Labels (?U (?U w))) k = mget (ew_Labels (?U w)) k" for k
    by (metis not_Some_eq)
  then have "ew_Labels (?U (?U w)) = ew_Labels (?U w)"
    using some [of w] some [of "?U w"] by (auto intro!: fmap_ext)
  then show ?thesis by (metis U set_ew_Labels_simps(7))
qed

text \<open>\<open>UpdateSelectorLabels\<close> leaves exactly the selector labels the specification calls for,
  keeps every other label as it was, changes nothing else, and running it again changes nothing.\<close>

theorem UpdateSelectorLabels_exact:
  "(\<forall>k v. mget (ew_Labels (UpdateSelectorLabels w)) k = Some v \<longleftrightarrow>
     (k, v) \<in> selector_labels w \<or> (\<not> IsSelectorLabel k \<and> mget (ew_Labels w) k = Some v)) \<and>
   ew_Spec (UpdateSelectorLabels w) = ew_Spec w \<and> ew_Name (UpdateSelectorLabels w) = ew_Name w \<and>
   om_Finalizers (ew_meta (UpdateSelectorLabels w)) = om_Finalizers (ew_meta w) \<and>
   UpdateSelectorLabels (UpdateSelectorLabels w) = UpdateSelectorLabels w"
  by (intro conjI allI UpdateSelectorLabels_lookup UpdateSelectorLabels_twice)
    (simp_all add: UpdateSelectorLabels_def Let_def)

end
