(* ===== verification/Config_Reconcilers.thy ===== *)
theory Config_Reconcilers
  imports Workload_Properties
begin

text \<open>
  The controllers of Ansible configuration: \<open>src/controllers/edgeconfig_controller.go\<close> creates a playbook
  execution for every device an EdgeConfig applies to, \<open>src/controllers/playbookexecution_controller.go\<close>
  puts a finalizer on playbook executions. The worker of the first is one more instance of the contract
  \<open>device_worker\<close>.
\<close>

section \<open>EdgeConfigReconciler\<close>

definition ExecuteEdgeConfigConcurrent :: "64 word \<Rightarrow> concurrent_func \<Rightarrow> edge_device list \<Rightarrow> error list io" where
  "ExecuteEdgeConfigConcurrent concurrency f edgeDevices =
     (if edgeDevices = [] \<or> concurrency = 0 then Ret []
      else case splitEdgeDevices edgeDevices concurrency of
        Some (Inr inputs) \<Rightarrow> mapp concat (par_list (map f inputs))
      | Some (Inl m) \<Rightarrow> Panic m
      | None \<Rightarrow> Panic ''does not return'')"

text \<open>\<open>cmd/manager/main.go\<close> hands the controller \<open>ExecuteConcurrent\<close>, not the copy above.\<close>

definition Config_executeConcurrent :: "64 word \<Rightarrow> concurrent_func \<Rightarrow> edge_device list \<Rightarrow> error list io" where
  "Config_executeConcurrent concurrency f edgeDevices =
     (if concurrency = 1 then f edgeDevices else ExecuteConcurrent concurrency f edgeDevices)"

lemma Config_executeConcurrent_eq: "Config_executeConcurrent = executeConcurrent"
  by (intro ext) (simp add: Config_executeConcurrent_def executeConcurrent_def)

lemma ExecuteEdgeConfigConcurrent_eq: "ExecuteEdgeConfigConcurrent = ExecuteConcurrent"
  by (intro ext) (simp add: ExecuteEdgeConfigConcurrent_def ExecuteConcurrent_def)

definition hasPlaybookExecution :: "edge_device \<Rightarrow> string \<Rightarrow> bool" where
  "hasPlaybookExecution edgeDevice name =
     (\<exists>pe \<in> set (elems (es_PlaybookExecutions (ed_Status edgeDevice))). px_Name pe = name)"

definition deploying_condition :: pe_condition where
  "deploying_condition = \<lparr>pc_Type = PlaybookExecutionDeploying, pc_Status = ConditionTrue, pc_Reason = None,
     pc_Message = None, pc_LastTransitionTime = None\<rparr>"

definition execution_of :: "edge_config \<Rightarrow> playbook \<Rightarrow> playbook_execution" where
  "execution_of edgeConfig pb =
     \<lparr>pex_meta = zero_meta\<lparr>om_Name := om_Name (ec_meta edgeConfig), om_Namespace := om_Namespace (ec_meta edgeConfig),
        om_OwnerReferences := [\<lparr>or_APIVersion = ec_APIVersion edgeConfig, or_Kind = ec_Kind edgeConfig,
          or_Name = om_Name (ec_meta edgeConfig), or_UID = om_UID (ec_meta edgeConfig)\<rparr>]\<rparr>,
      pex_Spec = \<lparr>psp_Playbook = pb, psp_ExecutionAttempt = 0\<rparr>,
      pex_Status = \<lparr>pes_Conditions = Some [deploying_condition]\<rparr>\<rparr>"

definition createPlaybookExecutions :: "edge_config \<Rightarrow> ('q, 'r, playbook_execution list) prog" where
  "createPlaybookExecutions edgeConfig =
     bindp (deref (ec_EdgePlaybook edgeConfig)) (\<lambda>spec. Ret (map (execution_of edgeConfig) (eps_Playbooks spec)))"

definition set_pex_Name :: "string \<Rightarrow> playbook_execution \<Rightarrow> playbook_execution" where
  "set_pex_Name n p = p\<lparr>pex_meta := (pex_meta p)\<lparr>om_Name := n\<rparr>\<rparr>"

definition add_PlaybookExec :: "playbook_exec \<Rightarrow> edge_device \<Rightarrow> edge_device" where
  "add_PlaybookExec pe d = d\<lparr>ed_Status := (ed_Status d)\<lparr>es_PlaybookExecutions :=
     go_append (es_PlaybookExecutions (ed_Status d)) [pe]\<rparr>\<rparr>"

text \<open>
  The loop over the playbooks for one device. The base of every status patch is the device as it was
  before the loop; a failed creation leaves its entry in the local copy, which a later patch then sends.
\<close>

primrec create_executions ::
  "string \<Rightarrow> edge_device \<Rightarrow> playbook_execution list \<Rightarrow> edge_device \<Rightarrow> error list io" where
  "create_executions name base [] edgeDevice = Ret []"
| "create_executions name base (p # ps) edgeDevice =
     (let playbookExecution = set_pex_Name name p;
          edgeDevice' = add_PlaybookExec \<lparr>px_Name = name, px_Status = pex_Status playbookExecution\<rparr> edgeDevice
      in bindp (PlaybookExecution_Create playbookExecution) (\<lambda>err. case err of
           Some e \<Rightarrow> mapp (Cons e) (create_executions name base ps edgeDevice')
         | None \<Rightarrow> bindp (EdgeDevice_PatchStatus base edgeDevice') (\<lambda>(err2, edgeDevice'').
             mapp (add_error err2) (create_executions name base ps edgeDevice''))))"

definition addPlaybookExecutionToDevice ::
  "edge_config \<Rightarrow> playbook_execution list \<Rightarrow> edge_device \<Rightarrow> error list io" where
  "addPlaybookExecutionToDevice edgeConfig bases edgeDevice =
     (let name = ed_Name edgeDevice @ ''-'' @ om_Name (ec_meta edgeConfig) in
      if hasPlaybookExecution edgeDevice name then Ret []
      else create_executions name edgeDevice bases edgeDevice)"

primrec config_loop :: "(edge_device \<Rightarrow> error list io) \<Rightarrow> edge_device list \<Rightarrow> error list io" where
  "config_loop step [] = Ret []"
| "config_loop step (d # ds) =
     bindp ctx_done (\<lambda>c. case c of
         Some e \<Rightarrow> Ret [context_canceled e]
       | None \<Rightarrow> bindp (step d) (\<lambda>es. mapp (\<lambda>rest. es @ rest) (config_loop step ds)))"

definition addPlaybookExecutionToDevices :: "64 word \<Rightarrow> edge_config \<Rightarrow> edge_device list \<Rightarrow> error option io" where
  "addPlaybookExecutionToDevices concurrency edgeConfig edgeDevices =
     bindp (createPlaybookExecutions edgeConfig) (\<lambda>bases.
       mapp errors_of (Config_executeConcurrent concurrency
         (config_loop (addPlaybookExecutionToDevice edgeConfig bases)) edgeDevices))"

definition EdgeConfig_Reconcile :: "64 word \<Rightarrow> string \<Rightarrow> string \<Rightarrow> reconcile_result io" where
  "EdgeConfig_Reconcile concurrency name namespace =
     bindp (EdgeConfig_Read name namespace) (\<lambda>(edgeConfig, err). case err of
         Some e \<Rightarrow> Ret (if IsNotFound e then no_requeue else requeue (Some e))
       | None \<Rightarrow>
           if om_DeletionTimestamp (ec_meta edgeConfig) \<noteq> None then Ret no_requeue
           else bindp (EdgeDevice_ListForEdgeConfig (om_Name (ec_meta edgeConfig)) (om_Namespace (ec_meta edgeConfig)))
             (\<lambda>res. case res of
               Inl e \<Rightarrow> Ret (if IsNotFound e then (False, Some e) else requeue (Some e))
             | Inr edgeDevices \<Rightarrow>
                 if edgeDevices = [] then Ret no_requeue
                 else mapp (\<lambda>err. case err of
                     Some e \<Rightarrow> if IsAlreadyExists e then no_requeue else requeue (Some e)
                   | None \<Rightarrow> no_requeue)
                   (addPlaybookExecutionToDevices concurrency edgeConfig edgeDevices)))"

section \<open>PlaybookExecutionReconciler\<close>

definition PlaybookExecution_Reconcile :: "string \<Rightarrow> string \<Rightarrow> reconcile_result io" where
  "PlaybookExecution_Reconcile name namespace =
     bindp (PlaybookExecution_Read name namespace) (\<lambda>(p, err). case err of
         Some e \<Rightarrow> Ret (if IsNotFound e then no_requeue else requeue (Some e))
       | None \<Rightarrow>
           if om_DeletionTimestamp (pex_meta p) = None \<and> \<not> HasFinalizer (pex_meta p) YggdrasilDeviceReferenceFinalizer then
             mapp (\<lambda>(err, _). requeue err)
               (PlaybookExecution_Patch (Some p) (set_pex_Finalizers [YggdrasilDeviceReferenceFinalizer] p))
           else mapp (\<lambda>res. case res of
               Inl e \<Rightarrow> if IsNotFound e then no_requeue else requeue (Some e)
             | Inr _ \<Rightarrow> no_requeue)
             (EdgeDevice_ReadForPlaybookExecution (om_Name (pex_meta p)) namespace))"

section \<open>The worker keeps the contract\<close>

definition first_error :: "error list \<Rightarrow> error option" where
  "first_error es = (case es of [] \<Rightarrow> None | e # _ \<Rightarrow> Some e)"

lemma first_error_None [simp]: "first_error es = None \<longleftrightarrow> es = []" "None = first_error es \<longleftrightarrow> es = []"
  by (auto simp: first_error_def split: list.splits)

interpretation config_worker: device_worker "config_loop step" "\<lambda>d. mapp first_error (step d)"
proof unfold_locales
  fix ds t d
  show "exec (config_loop step ds) t (Returned []) \<Longrightarrow> d \<in> set ds \<Longrightarrow>
      \<exists>td. exec (mapp first_error (step d)) td (Returned None) \<and> subseq td t"
  proof (induction ds arbitrary: t)
    case (Cons x xs)
    then obtain t0 t1 t2 where t: "exec (step x) t1 (Returned [])"
      "exec (config_loop step xs) t2 (Returned [])" "t = t0 @ t1 @ t2"
      by (auto simp: exec_bindp exec_mapp split: option.splits)
    then have x: "exec (mapp first_error (step x)) t1 (Returned None)" by (auto simp: exec_mapp)
    show ?case
    proof (cases "d = x")
      case True
      then show ?thesis using x t(3) by (metis subseq_appendI subseq_order.order_refl)
    next
      case False
      then obtain td where "exec (mapp first_error (step d)) td (Returned None)" "subseq td t2"
        using Cons t by auto
      then show ?thesis using t(3) by (metis subseq_appendI)
    qed
  qed simp
qed

section \<open>Guarantees\<close>

text \<open>What \<open>create_executions\<close> may send.\<close>

fun execution_request :: "edge_config \<Rightarrow> playbook list \<Rightarrow> string \<Rightarrow> edge_device \<Rightarrow> request \<Rightarrow> bool" where
  "execution_request c pbs name base (CreatePlaybookExec p) =
     (\<exists>pb \<in> set pbs. p = set_pex_Name name (execution_of c pb))"
| "execution_request c pbs name base (PatchDeviceStatus old new) = (old = base \<and> hasPlaybookExecution new name)"
| "execution_request c pbs name base _ = False"

lemma issues_create_executions:
  "set ps \<subseteq> execution_of c ` set pbs \<Longrightarrow> issues (execution_request c pbs name base) (create_executions name base ps d)"
proof (induction ps arbitrary: d)
  case (Cons p ps)
  have "hasPlaybookExecution (add_PlaybookExec \<lparr>px_Name = name, px_Status = s\<rparr> d') name" for s d'
    by (simp add: hasPlaybookExecution_def add_PlaybookExec_def)
  then show ?case
    using Cons by (auto simp: Let_def go_defs intro!: issues_bindpI split: option.splits prod.splits)
qed simp

lemma issues_executeConcurrent_on:
  assumes "0 < sint n" "\<And>xs. set xs \<subseteq> set ds \<Longrightarrow> issues P (f xs)"
  shows "issues P (executeConcurrent n f ds)"
proof -
  obtain parts where p: "splitEdgeDevices ds n = Some (Inr parts)" "concat parts = ds"
    using splitEdgeDevices_split [OF assms(1), of ds] by blast
  then have "set xs \<subseteq> set ds" if "xs \<in> set parts" for xs using that by auto
  then show ?thesis
    using p assms(2) by (auto simp: executeConcurrent_def ExecuteConcurrent_def intro!: issues_par_list)
qed

lemma issues_config_loop:
  "(\<And>d. d \<in> set ds \<Longrightarrow> issues P (step d)) \<Longrightarrow> P CtxDone \<Longrightarrow> issues P (config_loop step ds)"
  by (induction ds) (auto intro!: issues_bindpI split: option.splits)

abbreviation execution_name :: "edge_config \<Rightarrow> edge_device \<Rightarrow> string" where
  "execution_name c d \<equiv> ed_Name d @ ''-'' @ om_Name (ec_meta c)"

text \<open>The controller creates playbook executions only for devices that do not list one under the name
  made of device and configuration; all executions of one device get that same name, and every status patch
  starts from the device as it was listed and contains the entry.\<close>

theorem config_requests:
  assumes "0 < sint n" and "exec (addPlaybookExecutionToDevices n c ds) t out" and "(q, r) \<in> set t" and "q \<noteq> CtxDone"
  shows "\<exists>spec d. ec_EdgePlaybook c = Some spec \<and> d \<in> set ds \<and> \<not> hasPlaybookExecution d (execution_name c d) \<and>
    execution_request c (eps_Playbooks spec) (execution_name c d) d q"
proof -
  let ?P = "\<lambda>q. q = CtxDone \<or> (\<exists>spec d. ec_EdgePlaybook c = Some spec \<and> d \<in> set ds \<and>
    \<not> hasPlaybookExecution d (execution_name c d) \<and> execution_request c (eps_Playbooks spec) (execution_name c d) d q)"
  have "issues ?P (addPlaybookExecutionToDevice c (map (execution_of c) (eps_Playbooks spec)) d)"
    if "ec_EdgePlaybook c = Some spec" "d \<in> set ds" for spec d
  proof (cases "hasPlaybookExecution d (execution_name c d)")
    case False
    then have sub: "?P q" if "execution_request c (eps_Playbooks spec) (execution_name c d) d q" for q
      using that \<open>ec_EdgePlaybook c = Some spec\<close> \<open>d \<in> set ds\<close> by blast
    have "issues (execution_request c (eps_Playbooks spec) (execution_name c d) d)
        (create_executions (execution_name c d) d (map (execution_of c) (eps_Playbooks spec)) d)"
      by (rule issues_create_executions) simp
    then have "issues ?P (create_executions (execution_name c d) d (map (execution_of c) (eps_Playbooks spec)) d)"
      by (rule issues_mono) (rule sub)
    with False show ?thesis by (simp add: addPlaybookExecutionToDevice_def Let_def)
  qed (simp add: addPlaybookExecutionToDevice_def Let_def)
  then have "issues ?P (addPlaybookExecutionToDevices n c ds)"
    by (auto simp: addPlaybookExecutionToDevices_def createPlaybookExecutions_def deref_def Config_executeConcurrent_eq
        intro!: issues_executeConcurrent_on [OF assms(1)] issues_config_loop split: option.split)
  then show ?thesis using assms(2-4) unfolding issues_exec by fastforce
qed

text \<open>
  A device has an execution when its status lists one of that name. It is given one for a playbook when the execution was created, with the
  playbook and under the name and in the namespace it should have, and a patch of the device's status with the entry was accepted.
\<close>

definition lists_execution :: "string \<Rightarrow> edge_device \<Rightarrow> bool" where
  "lists_execution name d \<longleftrightarrow> name \<in> px_Name ` set (elems (es_PlaybookExecutions (ed_Status d)))"

definition executed :: "edge_config \<Rightarrow> playbook \<Rightarrow> io_trace \<Rightarrow> edge_device \<Rightarrow> bool" where
  "executed c pb t d \<longleftrightarrow> (\<exists>p r new d1.
     (CreatePlaybookExec p, r) \<in> set t \<and> unit_result r = None \<and> om_Name (pex_meta p) = execution_name c d \<and>
     om_Namespace (pex_meta p) = om_Namespace (ec_meta c) \<and> psp_Playbook (pex_Spec p) = pb \<and>
     (PatchDeviceStatus d new, RDevice d1) \<in> set t \<and>
     \<lparr>px_Name = execution_name c d, px_Status = pex_Status p\<rparr> \<in> set (elems (es_PlaybookExecutions (ed_Status new))))"

text \<open>A run for one device that reports no error has created and entered every execution.\<close>

lemma create_executions_done:
  "exec (create_executions name base ps d) t (Returned []) \<Longrightarrow> p \<in> set ps \<Longrightarrow>
     \<exists>r new d1. (CreatePlaybookExec (set_pex_Name name p), r) \<in> set t \<and> unit_result r = None \<and>
       (PatchDeviceStatus base new, RDevice d1) \<in> set t \<and>
       \<lparr>px_Name = name, px_Status = pex_Status p\<rparr> \<in> set (elems (es_PlaybookExecutions (ed_Status new)))"
proof (induction ps arbitrary: d t)
  case (Cons x xs)
  let ?x = "set_pex_Name name x"
  let ?d = "add_PlaybookExec \<lparr>px_Name = name, px_Status = pex_Status ?x\<rparr> d"
  from Cons.prems(1) obtain t1 t2 t3 err where t: "t = t1 @ t2 @ t3"
    and c: "exec (PlaybookExecution_Create ?x) t1 (Returned None)"
    and p: "exec (EdgeDevice_PatchStatus base ?d) t2 (Returned (None, err))"
    and rest: "exec (create_executions name base xs err) t3 (Returned [])"
    by (auto simp: Let_def exec_bindp exec_mapp split: option.splits)
  show ?case
  proof (cases "p = x")
    case True
    from c obtain r where "t1 = [(CreatePlaybookExec ?x, r)]" "unit_result r = None"
      by (auto simp: PlaybookExecution_Create_def exec_call_unit)
    moreover from p have "t2 = [(PatchDeviceStatus base ?d, RDevice err)]"
      by (auto simp: EdgeDevice_PatchStatus_def dest!: exec_patched_device)
    moreover have "\<lparr>px_Name = name, px_Status = pex_Status x\<rparr> \<in> set (elems (es_PlaybookExecutions (ed_Status ?d)))"
      by (simp add: add_PlaybookExec_def set_pex_Name_def)
    ultimately show ?thesis unfolding t True by (intro exI [of _ r] exI [of _ ?d] exI [of _ err]) simp
  next
    case False
    with Cons.prems(2) Cons.IH [OF rest] show ?thesis unfolding t by fastforce
  qed
qed simp

text \<open>Property C38: with a positive number of workers (as an \<open>int\<close>), when adding playbook executions ends without an error, every
  device of the list that did not list an execution under the name made of device and configuration has been given one for each playbook
  of the configuration, in every interleaving of the goroutines; the status of a device that listed one already is not touched. With no workers
  nothing happens at all (\<open>empty_config_pool_does_nothing\<close> in \<open>Entry_Points\<close>).\<close>

theorem config_reaches_devices:
  assumes "0 < sint n" and "exec (addPlaybookExecutionToDevices n c ds) t (Returned None)" and "d \<in> set ds"
  shows "\<exists>spec. ec_EdgePlaybook c = Some spec \<and>
    (if lists_execution (execution_name c d) d then \<forall>new r. (PatchDeviceStatus d new, r) \<notin> set t
     else \<forall>pb \<in> set (eps_Playbooks spec). executed c pb t d)"
proof -
  obtain spec where spec: "ec_EdgePlaybook c = Some spec"
    and e: "exec (executeConcurrent n (config_loop (addPlaybookExecutionToDevice c
      (map (execution_of c) (eps_Playbooks spec)))) ds) t (Returned [])"
    using assms(2) by (auto simp: addPlaybookExecutionToDevices_def createPlaybookExecutions_def deref_def
        Config_executeConcurrent_eq exec_mapp errors_of_def split: option.split_asm if_split_asm)
  have has: "lists_execution (execution_name c d) d \<longleftrightarrow> hasPlaybookExecution d (execution_name c d)"
    by (force simp: lists_execution_def hasPlaybookExecution_def)
  show ?thesis
  proof (cases "hasPlaybookExecution d (execution_name c d)")
    case True
    have "(PatchDeviceStatus d new, r) \<notin> set t" for new r
    proof
      assume "(PatchDeviceStatus d new, r) \<in> set t"
      from config_requests [OF assms(1,2) this] True show False by auto
    qed
    with spec True has show ?thesis by simp
  next
    case False
    from config_worker.executeConcurrent_done [OF assms(1) e assms(3)] False obtain td where
      run: "exec (create_executions (execution_name c d) d (map (execution_of c) (eps_Playbooks spec)) d) td (Returned [])"
      and sub: "subseq td t"
      by (auto simp: exec_mapp addPlaybookExecutionToDevice_def)
    have "executed c pb t d" if "pb \<in> set (eps_Playbooks spec)" for pb
    proof -
      from create_executions_done [OF run, of "execution_of c pb"] that obtain r new d1 where
        "(CreatePlaybookExec (set_pex_Name (execution_name c d) (execution_of c pb)), r) \<in> set td" "unit_result r = None"
        "(PatchDeviceStatus d new, RDevice d1) \<in> set td"
        "\<lparr>px_Name = execution_name c d, px_Status = pex_Status (execution_of c pb)\<rparr> \<in> set (elems (es_PlaybookExecutions (ed_Status new)))"
        by auto
      with subseq_set [OF sub] show ?thesis unfolding executed_def
        by (intro exI [of _ "set_pex_Name (execution_name c d) (execution_of c pb)"] exI [of _ r] exI [of _ new] exI [of _ d1])
          (auto simp: set_pex_Name_def execution_of_def)
    qed
    with spec False has show ?thesis by simp
  qed
qed

text \<open>The branch of the EdgeConfig controller for executions that already exist is never taken: the
  combined error has lost the status of its parts.\<close>

theorem already_exists_is_lost:
  "exec (addPlaybookExecutionToDevices n c ds) t (Returned (Some e)) \<longrightarrow> \<not> IsAlreadyExists e"
  by (auto simp: addPlaybookExecutionToDevices_def createPlaybookExecutions_def deref_def exec_mapp errors_of_def
      split: option.split_asm if_split_asm)

text \<open>Every patch of a playbook execution by its controller adds the finalizer to a live object that
  lacks it; no request takes the finalizer off again, so an object that is being deleted is only read.\<close>

theorem playbook_finalizer_only_added:
  "exec (PlaybookExecution_Reconcile name ns) t out \<longrightarrow> (\<exists>res. out = Returned res) \<and>
     (\<forall>q r. (q, r) \<in> set t \<and> is_write q \<longrightarrow> (\<exists>p. q = PatchPlaybookExec (Some p)
        (set_pex_Finalizers [YggdrasilDeviceReferenceFinalizer] p) \<and>
        om_DeletionTimestamp (pex_meta p) = None \<and> \<not> HasFinalizer (pex_meta p) YggdrasilDeviceReferenceFinalizer))"
proof -
  have "wp (PlaybookExecution_Reconcile name ns) (\<lambda>t out. (\<exists>res. out = Returned res) \<and>
     (\<forall>q r. (q, r) \<in> set t \<and> is_write q \<longrightarrow> (\<exists>p. q = PatchPlaybookExec (Some p)
        (set_pex_Finalizers [YggdrasilDeviceReferenceFinalizer] p) \<and>
        om_DeletionTimestamp (pex_meta p) = None \<and> \<not> HasFinalizer (pex_meta p) YggdrasilDeviceReferenceFinalizer)))"
    by (auto simp: PlaybookExecution_Reconcile_def go_defs wp_base split: sum.split)
  from wp_execD [OF this] show ?thesis by blast
qed

section \<open>Witnesses\<close>

definition sample_config :: edge_config where
  "sample_config = zero_edge_config\<lparr>ec_meta := zero_meta\<lparr>om_Name := ''cfg'', om_Namespace := ''ns''\<rparr>,
     ec_EdgePlaybook := Some \<lparr>eps_User = ''root'', eps_Playbooks = [zero_playbook]\<rparr>\<rparr>"

lemma config_run:
  "map_option (\<lambda>(t, out). (out, fst (t ! 1), length t)) (replay (addPlaybookExecutionToDevices 1 sample_config [sample_device ''a''])
     [ROk, ROk, RDevice (sample_device ''a'')] []) =
   Some (Returned None, CreatePlaybookExec (set_pex_Name ''a-cfg'' (execution_of sample_config zero_playbook)), 3)"
  by code_simp

lemma config_exec:
  obtains t where "exec (addPlaybookExecutionToDevices 1 sample_config [sample_device ''a'']) t (Returned None)"
    "(CreatePlaybookExec (set_pex_Name ''a-cfg'' (execution_of sample_config zero_playbook)), snd (t ! 1)) \<in> set t"
proof -
  obtain t where t: "replay (addPlaybookExecutionToDevices 1 sample_config [sample_device ''a''])
     [ROk, ROk, RDevice (sample_device ''a'')] [] = Some (t, Returned None)" "length t = 3"
     "fst (t ! 1) = CreatePlaybookExec (set_pex_Name ''a-cfg'' (execution_of sample_config zero_playbook))"
    using config_run by auto
  then have "t ! 1 \<in> set t" by simp
  then show ?thesis using that [OF replay_exec [OF t(1)]] t(3) by (metis prod.collapse)
qed

theorem config_reaches_devices_witness:
  "\<exists>t. exec (addPlaybookExecutionToDevices 1 sample_config [sample_device ''a'']) t (Returned None) \<and>
     \<not> lists_execution ''a-cfg'' (sample_device ''a'') \<and> executed sample_config zero_playbook t (sample_device ''a'')"
proof -
  obtain t where t: "exec (addPlaybookExecutionToDevices 1 sample_config [sample_device ''a'']) t (Returned None)"
    by (rule config_exec)
  have names: "execution_name sample_config (sample_device ''a'') = ''a-cfg''"
    "\<not> lists_execution ''a-cfg'' (sample_device ''a'')" by code_simp+
  have "ec_EdgePlaybook sample_config = Some \<lparr>eps_User = ''root'', eps_Playbooks = [zero_playbook]\<rparr>"
    by (simp add: sample_config_def)
  with config_reaches_devices [OF _ t, of "sample_device ''a''", unfolded names(1)] t names(2) show ?thesis by auto
qed

theorem config_requests_witness:
  "\<exists>d \<in> {sample_device ''a''}. \<not> hasPlaybookExecution d (execution_name sample_config d)"
proof -
  obtain t where t: "exec (addPlaybookExecutionToDevices 1 sample_config [sample_device ''a'']) t (Returned None)"
    "(CreatePlaybookExec (set_pex_Name ''a-cfg'' (execution_of sample_config zero_playbook)), snd (t ! 1)) \<in> set t"
    by (rule config_exec)
  from config_requests [OF _ t] show ?thesis by auto
qed

theorem already_exists_is_lost_witness:
  "\<exists>t e. exec (addPlaybookExecutionToDevices 1 sample_config [sample_device ''a'']) t (Returned (Some e)) \<and> \<not> IsAlreadyExists e"
proof -
  have "map_option (\<lambda>(t, out). case out of Returned (Some e) \<Rightarrow> True | _ \<Rightarrow> False)
     (replay (addPlaybookExecutionToDevices 1 sample_config [sample_device ''a''])
       [ROk, RErr (StatusError AlreadyExists 409 ''exists'')] []) = Some True"
    by code_simp
  then obtain t out where r: "replay (addPlaybookExecutionToDevices 1 sample_config [sample_device ''a''])
       [ROk, RErr (StatusError AlreadyExists 409 ''exists'')] [] = Some (t, out)"
    and out: "case out of Returned (Some e) \<Rightarrow> True | _ \<Rightarrow> False" by auto
  then obtain e where "out = Returned (Some e)" by (auto split: outcome.splits option.splits)
  with replay_exec [OF r] have x: "exec (addPlaybookExecutionToDevices 1 sample_config [sample_device ''a'']) t (Returned (Some e))"
    by simp
  from already_exists_is_lost [THEN mp, OF x] x show ?thesis by blast
qed

theorem playbook_finalizer_only_added_witness:
  "\<exists>t out. exec (PlaybookExecution_Reconcile ''p'' ''ns'') t out \<and> (\<exists>res. out = Returned res)"
proof -
  obtain t out where e: "exec (PlaybookExecution_Reconcile ''p'' ''ns'') t out" using exec_exists by blast
  from playbook_finalizer_only_added [THEN mp, OF e] e show ?thesis by blast
qed

end
