(* ===== verification/Storage.thy ===== *)
theory Storage
  imports Repositories
begin

text \<open>
  Object bucket claims and the S3 configuration of a device (\<open>src/internal/common/storage/storage.go\<close>),
  with the base64 encoding and the port parser the package calls.
\<close>

section \<open>Encoding and parsing\<close>

definition base64_char :: "nat \<Rightarrow> char" where
  "base64_char n = (if n < 26 then chr (65 + n) else if n < 52 then chr (97 + (n - 26))
     else if n < 62 then chr (48 + (n - 52)) else if n = 62 then CHR ''+'' else CHR ''/'')"

fun base64_EncodeToString :: "bytes \<Rightarrow> string" where
  "base64_EncodeToString [] = []"
| "base64_EncodeToString [a] = (let n = byte a * 65536 in
     [base64_char (n div 262144), base64_char (n div 4096 mod 64), CHR ''='', CHR ''=''])"
| "base64_EncodeToString [a, b] = (let n = byte a * 65536 + byte b * 256 in
     [base64_char (n div 262144), base64_char (n div 4096 mod 64), base64_char (n div 64 mod 64), CHR ''=''])"
| "base64_EncodeToString (a # b # c # rest) = (let n = byte a * 65536 + byte b * 256 + byte c in
     [base64_char (n div 262144), base64_char (n div 4096 mod 64), base64_char (n div 64 mod 64),
      base64_char (n mod 64)] @ base64_EncodeToString rest)"

text \<open>
  \<open>strconv.Quote\<close>: quotes, backslashes and control characters are escaped; text beyond ASCII is
  taken to be printable.
\<close>

definition hex_digit :: "nat \<Rightarrow> char" where
  "hex_digit n = (if n < 10 then chr (48 + n) else chr (87 + n))"

definition quote_char :: "char \<Rightarrow> string" where
  "quote_char c = (let b = byte c in
     if b = 34 \<or> b = 92 then [chr 92, c]
     else if b = 7 then [chr 92, CHR ''a''] else if b = 8 then [chr 92, CHR ''b'']
     else if b = 9 then [chr 92, CHR ''t''] else if b = 10 then [chr 92, CHR ''n'']
     else if b = 11 then [chr 92, CHR ''v''] else if b = 12 then [chr 92, CHR ''f'']
     else if b = 13 then [chr 92, CHR ''r'']
     else if b < 32 \<or> b = 127 then [chr 92, CHR ''x'', hex_digit (b div 16), hex_digit (b mod 16)]
     else [c])"

definition Quote :: "string \<Rightarrow> string" where
  "Quote s = [chr 34] @ concat (map quote_char s) @ [chr 34]"

text \<open>\<open>strconv.ParseUint(s, 10, 16)\<close>.\<close>

text \<open>
  The digits are read up to the first overflow of the 16-bit range, where the parser stops with a
  range error before it sees the rest.
\<close>

fun parse_uint16 :: "nat \<Rightarrow> string \<Rightarrow> string + nat" where
  "parse_uint16 n [] = Inr n"
| "parse_uint16 n (c # s) = (if \<not> is_digit_ascii (byte c) then Inl ''invalid syntax''
     else let n' = n * 10 + (byte c - 48) in
       if n' \<ge> 65536 then Inl ''value out of range'' else parse_uint16 n' s)"

definition ParseUint16 :: "string \<Rightarrow> error + nat" where
  "ParseUint16 s = (case (if s = [] then Inl ''invalid syntax'' else parse_uint16 0 s) of
      Inl m \<Rightarrow> Inl (PlainError (''strconv.ParseUint: parsing '' @ Quote s @ '': '' @ m))
    | Inr n \<Rightarrow> Inr n)"

text \<open>\<open>net.ParsePort(port, false)\<close>.\<close>

definition ParsePort :: "string \<Rightarrow> error + nat" where
  "ParsePort port = (case ParseUint16 port of
      Inl e \<Rightarrow> Inl e
    | Inr n \<Rightarrow> if n = 0 then Inl (PlainError ''0 is not a valid port number'') else Inr n)"

lemma parse_uint16_bound: "parse_uint16 n s = Inr m \<Longrightarrow> n < 65536 \<Longrightarrow> m < 65536"
  by (induction s arbitrary: n) (auto simp: Let_def split: if_splits)

lemma ParsePort_bounds: "ParsePort s = Inr n \<Longrightarrow> 1 \<le> n \<and> n \<le> 65535"
  using parse_uint16_bound [of 0 s n]
  by (auto simp: ParsePort_def ParseUint16_def split: if_splits sum.splits)

section \<open>Claims\<close>

definition zero_obc :: object_bucket_claim where
  "zero_obc = \<lparr>obc_meta = zero_meta, obc_GenerateBucketName = [], obc_StorageClassName = []\<rparr>"

definition GetClaim :: "string \<Rightarrow> string \<Rightarrow> (object_bucket_claim \<times> error option) io" where
  "GetClaim name namespace = read_object zero_obc (GetOBC name namespace) as_obc"

definition claim_for :: "edge_device \<Rightarrow> object_bucket_claim" where
  "claim_for device =
     \<lparr>obc_meta = zero_meta\<lparr>om_Name := ed_Name device, om_Namespace := ed_Namespace device\<rparr>,
      obc_GenerateBucketName = ed_Name device,
      obc_StorageClassName = ''openshift-storage.noobaa.io''\<rparr>"

text \<open>The created claim comes back as the server stores it.\<close>

definition CreateClaim :: "edge_device \<Rightarrow> (object_bucket_claim \<times> error option) io" where
  "CreateClaim device = mapp (\<lambda>(err, obc). (obc, err))
     (patch_object (CreateOBC (claim_for device)) as_obc (claim_for device))"

definition getS3 :: "storage option \<Rightarrow> s3_storage option" where
  "getS3 storageObj = (case storageObj of Some s \<Rightarrow> st_S3 s | None \<Rightarrow> None)"

definition ShouldUseExternalConfig :: "storage option \<Rightarrow> bool" where
  "ShouldUseExternalConfig storageObj = (case getS3 storageObj of
      Some s3 \<Rightarrow> s3_ConfigMapName s3 \<noteq> [] \<or> s3_SecretName s3 \<noteq> []
    | None \<Rightarrow> False)"

definition ShouldCreateOBC :: "storage option \<Rightarrow> bool" where
  "ShouldCreateOBC storageObj = (case getS3 storageObj of
      Some s3 \<Rightarrow> if \<not> ShouldUseExternalConfig storageObj then s3_CreateOBC s3 else False
    | None \<Rightarrow> False)"

text \<open>A lookup of a missing key in a map of strings or byte slices gives the empty value.\<close>

definition mget0 :: "(string, string) gomap \<Rightarrow> string \<Rightarrow> string" where
  "mget0 m k = (case mget m k of Some v \<Rightarrow> v | None \<Rightarrow> [])"

definition GetStorageConfiguration :: "edge_device option \<Rightarrow> (error + s3_storage_configuration) io" where
  "GetStorageConfiguration device = (case device of
      None \<Rightarrow> Ret (Inl (PlainError ''Cannot get device''))
    | Some d \<Rightarrow> (case es_DataOBC (ed_Status d) of
        None \<Rightarrow> Ret (Inl (PlainError ''Cannot get device OBC config''))
      | Some name \<Rightarrow>
          bindp (GetClaim name (ed_Namespace d)) (\<lambda>(obc, err).
          case err of Some e \<Rightarrow> Ret (Inl e) | None \<Rightarrow>
          tryp (call_object (GetConfigMap (om_Name (obc_meta obc)) (ed_Namespace d)) as_config_map) (\<lambda>cm.
          tryp (call_object (GetRoute ''s3'' ''openshift-storage'') as_route) (\<lambda>s3route.
          tryp (call_object (GetSecret (om_Name (obc_meta obc)) (ed_Namespace d)) as_secret) (\<lambda>secret.
          case mget (se_Data secret) ''AWS_ACCESS_KEY_ID'' of
            None \<Rightarrow> Ret (Inl (PlainError ''Cannot get AWS_ACCESS_KEY_ID''))
          | Some awsAccessKeyID \<Rightarrow>
          (case mget (se_Data secret) ''AWS_SECRET_ACCESS_KEY'' of
            None \<Rightarrow> Ret (Inl (PlainError ''Cannot get AWS_SECRET_ACCESS_KEY_ID''))
          | Some awsSecretAccessKey \<Rightarrow>
          tryp (call_object (GetSecret ''router-ca'' ''openshift-ingress-operator'') as_secret) (\<lambda>ca.
          Ret (Inr \<lparr>s3c_AwsAccessKeyID = base64_EncodeToString awsAccessKeyID,
                    s3c_AwsCaBundle = (case mget (se_Data ca) ''tls.crt'' of
                        Some crt \<Rightarrow> base64_EncodeToString crt | None \<Rightarrow> []),
                    s3c_AwsSecretAccessKey = base64_EncodeToString awsSecretAccessKey,
                    s3c_BucketHost = ro_Host s3route,
                    s3c_BucketName = mget0 (cm_Data cm) ''BUCKET_NAME'',
                    s3c_BucketPort = 443,
                    s3c_BucketRegion = ''ignore''\<rparr>)))))))))"

text \<open>\<open>fmt.Errorf(missingFieldMessage, field, resource)\<close>, with the resource as \<open>namespace/name\<close>.\<close>

definition missing_field :: "string \<Rightarrow> string \<Rightarrow> string \<Rightarrow> error" where
  "missing_field field namespace name =
     PlainError (''Missing field '' @ field @ '' in resource '' @ namespace @ ''/'' @ name)"

definition require_field ::
  "(string, string) gomap \<Rightarrow> string \<Rightarrow> string \<Rightarrow> string \<Rightarrow> (string \<Rightarrow> error + 'a) \<Rightarrow> error + 'a" where
  "require_field data field namespace name k =
     (case mget data field of None \<Rightarrow> Inl (missing_field field namespace name) | Some v \<Rightarrow> k v)"

definition external_s3 :: "string \<Rightarrow> s3_storage \<Rightarrow> config_map \<Rightarrow> secret \<Rightarrow> error + s3_storage_configuration" where
  "external_s3 namespace s3 cm secret =
     (let cmField = (\<lambda>f k. require_field (cm_Data cm) f namespace (s3_ConfigMapName s3) k);
          seField = (\<lambda>f k. require_field (se_Data secret) f namespace (s3_SecretName s3) k)
      in cmField ''BUCKET_NAME'' (\<lambda>bucketName.
         cmField ''BUCKET_HOST'' (\<lambda>bucketHost.
         cmField ''BUCKET_PORT'' (\<lambda>bucketPort.
         cmField ''BUCKET_REGION'' (\<lambda>bucketRegion.
         seField ''AWS_ACCESS_KEY_ID'' (\<lambda>accessKeyID.
         seField ''AWS_SECRET_ACCESS_KEY'' (\<lambda>secretAccessKey.
         case ParsePort bucketPort of
           Inl e \<Rightarrow> Inl e
         | Inr port \<Rightarrow> Inr
             \<lparr>s3c_AwsAccessKeyID = base64_EncodeToString accessKeyID,
              s3c_AwsCaBundle = base64_EncodeToString (mget0 (se_Data secret) ''tls.crt''),
              s3c_AwsSecretAccessKey = base64_EncodeToString secretAccessKey,
              s3c_BucketHost = bucketHost, s3c_BucketName = bucketName,
              s3c_BucketPort = int port, s3c_BucketRegion = bucketRegion\<rparr>)))))))"

definition GetExternalStorageConfig :: "string \<Rightarrow> storage option \<Rightarrow> (error + s3_storage_configuration) io" where
  "GetExternalStorageConfig namespace storageConfig = (case getS3 storageConfig of
      None \<Rightarrow> Ret (Inl (PlainError ''storage cannot be missing''))
    | Some s3 \<Rightarrow>
        tryp (call_object (GetConfigMap (s3_ConfigMapName s3) namespace) as_config_map) (\<lambda>cm.
        tryp (call_object (GetSecret (s3_SecretName s3) namespace) as_secret) (\<lambda>secret.
        Ret (external_s3 namespace s3 cm secret))))"

section \<open>Properties\<close>

lemma OBC_excludes_external: "ShouldCreateOBC s \<Longrightarrow> \<not> ShouldUseExternalConfig s"
  by (auto simp: ShouldCreateOBC_def split: option.splits if_splits)

lemma storage_reads_only:
  "reads_only (GetStorageConfiguration d)" "reads_only (GetExternalStorageConfig ns s)"
  by (auto simp: reads_only_def GetStorageConfiguration_def GetExternalStorageConfig_def GetClaim_def
      intro!: issues_bindpI issues_trypI split: option.splits prod.splits)

lemma external_s3_port:
  "external_s3 ns s3 cm se = Inr c \<Longrightarrow> 1 \<le> s3c_BucketPort c \<and> s3c_BucketPort c \<le> 65535"
  by (auto simp: external_s3_def require_field_def Let_def dest: ParsePort_bounds
      split: option.splits sum.splits)

end
