(* ===== verification/Device_Reconcilers.thy ===== *)
theory Device_Reconcilers
  imports Workload_Reconciler Storage
begin

text \<open>
  The controllers of devices and of signed requests: \<open>src/controllers/edgedevice_controller.go\<close> (removal
  and storage claim), \<open>src/controllers/edgedevicelabels_controller.go\<close> (workloads that match the labels of a
  device) and \<open>src/controllers/edgedevicesignedrequest_controller.go\<close> (approval and creation of devices).
\<close>

definition DeviceFinalizer :: string where "DeviceFinalizer = ''device-finalizer''"

section \<open>EdgeDeviceReconciler\<close>

definition removeRelatedEDSR :: "string \<Rightarrow> edge_device \<Rightarrow> error option io" where
  "removeRelatedEDSR initialDeviceNamespace edgeDevice =
     bindp (EDSR_Read (ed_Name edgeDevice) initialDeviceNamespace) (\<lambda>(edsr, err). case err of
         Some e \<Rightarrow> Ret (if IsNotFound e then None else Some e)
       | None \<Rightarrow> EDSR_Delete edsr)"

definition Device_removeFinalizer :: "edge_device \<Rightarrow> error option io" where
  "Device_removeFinalizer edgeDevice =
     (if HasFinalizer (ed_meta edgeDevice) DeviceFinalizer
      then mapp fst (EdgeDevice_RemoveFinalizer edgeDevice DeviceFinalizer)
      else Ret None)"

definition createOrGetObc :: "edge_device \<Rightarrow> (error + object_bucket_claim) io" where
  "createOrGetObc edgeDevice =
     bindp (GetClaim (ed_Name edgeDevice) (ed_Namespace edgeDevice)) (\<lambda>(obc, err). case err of
         None \<Rightarrow> Ret (Inr obc)
       | Some e \<Rightarrow>
           if IsNotFound e then
             bindp (CreateClaim edgeDevice) (\<lambda>(obc', err'). case err' of
                 Some e' \<Rightarrow> Ret (Inl e')
               | None \<Rightarrow> Ret (Inr obc'))
           else Ret (Inl e))"

definition set_ed_DataOBC :: "string option \<Rightarrow> edge_device \<Rightarrow> edge_device" where
  "set_ed_DataOBC x d = d\<lparr>ed_Status := (ed_Status d)\<lparr>es_DataOBC := x\<rparr>\<rparr>"

definition addObcReference :: "edge_device \<Rightarrow> string \<Rightarrow> error option io" where
  "addObcReference edgeDevice obcName =
     mapp fst (EdgeDevice_PatchStatus edgeDevice (set_ed_DataOBC (Some obcName) edgeDevice))"

text \<open>The settings of the controller and its result; the number is \<open>RequeueAfter\<close> in seconds.\<close>

record device_reconciler =
  dr_InitialDeviceNamespace :: string
  dr_ObcAutoCreate :: bool

text \<open>The two halves of \<open>Reconcile\<close>: a device that is being deleted, and the storage of one that is not.\<close>

definition reconcile_deleted :: "device_reconciler \<Rightarrow> edge_device \<Rightarrow> (reconcile_result \<times> nat) io" where
  "reconcile_deleted r edgeDevice =
     bindp (removeRelatedEDSR (dr_InitialDeviceNamespace r) edgeDevice) (\<lambda>err. case err of
         Some e \<Rightarrow> Ret (requeue (Some e), 0)
       | None \<Rightarrow> mapp (\<lambda>err. ((False, err), 0)) (Device_removeFinalizer edgeDevice))"

definition reconcile_storage :: "edge_device \<Rightarrow> (reconcile_result \<times> nat) io" where
  "reconcile_storage edgeDevice =
     (if es_DataOBC (ed_Status edgeDevice) = None \<or> es_DataOBC (ed_Status edgeDevice) = Some [] then
        bindp (createOrGetObc edgeDevice) (\<lambda>res. case res of
            Inl e \<Rightarrow> Ret (requeue (Some e), 0)
          | Inr obc \<Rightarrow> bindp (addObcReference edgeDevice (om_Name (obc_meta obc))) (\<lambda>err. case err of
              Some e \<Rightarrow> Ret (requeue (Some e), 5)
            | None \<Rightarrow> Ret (no_requeue, 0)))
      else Ret (no_requeue, 0))"

definition EdgeDevice_Reconcile :: "device_reconciler \<Rightarrow> string \<Rightarrow> string \<Rightarrow> (reconcile_result \<times> nat) io" where
  "EdgeDevice_Reconcile r name namespace =
     bindp (EdgeDevice_Read name namespace) (\<lambda>(edgeDevice, err). case err of
         Some e \<Rightarrow> Ret (if IsNotFound e then no_requeue else requeue (Some e), 0)
       | None \<Rightarrow>
           if om_DeletionTimestamp (ed_meta edgeDevice) \<noteq> None then reconcile_deleted r edgeDevice
           else if \<not> dr_ObcAutoCreate r \<and> \<not> ShouldCreateOBC (ds_Storage (ed_Spec edgeDevice)) then
             Ret (no_requeue, 0)
           else reconcile_storage edgeDevice)"

section \<open>EdgeDeviceLabelsReconciler\<close>

definition isWorkloadMatchDevice :: "edge_workload \<Rightarrow> edge_device \<Rightarrow> error + bool" where
  "isWorkloadMatchDevice w device =
     (if ws_Device (ew_Spec w) = ed_Name device then Inr True
      else if ws_DeviceSelector (ew_Spec w) \<noteq> None then
        (case LabelSelectorAsSelector (ws_DeviceSelector (ew_Spec w)) of
           Inl e \<Rightarrow> Inl e
         | Inr s \<Rightarrow> Inr (Selector_Matches s (ed_Labels device)))
      else Inr False)"

definition createSelectorLabelsMap :: "edge_device \<Rightarrow> (string, string) fmap" where
  "createSelectorLabelsMap device =
     fold (\<lambda>l m. fmupd (CreateSelectorLabel l) ''true'' m)
       (filter (\<lambda>l. \<not> IsWorkloadLabel l) (sorted_list_of_fset (fmdom (entries (ed_Labels device)))))
       (fmap_of_list [(CreateSelectorLabel DeviceNameLabel, ed_Name device),
                      (CreateSelectorLabel DoesNotExistLabel, ''true'')])"

text \<open>Matching the workloads of one answer: workloads already in the map are skipped.\<close>

fun match_workloads :: "edge_device \<Rightarrow> edge_workload list \<Rightarrow> (string, bool) fmap \<Rightarrow> error + (string, bool) fmap" where
  "match_workloads device [] selected = Inr selected"
| "match_workloads device (w # ws) selected =
     (if fmlookup selected (ew_Name w) \<noteq> None then match_workloads device ws selected
      else case isWorkloadMatchDevice w device of
        Inl e \<Rightarrow> Inl e
      | Inr b \<Rightarrow> match_workloads device ws (fmupd (ew_Name w) b selected))"

primrec select_workloads ::
  "edge_device \<Rightarrow> string list \<Rightarrow> (string, bool) fmap \<Rightarrow> (error + (string, bool) fmap) io" where
  "select_workloads device [] selected = Ret (Inr selected)"
| "select_workloads device (l # ls) selected =
     tryp (EdgeWorkload_ListByLabel l (the (fmlookup (createSelectorLabelsMap device) l)) (ed_Namespace device)) (\<lambda>ws.
       case match_workloads device ws selected of
         Inl e \<Rightarrow> Ret (Inl e)
       | Inr selected' \<Rightarrow> select_workloads device ls selected')"

text \<open>
  The first loop of \<open>createUpdatedDevice\<close>, over the workloads of the status: the workloads kept, the
  labels, the matches not yet on the device, and whether anything changed.
\<close>

fun keep_workloads :: "workload list \<Rightarrow> workload list \<times> (string, string) fmap \<times> (string, bool) fmap \<times> bool \<Rightarrow>
    workload list \<times> (string, string) fmap \<times> (string, bool) fmap \<times> bool" where
  "keep_workloads [] st = st"
| "keep_workloads (w # ws) (kept, labels, selected, updated) =
     (if fmlookup selected (wl_Name w) = Some True
      then keep_workloads ws (kept @ [w], labels, fmdrop (wl_Name w) selected, updated)
      else keep_workloads ws (kept, fmdrop (WorkloadLabel (wl_Name w)) labels, selected, True))"

definition createUpdatedDevice :: "(string, bool) fmap \<Rightarrow> edge_device \<Rightarrow> ('q, 'r, edge_device option) prog" where
  "createUpdatedDevice selectedWorkloads device =
     (case keep_workloads (elems (es_Workloads (ed_Status device)))
             ([], entries (ed_Labels device), selectedWorkloads, False) of
        (kept, labels, rest, updated) \<Rightarrow>
          bindp (range_keys (Some rest)) (\<lambda>names.
            let new = filter (\<lambda>n. fmlookup rest n = Some True) names;
                deviceCopy = set_ed_Labels (Some (fold (\<lambda>n m. fmupd (WorkloadLabel n) ''true'' m) new labels))
                  (set_ed_Workloads (appended (kept @ map new_workload new)) device)
            in Ret (if updated \<or> new \<noteq> [] then Some deviceCopy else None)))"

definition updateWorkloads :: "edge_device \<Rightarrow> error option io" where
  "updateWorkloads device =
     bindp (range_keys (Some (createSelectorLabelsMap device))) (\<lambda>labels.
     bindp (select_workloads device labels fmempty) (\<lambda>res. case res of
         Inl e \<Rightarrow> Ret (Some e)
       | Inr selected \<Rightarrow>
           bindp (createUpdatedDevice selected device) (\<lambda>u. case u of
               None \<Rightarrow> Ret None
             | Some updatedDevice \<Rightarrow>
                 bindp (EdgeDevice_PatchStatus device updatedDevice) (\<lambda>(err, updatedDevice'). case err of
                     Some e \<Rightarrow> Ret (Some e)
                   | None \<Rightarrow> mapp fst (EdgeDevice_Patch device updatedDevice')))))"

definition last_condition_final :: "pe_status \<Rightarrow> bool" where
  "last_condition_final s = (elems (pes_Conditions s) \<noteq> [] \<and>
     (pc_Type (last (elems (pes_Conditions s))) = PlaybookExecutionSuccessfullyCompleted \<or>
      pc_Type (last (elems (pes_Conditions s))) = PlaybookExecutionCompletedWithError))"

text \<open>
  The labels \<open>updatePlaybookExecutions\<close> deletes. \<open>deviceLabels\<close> is the map of the device itself, so the
  deletion changes the device that is then handed to \<open>UpdateLabels\<close>.
\<close>

definition completed_config_label :: "edge_device \<Rightarrow> string \<Rightarrow> bool" where
  "completed_config_label device label = (IsEdgeConfigLabel label \<and>
     (\<exists>pe \<in> set (elems (es_PlaybookExecutions (ed_Status device))).
        px_Name pe = ed_Name device @ ''-'' @ the (mget (ed_Labels device) label) \<and> last_condition_final (px_Status pe)))"

definition Labels_updatePlaybookExecutions :: "edge_device \<Rightarrow> error option io" where
  "Labels_updatePlaybookExecutions device =
     bindp (range_keys (ed_Labels device)) (\<lambda>labels.
       let done = filter (completed_config_label device) labels;
           deviceLabels = fold mdelete done (ed_Labels device)
       in if done \<noteq> [] then mapp fst (EdgeDevice_UpdateLabels (set_ed_Labels deviceLabels device) deviceLabels)
          else Ret None)"

definition EdgeDeviceLabels_Reconcile :: "string \<Rightarrow> string \<Rightarrow> reconcile_result io" where
  "EdgeDeviceLabels_Reconcile name namespace =
     bindp (EdgeDevice_Read name namespace) (\<lambda>(edgeDevice, err). case err of
         Some e \<Rightarrow> Ret (if IsNotFound e then no_requeue else requeue (Some e))
       | None \<Rightarrow>
           if om_DeletionTimestamp (ed_meta edgeDevice) \<noteq> None then Ret no_requeue
           else bindp (updateWorkloads edgeDevice) (\<lambda>err. case err of
               Some e \<Rightarrow> Ret (requeue (Some e))
             | None \<Rightarrow> mapp result_of (Labels_updatePlaybookExecutions edgeDevice)))"

section \<open>EdgeDeviceSignedRequestReconciler\<close>

definition mark_status :: "edsr_status_type \<Rightarrow> string \<Rightarrow> edsr \<Rightarrow> error option io" where
  "mark_status ty message r =
     bindp go_now (\<lambda>now.
       let conditions = map (\<lambda>c. c\<lparr>rc_Status := ''false''\<rparr>) (rst_Conditions (sr_Status r)) @
             [\<lparr>rc_Type = ty, rc_Status = ''true'', rc_Message = Some message, rc_LastTransitionTime = Some now\<rparr>]
       in mapp fst (EDSR_PatchStatus r (r\<lparr>sr_Status := \<lparr>rst_Conditions = conditions\<rparr>\<rparr>)))"

definition markStatusPending :: "edsr \<Rightarrow> error option io" where
  "markStatusPending = mark_status EdgeDeviceSignedRequestStatusPending ''device is waiting for approval''"

definition markStatusApproved :: "edsr \<Rightarrow> error option io" where
  "markStatusApproved = mark_status EdgeDeviceSignedRequestStatusApproved ''device correctly approved''"

definition IsPending :: "edsr \<Rightarrow> bool" where
  "IsPending r = (if rst_Conditions (sr_Status r) = [] then True
     else \<exists>c \<in> set (rst_Conditions (sr_Status r)).
       rc_Status c = ''True'' \<and> rc_Type c = EdgeDeviceSignedRequestStatusPending)"

definition device_for_request :: "edsr \<Rightarrow> Time \<Rightarrow> edge_device" where
  "device_for_request r now =
     (let labels = fmap_of_list [(EdgeDeviceSignedRequestLabelName, EdgeDeviceSignedRequestLabelValue)] in
      zero_edge_device\<lparr>
        ed_meta := zero_meta\<lparr>om_Name := om_Name (sr_meta r), om_Namespace := rs_TargetNamespace (sr_Spec r),
          om_Labels := Some (if rs_TargetSet (sr_Spec r) \<noteq> []
            then fmupd EdgedeviceSetLabel (rs_TargetSet (sr_Spec r)) labels else labels),
          om_Finalizers := [DeviceFinalizer]\<rparr>,
        ed_Spec := zero_edge_device_spec\<lparr>ds_RequestTime := Some now\<rparr>\<rparr>)"

definition EDSR_Reconcile :: "bool \<Rightarrow> string \<Rightarrow> string \<Rightarrow> reconcile_result io" where
  "EDSR_Reconcile autoApproval name namespace =
     bindp (EDSR_Read name namespace) (\<lambda>(r, err). case err of
         Some e \<Rightarrow> Ret (if IsNotFound e then no_requeue else requeue (Some e))
       | None \<Rightarrow>
           if autoApproval \<and> \<not> rs_Approved (sr_Spec r) then
             mapp (\<lambda>(err, _). requeue err) (EDSR_Patch r (r\<lparr>sr_Spec := (sr_Spec r)\<lparr>rs_Approved := True\<rparr>\<rparr>))
           else if \<not> rs_Approved (sr_Spec r) then
             (if IsPending r \<and> rst_Conditions (sr_Status r) \<noteq> [] then Ret no_requeue
              else mapp result_of (markStatusPending r))
           else bindp (EdgeDevice_Read (om_Name (sr_meta r)) (rs_TargetNamespace (sr_Spec r))) (\<lambda>(_, err).
             if err = None then mapp result_of (markStatusApproved r)
             else bindp go_now (\<lambda>now.
               bindp (EdgeDevice_Create (device_for_request r now)) (\<lambda>err. case err of
                   Some e \<Rightarrow> Ret (requeue (Some e))
                 | None \<Rightarrow> mapp result_of (markStatusApproved r)))))"

end
