(* ===== verification/Device_Properties.thy ===== *)
theory Device_Properties
  imports Device_Reconcilers Workload_Properties
begin

text \<open>
  What the device controllers guarantee: the order in which a device is taken down, when a storage claim
  is made, which workloads a device ends up with, and that only approved requests become devices.
\<close>

section \<open>Removal of a device and its storage claim\<close>

lemma wp_RemoveFinalizer:
  "wp (EdgeDevice_RemoveFinalizer d f) \<Phi> \<longleftrightarrow>
     (\<forall>r. \<Phi> [(PatchDevice d (set_ed_Finalizers (without f (om_Finalizers (ed_meta d))) d), r)] (Returned (None,
        case object_result as_device r of Inl _ \<Rightarrow> d | Inr a \<Rightarrow> set_ed_Finalizers (om_Finalizers (ed_meta a)) d)))"
  by (auto simp: EdgeDevice_RemoveFinalizer_def Let_def go_defs wp_base split: sum.splits)

definition request_gone :: "string \<Rightarrow> string \<Rightarrow> io_trace \<Rightarrow> bool" where
  "request_gone name ns t \<longleftrightarrow>
     (\<exists>r e. (GetEDSR name ns, r) \<in> set t \<and> object_result as_edsr r = Inl e \<and> IsNotFound e) \<or>
     (\<exists>r e r'. (GetEDSR name ns, r) \<in> set t \<and> object_result as_edsr r = Inr e \<and>
        (DeleteEDSR e, r') \<in> set t \<and> unit_result r' = None)"

fun storage_request :: "edge_device \<Rightarrow> request \<Rightarrow> bool" where
  "storage_request d (GetOBC n ns) = (n = ed_Name d \<and> ns = ed_Namespace d)"
| "storage_request d (CreateOBC c) = (c = claim_for d)"
| "storage_request d (PatchDeviceStatus a b) = (a = d)"
| "storage_request d _ = False"

lemma issues_reconcile_storage: "issues (storage_request d) (reconcile_storage d)"
  by (auto simp: reconcile_storage_def createOrGetObc_def addObcReference_def GetClaim_def CreateClaim_def go_defs
      intro!: issues_bindpI split: option.splits sum.splits prod.splits)

lemma wp_reconcile_deleted:
  "wp (reconcile_deleted r d) (\<lambda>t out. (\<exists>res. out = Returned res) \<and>
     (\<forall>c x. (CreateOBC c, x) \<notin> set t) \<and>
     (\<forall>a b x. (PatchDevice a b, x) \<in> set t \<longrightarrow> a = d \<and>
        b = set_ed_Finalizers (without DeviceFinalizer (om_Finalizers (ed_meta d))) d \<and>
        last t = (PatchDevice a b, x) \<and> request_gone (ed_Name d) (dr_InitialDeviceNamespace r) t))"
  by (auto simp: reconcile_deleted_def removeRelatedEDSR_def Device_removeFinalizer_def request_gone_def go_defs
      wp_base wp_RemoveFinalizer split: sum.split option.split)

lemma request_gone_Cons: "request_gone n ns t \<Longrightarrow> request_gone n ns (c # t)"
  unfolding request_gone_def by (metis list.set_intros(2))

lemma EdgeDevice_Reconcile_exec:
  assumes "exec (EdgeDevice_Reconcile r name ns) t out"
  obtains (unread) r0 e where "t = [(GetDevice name ns, r0)]" "object_result as_device r0 = Inl e"
  | (deleted) r0 d t' where "t = (GetDevice name ns, r0) # t'" "object_result as_device r0 = Inr d"
      "om_DeletionTimestamp (ed_meta d) \<noteq> None" "exec (reconcile_deleted r d) t' out"
  | (idle) r0 d where "t = [(GetDevice name ns, r0)]" "object_result as_device r0 = Inr d"
  | (storage) r0 d t' where "t = (GetDevice name ns, r0) # t'" "object_result as_device r0 = Inr d"
      "om_DeletionTimestamp (ed_meta d) = None" "dr_ObcAutoCreate r \<or> ShouldCreateOBC (ds_Storage (ed_Spec d))"
      "exec (reconcile_storage d) t' out"
proof -
  obtain r0 t' where t: "t = (GetDevice name ns, r0) # t'" and
    k: "exec (case (case object_result as_device r0 of Inl e \<Rightarrow> (zero_edge_device, Some e) | Inr a \<Rightarrow> (a, None)) of
       (edgeDevice, err) \<Rightarrow> (case err of
         Some e \<Rightarrow> Ret (if IsNotFound e then no_requeue else requeue (Some e), 0)
       | None \<Rightarrow>
           if om_DeletionTimestamp (ed_meta edgeDevice) \<noteq> None then reconcile_deleted r edgeDevice
           else if \<not> dr_ObcAutoCreate r \<and> \<not> ShouldCreateOBC (ds_Storage (ed_Spec edgeDevice)) then
             Ret (no_requeue, 0)
           else reconcile_storage edgeDevice)) t' out"
    using assms unfolding EdgeDevice_Reconcile_def go_defs exec_bind_read by blast
  show thesis
  proof (cases "object_result as_device r0")
    case (Inl e)
    then show thesis using t k unread by auto
  next
    case (Inr d)
    then show thesis using t k deleted idle storage by (auto split: if_splits)
  qed
qed

section \<open>Labels of finished playbooks\<close>

lemma UpdateLabels_own_labels:
  "EdgeDevice_UpdateLabels (set_ed_Labels (Some m) d) (Some m) = Ret (None, set_ed_Labels (Some m) d)"
  by (simp add: EdgeDevice_UpdateLabels_def EdgeDevice_updateLabels_def overlay_labels_def)

lemma fold_mdelete_Some: "m \<noteq> None \<Longrightarrow> fold mdelete ks m \<noteq> None"
  by (induction ks arbitrary: m) auto

lemma silent_updatePlaybookExecutions:
  "wp (Labels_updatePlaybookExecutions d) (\<lambda>t out. t = [] \<and> out = Returned None)"
proof -
  have "wp (let done = filter (completed_config_label d) ks; deviceLabels = fold mdelete done (ed_Labels d)
        in if done \<noteq> [] then mapp fst (EdgeDevice_UpdateLabels (set_ed_Labels deviceLabels d) deviceLabels) else Ret None)
      (\<lambda>t out. t = [] \<and> out = Returned None)"
    if ks: "set ks = mkeys (ed_Labels d)" for ks
  proof (cases "ed_Labels d")
    case None
    then show ?thesis using ks by simp
  next
    case (Some f)
    then obtain m where "fold mdelete (filter (completed_config_label d) ks) (ed_Labels d) = Some m"
      using fold_mdelete_Some [of "ed_Labels d"] by auto
    then show ?thesis by (simp add: Let_def UpdateLabels_own_labels mapp_def)
  qed
  then show ?thesis by (simp add: Labels_updatePlaybookExecutions_def wp_bindp)
qed

section \<open>Workloads that match a device\<close>

lemma createSelectorLabelsMap_lookup:
  "fmlookup (createSelectorLabelsMap d) (CreateSelectorLabel l) =
     (if mget (ed_Labels d) l \<noteq> None \<and> \<not> IsWorkloadLabel l then Some ''true''
      else if l = DeviceNameLabel then Some (ed_Name d)
      else if l = DoesNotExistLabel then Some ''true'' else None)"
proof -
  have keys: "fset (fmdom (entries (ed_Labels d))) = mkeys (ed_Labels d)"
    by (simp add: mkeys_def fmdom'_alt_def)
  show ?thesis
    by (auto simp: createSelectorLabelsMap_def fold_fmupd_const keys mkeys_iff fmlookup_of_list image_iff)
qed

definition queried_keys :: "edge_device \<Rightarrow> string set" where
  "queried_keys d = {CreateWorkloadIndexKey l v | l v. fmlookup (createSelectorLabelsMap d) l = Some v}"

lemma queriedI:
  "fmlookup (createSelectorLabelsMap d) l = Some v \<Longrightarrow> CreateWorkloadIndexKey l v \<in> queried_keys d"
  by (auto simp: queried_keys_def)

lemma queried_label:
  "mget (ed_Labels d) k \<noteq> None \<Longrightarrow> \<not> IsWorkloadLabel k \<Longrightarrow>
     CreateWorkloadIndexKey (CreateSelectorLabel k) ''true'' \<in> queried_keys d"
  by (rule queriedI) (simp add: createSelectorLabelsMap_lookup)

lemma queried_missing:
  "CreateWorkloadIndexKey (CreateSelectorLabel DoesNotExistLabel) ''true'' \<in> queried_keys d"
  by (rule queriedI) (simp add: createSelectorLabelsMap_lookup DeviceNameLabel_def DoesNotExistLabel_def)

lemma queried_name:
  "mget (ed_Labels d) DeviceNameLabel = None \<Longrightarrow>
     CreateWorkloadIndexKey (CreateSelectorLabel DeviceNameLabel) (ed_Name d) \<in> queried_keys d"
  by (rule queriedI) (simp add: createSelectorLabelsMap_lookup)

text \<open>
  A selector is found through the index if it has a requirement other than \<open>NotIn\<close> on a label that is not
  a workload label.
\<close>

definition indexable :: "label_selector \<Rightarrow> bool" where
  "indexable s \<longleftrightarrow> (\<exists>k \<in> mkeys (ls_MatchLabels s). \<not> IsWorkloadLabel k) \<or>
     (\<exists>r \<in> set (ls_MatchExpressions s). sr_Operator r = LabelSelectorOpDoesNotExist \<or>
        (sr_Operator r \<noteq> LabelSelectorOpNotIn \<and> \<not> IsWorkloadLabel (sr_Key r)))"

lemma index_keys_current:
  assumes "live w" "labels_current w" "(CreateSelectorLabel l, v) \<in> selector_labels w"
  shows "CreateWorkloadIndexKey (CreateSelectorLabel l) v \<in> workload_index_keys w"
proof -
  have "mget (ew_Labels (UpdateSelectorLabels w)) (CreateSelectorLabel l) = Some v"
    using assms(3) by (simp add: UpdateSelectorLabels_lookup)
  then have "mget (ew_Labels w) (CreateSelectorLabel l) = Some v"
    using assms(2) by (simp add: labels_current_def mget_def)
  then have "\<exists>n v'. CreateWorkloadIndexKey (CreateSelectorLabel l) v = CreateWorkloadIndexKey (CreateSelectorLabel n) v'
      \<and> mget (ew_Labels w) (CreateSelectorLabel n) = Some v'"
    by blast
  then show ?thesis
    using assms(1) unfolding workload_index_keys_def live_def by (simp del: index_key_simps)
qed

lemma collect_member: "collect f xs = Inr ys \<Longrightarrow> x \<in> set xs \<Longrightarrow> \<exists>y \<in> set ys. f x = Inr y"
  by (induction xs arbitrary: ys) (auto split: sum.splits)

lemma needs_label:
  "Requirement_Matches r ls \<Longrightarrow> rq_operator r = Equals \<or> rq_operator r = In \<or> rq_operator r = Exists \<Longrightarrow>
     mget ls (rq_key r) \<noteq> None"
  by (auto simp: Requirement_Matches_def split: option.splits)

lemma matched_requirement:
  assumes "LabelSelectorAsSelector (Some s) = Inr sel" "Selector_Matches sel ls"
  shows "k \<in> mkeys (ls_MatchLabels s) \<Longrightarrow> mget ls k \<noteq> None"
    and "e \<in> set (ls_MatchExpressions s) \<Longrightarrow> sr_Operator e \<noteq> LabelSelectorOpNotIn \<Longrightarrow>
      sr_Operator e \<noteq> LabelSelectorOpDoesNotExist \<Longrightarrow> mget ls (sr_Key e) \<noteq> None"
proof -
  let ?ks = "sorted_list_of_fset (fmdom (entries (ls_MatchLabels s)))"
  obtain rs1 rs2 where sel: "sel = InternalSelector (rs1 @ rs2)"
    and r1: "collect (\<lambda>k. NewRequirement k Equals [the (mget (ls_MatchLabels s) k)]) ?ks = Inr rs1"
    and r2: "collect expression_requirement (ls_MatchExpressions s) = Inr rs2"
    using assms(1) by (auto simp: LabelSelectorAsSelector_def split: sum.splits)
  have all: "\<forall>r \<in> set rs1 \<union> set rs2. Requirement_Matches r ls"
    using assms(2) sel by (auto simp: list_all_iff)
  show "mget ls k \<noteq> None" if "k \<in> mkeys (ls_MatchLabels s)"
  proof -
    have "k \<in> set ?ks" using that by (simp add: mkeys_def fmdom'_alt_def)
    then obtain r where "r \<in> set rs1" "NewRequirement k Equals [the (mget (ls_MatchLabels s) k)] = Inr r"
      using collect_member [OF r1] by blast
    then show ?thesis
      using all needs_label [of r ls] by (auto dest!: NewRequirement_Inr)
  qed
  show "mget ls (sr_Key e) \<noteq> None" if e: "e \<in> set (ls_MatchExpressions s)" and
    op: "sr_Operator e \<noteq> LabelSelectorOpNotIn" "sr_Operator e \<noteq> LabelSelectorOpDoesNotExist"
  proof -
    obtain r where "r \<in> set rs2" "expression_requirement e = Inr r"
      using collect_member [OF r2 e] by blast
    then show ?thesis
      using all op needs_label [of r ls]
      by (auto simp: expression_requirement_def dest!: NewRequirement_Inr split: if_splits)
  qed
qed

lemma match_found_by_index:
  assumes match: "isWorkloadMatchDevice w d = Inr True" and w: "live w" "labels_current w"
    and dev: "ws_Device (ew_Spec w) \<noteq> [] \<longrightarrow> ws_Device (ew_Spec w) = ed_Name d \<and> mget (ed_Labels d) DeviceNameLabel = None"
    and sel: "ws_Device (ew_Spec w) = [] \<longrightarrow> ed_Name d \<noteq> [] \<and> indexable (the (ws_DeviceSelector (ew_Spec w)))"
  shows "workload_index_keys w \<inter> queried_keys d \<noteq> {}"
proof (cases "ws_Device (ew_Spec w) = []")
  case False
  then have "CreateWorkloadIndexKey (CreateSelectorLabel DeviceNameLabel) (ed_Name d) \<in> workload_index_keys w"
    using dev by (intro index_keys_current [OF w]) (simp add: selector_labels_def)
  moreover have "CreateWorkloadIndexKey (CreateSelectorLabel DeviceNameLabel) (ed_Name d) \<in> queried_keys d"
    using dev False by (intro queried_name) simp
  ultimately show ?thesis by (metis IntI emptyE)
next
  case True
  then obtain s sel where s: "ws_DeviceSelector (ew_Spec w) = Some s" "LabelSelectorAsSelector (Some s) = Inr sel"
    "Selector_Matches sel (ed_Labels d)"
    using match sel by (auto simp: isWorkloadMatchDevice_def split: if_splits sum.splits)
  then have lab: "(CreateSelectorLabel k, ''true'') \<in> selector_labels w" if "k \<in> mkeys (ls_MatchLabels s)" for k
    using that True by (simp add: selector_labels_def)
  have ex: "(requirement_label e, ''true'') \<in> selector_labels w" if "e \<in> set (ls_MatchExpressions s)" for e
    using that True s by (simp add: selector_labels_def)
  consider k where "k \<in> mkeys (ls_MatchLabels s)" "\<not> IsWorkloadLabel k"
    | e where "e \<in> set (ls_MatchExpressions s)" "sr_Operator e = LabelSelectorOpDoesNotExist"
    | e where "e \<in> set (ls_MatchExpressions s)" "sr_Operator e \<noteq> LabelSelectorOpDoesNotExist"
        "sr_Operator e \<noteq> LabelSelectorOpNotIn" "\<not> IsWorkloadLabel (sr_Key e)"
    using sel True s(1) unfolding indexable_def by auto
  then show ?thesis
  proof cases
    case 1
    then have "mget (ed_Labels d) k \<noteq> None" using matched_requirement(1) [OF s(2,3)] by blast
    then show ?thesis
      using index_keys_current [OF w lab [OF 1(1)]] queried_label [OF _ 1(2)] by (metis IntI emptyE)
  next
    case 2
    then have "(CreateSelectorLabel DoesNotExistLabel, ''true'') \<in> selector_labels w"
      using ex [OF 2(1)] by (simp add: requirement_label_def)
    from index_keys_current [OF w this] show ?thesis using queried_missing by (metis IntI emptyE)
  next
    case 3
    then have "(CreateSelectorLabel (sr_Key e), ''true'') \<in> selector_labels w"
      using ex [OF 3(1)] 3(2) by (simp add: requirement_label_def)
    moreover have "mget (ed_Labels d) (sr_Key e) \<noteq> None"
      using matched_requirement(2) [OF s(2,3)] 3 by blast
    ultimately show ?thesis
      using index_keys_current [OF w] queried_label [OF _ 3(4)] by (metis IntI emptyE)
  qed
qed

section \<open>The workloads a device ends up with\<close>

lemma match_workloads_result:
  "match_workloads d ws sel = Inr sel' \<Longrightarrow>
     (\<forall>n b. fmlookup sel n = Some b \<longrightarrow> fmlookup sel' n = Some b) \<and>
     (\<forall>w \<in> set ws. fmlookup sel' (ew_Name w) \<noteq> None) \<and>
     (\<forall>n b. fmlookup sel' n = Some b \<longrightarrow>
        fmlookup sel n = Some b \<or> (\<exists>w \<in> set ws. ew_Name w = n \<and> isWorkloadMatchDevice w d = Inr b))"
proof (induction ws arbitrary: sel)
  case (Cons w ws)
  show ?case
  proof (cases "fmlookup sel (ew_Name w) = None")
    case True
    then obtain b where b: "isWorkloadMatchDevice w d = Inr b"
      "match_workloads d ws (fmupd (ew_Name w) b sel) = Inr sel'"
      using Cons.prems by (auto split: sum.splits)
    note IH = Cons.IH [OF b(2)]
    have "fmlookup sel' (ew_Name w) = Some b" using IH by simp
    moreover have "\<forall>n c. fmlookup sel n = Some c \<longrightarrow> fmlookup sel' n = Some c"
      using IH True by (metis fmupd_lookup option.distinct(1))
    moreover have "fmlookup sel n = Some c \<or> (\<exists>v \<in> set (w # ws). ew_Name v = n \<and> isWorkloadMatchDevice v d = Inr c)"
      if "fmlookup sel' n = Some c" for n c
    proof (cases "n = ew_Name w")
      case False
      then have "fmlookup (fmupd (ew_Name w) b sel) n = fmlookup sel n" by simp
      then show ?thesis using IH that by (metis list.set_intros(2))
    next
      case True
      then show ?thesis using \<open>fmlookup sel' (ew_Name w) = Some b\<close> that b(1) by auto
    qed
    ultimately show ?thesis using IH by auto
  next
    case False
    then have "match_workloads d ws sel = Inr sel'" using Cons.prems by simp
    from Cons.IH [OF this] False show ?thesis by auto
  qed
qed simp

definition answered :: "io_trace \<Rightarrow> edge_workload \<Rightarrow> bool" where
  "answered t w \<longleftrightarrow> (\<exists>q r ws. (q, r) \<in> set t \<and> object_result as_workloads r = Inr ws \<and> w \<in> set ws)"

definition asked :: "edge_device \<Rightarrow> string \<Rightarrow> request" where
  "asked d l = ListWorkloads (ed_Namespace d) (MatchingFields [(WorkloadByDeviceIndexKey,
     CreateWorkloadIndexKey l (the (fmlookup (createSelectorLabelsMap d) l)))])"

definition selection_ok ::
  "edge_device \<Rightarrow> string list \<Rightarrow> (string, bool) fmap \<Rightarrow> io_trace \<Rightarrow> (string, bool) fmap \<Rightarrow> bool" where
  "selection_ok d ls sel t sel' \<longleftrightarrow>
     (\<forall>n b. fmlookup sel n = Some b \<longrightarrow> fmlookup sel' n = Some b) \<and>
     (\<forall>l \<in> set ls. \<exists>r ws. (asked d l, r) \<in> set t \<and> object_result as_workloads r = Inr ws \<and>
        (\<forall>w \<in> set ws. fmlookup sel' (ew_Name w) \<noteq> None)) \<and>
     (\<forall>n b. fmlookup sel' n = Some b \<longrightarrow>
        fmlookup sel n = Some b \<or> (\<exists>w. answered t w \<and> ew_Name w = n \<and> isWorkloadMatchDevice w d = Inr b))"

lemma selection_ok_step:
  assumes "match_workloads d ws sel = Inr sel1" "object_result as_workloads r = Inr ws" "selection_ok d ls sel1 t sel'"
  shows "selection_ok d (l # ls) sel ((asked d l, r) # t) sel'"
proof -
  note m = match_workloads_result [OF assms(1)]
  have "answered ((asked d l, r) # t) w" if "w \<in> set ws \<or> answered t w" for w
    using that assms(2) by (auto simp: answered_def)
  moreover have "\<forall>w \<in> set ws. fmlookup sel' (ew_Name w) \<noteq> None"
    using m assms(3) unfolding selection_ok_def by (metis not_None_eq)
  ultimately show ?thesis
    using m assms(2,3) unfolding selection_ok_def by (auto simp del: not_None_eq) metis+
qed

lemma wp_select_workloads:
  "wp (select_workloads d ls sel) (\<lambda>t out. (\<exists>res. out = Returned res) \<and>
     (\<forall>sel'. out = Returned (Inr sel') \<longrightarrow> selection_ok d ls sel t sel'))"
proof (induction ls arbitrary: sel)
  case Nil
  then show ?case by (simp add: selection_ok_def)
next
  case (Cons l ls)
  have "wp (case match_workloads d ws sel of Inl e \<Rightarrow> Ret (Inl e) | Inr selected' \<Rightarrow> select_workloads d ls selected')
     (\<lambda>t out. (\<exists>res. out = Returned res) \<and>
        (\<forall>sel'. out = Returned (Inr sel') \<longrightarrow> selection_ok d (l # ls) sel ((asked d l, r) # t) sel'))"
    if "object_result as_workloads r = Inr ws" for r ws
  proof (cases "match_workloads d ws sel")
    case (Inr sel1)
    then show ?thesis
      using selection_ok_step [OF Inr that] by (auto intro: wp_conseq [OF Cons])
  qed simp
  then show ?case
    by (simp add: wp_tryp go_defs asked_def [symmetric] split: sum.split)
qed

lemma keep_workloads_closed:
  assumes "distinct (map wl_Name ws)"
  shows "keep_workloads ws (kept, labels, sel, u) =
    (kept @ filter (\<lambda>w. fmlookup sel (wl_Name w) = Some True) ws,
     fold (\<lambda>w. fmdrop (WorkloadLabel (wl_Name w))) (filter (\<lambda>w. fmlookup sel (wl_Name w) \<noteq> Some True) ws) labels,
     fold (\<lambda>w. fmdrop (wl_Name w)) (filter (\<lambda>w. fmlookup sel (wl_Name w) = Some True) ws) sel,
     u \<or> (\<exists>w \<in> set ws. fmlookup sel (wl_Name w) \<noteq> Some True))"
  using assms
proof (induction ws arbitrary: kept labels sel u)
  case (Cons w ws)
  have "fmlookup (fmdrop (wl_Name w) sel) (wl_Name v) = fmlookup sel (wl_Name v)" if "v \<in> set ws" for v
    using Cons.prems that by (auto simp: image_iff)
  then have "filter (\<lambda>v. fmlookup (fmdrop (wl_Name w) sel) (wl_Name v) = Some True) ws
      = filter (\<lambda>v. fmlookup sel (wl_Name v) = Some True) ws"
    "filter (\<lambda>v. fmlookup (fmdrop (wl_Name w) sel) (wl_Name v) \<noteq> Some True) ws
      = filter (\<lambda>v. fmlookup sel (wl_Name v) \<noteq> Some True) ws"
    "(\<exists>v \<in> set ws. fmlookup (fmdrop (wl_Name w) sel) (wl_Name v) \<noteq> Some True)
      = (\<exists>v \<in> set ws. fmlookup sel (wl_Name v) \<noteq> Some True)"
    by (auto intro!: filter_cong simp del: fmlookup_drop)
  then show ?case using Cons by auto
qed simp

lemma fold_fmdrop_lookup:
  "fmlookup (fold (\<lambda>x. fmdrop (f x)) xs m) k = (if k \<in> f ` set xs then None else fmlookup m k)"
  by (induction xs arbitrary: m) auto

definition selected_names :: "(string, bool) fmap \<Rightarrow> string set" where
  "selected_names sel = {n. fmlookup sel n = Some True}"

abbreviation workloads_of :: "edge_device \<Rightarrow> workload list" where
  "workloads_of d \<equiv> elems (es_Workloads (ed_Status d))"

lemma createUpdatedDevice_closed:
  assumes dist: "distinct (map wl_Name (workloads_of d))"
    and e: "exec (createUpdatedDevice sel d) t (Returned u)"
  obtains new where "t = []" "distinct new" "set new = selected_names sel - wl_Name ` set (workloads_of d)"
    "u = (if (\<exists>w \<in> set (workloads_of d). wl_Name w \<notin> selected_names sel) \<or> new \<noteq> [] then
       Some (set_ed_Labels (Some (fold (\<lambda>n m. fmupd (WorkloadLabel n) ''true'' m) new
           (fold (\<lambda>w. fmdrop (WorkloadLabel (wl_Name w)))
             (filter (\<lambda>w. wl_Name w \<notin> selected_names sel) (workloads_of d)) (entries (ed_Labels d)))))
         (set_ed_Workloads (appended (filter (\<lambda>w. wl_Name w \<in> selected_names sel) (workloads_of d) @ map new_workload new)) d))
       else None)"
proof -
  let ?rest = "fold (\<lambda>w. fmdrop (wl_Name w)) (filter (\<lambda>w. fmlookup sel (wl_Name w) = Some True) (workloads_of d)) sel"
  obtain names where n: "distinct names" "set names = mkeys (Some ?rest)" "t = []"
    and u: "Ret u = (let new = filter (\<lambda>n. fmlookup ?rest n = Some True) names;
                deviceCopy = set_ed_Labels (Some (fold (\<lambda>n m. fmupd (WorkloadLabel n) ''true'' m) new
                  (fold (\<lambda>w. fmdrop (WorkloadLabel (wl_Name w))) (filter (\<lambda>w. fmlookup sel (wl_Name w) \<noteq> Some True) (workloads_of d)) (entries (ed_Labels d)))))
                  (set_ed_Workloads (appended (filter (\<lambda>w. fmlookup sel (wl_Name w) = Some True) (workloads_of d) @ map new_workload new)) d)
            in Ret (if (\<exists>w \<in> set (workloads_of d). fmlookup sel (wl_Name w) \<noteq> Some True) \<or> new \<noteq> [] then Some deviceCopy else None) :: (request, response, _) prog)"
    using e unfolding createUpdatedDevice_def keep_workloads_closed [OF dist]
    by (auto simp: exec_bindp exec_range_keys Let_def)
  let ?new = "filter (\<lambda>n. fmlookup ?rest n = Some True) names"
  have "fmlookup ?rest k = Some True \<longleftrightarrow> k \<in> selected_names sel - wl_Name ` set (workloads_of d)" for k
    by (auto simp: fold_fmdrop_lookup selected_names_def)
  moreover from this have "set ?new = selected_names sel - wl_Name ` set (workloads_of d)"
    using n(2) by (auto simp: fmlookup_dom'_iff)
  ultimately show thesis
    using that [of ?new] n(1,3) u by (simp add: Let_def selected_names_def)
qed

section \<open>Signed requests\<close>

definition only_true_last :: "edsr_status_type \<Rightarrow> edsr_condition list \<Rightarrow> bool" where
  "only_true_last ty cs \<longleftrightarrow> cs \<noteq> [] \<and> rc_Type (last cs) = ty \<and> rc_Status (last cs) = ''true'' \<and>
     (\<forall>c \<in> set (butlast cs). rc_Status c = ''false'')"

lemma wp_mark_status:
  "wp (mark_status ty msg r) (\<lambda>t out. (\<exists>err. out = Returned err) \<and>
     (\<exists>x y r'. t = [(Now, x), (PatchEDSRStatus r r', y)] \<and> only_true_last ty (rst_Conditions (sr_Status r')) \<and>
        sr_Spec r' = sr_Spec r \<and> sr_meta r' = sr_meta r \<and>
        length (rst_Conditions (sr_Status r')) = Suc (length (rst_Conditions (sr_Status r)))))"
  by (auto simp: mark_status_def Let_def go_defs wp_base only_true_last_def)

lemma only_true_not_pending: "only_true_last ty (rst_Conditions (sr_Status r)) \<Longrightarrow> \<not> IsPending r"
  by (cases "rst_Conditions (sr_Status r)" rule: rev_cases) (auto simp: only_true_last_def IsPending_def)

lemma wp_mark_no_create:
  "wp (mark_status ty msg r) (\<lambda>t out. \<forall>d x. (CreateDevice d, x) \<notin> set t)"
  by (rule wp_conseq [OF wp_mark_status]) auto

definition request_device :: "edsr \<Rightarrow> edge_device \<Rightarrow> bool" where
  "request_device r d \<longleftrightarrow> ed_Name d = om_Name (sr_meta r) \<and> ed_Namespace d = rs_TargetNamespace (sr_Spec r) \<and>
     om_Finalizers (ed_meta d) = [DeviceFinalizer] \<and>
     mget (ed_Labels d) EdgeDeviceSignedRequestLabelName = Some EdgeDeviceSignedRequestLabelValue \<and>
     mget (ed_Labels d) EdgedeviceSetLabel =
       (if rs_TargetSet (sr_Spec r) = [] then None else Some (rs_TargetSet (sr_Spec r)))"

lemma request_device_for: "request_device r (device_for_request r now)"
  by (auto simp: request_device_def device_for_request_def Let_def fmlookup_of_list
      EdgeDeviceSignedRequestLabelName_def EdgedeviceSetLabel_def)

lemma wp_EDSR_Reconcile:
  "wp (EDSR_Reconcile auto name ns) (\<lambda>t out. (\<exists>res. out = Returned res) \<and>
     (\<forall>d x. (CreateDevice d, x) \<in> set t \<longrightarrow> (\<exists>r r0. (GetEDSR name ns, r0) \<in> set t \<and>
        object_result as_edsr r0 = Inr r \<and> rs_Approved (sr_Spec r) \<and> request_device r d)))"
  by (auto simp: EDSR_Reconcile_def markStatusPending_def markStatusApproved_def go_defs wp_base
      request_device_for intro!: wp_conseq [OF wp_mark_status] split: sum.split option.split)

section \<open>The guarantees\<close>

text \<open>Property C8: the device controller takes the finalizer off a device only with its last request, only when
  the device is being deleted, and only after the signed request of the device was found to be gone or
  was deleted with success.\<close>

theorem device_finalizer_last:
  assumes "exec (EdgeDevice_Reconcile r name ns) t out" and "(PatchDevice d d', x) \<in> set t"
  shows "om_DeletionTimestamp (ed_meta d) \<noteq> None \<and> last t = (PatchDevice d d', x) \<and>
    d' = set_ed_Finalizers (without DeviceFinalizer (om_Finalizers (ed_meta d))) d \<and>
    request_gone (ed_Name d) (dr_InitialDeviceNamespace r) t"
  using assms(1)
proof (cases rule: EdgeDevice_Reconcile_exec)
  case (deleted r0 v t')
  then have p: "(PatchDevice d d', x) \<in> set t'" using assms(2) by auto
  then have "d = v \<and> d' = set_ed_Finalizers (without DeviceFinalizer (om_Finalizers (ed_meta v))) v \<and>
      last t' = (PatchDevice d d', x) \<and> request_gone (ed_Name v) (dr_InitialDeviceNamespace r) t'"
    using wp_execD [OF wp_reconcile_deleted deleted(4)] by blast
  moreover have "t' \<noteq> []" using p by auto
  ultimately show ?thesis
    using deleted(1,3) request_gone_Cons by simp
next
  case (storage r0 v t')
  then have "(PatchDevice d d', x) \<in> set t'" using assms(2) by auto
  then show ?thesis
    using issues_reconcile_storage [unfolded issues_exec] storage(5) by fastforce
qed (use assms(2) in auto)

text \<open>An object bucket claim is created only for a live device whose claim was looked up and not
  found, which has no claim on record, and for which claims are switched on, by the operator or by a storage
  specification that asks for one and names no external configuration.\<close>

theorem claim_created_once:
  assumes "exec (EdgeDevice_Reconcile r name ns) t out" and "(CreateOBC c, x) \<in> set t"
  shows "\<exists>d r0. hd t = (GetDevice name ns, r0) \<and> object_result as_device r0 = Inr d \<and> c = claim_for d \<and>
    om_DeletionTimestamp (ed_meta d) = None \<and> (es_DataOBC (ed_Status d) = None \<or> es_DataOBC (ed_Status d) = Some []) \<and>
    (dr_ObcAutoCreate r \<or> (ShouldCreateOBC (ds_Storage (ed_Spec d)) \<and> \<not> ShouldUseExternalConfig (ds_Storage (ed_Spec d)))) \<and>
    (\<exists>r1 e. (GetOBC (ed_Name d) (ed_Namespace d), r1) \<in> set t \<and> object_result as_obc r1 = Inl e \<and> IsNotFound e)"
  using assms(1)
proof (cases rule: EdgeDevice_Reconcile_exec)
  case (deleted r0 v t')
  then show ?thesis using wp_execD [OF wp_reconcile_deleted deleted(4)] assms(2) by auto
next
  case (storage r0 v t')
  then have c: "(CreateOBC c, x) \<in> set t'" using assms(2) by auto
  have "wp (reconcile_storage v) (\<lambda>t out. \<forall>c x. (CreateOBC c, x) \<in> set t \<longrightarrow> c = claim_for v \<and>
      (es_DataOBC (ed_Status v) = None \<or> es_DataOBC (ed_Status v) = Some []) \<and>
      (\<exists>r1 e. (GetOBC (ed_Name v) (ed_Namespace v), r1) \<in> set t \<and> object_result as_obc r1 = Inl e \<and> IsNotFound e))"
    by (auto simp: reconcile_storage_def createOrGetObc_def addObcReference_def GetClaim_def CreateClaim_def go_defs
        wp_base split: sum.split option.split)
  from wp_execD [OF this storage(5)] c show ?thesis
    using storage(1-4) OBC_excludes_external by auto
qed (use assms(2) in auto)


text \<open>The labels controller gives a device a workload that matches it, provided the API server
  answers an indexed query with every workload that has the key and two workloads with the name of this one
  are the same: after the queries the workload is selected.\<close>

theorem matching_workload_is_selected:
  assumes "exec (select_workloads d ls fmempty) t (Returned (Inr sel))"
    and "set ls = fmdom' (createSelectorLabelsMap d)"
    and "workload_index_keys w \<inter> queried_keys d \<noteq> {}" and "isWorkloadMatchDevice w d = Inr True"
    and server: "\<And>ns k r ws. (ListWorkloads ns (MatchingFields [(WorkloadByDeviceIndexKey, k)]), r) \<in> set t \<Longrightarrow>
      object_result as_workloads r = Inr ws \<Longrightarrow> k \<in> workload_index_keys w \<Longrightarrow> w \<in> set ws"
    and unique: "\<And>v. answered t v \<Longrightarrow> ew_Name v = ew_Name w \<Longrightarrow> v = w"
  shows "fmlookup sel (ew_Name w) = Some True"
proof -
  have ok: "selection_ok d ls fmempty t sel"
    using wp_execD [OF wp_select_workloads assms(1)] by simp
  obtain l v where l: "fmlookup (createSelectorLabelsMap d) l = Some v" "CreateWorkloadIndexKey l v \<in> workload_index_keys w"
    using assms(3) by (auto simp: queried_keys_def)
  then have "l \<in> set ls" using assms(2) by (auto simp: fmlookup_dom'_iff)
  then obtain r ws where r: "(asked d l, r) \<in> set t" "object_result as_workloads r = Inr ws"
    "\<forall>w \<in> set ws. fmlookup sel (ew_Name w) \<noteq> None"
    using ok unfolding selection_ok_def by blast
  then have "w \<in> set ws" using server l by (simp add: asked_def)
  then obtain b where b: "fmlookup sel (ew_Name w) = Some b" using r(3) by auto
  then obtain v where "answered t v" "ew_Name v = ew_Name w" "isWorkloadMatchDevice v d = Inr b"
    using ok unfolding selection_ok_def by (metis fmempty_lookup option.distinct(1))
  then show ?thesis using unique assms(4) b by (metis Inr_inject)
qed

text \<open>Property C35: for a device whose status lists no workload twice, \<open>createUpdatedDevice\<close> leaves the device alone exactly when
  its workloads are the selected ones; otherwise the new status has exactly the selected workloads, each once, with the entries it
  had before and a \<open>Deploying\<close> entry for each new one, the labels of workloads that left are gone, the labels of new ones are
  set, and all other labels are as before. Whatever the order in which the map is visited. (With an entry listed twice the label of
  a workload that stays is deleted: \<open>doubled_entry_loses_label\<close>.)\<close>

theorem createUpdatedDevice_exact:
  assumes "distinct (map wl_Name (workloads_of d))" and "exec (createUpdatedDevice sel d) t (Returned u)"
  shows "(u = None \<longleftrightarrow> wl_Name ` set (workloads_of d) = selected_names sel) \<and>
    (\<forall>d'. u = Some d' \<longrightarrow>
       wl_Name ` set (workloads_of d') = selected_names sel \<and> distinct (map wl_Name (workloads_of d')) \<and>
       (\<forall>w \<in> set (workloads_of d). wl_Name w \<in> selected_names sel \<longrightarrow> w \<in> set (workloads_of d')) \<and>
       (\<forall>n \<in> selected_names sel - wl_Name ` set (workloads_of d). new_workload n \<in> set (workloads_of d')) \<and>
       (\<forall>k. mget (ed_Labels d') k =
          (if k \<in> WorkloadLabel ` (selected_names sel - wl_Name ` set (workloads_of d)) then Some ''true''
           else if k \<in> WorkloadLabel ` (wl_Name ` set (workloads_of d) - selected_names sel) then None
           else mget (ed_Labels d) k)))"
proof -
  from createUpdatedDevice_closed [OF assms] obtain new where new: "distinct new"
    "set new = selected_names sel - wl_Name ` set (workloads_of d)"
    and u: "u = (if (\<exists>w \<in> set (workloads_of d). wl_Name w \<notin> selected_names sel) \<or> new \<noteq> [] then
       Some (set_ed_Labels (Some (fold (\<lambda>n m. fmupd (WorkloadLabel n) ''true'' m) new
           (fold (\<lambda>w. fmdrop (WorkloadLabel (wl_Name w)))
             (filter (\<lambda>w. wl_Name w \<notin> selected_names sel) (workloads_of d)) (entries (ed_Labels d)))))
         (set_ed_Workloads (appended (filter (\<lambda>w. wl_Name w \<in> selected_names sel) (workloads_of d) @ map new_workload new)) d))
       else None)"
    by metis
  let ?S = "selected_names sel" and ?old = "workloads_of d"
  let ?kept = "filter (\<lambda>w. wl_Name w \<in> ?S) ?old"
  let ?labels = "fold (\<lambda>n m. fmupd (WorkloadLabel n) ''true'' m) new
     (fold (\<lambda>w. fmdrop (WorkloadLabel (wl_Name w))) (filter (\<lambda>w. wl_Name w \<notin> ?S) ?old) (entries (ed_Labels d)))"
  have names: "wl_Name (new_workload n) = n" for n by (simp add: new_workload_def)
  then have mnew: "map (wl_Name \<circ> new_workload) new = new" by (simp add: map_idI)
  have "wl_Name ` set ?kept = ?S \<inter> wl_Name ` set ?old" by auto
  then have set_names: "wl_Name ` set (?kept @ map new_workload new) = ?S"
    using new(2) by (simp add: image_Un image_image names Un_Diff_Int Int_commute Un_commute)
  have "distinct (map wl_Name ?kept)" using assms(1) by (simp add: distinct_map_filter)
  then have dist: "distinct (map wl_Name (?kept @ map new_workload new))"
    using new mnew by auto
  have lookup: "fmlookup ?labels k = (if k \<in> WorkloadLabel ` (?S - wl_Name ` set ?old) then Some ''true''
      else if k \<in> WorkloadLabel ` (wl_Name ` set ?old - ?S) then None else mget (ed_Labels d) k)" for k
    unfolding fold_fmupd_const fold_fmdrop_lookup new(2) mget_def by auto
  have none: "u = None \<longleftrightarrow> wl_Name ` set ?old = ?S"
    using new(2) by (auto simp: u)
  have some: "d' = set_ed_Labels (Some ?labels) (set_ed_Workloads (appended (?kept @ map new_workload new)) d)"
    if "u = Some d'" for d'
    using that by (auto simp: u split: if_splits)
  then have "workloads_of d' = ?kept @ map new_workload new" "mget (ed_Labels d') k = fmlookup ?labels k"
    if "u = Some d'" for d' k
    using some [OF that] by simp_all
  then show ?thesis
    using none set_names dist lookup new(2) by simp
qed

text \<open>Property C4: the signed-request controller creates a device only for a request it has just read as
  approved; the device has the name of the request, lives in the target namespace, carries the device
  finalizer and the label of a signed request, and belongs to the target set if one is given. It always
  returns.\<close>

theorem device_created_only_if_approved:
  "exec (EDSR_Reconcile auto name ns) t out \<longrightarrow> (\<exists>res. out = Returned res) \<and>
     (\<forall>d x. (CreateDevice d, x) \<in> set t \<longrightarrow> (\<exists>r r0. (GetEDSR name ns, r0) \<in> set t \<and>
        object_result as_edsr r0 = Inr r \<and> rs_Approved (sr_Spec r) \<and> request_device r d))"
  using wp_execD [OF wp_EDSR_Reconcile] by blast

text \<open>Marking a signed request writes one status patch, in which the new condition is the last one
  and the only one whose status is \<open>"true"\<close>; the specification is not touched. A status written as pending is
  never recognised by \<open>IsPending\<close>, which looks for \<open>"True"\<close>, so the next reconciliation marks it again.\<close>

theorem pending_status_not_recognised:
  "exec (markStatusPending r) t out \<longrightarrow> (\<exists>x y r'. t = [(Now, x), (PatchEDSRStatus r r', y)] \<and>
     only_true_last EdgeDeviceSignedRequestStatusPending (rst_Conditions (sr_Status r')) \<and>
     sr_Spec r' = sr_Spec r \<and> \<not> IsPending r' \<and>
     length (rst_Conditions (sr_Status r')) = Suc (length (rst_Conditions (sr_Status r))))"
  using wp_execD [OF wp_mark_status] only_true_not_pending unfolding markStatusPending_def by metis

text \<open>\<open>updatePlaybookExecutions\<close> of the labels controller never sends a request: it deletes the labels
  of finished playbooks from the map of the device itself, and \<open>UpdateLabels\<close> then finds nothing to change.\<close>

theorem finished_config_labels_stay:
  "exec (Labels_updatePlaybookExecutions d) t out \<longrightarrow> t = [] \<and> out = Returned None"
  using wp_execD [OF silent_updatePlaybookExecutions] by blast

section \<open>Witnesses\<close>

definition deleted_device :: edge_device where
  "deleted_device = zero_edge_device\<lparr>ed_meta := zero_meta\<lparr>om_Name := ''d'', om_Namespace := ''ns'',
     om_Finalizers := [DeviceFinalizer], om_DeletionTimestamp := Some 1\<rparr>\<rparr>"

definition operator_settings :: device_reconciler where
  "operator_settings = \<lparr>dr_InitialDeviceNamespace = ''default'', dr_ObcAutoCreate = True\<rparr>"

lemma device_removal_run:
  "map_option (\<lambda>(t, out). (fst (last t), length t))
     (replay (EdgeDevice_Reconcile operator_settings ''d'' ''ns'') [RDevice deleted_device, REdsr zero_edsr, ROk, ROk] [])
   = Some (PatchDevice deleted_device (set_ed_Finalizers [] deleted_device), 4)"
  by code_simp

theorem device_finalizer_last_witness:
  "\<exists>t out. exec (EdgeDevice_Reconcile operator_settings ''d'' ''ns'') t out \<and> request_gone ''d'' ''default'' t"
proof -
  obtain t out where r: "replay (EdgeDevice_Reconcile operator_settings ''d'' ''ns'')
      [RDevice deleted_device, REdsr zero_edsr, ROk, ROk] [] = Some (t, out)"
    "fst (last t) = PatchDevice deleted_device (set_ed_Finalizers [] deleted_device)" "length t = 4"
    using device_removal_run by auto
  then have "last t \<in> set t" by (intro last_in_set) auto
  then have "(PatchDevice deleted_device (set_ed_Finalizers [] deleted_device), snd (last t)) \<in> set t"
    using r(2) by (metis prod.collapse)
  from device_finalizer_last [OF replay_exec [OF r(1)] this] replay_exec [OF r(1)] show ?thesis
    by (auto simp: deleted_device_def operator_settings_def)
qed

definition plain_device :: edge_device where
  "plain_device = zero_edge_device\<lparr>ed_meta := zero_meta\<lparr>om_Name := ''d'', om_Namespace := ''ns''\<rparr>\<rparr>"

definition not_found :: error where
  "not_found = StatusError NotFound 404 ''not found''"

lemma claim_run:
  "map_option (\<lambda>(t, out). (fst (t ! 2), length t))
     (replay (EdgeDevice_Reconcile operator_settings ''d'' ''ns'')
       [RDevice plain_device, RErr not_found, ROBC (claim_for plain_device), RDevice plain_device] [])
   = Some (CreateOBC (claim_for plain_device), 4)"
  by code_simp

theorem claim_created_once_witness:
  "\<exists>t out d r0. exec (EdgeDevice_Reconcile operator_settings ''d'' ''ns'') t out \<and>
     hd t = (GetDevice ''d'' ''ns'', r0) \<and> object_result as_device r0 = Inr d \<and>
     (CreateOBC (claim_for d), snd (t ! 2)) \<in> set t"
proof -
  obtain t out where r: "replay (EdgeDevice_Reconcile operator_settings ''d'' ''ns'')
      [RDevice plain_device, RErr not_found, ROBC (claim_for plain_device), RDevice plain_device] [] = Some (t, out)"
    "fst (t ! 2) = CreateOBC (claim_for plain_device)" "length t = 4"
    using claim_run by auto
  then have "t ! 2 \<in> set t" by simp
  then have c: "(CreateOBC (claim_for plain_device), snd (t ! 2)) \<in> set t"
    using r(2) by (metis prod.collapse)
  obtain d r0 where "hd t = (GetDevice ''d'' ''ns'', r0)" "object_result as_device r0 = Inr d"
    "claim_for plain_device = claim_for d"
    using claim_created_once [OF replay_exec [OF r(1)] c] by blast
  then show ?thesis using replay_exec [OF r(1)] c by metis
qed

definition selected_workload :: edge_workload where
  "selected_workload = UpdateSelectorLabels (zero_edge_workload\<lparr>
     ew_meta := zero_meta\<lparr>om_Name := ''web'', om_Namespace := ''ns''\<rparr>,
     ew_Spec := (ew_Spec zero_edge_workload)\<lparr>ws_DeviceSelector := Some
       \<lparr>ls_MatchLabels = Some (fmap_of_list [(''app'', ''shop'')]), ls_MatchExpressions = []\<rparr>\<rparr>\<rparr>)"

definition labelled_device :: edge_device where
  "labelled_device = set_ed_Labels (Some (fmap_of_list [(''app'', ''shop'')])) plain_device"

lemma selected_workload_facts:
  "isWorkloadMatchDevice selected_workload labelled_device = Inr True"
  "live selected_workload" "labels_current selected_workload"
  "ws_Device (ew_Spec selected_workload) = []" "ed_Name labelled_device \<noteq> []"
  "indexable (the (ws_DeviceSelector (ew_Spec selected_workload)))"
  "ew_Name selected_workload = ''web''" "ed_Namespace labelled_device = ''ns''"
proof -
  show "isWorkloadMatchDevice selected_workload labelled_device = Inr True" by code_simp
  show "live selected_workload"
    by (simp add: live_def selected_workload_def UpdateSelectorLabels_def Let_def zero_meta_def)
  show "labels_current selected_workload"
    by (simp add: labels_current_def selected_workload_def UpdateSelectorLabels_twice)
  show "ws_Device (ew_Spec selected_workload) = []" by code_simp
  show "ed_Name labelled_device \<noteq> []" by code_simp
  show "indexable (the (ws_DeviceSelector (ew_Spec selected_workload)))"
    by (simp add: indexable_def selected_workload_def UpdateSelectorLabels_def Let_def zero_edge_workload_def
        IsWorkloadLabel_def HasPrefix_def WorkloadLabelPrefix_def fmlookup_dom'_iff mkeys_iff fmlookup_of_list)
  show "ew_Name selected_workload = ''web''" by code_simp
  show "ed_Namespace labelled_device = ''ns''" by code_simp
qed


lemma selection_run:
  "map_option (\<lambda>(t, out). (out, map fst t, map snd t)) (replay (select_workloads labelled_device
      [''selector/app'', ''selector/devicename'', ''selector/doesnotexist''] fmempty)
      [RWorkloads [selected_workload], RWorkloads [], RWorkloads []] [])
   = Some (Returned (Inr (fmap_of_list [(''web'', True)])),
       [asked labelled_device ''selector/app'', asked labelled_device ''selector/devicename'',
        asked labelled_device ''selector/doesnotexist''],
       [RWorkloads [selected_workload], RWorkloads [], RWorkloads []])"
  by code_simp

lemma selected_index_keys: "workload_index_keys selected_workload = {''app''}"
proof -
  have "map_option snd (replay (WorkloadByDeviceIndexFunc (WorkloadObject selected_workload) :: (unit, unit, _) prog) [] [])
      = Some (Returned (Some [''app'']))"
    by code_simp
  then obtain t where "replay (WorkloadByDeviceIndexFunc (WorkloadObject selected_workload) :: (unit, unit, _) prog) [] []
      = Some (t, Returned (Some [''app'']))" by auto
  from workload_index_elems [OF replay_exec [OF this]] show ?thesis by simp
qed

lemma selection_exec:
  "exec (select_workloads labelled_device [''selector/app'', ''selector/devicename'', ''selector/doesnotexist''] fmempty)
     [(asked labelled_device ''selector/app'', RWorkloads [selected_workload]),
      (asked labelled_device ''selector/devicename'', RWorkloads []),
      (asked labelled_device ''selector/doesnotexist'', RWorkloads [])]
     (Returned (Inr (fmap_of_list [(''web'', True)])))"
proof -
  obtain t where r: "replay (select_workloads labelled_device
      [''selector/app'', ''selector/devicename'', ''selector/doesnotexist''] fmempty)
      [RWorkloads [selected_workload], RWorkloads [], RWorkloads []] []
      = Some (t, Returned (Inr (fmap_of_list [(''web'', True)])))"
    and t: "map fst t = [asked labelled_device ''selector/app'', asked labelled_device ''selector/devicename'',
        asked labelled_device ''selector/doesnotexist'']"
      "map snd t = [RWorkloads [selected_workload], RWorkloads [], RWorkloads []]"
    using selection_run by auto
  have "t = zip (map fst t) (map snd t)" by (simp add: zip_map_fst_snd)
  then show ?thesis using replay_exec [OF r] unfolding t by simp
qed

theorem matching_workload_is_selected_witness:
  "fmlookup (fmap_of_list [(''web'', True)]) (ew_Name selected_workload) = Some True"
proof (rule matching_workload_is_selected [OF selection_exec])
  have keys: "asked labelled_device ''selector/app'' = ListWorkloads ''ns'' (MatchingFields [(WorkloadByDeviceIndexKey, ''app'')])"
    "asked labelled_device ''selector/devicename'' = ListWorkloads ''ns'' (MatchingFields [(WorkloadByDeviceIndexKey, ''d'')])"
    "asked labelled_device ''selector/doesnotexist'' = ListWorkloads ''ns'' (MatchingFields [(WorkloadByDeviceIndexKey, ''doesnotexist'')])"
    by code_simp+
  show "set [''selector/app'', ''selector/devicename'', ''selector/doesnotexist''] = fmdom' (createSelectorLabelsMap labelled_device)"
    by code_simp
  show "workload_index_keys selected_workload \<inter> queried_keys labelled_device \<noteq> {}"
    using selected_workload_facts by (intro match_found_by_index) auto
  show "isWorkloadMatchDevice selected_workload labelled_device = Inr True"
    by (rule selected_workload_facts)
  show "v = selected_workload" if "answered [(asked labelled_device ''selector/app'', RWorkloads [selected_workload]),
      (asked labelled_device ''selector/devicename'', RWorkloads []),
      (asked labelled_device ''selector/doesnotexist'', RWorkloads [])] v" for v
    using that by (auto simp: answered_def object_result_def as_workloads_def)
  show "selected_workload \<in> set ws" if "(ListWorkloads ns (MatchingFields [(WorkloadByDeviceIndexKey, k)]), r) \<in>
      set [(asked labelled_device ''selector/app'', RWorkloads [selected_workload]),
      (asked labelled_device ''selector/devicename'', RWorkloads []),
      (asked labelled_device ''selector/doesnotexist'', RWorkloads [])]"
    "object_result as_workloads r = Inr ws" "k \<in> workload_index_keys selected_workload" for ns k r ws
    using that unfolding keys by (auto simp: selected_index_keys object_result_def as_workloads_def)
qed

lemma sample_names: "distinct (map wl_Name (workloads_of (sample_device ''a'')))"
  by code_simp

theorem createUpdatedDevice_exact_witness:
  "\<exists>u. (u = None \<longleftrightarrow> wl_Name ` set (workloads_of (sample_device ''a'')) = selected_names (fmap_of_list [(''db'', True)]))
     \<and> exec (createUpdatedDevice (fmap_of_list [(''db'', True)]) (sample_device ''a'') :: _ io) [] (Returned u) \<and> u \<noteq> None"
proof -
  have "map_option (\<lambda>(t, out). (t, case out of Returned u \<Rightarrow> u \<noteq> None | _ \<Rightarrow> False))
      (replay (createUpdatedDevice (fmap_of_list [(''db'', True)]) (sample_device ''a'') :: _ io) [] []) = Some ([], True)"
    by code_simp
  then obtain out where r: "replay (createUpdatedDevice (fmap_of_list [(''db'', True)]) (sample_device ''a'') :: _ io) [] []
      = Some ([], out)" and out: "case out of Returned u \<Rightarrow> u \<noteq> None | _ \<Rightarrow> False"
    by auto
  then obtain u where u: "out = Returned u" "u \<noteq> None" by (cases out) auto
  note e = replay_exec [OF r [unfolded u(1)]]
  show ?thesis
    by (rule exI [of _ u]) (intro conjI createUpdatedDevice_exact [OF sample_names e, THEN conjunct1] e u(2))
qed

text \<open>An approved request without a device: the device is created and the request marked.\<close>

definition approved_request :: edsr where
  "approved_request = zero_edsr\<lparr>sr_meta := zero_meta\<lparr>om_Name := ''d'', om_Namespace := ''ns''\<rparr>,
     sr_Spec := (sr_Spec zero_edsr)\<lparr>rs_TargetNamespace := ''edge'', rs_Approved := True\<rparr>\<rparr>"

lemma approval_run:
  "map_option (\<lambda>(t, out). (out, fst (t ! 3), length t)) (replay (EDSR_Reconcile False ''d'' ''ns'')
     [REdsr approved_request, RErr (StatusError NotFound 404 ''no device''), RTime 5, ROk, RTime 6, REdsr approved_request] []) =
   Some (Returned (False, None), CreateDevice (device_for_request approved_request 5), 6)"
  by code_simp

theorem device_created_only_if_approved_witness:
  "\<exists>t x r r0. exec (EDSR_Reconcile False ''d'' ''ns'') t (Returned (False, None)) \<and>
     (CreateDevice (device_for_request approved_request 5), x) \<in> set t \<and> (GetEDSR ''d'' ''ns'', r0) \<in> set t \<and>
     object_result as_edsr r0 = Inr r \<and> rs_Approved (sr_Spec r) \<and> request_device r (device_for_request approved_request 5)"
proof -
  let ?answers = "[REdsr approved_request, RErr (StatusError NotFound 404 ''no device''), RTime 5, ROk, RTime 6, REdsr approved_request]"
  obtain t where r: "replay (EDSR_Reconcile False ''d'' ''ns'') ?answers [] = Some (t, Returned (False, None))"
    and c: "fst (t ! 3) = CreateDevice (device_for_request approved_request 5)" "length t = 6"
    using approval_run by auto
  from c(2) have "t ! 3 \<in> set t" by simp
  with c(1) have mem: "(CreateDevice (device_for_request approved_request 5), snd (t ! 3)) \<in> set t" by (metis prod.collapse)
  from replay_exec [OF r] have e: "exec (EDSR_Reconcile False ''d'' ''ns'') t (Returned (False, None))" .
  from device_created_only_if_approved [THEN mp, OF e] mem e show ?thesis by blast
qed

text \<open>
  A workload that the status lists twice loses its label although it stays: the first entry is kept and taken off the matches, the second
  one finds no match any more and deletes the label of the workload that was kept.
\<close>

definition doubled_device :: edge_device where
  "doubled_device = set_ed_Workloads (Some [new_workload ''web'', new_workload ''web'']) (sample_device ''a'')"

theorem doubled_entry_loses_label:
  "map_option (\<lambda>(t, out). case out of
       Returned (Some d) \<Rightarrow> (map wl_Name (workloads_of d), mget (ed_Labels d) (WorkloadLabel ''web'')) | _ \<Rightarrow> ([], None))
     (replay (createUpdatedDevice (fmap_of_list [(''web'', True)]) doubled_device :: _ io) [] []) = Some ([''web''], None) \<and>
   mget (ed_Labels doubled_device) (WorkloadLabel ''web'') = Some ''true''"
  by code_simp

theorem pending_status_not_recognised_witness:
  "\<exists>t out x y r'. exec (markStatusPending zero_edsr) t out \<and> t = [(Now, x), (PatchEDSRStatus zero_edsr r', y)] \<and> \<not> IsPending r'"
proof -
  obtain t out where e: "exec (markStatusPending zero_edsr) t out" using exec_exists by blast
  from pending_status_not_recognised [THEN mp, OF e] e show ?thesis by blast
qed

theorem finished_config_labels_stay_witness:
  "\<exists>t out. exec (Labels_updatePlaybookExecutions (sample_device ''a'')) t out \<and> t = []"
proof -
  obtain t out where e: "exec (Labels_updatePlaybookExecutions (sample_device ''a'')) t out" using exec_exists by blast
  from finished_config_labels_stay [THEN mp, OF e] e show ?thesis by blast
qed

end
