(* ===== verification/Hardware.thy ===== *)
theory Hardware
  imports Model_Types Labels
begin

text \<open>
  The translation of a device's hardware report into the resource status and into labels
  (\<open>src/internal/edgeapi/hardware/hardware.go\<close>), and the correctness of \<open>NormalizeLabel\<close>, on which the
  labels rest. A nil entry of a list that the code dereferences is a run-time panic.
\<close>

section \<open>Printing a frequency\<close>

definition round_half_even :: "rat \<Rightarrow> int" where
  "round_half_even q = (let f = floor q; d = q - of_int f in
     if d < 1 / 2 then f else if d > 1 / 2 then f + 1 else if even f then f else f + 1)"

text \<open>\<open>fmt.Sprintf("%.2f", q)\<close>: correctly rounded, ties to even.\<close>

definition Sprintf_f2 :: "rat \<Rightarrow> string" where
  "Sprintf_f2 q = (let n = nat (round_half_even (\<bar>q\<bar> * 100)) in
     (if q < 0 then ''-'' else []) @ print_nat (n div 100) @ ''.'' @
     [chr (48 + n mod 100 div 10), chr (48 + n mod 10)])"

section \<open>MapHardware\<close>

definition map_disk :: "m_disk option \<Rightarrow> ('q, 'r, disk option) prog" where
  "map_disk p = bindp (deref p) (\<lambda>d. Ret (Some
     \<lparr>dk_Bootable = dk_Bootable d, dk_ByID = dk_ByID d, dk_ByPath = dk_ByPath d,
      dk_DriveType = dk_DriveType d, dk_Hctl = dk_Hctl d, dk_ID = dk_ID d, dk_IoPerf = dk_IoPerf d,
      dk_IsInstallationMedia = dk_IsInstallationMedia d, dk_Model = dk_Model d, dk_Name = dk_Name d,
      dk_Path = dk_Path d, dk_Serial = dk_Serial d, dk_SizeBytes = dk_SizeBytes d, dk_Smart = dk_Smart d,
      dk_Vendor = dk_Vendor d, dk_Wwn = dk_Wwn d\<rparr>))"

definition map_host_device :: "m_host_device option \<Rightarrow> ('q, 'r, host_device option) prog" where
  "map_host_device p = bindp (deref p) (\<lambda>h. Ret (Some
     \<lparr>hd_Path = mhd_Path h, hd_DeviceType = mhd_DeviceType h, hd_UID = ucast (mhd_UID h),
      hd_GID = ucast (mhd_Gid h), hd_Major = ucast (mhd_Major h), hd_Minor = ucast (mhd_Minor h)\<rparr>))"

definition map_mount :: "m_mount option \<Rightarrow> ('q, 'r, mount option) prog" where
  "map_mount p = bindp (deref p) (\<lambda>m. Ret (Some
     \<lparr>mo_Device = mo_Device m, mo_Directory = mo_Directory m, mo_Type = mo_Type m, mo_Options = mo_Options m\<rparr>))"

definition map_cpu :: "m_cpu \<Rightarrow> cpu" where
  "map_cpu c = \<lparr>cp_Architecture = mcp_Architecture c, cp_Count = mcp_Count c, cp_Flags = mcp_Flags c,
     cp_Frequency = Sprintf_f2 (mcp_Frequency c), cp_ModelName = mcp_ModelName c\<rparr>"

definition MapHardware :: "hardware_info option \<Rightarrow> ('q, 'r, hardware option) prog" where
  "MapHardware hardware = (case hardware of
      None \<Rightarrow> Ret None
    | Some h \<Rightarrow>
        bindp (for_each map_disk (hi_Disks h)) (\<lambda>disks.
        bindp (for_each map_host_device (hi_HostDevices h)) (\<lambda>hostDevices.
        bindp (for_each map_mount (hi_Mounts h)) (\<lambda>mounts.
        Ret (Some
          \<lparr>hw_Boot = hi_Boot h,
           hw_CPU = map_option map_cpu (hi_CPU h),
           hw_Disks = Some disks,
           hw_Gpus = Some (hi_Gpus h),
           hw_Hostname = hi_Hostname h,
           hw_Interfaces = Some (hi_Interfaces h),
           hw_Memory = hi_Memory h,
           hw_SystemVendor = hi_SystemVendor h,
           hw_HostDevices = Some hostDevices,
           hw_Mounts = Some mounts\<rparr>)))))"

section \<open>MapLabels\<close>

definition put_label :: "unicode_tables \<Rightarrow> string \<Rightarrow> string \<Rightarrow> (string, string) fmap \<Rightarrow> (string, string) fmap" where
  "put_label u key text m = (case NormalizeLabel u text of Inl _ \<Rightarrow> m | Inr v \<Rightarrow> fmupd key v m)"

definition MapLabels :: "unicode_tables \<Rightarrow> hardware_info option \<Rightarrow> (string, string) gomap" where
  "MapLabels u hardware = (case hardware of
      None \<Rightarrow> None
    | Some h \<Rightarrow>
        (let l1 = put_label u ''device.hostname'' (hi_Hostname h) fmempty;
             l2 = (case hi_CPU h of
                 None \<Rightarrow> l1
               | Some cpu \<Rightarrow> put_label u ''device.cpu-model'' (mcp_ModelName cpu)
                   (put_label u ''device.cpu-architecture'' (mcp_Architecture cpu) l1));
             l3 = (case hi_SystemVendor h of
                 None \<Rightarrow> l2
               | Some v \<Rightarrow> put_label u ''device.system-serial'' (sv_SerialNumber v)
                   (put_label u ''device.system-product'' (sv_ProductName v)
                     (put_label u ''device.system-manufacturer'' (sv_Manufacturer v) l2)))
         in Some l3))"

section \<open>NormalizeLabel on ASCII names\<close>

definition lower_ascii :: "char \<Rightarrow> char" where
  "lower_ascii c = (if is_upper_ascii (byte c) then chr (byte c + 32) else c)"

lemma byte_lower_ascii: "byte c < 128 \<Longrightarrow> byte (lower_ascii c) < 128"
  by (auto simp: lower_ascii_def is_upper_ascii_def)

lemma unicode_ToLower_ascii:
  "byte c < 128 \<Longrightarrow> encode_rune (unicode_ToLower u (byte c)) = [lower_ascii c]"
  by (auto simp: encode_rune_def unicode_ToLower_def lower_ascii_def is_upper_ascii_def Let_def)

lemma ToLower_ascii: "ascii s \<Longrightarrow> ToLower u s = map lower_ascii s"
proof -
  assume a: "ascii s"
  have "map (\<lambda>(_, r). encode_rune (unicode_ToLower u r)) (zip [0..<length s] (map byte s))
      = map (\<lambda>c. encode_rune (unicode_ToLower u (byte c))) s"
    by (rule nth_equalityI) auto
  also have "\<dots> = map (\<lambda>c. [lower_ascii c]) s"
    using a by (auto simp: ascii_def unicode_ToLower_ascii)
  finally show ?thesis
    by (simp add: ToLower_def runes_ascii a concat_map_singleton)
qed

lemma find_zip_index:
  "map_option fst (find (f \<circ> snd) (zip [i..<i + length bs] bs)) =
     (if \<exists>b \<in> set bs. f b then Some (i + length (takeWhile (\<lambda>b. \<not> f b) bs)) else None)"
proof (induction bs arbitrary: i)
  case (Cons b bs)
  then show ?case
    using Cons [of "Suc i"] by (cases "\<exists>b \<in> set bs. f b") (auto simp: upt_conv_Cons simp del: upt_Suc)
qed simp

lemma find_rev_zip_index:
  "map_option fst (find (f \<circ> snd) (rev (zip [0..<length bs] bs))) =
     (if \<exists>b \<in> set bs. f b then Some (length bs - Suc (length (takeWhile (\<lambda>b. \<not> f b) (rev bs)))) else None)"
proof (induction bs rule: rev_induct)
  case (snoc b bs)
  have "length (takeWhile (\<lambda>b. \<not> f b) (rev bs)) \<le> length bs"
    by (metis length_rev length_takeWhile_le)
  then show ?case using snoc by (cases "\<exists>b \<in> set bs. f b") auto
qed simp

text \<open>Cutting a list at its first and its last element with a property.\<close>

lemma trim_ends:
  fixes xs :: "'a list" and P :: "'a \<Rightarrow> bool"
  defines "i \<equiv> length (takeWhile (\<lambda>x. \<not> P x) xs)"
    and "j \<equiv> length xs - Suc (length (takeWhile (\<lambda>x. \<not> P x) (rev xs)))"
  assumes ex: "\<exists>x \<in> set xs. P x"
  shows "drop i (take (j + 1) xs) \<noteq> [] \<and> P (hd (drop i (take (j + 1) xs))) \<and> P (last (drop i (take (j + 1) xs)))"
proof -
  let ?k = "length (takeWhile (\<lambda>x. \<not> P x) (rev xs))"
  have "i < length xs" using ex unfolding i_def
    by (metis length_takeWhile_le le_neq_implies_less set_takeWhileD takeWhile_eq_take take_all_iff order_refl)
  then have Pi: "P (xs ! i)" unfolding i_def using nth_length_takeWhile by fastforce
  have "?k < length (rev xs)" using ex
    by (metis length_takeWhile_le le_neq_implies_less set_rev set_takeWhileD takeWhile_eq_take take_all_iff order_refl)
  then have k: "?k < length xs" and Pk: "P (rev xs ! ?k)"
    using nth_length_takeWhile [of "\<lambda>x. \<not> P x" "rev xs"] by auto
  then have Pj: "P (xs ! j)" by (simp add: rev_nth j_def)
  have "i \<le> j"
  proof (rule ccontr)
    assume "\<not> i \<le> j"
    then have m: "length xs - Suc i < ?k" using k \<open>i < length xs\<close> by (auto simp: j_def)
    then have "\<not> P (takeWhile (\<lambda>x. \<not> P x) (rev xs) ! (length xs - Suc i))"
      by (metis nth_mem set_takeWhileD)
    then show False using m k Pi \<open>i < length xs\<close> by (simp add: takeWhile_nth rev_nth)
  qed
  moreover have "j < length xs" using k by (simp add: j_def)
  moreover from this have "min (length xs) (Suc j) = Suc j" by simp
  ultimately show ?thesis
    using Pi Pj by (simp add: hd_drop_conv_nth last_conv_nth)
qed

lemma legal_alnum: "is_lower_alnum c \<Longrightarrow> legal_label_char c" "is_lower_alnum c \<Longrightarrow> qname_char c"
  "legal_label_char c \<Longrightarrow> qname_ext_char c"
  by (auto simp: is_lower_alnum_def legal_label_char_def qname_char_def qname_ext_char_def is_alnum_def)

lemma hd_last_filter:
  "xs \<noteq> [] \<Longrightarrow> P (hd xs) \<Longrightarrow> P (last xs) \<Longrightarrow>
     filter P xs \<noteq> [] \<and> hd (filter P xs) = hd xs \<and> last (filter P xs) = last xs"
proof (cases xs rule: rev_cases)
  case (snoc ys y)
  then show "xs \<noteq> [] \<Longrightarrow> P (hd xs) \<Longrightarrow> P (last xs) \<Longrightarrow> ?thesis"
    by (cases ys) auto
qed simp

lemma NormalizeLabel_ascii:
  assumes "ascii s"
  shows "NormalizeLabel u s =
    (let n = map lower_ascii s in
     if \<exists>c \<in> set n. is_lower_alnum c
     then Inr (filter legal_label_char (drop (length (takeWhile (\<lambda>c. \<not> is_lower_alnum c) n))
       (take (length n - Suc (length (takeWhile (\<lambda>c. \<not> is_lower_alnum c) (rev n))) + 1) n)))
     else Inl (PlainError ''The name doesn't contain a legal alphanumeric character''))"
proof -
  let ?n = "map lower_ascii s"
  let ?f = "\<lambda>r. unicode_IsLower u r \<or> unicode_IsDigit u r"
  have asc: "ascii ?n" using assms by (auto simp: ascii_def byte_lower_ascii)
  have f: "?f (byte c) = is_lower_alnum c" if "c \<in> set ?n" for c
    using asc that by (auto simp: ascii_def unicode_IsLower_def unicode_IsDigit_def is_lower_alnum_def)
  have tw: "takeWhile (\<lambda>b. \<not> ?f b) (map byte xs) = map byte (takeWhile (\<lambda>c. \<not> is_lower_alnum c) xs)"
    if "set xs \<subseteq> set ?n" for xs
    using that f by (induction xs) auto
  have ex: "(\<exists>b \<in> set (map byte ?n). ?f b) \<longleftrightarrow> (\<exists>c \<in> set ?n. is_lower_alnum c)"
    using f by auto
  have "IndexFunc ?n ?f = (if \<exists>c \<in> set ?n. is_lower_alnum c
      then Some (length (takeWhile (\<lambda>c. \<not> is_lower_alnum c) ?n)) else None)"
    using find_zip_index [of ?f 0 "map byte ?n"] tw [of ?n] unfolding IndexFunc_def runes_ascii [OF asc] ex
    by simp
  moreover have "LastIndexFunc ?n ?f = (if \<exists>c \<in> set ?n. is_lower_alnum c
      then Some (length ?n - Suc (length (takeWhile (\<lambda>c. \<not> is_lower_alnum c) (rev ?n)))) else None)"
    using find_rev_zip_index [of ?f "map byte ?n"] tw [of "rev ?n"]
    unfolding LastIndexFunc_def runes_ascii [OF asc] ex rev_map [symmetric] by (simp add: rev_map)
  ultimately show ?thesis
    by (simp add: NormalizeLabel_def ToLower_ascii [OF assms] Let_def)
qed

lemma NormalizeLabel_value:
  assumes "ascii s" "NormalizeLabel u s = Inr l"
  shows "matches_qualified_name l \<and> list_all legal_label_char l \<and> length l \<le> length s"
proof -
  let ?n = "map lower_ascii s"
  let ?x = "drop (length (takeWhile (\<lambda>c. \<not> is_lower_alnum c) ?n))
       (take (length ?n - Suc (length (takeWhile (\<lambda>c. \<not> is_lower_alnum c) (rev ?n))) + 1) ?n)"
  have ex: "\<exists>c \<in> set ?n. is_lower_alnum c" and l: "l = filter legal_label_char ?x"
    using assms by (auto simp: NormalizeLabel_ascii Let_def split: if_splits)
  have x: "?x \<noteq> []" "is_lower_alnum (hd ?x)" "is_lower_alnum (last ?x)"
    using trim_ends [OF ex] by auto
  then have "l \<noteq> []" "hd l = hd ?x" "last l = last ?x"
    using hd_last_filter [of ?x legal_label_char] legal_alnum(1) unfolding l by blast+
  moreover have "length l \<le> length ?x" unfolding l by (rule length_filter_le)
  ultimately show ?thesis
    using x legal_alnum by (auto simp: matches_qualified_name_def l list_all_iff)
qed

section \<open>What a hardware report becomes\<close>

definition hardware_ok :: "hardware_info \<Rightarrow> bool" where
  "hardware_ok h \<longleftrightarrow> None \<notin> set (hi_Disks h) \<and> None \<notin> set (hi_HostDevices h) \<and> None \<notin> set (hi_Mounts h)"

definition truncated_host_device :: "m_host_device \<Rightarrow> host_device" where
  "truncated_host_device h = \<lparr>hd_Path = mhd_Path h, hd_DeviceType = mhd_DeviceType h,
     hd_UID = ucast (mhd_UID h), hd_GID = ucast (mhd_Gid h), hd_Major = ucast (mhd_Major h),
     hd_Minor = ucast (mhd_Minor h)\<rparr>"

lemma MapHardware_closed:
  "MapHardware (Some h) = (if hardware_ok h then
     Ret (Some \<lparr>hw_Boot = hi_Boot h, hw_CPU = map_option map_cpu (hi_CPU h),
       hw_Disks = Some (hi_Disks h), hw_Gpus = Some (hi_Gpus h), hw_Hostname = hi_Hostname h,
       hw_Interfaces = Some (hi_Interfaces h), hw_Memory = hi_Memory h,
       hw_SystemVendor = hi_SystemVendor h,
       hw_HostDevices = Some (map (map_option truncated_host_device) (hi_HostDevices h)),
       hw_Mounts = Some (hi_Mounts h)\<rparr>)
   else Panic nil_dereference)"
proof -
  have disks: "for_each map_disk xs = (if None \<in> set xs then Panic nil_dereference else Ret xs)" for xs
    by (induction xs) (auto simp: map_disk_def deref_def mapp_def split: option.splits)
  have mounts: "for_each map_mount xs = (if None \<in> set xs then Panic nil_dereference else Ret xs)" for xs
    by (induction xs) (auto simp: map_mount_def deref_def mapp_def split: option.splits)
  have dev: "map_host_device p = (case p of None \<Rightarrow> Panic nil_dereference
      | Some h \<Rightarrow> Ret (Some (truncated_host_device h)))" for p
    by (simp add: map_host_device_def truncated_host_device_def deref_def split: option.splits)
  have devs: "for_each map_host_device xs =
      (if None \<in> set xs then Panic nil_dereference else Ret (map (map_option truncated_host_device) xs))" for xs
    by (induction xs) (auto simp: dev mapp_def split: option.splits)
  show ?thesis
    by (auto simp: MapHardware_def disks mounts devs hardware_ok_def)
qed

lemma MapHardware_None [simp]: "MapHardware None = Ret None"
  by (simp add: MapHardware_def)

lemma put_label_lookup:
  "fmlookup (put_label u key text m) k =
     (if k = key then (case NormalizeLabel u text of Inl _ \<Rightarrow> fmlookup m k | Inr v \<Rightarrow> Some v) else fmlookup m k)"
  by (auto simp: put_label_def split: sum.splits)

end
