(* ===== verification/Heartbeat.thy ===== *)
theory Heartbeat
  imports Repositories Hardware
begin

text \<open>
  Processing of heartbeats: the updater and the synchronous handler of the Kubernetes backend
  (\<open>src/internal/edgeapi/backend/k8s/heartbeat-updater.go\<close>, \<open>heartbeat-handler.go\<close>) and the retrying handler
  in front of them (\<open>src/internal/edgeapi/yggdrasil/heartbeat-handler.go\<close>).

  The lists of a heartbeat hold pointers: a nil entry is dereferenced and panics. The workloads of the
  status are collected in a map and come back in arbitrary order.
\<close>

section \<open>Status of workloads\<close>

definition index_workloads :: "workload list \<Rightarrow> (string, workload) fmap" where
  "index_workloads ws = fold (\<lambda>w m. fmupd (wl_Name w) w m) ws fmempty"

primrec apply_workload_statuses ::
  "workload_status option list \<Rightarrow> (string, workload) fmap \<Rightarrow> (string, workload) fmap io" where
  "apply_workload_statuses [] m = Ret m"
| "apply_workload_statuses (p # ps) m =
     bindp (deref p) (\<lambda>status. case fmlookup m (wst_Name status) of
         None \<Rightarrow> apply_workload_statuses ps m
       | Some w \<Rightarrow>
           bindp (if wl_Phase w \<noteq> wst_Status status then
                    mapp (\<lambda>now. w\<lparr>wl_Phase := wst_Status status, wl_LastTransitionTime := now\<rparr>) go_now
                  else Ret w) (\<lambda>w'.
             apply_workload_statuses ps
               (fmupd (wst_Name status) (w'\<lparr>wl_LastDataUpload := wst_LastDataUpload status\<rparr>) m)))"

definition updateDeploymentStatuses :: "workload slice \<Rightarrow> workload_status option list \<Rightarrow> workload slice io" where
  "updateDeploymentStatuses oldWorkloads workloads =
     bindp (apply_workload_statuses workloads (index_workloads (elems oldWorkloads))) (\<lambda>m.
     bindp (range_keys (Some m)) (\<lambda>names. Ret (appended (map (\<lambda>n. the (fmlookup m n)) names))))"

section \<open>Status of playbook executions\<close>

definition index_playbooks :: "playbook_exec list \<Rightarrow> (string, playbook_exec) fmap" where
  "index_playbooks ps = fold (\<lambda>p m. fmupd (px_Name p) p m) ps fmempty"

definition new_condition :: "string \<Rightarrow> Time \<Rightarrow> pe_condition" where
  "new_condition ty now = \<lparr>pc_Type = ty, pc_Status = ConditionTrue, pc_Reason = None, pc_Message = None,
     pc_LastTransitionTime = Some now\<rparr>"

text \<open>The last condition loses its status and a new one follows.\<close>

definition advance_conditions :: "pe_condition list \<Rightarrow> string \<Rightarrow> Time \<Rightarrow> pe_condition list" where
  "advance_conditions cs ty now =
     (if cs = [] then [] else butlast cs @ [(last cs)\<lparr>pc_Status := ConditionFalse\<rparr>]) @ [new_condition ty now]"

definition set_px_Conditions :: "pe_condition list \<Rightarrow> playbook_exec \<Rightarrow> playbook_exec" where
  "set_px_Conditions cs p = p\<lparr>px_Status := \<lparr>pes_Conditions = Some cs\<rparr>\<rparr>"

primrec apply_playbook_statuses ::
  "playbook_execution_status option list \<Rightarrow> (string, playbook_exec) fmap \<Rightarrow> (string, playbook_exec) fmap io" where
  "apply_playbook_statuses [] m = Ret m"
| "apply_playbook_statuses (p # ps) m =
     bindp (deref p) (\<lambda>status. case fmlookup m (ps_Name status) of
         None \<Rightarrow> apply_playbook_statuses ps m
       | Some pe \<Rightarrow>
           (let cs = elems (pes_Conditions (px_Status pe)) in
            if cs = [] then Panic index_out_of_range
            else bindp (if pc_Type (last cs) \<noteq> ps_Status status then
                   mapp (\<lambda>now. set_px_Conditions (advance_conditions cs (ps_Status status) now) pe) go_now
                 else Ret pe) (\<lambda>pe'. apply_playbook_statuses ps (fmupd (ps_Name status) pe' m))))"

definition updatePlaybookExecutionStatuses ::
  "playbook_exec slice \<Rightarrow> playbook_execution_status option list \<Rightarrow> playbook_exec slice io" where
  "updatePlaybookExecutionStatuses oldPlaybookExecution playbookExecutions =
     bindp (apply_playbook_statuses playbookExecutions (index_playbooks (elems oldPlaybookExecution))) (\<lambda>m.
     bindp (range_keys (Some m)) (\<lambda>names. Ret (appended (map (\<lambda>n. the (fmlookup m n)) names))))"

section \<open>updateStatus\<close>

text \<open>The first loop: the playbook executions as they are before the update; errors are dropped.\<close>

primrec copy_playbooks ::
  "string \<Rightarrow> playbook_execution_status option list \<Rightarrow> (string, playbook_execution) fmap \<Rightarrow> (string, playbook_execution) fmap io" where
  "copy_playbooks ns [] copies = Ret copies"
| "copy_playbooks ns (p # ps) copies =
     bindp (deref p) (\<lambda>h.
     bindp (GetPlaybookExecution (ps_Name h) ns) (\<lambda>(pe, err).
       copy_playbooks ns ps (if err = None then fmupd (ps_Name h) pe copies else copies)))"

definition final_type :: "string \<Rightarrow> bool" where
  "final_type ty \<longleftrightarrow> ty = PlaybookExecutionSuccessfullyCompleted \<or> ty = PlaybookExecutionCompletedWithError"

definition set_pex_Conditions :: "pe_condition list \<Rightarrow> playbook_execution \<Rightarrow> playbook_execution" where
  "set_pex_Conditions cs p = p\<lparr>pex_Status := \<lparr>pes_Conditions = Some cs\<rparr>\<rparr>"

definition config_label :: string where "config_label = ''config/device-by-config''"

text \<open>
  The last loop, which only runs when the status of the device did not change. An execution that cannot
  be read goes on as the zero object; \<open>multierror.Append\<close> is called for its result, which is dropped. The
  map of labels is the device's own, so the deletion shows in the device.
\<close>

primrec patch_playbooks ::
  "playbook_execution_status option list \<Rightarrow> (string, playbook_execution) fmap \<Rightarrow> edge_device \<Rightarrow> edge_device io" where
  "patch_playbooks [] copies edgeDevice = Ret edgeDevice"
| "patch_playbooks (p # ps) copies edgeDevice =
     bindp (deref p) (\<lambda>h.
     bindp (GetPlaybookExecution (ps_Name h) (ed_Namespace edgeDevice)) (\<lambda>(peNew, _).
     bindp go_now (\<lambda>now.
     bindp (PatchPlaybookExecution (fmlookup copies (ps_Name h))
             (set_pex_Conditions (advance_conditions (elems (pes_Conditions (pex_Status peNew))) (ps_Status h) now) peNew))
       (\<lambda>(err, _).
         if err \<noteq> None then patch_playbooks ps copies edgeDevice
         else if final_type (ps_Status h) then
           (let newLabels = mdelete config_label (ed_Labels edgeDevice) in
            bindp (UpdateEdgeDeviceLabels (set_ed_Labels newLabels edgeDevice) newLabels) (\<lambda>(_, edgeDevice').
              patch_playbooks ps copies edgeDevice'))
         else patch_playbooks ps copies edgeDevice))))"

text \<open>The status the device would have after the heartbeat.\<close>

definition heartbeat_status :: "edge_device \<Rightarrow> heartbeat \<Rightarrow> edge_device_status io" where
  "heartbeat_status edgeDevice hb =
     bindp (case hb_Hardware hb of
         None \<Rightarrow> Ret (es_Hardware (ed_Status edgeDevice))
       | Some h \<Rightarrow> MapHardware (Some h)) (\<lambda>hw.
     bindp (updateDeploymentStatuses (es_Workloads (ed_Status edgeDevice)) (hb_Workloads hb)) (\<lambda>deployments.
     bindp (updatePlaybookExecutionStatuses (es_PlaybookExecutions (ed_Status edgeDevice)) (hb_PlaybookExecutions hb)) (\<lambda>playbooks.
       Ret ((ed_Status edgeDevice)\<lparr>es_LastSyncedResourceVersion := hb_Version hb, es_Phase := hb_Status hb,
         es_Hardware := hw, es_Workloads := deployments, es_PlaybookExecutions := playbooks,
         es_UpgradeInformation := hb_Upgrade hb\<rparr>))))"

definition updateStatus :: "edge_device \<Rightarrow> heartbeat \<Rightarrow> (error option \<times> edge_device) io" where
  "updateStatus edgeDevice hb =
     bindp (copy_playbooks (ed_Namespace edgeDevice) (hb_PlaybookExecutions hb) fmempty) (\<lambda>copies.
     bindp (heartbeat_status edgeDevice hb) (\<lambda>status.
       let edgeDevice' = edgeDevice\<lparr>ed_Status := status\<rparr> in
       if status \<noteq> ed_Status edgeDevice then PatchEdgeDeviceStatus edgeDevice edgeDevice'
       else mapp (\<lambda>d. (None, d)) (patch_playbooks (hb_PlaybookExecutions hb) copies edgeDevice')))"

definition updateLabels :: "unicode_tables \<Rightarrow> edge_device \<Rightarrow> heartbeat \<Rightarrow> error option io" where
  "updateLabels u edgeDevice hb = mapp fst (UpdateEdgeDeviceLabels edgeDevice (MapLabels u (hb_Hardware hb)))"

section \<open>Events\<close>

definition event_request :: "edge_device \<Rightarrow> event_info \<Rightarrow> request" where
  "event_request edgeDevice e = RecordEvent edgeDevice
     (if ei_Type e = EventInfoTypeWarn then EventTypeWarning else EventTypeNormal) (ei_Reason e) (ei_Message e)"

primrec processEvents :: "edge_device \<Rightarrow> event_info option list \<Rightarrow> unit io" where
  "processEvents edgeDevice [] = Ret ()"
| "processEvents edgeDevice (e # es) = (case e of
      None \<Rightarrow> processEvents edgeDevice es
    | Some ev \<Rightarrow> bindp (tell (event_request edgeDevice ev)) (\<lambda>_. processEvents edgeDevice es))"

section \<open>The handlers\<close>

text \<open>\<open>SynchronousHandler.Process\<close>: whether to try again, and the error. \<open>retry\<close> is the context value.\<close>

definition SynchronousHandler_Process ::
  "unicode_tables \<Rightarrow> bool \<Rightarrow> string \<Rightarrow> string \<Rightarrow> heartbeat \<Rightarrow> (bool \<times> error option) io" where
  "SynchronousHandler_Process u retry name namespace hb =
     bindp (GetEdgeDevice name namespace) (\<lambda>(edgeDevice, err). case err of
         Some e \<Rightarrow> Ret (\<not> IsNotFound e, Some e)
       | None \<Rightarrow>
           bindp (if retry then Ret () else processEvents edgeDevice (hb_Events hb)) (\<lambda>_.
           bindp (updateStatus edgeDevice hb) (\<lambda>(err, edgeDevice'). case err of
               Some e \<Rightarrow> Ret (True, Some e)
             | None \<Rightarrow> bindp (updateLabels u edgeDevice' hb) (\<lambda>err. case err of
                 Some e \<Rightarrow> Ret (True, Some e)
               | None \<Rightarrow> Ret (False, None)))))"

text \<open>
  \<open>RetryingDelegatingHandler.Process\<close> over the delegate's \<open>UpdateStatus\<close>, which is told whether the call is a
  retry. The last attempt is also followed by a pause.
\<close>

type_synonym status_update = "bool \<Rightarrow> (bool \<times> error option) io"

primrec process_attempts :: "nat list \<Rightarrow> bool \<Rightarrow> error option \<Rightarrow> status_update \<Rightarrow> error option io" where
  "process_attempts [] retry err delegate = Ret err"
| "process_attempts (i # is) retry err delegate =
     bindp (delegate retry) (\<lambda>(retry', err'). case err' of
         None \<Rightarrow> Ret None
       | Some e \<Rightarrow>
           if \<not> retry' then Ret (Some e)
           else bindp (tell (SleepMs (i * 50))) (\<lambda>_. process_attempts is retry' (Some e) delegate))"

declare process_attempts.simps [simp del]

definition RetryingDelegatingHandler_Process :: "status_update \<Rightarrow> error option io" where
  "RetryingDelegatingHandler_Process delegate = process_attempts [1, 2, 3, 4] False None delegate"

section \<open>What the parts of the updater ask for\<close>

lemma issues_MapHardware [simp]: "issues P (MapHardware h)"
  by (cases h) (simp_all add: MapHardware_closed)

lemma issues_apply_workload_statuses: "P Now \<Longrightarrow> issues P (apply_workload_statuses ps m)"
  by (induction ps arbitrary: m) (auto intro!: issues_bindpI split: option.splits)

lemma issues_apply_playbook_statuses: "P Now \<Longrightarrow> issues P (apply_playbook_statuses ps m)"
  by (induction ps arbitrary: m) (auto simp: Let_def intro!: issues_bindpI split: option.splits)

lemma issues_heartbeat_status: "P Now \<Longrightarrow> issues P (heartbeat_status d hb)"
  by (auto simp: heartbeat_status_def updateDeploymentStatuses_def updatePlaybookExecutionStatuses_def
      issues_apply_workload_statuses issues_apply_playbook_statuses intro!: issues_bindpI split: option.splits)

lemma issues_copy_playbooks:
  "(\<And>n. P (GetPlaybookExec n ns)) \<Longrightarrow> issues P (copy_playbooks ns ps copies)"
  by (induction ps arbitrary: copies) (auto simp: go_defs intro!: issues_bindpI)

text \<open>Requests of the label update, whatever the labels.\<close>

fun is_label_request :: "request \<Rightarrow> bool" where
  "is_label_request (PatchDevice old new) = (new = set_ed_Labels (ed_Labels new) old)"
| "is_label_request (SleepMs _) = True"
| "is_label_request (GetDevice _ _) = True"
| "is_label_request _ = False"

lemma set_ed_Labels_self: "ed_Labels (set_ed_Labels l d) = l"
  by (simp add: set_ed_Labels_def)

lemma adds_labels_request: "adds_labels ls q \<Longrightarrow> is_label_request q"
  by (cases q) (auto simp: set_ed_Labels_self)

lemma issues_UpdateEdgeDeviceLabels:
  "(\<And>q. is_label_request q \<Longrightarrow> P q) \<Longrightarrow> issues P (UpdateEdgeDeviceLabels d ls)"
  using issues_mono [OF issues_UpdateLabels] adds_labels_request by (fastforce simp: UpdateEdgeDeviceLabels_def)

fun is_playbook_request :: "request \<Rightarrow> bool" where
  "is_playbook_request (GetPlaybookExec _ _) = True"
| "is_playbook_request (PatchPlaybookExec _ _) = True"
| "is_playbook_request Now = True"
| "is_playbook_request q = is_label_request q"

lemma label_playbook_request: "is_label_request q \<Longrightarrow> is_playbook_request q"
  by (cases q) auto

lemma issues_patch_playbooks:
  "issues is_playbook_request (patch_playbooks ps copies d)"
proof (induction ps arbitrary: d)
  case (Cons p ps)
  then show ?case
    by (auto simp: Let_def GetPlaybookExecution_def PatchPlaybookExecution_def repository_defs
        intro!: issues_bindpI issues_UpdateEdgeDeviceLabels label_playbook_request)
qed simp

text \<open>What a status patch of a heartbeat says.\<close>

fun reports :: "heartbeat \<Rightarrow> request \<Rightarrow> bool" where
  "reports hb (PatchDeviceStatus old new) \<longleftrightarrow>
     new = old\<lparr>ed_Status := ed_Status new\<rparr> \<and> ed_Status new \<noteq> ed_Status old \<and>
     es_Phase (ed_Status new) = hb_Status hb \<and> es_LastSyncedResourceVersion (ed_Status new) = hb_Version hb \<and>
     es_UpgradeInformation (ed_Status new) = hb_Upgrade hb"
| "reports hb (RecordEvent _ _ _ _) = False"
| "reports hb q = is_playbook_request q"

lemma playbook_request_reports: "is_playbook_request q \<Longrightarrow> reports hb q"
  by (cases q) auto

lemma heartbeat_status_fields:
  "exec (heartbeat_status d hb) t (Returned s) \<Longrightarrow>
     es_Phase s = hb_Status hb \<and> es_LastSyncedResourceVersion s = hb_Version hb \<and>
     es_UpgradeInformation s = hb_Upgrade hb"
  by (auto simp: heartbeat_status_def exec_bindp)

lemma issues_updateStatus: "issues (reports hb) (updateStatus d hb)"
  by (auto simp: updateStatus_def Let_def issues_bindp_iff issues_heartbeat_status
      facade_defs repository_defs
      intro!: issues_copy_playbooks issues_mono [OF issues_patch_playbooks] playbook_request_reports
      dest: heartbeat_status_fields)

lemma issues_updateLabels_heartbeat: "issues is_label_request (updateLabels u d hb)"
  by (simp add: updateLabels_def issues_UpdateEdgeDeviceLabels)

fun is_event :: "request \<Rightarrow> bool" where
  "is_event (RecordEvent _ _ _ _) = True" | "is_event _ = False"

lemma reports_no_event: "reports hb q \<Longrightarrow> \<not> is_event q"
  by (cases q) auto

lemma label_request_reports: "is_label_request q \<Longrightarrow> reports hb q"
  by (intro playbook_request_reports label_playbook_request)

lemma issues_retry: "issues (reports hb) (SynchronousHandler_Process u True name ns hb)"
  by (auto simp: SynchronousHandler_Process_def GetEdgeDevice_def EdgeDevice_Read_def issues_updateStatus
      intro!: issues_bindpI issues_mono [OF issues_updateLabels_heartbeat] label_request_reports
      split: option.splits)

text \<open>The events of a heartbeat, in order, against the device that was read.\<close>

definition event_requests :: "edge_device \<Rightarrow> heartbeat \<Rightarrow> request list" where
  "event_requests d hb = map (event_request d) (map the (filter (\<lambda>e. e \<noteq> None) (hb_Events hb)))"

lemma exec_processEvents:
  "exec (processEvents d es) t out \<Longrightarrow>
     out = Returned () \<and> map fst t = map (event_request d) (map the (filter (\<lambda>e. e \<noteq> None) es))"
proof (induction es arbitrary: t)
  case (Cons e es)
  then show ?case
    by (cases e) (auto simp: exec_bindp tell_def exec_Call)
qed auto

section \<open>The contract of a status updater\<close>

text \<open>
  What the retrying handler relies on: a call marked as a retry keeps to \<open>quiet\<close> requests (no event is
  recorded again), and every call sends at most one status patch.
\<close>

fun is_status_patch :: "request \<Rightarrow> bool" where
  "is_status_patch (PatchDeviceStatus _ _) = True" | "is_status_patch _ = False"

lemma exec_bind_issues:
  assumes "exec (bindp p f) t out" "\<And>a. issues Q (f a)"
  shows "\<exists>t1 t2 out1. t = t1 @ t2 \<and> exec p t1 out1 \<and> (\<forall>c \<in> set t2. Q (fst c))"
  using assms(1) unfolding exec_bindp
proof (elim disjE exE conjE)
  fix t1 t2 a
  assume "exec p t1 (Returned a)" "exec (f a) t2 out" "t = t1 @ t2"
  then show ?thesis using assms(2) [of a] unfolding issues_exec by blast
qed (intro exI [of _ t] exI [of _ "[]"], auto)

locale status_updater =
  fixes UpdateStatus :: status_update
    and quiet :: "request \<Rightarrow> bool"
  assumes retry_quiet: "issues quiet (UpdateStatus True)"
    and quiet_sleep: "quiet (SleepMs ms)"
    and one_status_patch: "at_most 1 is_status_patch (UpdateStatus b)"
begin

lemma issues_attempts: "issues quiet (process_attempts is True err UpdateStatus)"
proof (induction "is" arbitrary: err)
  case (Cons i "is")
  then show ?case
    by (auto simp: process_attempts.simps quiet_sleep retry_quiet intro!: issues_bindpI split: option.split)
qed (simp add: process_attempts.simps)

lemma attempts_bound: "at_most (length is) is_status_patch (process_attempts is b err UpdateStatus)"
proof (induction "is" arbitrary: b err)
  case (Cons i "is")
  have "at_most (1 + length is) is_status_patch (process_attempts (i # is) b err UpdateStatus)"
    unfolding process_attempts.simps
    by (rule at_most_bindp [OF one_status_patch]) (auto intro!: at_most_bind_none Cons split: option.split)
  then show ?case by simp
qed (simp add: process_attempts.simps at_most_none)

text \<open>A run of the handler is a first call and whatever the retries ask for.\<close>

lemma first_then_quiet:
  assumes "exec (RetryingDelegatingHandler_Process UpdateStatus) t out"
  obtains t1 t2 out1 where "t = t1 @ t2" "exec (UpdateStatus False) t1 out1" "\<forall>c \<in> set t2. quiet (fst c)"
proof -
  have "issues quiet (case err' of None \<Rightarrow> Ret None | Some e \<Rightarrow> if \<not> b then Ret (Some e)
      else bindp (tell (SleepMs (1 * 50))) (\<lambda>_. process_attempts [2, 3, 4] b (Some e) UpdateStatus))" for b err'
    by (auto simp: quiet_sleep [simplified] issues_attempts intro!: issues_bindpI split: option.split)
  then show thesis
    using assms that exec_bind_issues [where Q = quiet and p = "UpdateStatus False"]
    unfolding RetryingDelegatingHandler_Process_def process_attempts.simps(2) [of 1]
    by (metis (no_types, lifting) case_prod_conv surj_pair)
qed

lemma Process_bound:
  "at_most 4 is_status_patch (RetryingDelegatingHandler_Process UpdateStatus)"
  using attempts_bound [of "[1, 2, 3, 4]" False None]
  by (simp add: RetryingDelegatingHandler_Process_def numeral_eq_Suc)

end

lemma label_request_no_patch: "is_label_request q \<Longrightarrow> \<not> is_status_patch q"
  by (cases q) auto

lemma playbook_request_no_patch: "is_playbook_request q \<Longrightarrow> \<not> is_status_patch q"
  by (cases q) auto

lemma updateStatus_one_patch: "at_most 1 is_status_patch (updateStatus d hb)"
  by (auto simp: updateStatus_def Let_def facade_defs repository_defs
      intro!: at_most_bind_none issues_copy_playbooks issues_heartbeat_status
        at_most_none [OF issues_mono [OF issues_patch_playbooks playbook_request_no_patch]])

lemma Process_one_patch: "at_most 1 is_status_patch (SynchronousHandler_Process u b name ns hb)"
proof -
  have events: "issues (\<lambda>q. \<not> is_status_patch q) (processEvents d es)" for d es
    by (induction es) (auto intro!: issues_bindpI simp: event_request_def split: option.split)
  have labels: "issues (\<lambda>q. \<not> is_status_patch q) (updateLabels u d hb)" for d
    by (rule issues_mono [OF issues_updateLabels_heartbeat label_request_no_patch])
  have status: "at_most (Suc 0) is_status_patch (bindp (updateStatus d hb) (\<lambda>(err, d'). case err of
      Some e \<Rightarrow> Ret (True, Some e)
    | None \<Rightarrow> bindp (updateLabels u d' hb) (\<lambda>err. case err of
        Some e \<Rightarrow> Ret (True, Some e) | None \<Rightarrow> Ret (False, None))))" for d
    by (rule at_most_bind_last [OF updateStatus_one_patch [simplified]])
      (auto intro!: issues_bindpI labels split: option.split)
  then show ?thesis
    unfolding SynchronousHandler_Process_def GetEdgeDevice_def EdgeDevice_Read_def
    by (auto intro!: at_most_bind_none [OF events] at_most_bind_none [where p = "read_object _ _ _"]
        split: option.split)
qed

interpretation k8s_status: status_updater "\<lambda>retry. SynchronousHandler_Process u retry name ns hb" "reports hb"
  by unfold_locales (simp_all only: issues_retry reports.simps is_playbook_request.simps
      is_label_request.simps Process_one_patch)

section \<open>Properties\<close>

definition handle_heartbeat :: "unicode_tables \<Rightarrow> string \<Rightarrow> string \<Rightarrow> heartbeat \<Rightarrow> error option io" where
  "handle_heartbeat u name ns hb =
     RetryingDelegatingHandler_Process (\<lambda>retry. SynchronousHandler_Process u retry name ns hb)"

lemma filter_quiet: "\<forall>c \<in> set t. reports hb (fst c) \<Longrightarrow> filter is_event (map fst t) = []"
  using reports_no_event by (induction t) auto

lemma filter_events: "filter is_event (event_requests d hb) = event_requests d hb"
  by (auto simp: event_requests_def event_request_def filter_map o_def)

lemma Process_events:
  assumes "exec (SynchronousHandler_Process u False name ns hb) t out"
  shows "filter is_event (map fst t) =
    (case object_result as_device (snd (hd t)) of Inl e \<Rightarrow> [] | Inr d \<Rightarrow> event_requests d hb)"
proof -
  from assms obtain r t' where t: "t = (GetDevice name ns, r) # t'" and k:
    "exec (case object_result as_device r of
        Inl e \<Rightarrow> Ret (\<not> IsNotFound e, Some e)
      | Inr d \<Rightarrow> bindp (processEvents d (hb_Events hb)) (\<lambda>_.
          bindp (updateStatus d hb) (\<lambda>(err, d'). case err of
              Some e \<Rightarrow> Ret (True, Some e)
            | None \<Rightarrow> bindp (updateLabels u d' hb) (\<lambda>err. case err of
                Some e \<Rightarrow> Ret (True, Some e) | None \<Rightarrow> Ret (False, None))))) t' out"
    unfolding SynchronousHandler_Process_def GetEdgeDevice_def EdgeDevice_Read_def exec_bind_read
    by (fastforce split: sum.splits)
  show ?thesis
  proof (cases "object_result as_device r")
    case (Inr d)
    have q: "issues (reports hb) (bindp (updateStatus d hb) (\<lambda>(err, d'). case err of
              Some e \<Rightarrow> Ret (True, Some e)
            | None \<Rightarrow> bindp (updateLabels u d' hb) (\<lambda>err. case err of
                Some e \<Rightarrow> Ret (True, Some e) | None \<Rightarrow> Ret (False, None))))"
      by (auto intro!: issues_bindpI issues_updateStatus issues_mono [OF issues_updateLabels_heartbeat]
          label_request_reports split: option.split)
    from k Inr obtain t1 t2 o1 where "t' = t1 @ t2" "exec (processEvents d (hb_Events hb)) t1 o1"
      "\<forall>c \<in> set t2. reports hb (fst c)"
      using exec_bind_issues [OF _ q, of "processEvents d (hb_Events hb)" t' out] by auto
    then show ?thesis
      using Inr t exec_processEvents [of d "hb_Events hb" t1 o1] filter_quiet [of t2 hb] filter_events [of d hb]
      by (simp add: event_requests_def)
  qed (use k t in simp)
qed

text \<open>
  Property C6: over all attempts at one heartbeat, every event it carries is recorded exactly once, in
  order, against the device as first read, however often the update is retried; when the first read
  of the device fails no event is recorded at all, not even if a later attempt succeeds.
\<close>

theorem heartbeat_events_once:
  assumes "exec (handle_heartbeat u name ns hb) t out"
  shows "filter is_event (map fst t) =
    (case object_result as_device (snd (hd t)) of Inl e \<Rightarrow> [] | Inr d \<Rightarrow> event_requests d hb)"
proof -
  from assms obtain t1 t2 out1 where t: "t = t1 @ t2"
    and first: "exec (SynchronousHandler_Process u False name ns hb) t1 out1"
    and "\<forall>c \<in> set t2. reports hb (fst c)"
    unfolding handle_heartbeat_def by (rule k8s_status.first_then_quiet)
  moreover from first have "t1 \<noteq> []"
    by (auto simp: SynchronousHandler_Process_def GetEdgeDevice_def EdgeDevice_Read_def exec_bind_read)
  ultimately show ?thesis
    using Process_events [OF first] filter_quiet [of t2 hb] by simp
qed

text \<open>
  Property C7: one heartbeat sends at most four status patches, and each of them changes the status of
  the device it read and nothing else: it carries the phase, the synchronised version and the
  upgrade information of the heartbeat, and is never sent when the status is as before.
\<close>

theorem heartbeat_status_patches:
  assumes "exec (handle_heartbeat u name ns hb) t out"
  shows "count_calls is_status_patch t \<le> 4 \<and> (\<forall>old new r. (PatchDeviceStatus old new, r) \<in> set t \<longrightarrow>
      new = old\<lparr>ed_Status := ed_Status new\<rparr> \<and> ed_Status new \<noteq> ed_Status old \<and>
      es_Phase (ed_Status new) = hb_Status hb \<and> es_LastSyncedResourceVersion (ed_Status new) = hb_Version hb \<and>
      es_UpgradeInformation (ed_Status new) = hb_Upgrade hb)"
proof (intro conjI allI impI)
  show "count_calls is_status_patch t \<le> 4"
    using k8s_status.Process_bound assms unfolding handle_heartbeat_def at_most_def wp_exec by blast
  have events: "issues (\<lambda>q. reports hb q \<or> is_event q) (processEvents d es)" for d es
    by (induction es) (auto intro!: issues_bindpI simp: event_request_def split: option.split)
  have "issues (\<lambda>q. reports hb q \<or> is_event q) (SynchronousHandler_Process u b name ns hb)" for b
    by (auto simp: SynchronousHandler_Process_def GetEdgeDevice_def EdgeDevice_Read_def
        intro!: issues_bindpI issues_mono [OF issues_updateStatus] events
          issues_mono [OF issues_updateLabels_heartbeat] disjI1 label_request_reports
        split: option.splits)
  then have "issues (\<lambda>q. reports hb q \<or> is_event q) (process_attempts is b err
      (\<lambda>retry. SynchronousHandler_Process u retry name ns hb))" for "is" b err
    by (induction "is" arbitrary: b err)
      (auto simp: process_attempts.simps intro!: issues_bindpI split: option.split)
  then have "\<forall>c \<in> set t. reports hb (fst c) \<or> is_event (fst c)"
    using assms unfolding handle_heartbeat_def RetryingDelegatingHandler_Process_def issues_exec by blast
  moreover fix old new r
  assume "(PatchDeviceStatus old new, r) \<in> set t"
  ultimately have "reports hb (PatchDeviceStatus old new)" by fastforce
  then show "new = old\<lparr>ed_Status := ed_Status new\<rparr>" "ed_Status new \<noteq> ed_Status old"
    "es_Phase (ed_Status new) = hb_Status hb" "es_LastSyncedResourceVersion (ed_Status new) = hb_Version hb"
    "es_UpgradeInformation (ed_Status new) = hb_Upgrade hb"
    by simp_all
qed

text \<open>
  What a sequence of reports makes of the status of a workload: the last report on it counts, and the
  transition time only moves when a report changes the phase.
\<close>

definition last_report :: "workload_status list \<Rightarrow> string \<Rightarrow> workload_status option" where
  "last_report ws n = map_of (rev (map (\<lambda>s. (wst_Name s, s)) ws)) n"

definition reported :: "workload_status list \<Rightarrow> workload \<Rightarrow> workload \<Rightarrow> bool" where
  "reported ws w w' \<longleftrightarrow> wl_Name w' = wl_Name w \<and>
     (case last_report ws (wl_Name w) of
        None \<Rightarrow> w' = w
      | Some s \<Rightarrow> wl_Phase w' = wst_Status s \<and> wl_LastDataUpload w' = wst_LastDataUpload s) \<and>
     ((\<forall>s \<in> set ws. wst_Name s = wl_Name w \<longrightarrow> wst_Status s = wl_Phase w) \<longrightarrow>
        wl_LastTransitionTime w' = wl_LastTransitionTime w)"

lemma last_report_Cons:
  "last_report (s # ws) n = (case last_report ws n of
      Some s' \<Rightarrow> Some s' | None \<Rightarrow> if wst_Name s = n then Some s else None)"
  by (auto simp: last_report_def map_add_def split: option.split)

lemma reported_Nil: "reported [] w w"
  by (simp add: reported_def last_report_def)

lemma reported_other: "wst_Name s \<noteq> wl_Name w \<Longrightarrow> reported ws w w' \<Longrightarrow> reported (s # ws) w w'"
  by (auto simp: reported_def last_report_Cons split: option.splits)

lemma reported_step:
  assumes "reported ws w1 w'" "wl_Name w1 = wl_Name w" "wst_Name s = wl_Name w"
    "wl_Phase w1 = wst_Status s" "wl_LastDataUpload w1 = wst_LastDataUpload s"
    "wst_Status s = wl_Phase w \<longrightarrow> wl_LastTransitionTime w1 = wl_LastTransitionTime w"
  shows "reported (s # ws) w w'"
  using assms by (auto simp: reported_def last_report_Cons split: option.splits)

definition named_by_key :: "(string, workload) fmap \<Rightarrow> bool" where
  "named_by_key m \<longleftrightarrow> (\<forall>n w. fmlookup m n = Some w \<longrightarrow> wl_Name w = n)"

lemma index_workloads_lookup:
  "fmlookup (index_workloads ws) n = map_of (rev (map (\<lambda>w. (wl_Name w, w)) ws)) n"
  by (induction ws rule: rev_induct) (auto simp: index_workloads_def)

lemma index_workloads_named: "named_by_key (index_workloads ws)"
  by (auto simp: named_by_key_def index_workloads_lookup dest!: map_of_SomeD)

lemma index_workloads_names: "fmdom' (index_workloads ws) = wl_Name ` set ws"
  by (induction ws rule: rev_induct) (auto simp: index_workloads_def)

text \<open>What one report stores.\<close>

definition stores :: "workload_status \<Rightarrow> workload \<Rightarrow> workload \<Rightarrow> bool" where
  "stores s w w1 \<longleftrightarrow> wl_Name w1 = wl_Name w \<and> wl_Phase w1 = wst_Status s \<and>
     wl_LastDataUpload w1 = wst_LastDataUpload s \<and>
     (wst_Status s = wl_Phase w \<longrightarrow> wl_LastTransitionTime w1 = wl_LastTransitionTime w)"

lemma reports_step:
  assumes "named_by_key m" "fmlookup m (wst_Name s) = Some w" "stores s w w1"
    and rest: "\<forall>n w'. fmlookup m' n = Some w' \<longrightarrow>
      (\<exists>w. fmlookup (fmupd (wst_Name s) w1 m) n = Some w \<and> reported ws w w')"
    and look: "fmlookup m' n = Some w'"
  shows "\<exists>w. fmlookup m n = Some w \<and> reported (s # ws) w w'"
proof (cases "n = wst_Name s")
  case True
  with rest look have "reported ws w1 w'" by fastforce
  with assms True show ?thesis
    by (auto simp: stores_def named_by_key_def intro!: reported_step [of ws w1])
next
  case False
  with rest look obtain w2 where "fmlookup m n = Some w2" "reported ws w2 w'" by fastforce
  with assms(1) False show ?thesis
    by (auto simp: named_by_key_def intro!: reported_other)
qed

lemma wp_apply_workload_statuses:
  "named_by_key m \<Longrightarrow> wp (apply_workload_statuses (map Some ws) m) (\<lambda>t out.
     \<exists>m'. out = Returned m' \<and> fmdom' m' = fmdom' m \<and>
       (\<forall>n w'. fmlookup m' n = Some w' \<longrightarrow> (\<exists>w. fmlookup m n = Some w \<and> reported ws w w')))"
proof (induction ws arbitrary: m)
  case Nil
  then show ?case by (auto intro: reported_Nil)
next
  case (Cons s ws)
  show ?case
  proof (cases "fmlookup m (wst_Name s)")
    case None
    have "reported (s # ws) w w'" if "fmlookup m n = Some w" "reported ws w w'" for n w w'
      using that None Cons.prems by (intro reported_other) (auto simp: named_by_key_def)
    then show ?thesis
      using None by (auto simp: wp_base intro!: wp_conseq [OF Cons.IH [OF Cons.prems]]) blast
  next
    case (Some w)
    have step: "wp (apply_workload_statuses (map Some ws) (fmupd (wst_Name s) w1 m)) (\<lambda>t out.
       \<exists>m'. out = Returned m' \<and> fmdom' m' = fmdom' m \<and>
       (\<forall>n w'. fmlookup m' n = Some w' \<longrightarrow> (\<exists>w. fmlookup m n = Some w \<and> reported (s # ws) w w')))"
      if "stores s w w1" for w1
    proof -
      have "named_by_key (fmupd (wst_Name s) w1 m)"
        using that Some Cons.prems by (auto simp: named_by_key_def stores_def)
      moreover have "fmdom' (fmupd (wst_Name s) w1 m) = fmdom' m"
        using Some by (auto simp: fmdom'I)
      ultimately show ?thesis
        using reports_step [OF Cons.prems Some that] by (intro wp_conseq [OF Cons.IH]) auto
    qed
    show ?thesis
      by (auto simp: wp_base Some stores_def intro!: step)
  qed
qed

text \<open>
  Property C37: the workload statuses of a heartbeat end up in the status of the device. The result has one
  entry for every workload the device had and for no other; an entry without a report is the old one,
  an entry with reports has the phase and the upload time of the last one, and its transition time only
  moves when some report differs from the old phase.
\<close>

theorem updateDeploymentStatuses_correct:
  "wp (updateDeploymentStatuses old (map Some ws)) (\<lambda>t out. \<exists>res. out = Returned res \<and>
     distinct (map wl_Name (elems res)) \<and> wl_Name ` set (elems res) = wl_Name ` set (elems old) \<and>
     (\<forall>w' \<in> set (elems res). \<exists>w \<in> set (elems old). reported ws w w'))"
proof -
  let ?m = "index_workloads (elems old)"
  have result: "distinct (map wl_Name (map (\<lambda>n. the (fmlookup m' n)) ks)) \<and>
      wl_Name ` set (map (\<lambda>n. the (fmlookup m' n)) ks) = wl_Name ` set (elems old) \<and>
      (\<forall>w' \<in> set (map (\<lambda>n. the (fmlookup m' n)) ks). \<exists>w \<in> set (elems old). reported ws w w')"
    if m': "fmdom' m' = fmdom' ?m"
      "\<forall>n w'. fmlookup m' n = Some w' \<longrightarrow> (\<exists>w. fmlookup ?m n = Some w \<and> reported ws w w')"
      and ks: "distinct ks" "set ks = fmdom' m'" for m' ks
  proof -
    have entry: "\<exists>w' w. fmlookup m' n = Some w' \<and> fmlookup ?m n = Some w \<and> reported ws w w' \<and> wl_Name w' = n"
      if "n \<in> set ks" for n
    proof -
      from that ks obtain w' where w': "fmlookup m' n = Some w'" by (auto simp: fmlookup_dom'_iff)
      with m' obtain w where "fmlookup ?m n = Some w" "reported ws w w'" by blast
      with w' index_workloads_named [of "elems old"] show ?thesis
        by (auto simp: named_by_key_def reported_def)
    qed
    then have names: "map wl_Name (map (\<lambda>n. the (fmlookup m' n)) ks) = ks"
      by (fastforce simp: o_def intro!: map_idI)
    moreover have "set ks = wl_Name ` set (elems old)" using ks m' index_workloads_names by metis
    moreover have "\<exists>w \<in> set (elems old). reported ws w w'"
      if "w' \<in> set (map (\<lambda>n. the (fmlookup m' n)) ks)" for w'
      using that entry by (force simp: index_workloads_lookup dest!: map_of_SomeD)
    ultimately show ?thesis using ks by (metis list.set_map)
  qed
  show ?thesis
    unfolding updateDeploymentStatuses_def wp_bindp
    by (rule wp_conseq [OF wp_apply_workload_statuses [OF index_workloads_named]], elim exE conjE)
      (use result in \<open>simp del: set_map map_map, blast\<close>)
qed

lemma exec_patch_error:
  "exec (patch_object q sel new) t (Returned (Some e, x)) \<longleftrightarrow>
     (\<exists>r. t = [(q, r)] \<and> object_result sel r = Inl e \<and> x = new)"
proof -
  have "Returned (Some e, x) = Returned (case res of Inl e \<Rightarrow> (Some e, new) | Inr a \<Rightarrow> (None, a)) \<longleftrightarrow>
      res = Inl e \<and> x = new" for res :: "error + 'a"
    by (cases res) auto
  then show ?thesis by (simp only: exec_patch_object)
qed

lemma updateStatus_error:
  assumes "exec (updateStatus d hb) t (Returned (Some e, d'))"
  shows "\<exists>t' new r. t = t' @ [(PatchDeviceStatus d new, r)] \<and> object_result as_device r = Inl e"
proof -
  from assms obtain t1 t2 t3 s where t: "t = (t1 @ t2) @ t3" and
    "exec (EdgeDevice_PatchStatus d (d\<lparr>ed_Status := s\<rparr>)) t3 (Returned (Some e, d'))"
    by (auto simp: updateStatus_def Let_def exec_bindp exec_mapp PatchEdgeDeviceStatus_def split: if_splits)
  then obtain r where "t3 = [(PatchDeviceStatus d (d\<lparr>ed_Status := s\<rparr>), r)]" "object_result as_device r = Inl e"
    by (auto simp: EdgeDevice_PatchStatus_def exec_patch_error)
  with t show ?thesis by blast
qed

text \<open>
  The only error the status update ever reports is the one the API server gave to its last
  request, the patch of the device status. Failures on the playbook executions of a heartbeat (a read or a
  patch that fails) are collected nowhere and never reach the caller.
\<close>

theorem updateStatus_error_source:
  "exec (updateStatus d hb) t (Returned (Some e, d')) \<longrightarrow>
     (\<exists>t' new r. t = t' @ [(PatchDeviceStatus d new, r)] \<and> object_result as_device r = Inl e)"
  by (simp add: updateStatus_error)

text \<open>
  When the device does not exist, a heartbeat is answered with the NotFound error after that
  single read: nothing is retried, recorded or written.
\<close>

theorem heartbeat_device_gone:
  assumes "IsNotFound e"
  shows "exec (handle_heartbeat u name ns hb) ((GetDevice name ns, RErr e) # t) out \<longleftrightarrow>
    t = [] \<and> out = Returned (Some e)"
  using assms
  by (auto simp: handle_heartbeat_def RetryingDelegatingHandler_Process_def process_attempts.simps
      SynchronousHandler_Process_def GetEdgeDevice_def EdgeDevice_Read_def bindp_assoc exec_bind_read)

section \<open>Concrete runs\<close>

definition ascii_tables :: unicode_tables where
  "ascii_tables = \<lparr>u_to_lower = (\<lambda>r. r), u_is_lower = (\<lambda>_. False), u_is_digit = (\<lambda>_. False)\<rparr>"

definition beat_device :: edge_device where
  "beat_device = set_ed_Workloads
     (Some [\<lparr>wl_Name = ''web'', wl_Phase = Deploying, wl_LastTransitionTime = 1, wl_LastDataUpload = 0\<rparr>])
     (zero_edge_device\<lparr>ed_meta := zero_meta\<lparr>om_Name := ''a'', om_Namespace := ''ns'', om_Labels := Some fmempty\<rparr>\<rparr>)"

definition sample_beat :: heartbeat where
  "sample_beat = \<lparr>hb_Events = [Some \<lparr>ei_Message = ''m'', ei_Reason = ''r'', ei_Type = ''warn''\<rparr>, None],
     hb_Hardware = None, hb_PlaybookExecutions = [], hb_Status = ''up'', hb_Upgrade = None, hb_Version = ''7'',
     hb_Workloads = [Some \<lparr>wst_LastDataUpload = 5, wst_Name = ''web'', wst_Status = ''Running''\<rparr>]\<rparr>"

text \<open>The first status patch is refused and the second one is taken.\<close>

lemma sample_beat_replay:
  "map_option (\<lambda>(t, out). (out, map (is_status_patch \<circ> fst) t, map (is_event \<circ> fst) t, map snd (take 1 t)))
     (replay (handle_heartbeat ascii_tables ''a'' ''ns'' sample_beat)
       [RDevice beat_device, ROk, RTime 9, RErr (StatusError Conflict 409 ''conflict''), ROk,
        RDevice beat_device, RTime 9, RDevice beat_device] []) =
   Some (Returned None, [False, False, False, True, False, False, False, True],
     [False, True, False, False, False, False, False, False], [RDevice beat_device])"
  by code_simp

lemma sample_beat_run:
  obtains t where "exec (handle_heartbeat ascii_tables ''a'' ''ns'' sample_beat) t (Returned None)"
    "map (is_status_patch \<circ> fst) t = [False, False, False, True, False, False, False, True]"
    "snd (hd t) = RDevice beat_device"
  using sample_beat_replay by (force dest!: replay_exec simp: take_Suc)

theorem heartbeat_events_once_witness:
  "\<exists>t. exec (handle_heartbeat ascii_tables ''a'' ''ns'' sample_beat) t (Returned None) \<and>
     filter is_event (map fst t) = [RecordEvent beat_device EventTypeWarning ''r'' ''m'']"
proof -
  obtain t where t: "exec (handle_heartbeat ascii_tables ''a'' ''ns'' sample_beat) t (Returned None)"
    "snd (hd t) = RDevice beat_device"
    by (rule sample_beat_run)
  from heartbeat_events_once [OF t(1)] t(2)
  have "filter is_event (map fst t) = event_requests beat_device sample_beat"
    by (simp add: object_result_def as_device_def)
  also have "\<dots> = [RecordEvent beat_device EventTypeWarning ''r'' ''m'']"
    by (simp add: event_requests_def sample_beat_def event_request_def EventInfoTypeWarn_def)
  finally show ?thesis using t(1) by blast
qed

theorem heartbeat_status_patches_witness:
  "\<exists>t old new r. exec (handle_heartbeat ascii_tables ''a'' ''ns'' sample_beat) t (Returned None) \<and>
     count_calls is_status_patch t \<le> 4 \<and> (PatchDeviceStatus old new, r) \<in> set t \<and> es_Phase (ed_Status new) = ''up''"
proof -
  obtain t where t: "exec (handle_heartbeat ascii_tables ''a'' ''ns'' sample_beat) t (Returned None)"
    and p: "map (is_status_patch \<circ> fst) t = [False, False, False, True, False, False, False, True]"
    by (rule sample_beat_run)
  from p have "is_status_patch (fst (t ! 3))" "3 < length t"
    by (auto simp: numeral_eq_Suc Cons_eq_map_conv map_eq_Cons_conv)
  then obtain old new r where "t ! 3 = (PatchDeviceStatus old new, r)"
    by (cases "t ! 3"; cases "fst (t ! 3)") auto
  then have "(PatchDeviceStatus old new, r) \<in> set t" using \<open>3 < length t\<close> by (metis nth_mem)
  moreover from heartbeat_status_patches [OF t] this
  have "count_calls is_status_patch t \<le> 4" "es_Phase (ed_Status new) = ''up''"
    by (auto simp: sample_beat_def)
  ultimately show ?thesis using t by blast
qed

theorem updateDeploymentStatuses_correct_witness:
  "\<exists>t res. exec (updateDeploymentStatuses (es_Workloads (ed_Status beat_device))
       (map Some [\<lparr>wst_LastDataUpload = 5, wst_Name = ''web'', wst_Status = ''Running''\<rparr>])) t (Returned res) \<and>
     (\<forall>w' \<in> set (elems res). wl_Phase w' = ''Running'' \<and> wl_LastDataUpload w' = 5)"
proof -
  let ?ws = "[\<lparr>wst_LastDataUpload = 5, wst_Name = ''web'', wst_Status = ''Running''\<rparr>]"
  let ?p = "updateDeploymentStatuses (es_Workloads (ed_Status beat_device)) (map Some ?ws)"
  obtain t out where e: "exec ?p t out" using exec_exists by blast
  from wp_execD [OF updateDeploymentStatuses_correct e] obtain res where res: "out = Returned res"
    "\<forall>w' \<in> set (elems res). \<exists>w \<in> set (elems (es_Workloads (ed_Status beat_device))). reported ?ws w w'"
    by blast
  then have "wl_Phase w' = ''Running'' \<and> wl_LastDataUpload w' = 5" if "w' \<in> set (elems res)" for w'
    using that by (auto simp: beat_device_def set_ed_Workloads_def reported_def last_report_def)
  with e res(1) show ?thesis by blast
qed

theorem updateStatus_error_source_witness:
  "\<exists>t e d' r new. exec (updateStatus beat_device sample_beat) t (Returned (Some e, d')) \<and>
     (PatchDeviceStatus beat_device new, r) \<in> set t"
proof -
  have "map_option (\<lambda>(t, out). case out of Returned (Some e, d) \<Rightarrow> True | _ \<Rightarrow> False)
     (replay (updateStatus beat_device sample_beat) [RTime 9, RErr (PlainError ''no'')] []) = Some True"
    by code_simp
  then obtain t out where r: "replay (updateStatus beat_device sample_beat) [RTime 9, RErr (PlainError ''no'')] [] = Some (t, out)"
    and out: "case out of Returned (Some e, d) \<Rightarrow> True | _ \<Rightarrow> False" by auto
  from out obtain e d' where "out = Returned (Some e, d')" by (auto split: outcome.splits option.splits)
  with replay_exec [OF r] have x: "exec (updateStatus beat_device sample_beat) t (Returned (Some e, d'))" by simp
  from updateStatus_error_source [THEN mp, OF x] x show ?thesis by fastforce
qed

theorem heartbeat_device_gone_witness:
  "exec (handle_heartbeat ascii_tables ''a'' ''ns'' sample_beat)
     [(GetDevice ''a'' ''ns'', RErr (StatusError NotFound 404 ''gone''))] (Returned (Some (StatusError NotFound 404 ''gone'')))"
  by (subst heartbeat_device_gone) simp_all

end
