(* ===== verification/Assembler.thy ===== *)
theory Assembler
  imports Storage
begin

text \<open>
  The configuration of a device (\<open>src/internal/edgeapi/backend/k8s/configuration-assembler.go\<close>) with the
  helpers it calls: config maps of a workload (\<open>src/internal/edgeapi/configmaps\<close>), metrics allow-lists
  (\<open>src/internal/edgeapi/devicemetrics\<close>) and registry credentials (\<open>src/internal/edgeapi/images\<close>).

  The YAML package is not part of the program's own code: its three uses are the fields of the argument
  \<open>yaml_codec\<close>. \<open>json.Marshal\<close> of a map of strings is the standard library's and is written out.
\<close>

record yaml_codec =
  y_pod :: "pod_spec \<Rightarrow> error + string"
  y_config_map :: "config_map \<Rightarrow> error + string"
  y_allow_list :: "string \<Rightarrow> error + metrics_allow_list"

section \<open>JSON of a map of strings\<close>

definition json_rune :: "nat \<Rightarrow> string" where
  "json_rune r =
     (if r = 34 \<or> r = 92 then [chr 92, chr r]
      else if r = 10 then [chr 92, CHR ''n''] else if r = 13 then [chr 92, CHR ''r'']
      else if r = 9 then [chr 92, CHR ''t'']
      else if r < 32 \<or> r = 60 \<or> r = 62 \<or> r = 38
        then [chr 92] @ ''u00'' @ [hex_digit (r div 16), hex_digit (r mod 16)]
      else if r = 0x2028 then [chr 92] @ ''u2028'' else if r = 0x2029 then [chr 92] @ ''u2029''
      else encode_rune r)"

function json_body :: "nat list \<Rightarrow> string" where
  "json_body bs = (if bs = [] then []
     else (case decode_rune bs of (r, w) \<Rightarrow>
       (if r = RuneError \<and> w = 1 then [chr 92] @ ''ufffd'' else json_rune r) @ json_body (drop w bs)))"
  by pat_completeness auto
termination
  by (relation "measure length") (auto simp: decode_rune_less)

declare json_body.simps [simp del]

definition json_string :: "string \<Rightarrow> string" where
  "json_string s = [chr 34] @ json_body (map byte s) @ [chr 34]"

definition json_map :: "(string, string) fmap \<Rightarrow> string" where
  "json_map m = ''{'' @ Join (map (\<lambda>k. json_string k @ '':'' @ json_string (the (fmlookup m k)))
     (sorted_list_of_fset (fmdom m))) '','' @ ''}''"

section \<open>Allow-lists, registry credentials, config maps\<close>

definition GenerateFromConfigMap :: "yaml_codec \<Rightarrow> string \<Rightarrow> string \<Rightarrow> (error + metrics_allow_list) io" where
  "GenerateFromConfigMap y name namespace =
     tryp (call_object (GetConfigMap name namespace) as_config_map) (\<lambda>cm.
       Ret (case mget (cm_Data cm) ''metrics_list.yaml'' of
           None \<Rightarrow> Inl (PlainError (''metrics_list.yaml not found in '' @ namespace @ ''/'' @ name @ '' config map''))
         | Some metricsList \<Rightarrow> y_allow_list y metricsList))"

definition GetAuthFileFromSecret :: "string \<Rightarrow> string \<Rightarrow> (error + string) io" where
  "GetAuthFileFromSecret namespace name =
     tryp (call_object (GetSecret name namespace) as_secret) (\<lambda>secret.
       Ret (case mget (se_Data secret) ''.dockerconfigjson'' of
           None \<Rightarrow> Inl (PlainError (''.dockerconfigjson not found in '' @ namespace @ ''/'' @ name @ '' Secret''))
         | Some authFile \<Rightarrow> Inr authFile))"

definition env_from_config_map :: "env_from_source \<Rightarrow> bool \<times> bool option \<times> string" where
  "env_from_config_map env = (case ef_ConfigMapRef env of
      Some r \<Rightarrow> (True, ref_Optional r, ref_Name r) | None \<Rightarrow> (False, None, []))"

text \<open>The callback dereferences \<open>env.ValueFrom\<close>, which is nil for a variable with a literal value.\<close>

definition env_config_map_key :: "env_var \<Rightarrow> ('q, 'r, bool \<times> bool option \<times> string \<times> string) prog" where
  "env_config_map_key env = bindp (deref (ev_ValueFrom env)) (\<lambda>src.
     Ret (case vs_ConfigMapKeyRef src of
         Some r \<Rightarrow> (True, kr_Optional r, kr_Name r, kr_Key r) | None \<Rightarrow> (False, None, [], [])))"

definition volume_config_map :: "volume \<Rightarrow> bool \<times> bool option \<times> string" where
  "volume_config_map v = (case vo_ConfigMap v of
      Some r \<Rightarrow> (True, ref_Optional r, ref_Name r) | None \<Rightarrow> (False, None, []))"

definition extractConfigMapsFromEnv :: "container \<Rightarrow> MapType \<Rightarrow> ('q, 'r, MapType) prog" where
  "extractConfigMapsFromEnv c m =
     ExtractInfoFromEnv (ct_Env c) (ExtractInfoFromEnvFrom (ct_EnvFrom c) m env_from_config_map) env_config_map_key"

primrec extract_config_maps :: "volume list \<Rightarrow> container list \<Rightarrow> MapType \<Rightarrow> ('q, 'r, MapType) prog" where
  "extract_config_maps vols [] m = Ret m"
| "extract_config_maps vols (c # cs) m =
     bindp (extractConfigMapsFromEnv c m) (\<lambda>m'.
       extract_config_maps vols cs (ExtractInfoFromVolume vols m' volume_config_map))"

text \<open>The keys that must be there, in the arbitrary order of the set; the first missing one is reported.\<close>

definition first_missing :: "StringSet \<Rightarrow> (string, 'v) gomap \<Rightarrow> ('q, 'r, string option) prog" where
  "first_missing keys data = (case keys of
      None \<Rightarrow> Ret None
    | Some ks \<Rightarrow> bindp (pick_perm (sorted_list_of_fset ks)) (\<lambda>ks. Ret (find (\<lambda>k. mget data k = None) ks)))"

definition readAndValidateConfigMap :: "string \<Rightarrow> string \<Rightarrow> StringSet \<Rightarrow> (error + config_map option) io" where
  "readAndValidateConfigMap configmapName configmapNamespace configmapKeys =
     bindp (call_object (GetConfigMap configmapName configmapNamespace) as_config_map) (\<lambda>res. case res of
         Inl e \<Rightarrow> Ret (if IsNotFound e \<and> configmapKeys = None then Inr None else Inl e)
       | Inr cm \<Rightarrow> bindp (first_missing configmapKeys (cm_Data cm)) (\<lambda>missing. Ret (case missing of
             Some key \<Rightarrow> Inl (PlainError (''missing configmap key. configmap: '' @ configmapName @ ''. key: '' @ key @
               ''. Namespace: '' @ configmapNamespace))
           | None \<Rightarrow> Inr (Some cm))))"

primrec fetch_config_maps ::
  "yaml_codec \<Rightarrow> string \<Rightarrow> MapType \<Rightarrow> string list \<Rightarrow> string list \<Rightarrow> (error + string list) io" where
  "fetch_config_maps y namespace m [] list = Ret (Inr list)"
| "fetch_config_maps y namespace m (name # names) list =
     bindp (readAndValidateConfigMap name namespace (the (fmlookup m name))) (\<lambda>res. case res of
         Inl e \<Rightarrow> Ret (Inl (WrapError (''Can't fetch the configmap '' @ name @ ''/'' @ namespace @ '': '' @ Error e) e))
       | Inr None \<Rightarrow> fetch_config_maps y namespace m names list
       | Inr (Some cm) \<Rightarrow> (case y_config_map y (cm\<lparr>cm_meta := zero_meta\<lparr>om_Name := name\<rparr>\<rparr>) of
             Inl e \<Rightarrow> Ret (Inl e)
           | Inr obj \<Rightarrow> fetch_config_maps y namespace m names (list @ [obj])))"

definition Fetch :: "yaml_codec \<Rightarrow> edge_workload \<Rightarrow> string \<Rightarrow> (error + string list) io" where
  "Fetch y w namespace =
     (let podSpec = ws_Pod (ew_Spec w) in
      bindp (extract_config_maps (ps_Volumes podSpec) (ps_InitContainers podSpec @ ps_Containers podSpec) fmempty) (\<lambda>cmMap.
      bindp (range_keys (Some cmMap)) (\<lambda>names. fetch_config_maps y namespace cmMap names [])))"

section \<open>Secrets\<close>

primrec extractSecretsFromEnvFrom :: "env_from_source list \<Rightarrow> MapType \<Rightarrow> MapType" where
  "extractSecretsFromEnvFrom [] m = m"
| "extractSecretsFromEnvFrom (e # es) m = extractSecretsFromEnvFrom es (case ef_SecretRef e of
      None \<Rightarrow> m | Some r \<Rightarrow> extract_ref (True, ref_Optional r, ref_Name r) m)"

primrec extractSecretsFromEnv :: "env_var list \<Rightarrow> MapType \<Rightarrow> MapType" where
  "extractSecretsFromEnv [] m = m"
| "extractSecretsFromEnv (e # es) m = extractSecretsFromEnv es (case ev_ValueFrom e of
      None \<Rightarrow> m
    | Some src \<Rightarrow> (case vs_SecretKeyRef src of
        None \<Rightarrow> m | Some r \<Rightarrow> extract_key_ref (kr_Optional r) (kr_Name r) (kr_Key r) m))"

definition extractSecretsFromContainer :: "container \<Rightarrow> MapType \<Rightarrow> MapType" where
  "extractSecretsFromContainer c m = extractSecretsFromEnv (ct_Env c) (extractSecretsFromEnvFrom (ct_EnvFrom c) m)"

definition secret_map :: "edge_workload list \<Rightarrow> MapType" where
  "secret_map ws = fold (\<lambda>w m. fold extractSecretsFromContainer
     (ps_InitContainers (ws_Pod (ew_Spec w)) @ ps_Containers (ws_Pod (ew_Spec w))) m) ws fmempty"

definition readAndValidateSecret :: "string \<Rightarrow> string \<Rightarrow> StringSet \<Rightarrow> (error + secret option) io" where
  "readAndValidateSecret secretName secretNamespace secretKeys =
     bindp (Facade_GetSecret secretName secretNamespace) (\<lambda>res. case res of
         Inl e \<Rightarrow> Ret (if IsNotFound e \<and> secretKeys = None then Inr None else Inl e)
       | Inr s \<Rightarrow> bindp (first_missing secretKeys (se_Data s)) (\<lambda>missing. Ret (case missing of
             Some key \<Rightarrow> Inl (PlainError (''missing secret key. secret: '' @ secretName @ ''. key: '' @ key @
               ''. Namespace: '' @ secretNamespace))
           | None \<Rightarrow> Inr (Some s))))"

definition addSecretToSecretList :: "m_secret list \<Rightarrow> secret \<Rightarrow> m_secret list" where
  "addSecretToSecretList secretList secret = secretList @
     [\<lparr>ms_Data = json_map (fmmap base64_EncodeToString (entries (se_Data secret))),
       ms_Name = om_Name (se_meta secret)\<rparr>]"

primrec read_secrets :: "string \<Rightarrow> MapType \<Rightarrow> string list \<Rightarrow> m_secret list \<Rightarrow> (error + m_secret list) io" where
  "read_secrets namespace m [] list = Ret (Inr list)"
| "read_secrets namespace m (name # names) list =
     tryp (readAndValidateSecret name namespace (the (fmlookup m name))) (\<lambda>s. case s of
         None \<Rightarrow> read_secrets namespace m names list
       | Some s \<Rightarrow> read_secrets namespace m names (addSecretToSecretList list s))"

definition createSecretList :: "edge_workload list \<Rightarrow> edge_device \<Rightarrow> (error + m_secret list) io" where
  "createSecretList ws device =
     (let secretMap = secret_map ws in
      bindp (range_keys (Some secretMap)) (\<lambda>names. read_secrets (ed_Namespace device) secretMap names []))"

section \<open>Parts of the device configuration\<close>

text \<open>A device that belongs to a set takes every setting from the set, also one the set leaves out.\<close>

definition from_set :: "'a \<Rightarrow> edge_device_set option \<Rightarrow> (edge_device_set_spec \<Rightarrow> 'a) \<Rightarrow> 'a" where
  "from_set own deviceSet sel = (case deviceSet of Some s \<Rightarrow> sel (eds_Spec s) | None \<Rightarrow> own)"

definition getOsConfiguration :: "edge_device \<Rightarrow> edge_device_set option \<Rightarrow> m_os_information option" where
  "getOsConfiguration edgeDevice deviceSet = from_set (ds_OsInformation (ed_Spec edgeDevice)) deviceSet dss_OsInformation"

definition defaultHeartbeatConfiguration :: m_heartbeat_configuration where
  "defaultHeartbeatConfiguration =
     \<lparr>mh_HardwareProfile = Some \<lparr>hp_Include = False, hp_Scope = []\<rparr>, mh_PeriodSeconds = 60\<rparr>"

definition getHeartbeatConfiguration :: "edge_device \<Rightarrow> edge_device_set option \<Rightarrow> m_heartbeat_configuration" where
  "getHeartbeatConfiguration edgeDevice deviceSet =
     (case from_set (ds_Heartbeat (ed_Spec edgeDevice)) deviceSet dss_Heartbeat of
        Some hb \<Rightarrow> \<lparr>mh_HardwareProfile = (case hc_HardwareProfile hb of
              Some p \<Rightarrow> Some \<lparr>hp_Include = hp_Include p, hp_Scope = hp_Scope p\<rparr>
            | None \<Rightarrow> mh_HardwareProfile defaultHeartbeatConfiguration),
          mh_PeriodSeconds = hc_PeriodSeconds hb\<rparr>
      | None \<Rightarrow> defaultHeartbeatConfiguration)"

definition getMountConfiguration :: "edge_device \<Rightarrow> edge_device_set option \<Rightarrow> m_mount list" where
  "getMountConfiguration edgeDevice deviceSet =
     map the (filter (\<lambda>m. m \<noteq> None) (elems (from_set (ds_Mounts (ed_Spec edgeDevice)) deviceSet dss_Mounts)))"

definition getStorageConfiguration :: "edge_device \<Rightarrow> edge_device_set option \<Rightarrow> (error + storage_configuration option) io" where
  "getStorageConfiguration edgeDevice deviceSet =
     (let storageSpec = from_set (ds_Storage (ed_Spec edgeDevice)) deviceSet dss_Storage;
          found = (\<lambda>c. Ret (Inr (Some \<lparr>stc_S3 = Some c\<rparr>)))
      in if es_DataOBC (ed_Status edgeDevice) \<noteq> None \<and> es_DataOBC (ed_Status edgeDevice) \<noteq> Some [] then
           tryp (GetStorageConfiguration (Some edgeDevice)) found
         else if ShouldUseExternalConfig storageSpec then
           tryp (GetExternalStorageConfig (ed_Namespace edgeDevice) storageSpec) found
         else Ret (Inr None))"

definition GetDefaultMetricsReceiver :: m_metrics_receiver_configuration where
  "GetDefaultMetricsReceiver =
     \<lparr>mmr_CaCert = [], mmr_RequestNumSamples = 30000, mmr_TimeoutSeconds = 10, mmr_URL = []\<rparr>"

definition receiver_ca :: "metrics_receiver_configuration \<Rightarrow> string \<Rightarrow> (error + string) io" where
  "receiver_ca rc namespace =
     tryp (Facade_GetSecret (mr_CaSecretName rc) namespace) (\<lambda>secret.
       let caBytes = mget0 (se_Data secret) ''ca.crt'' in
       Ret (if caBytes = [] then
           Inl (PlainError (''metrics receiver config - missing key 'ca.crt' in secret '' @ om_Name (se_meta secret)))
         else Inr caBytes))"

definition getMetricsReceiverConfiguration ::
  "metrics_configuration option \<Rightarrow> string \<Rightarrow> (error + m_metrics_receiver_configuration) io" where
  "getMetricsReceiverConfiguration metrics namespace =
     (let result = GetDefaultMetricsReceiver in
      case metrics of None \<Rightarrow> Ret (Inr result) | Some m \<Rightarrow>
      (case mc_ReceiverConfiguration m of None \<Rightarrow> Ret (Inr result) | Some rc \<Rightarrow>
        (let result' = result\<lparr>
             mmr_TimeoutSeconds := (if mr_TimeoutSeconds rc > 0 then mr_TimeoutSeconds rc else mmr_TimeoutSeconds result),
             mmr_RequestNumSamples := (if mr_RequestNumSamples rc > 0 then mr_RequestNumSamples rc
               else mmr_RequestNumSamples result),
             mmr_URL := mr_URL rc\<rparr>
         in if mr_URL rc \<noteq> [] \<and> HasPrefix (mr_URL rc) ''https'' \<and> mr_CaSecretName rc \<noteq> []
            then tryp (receiver_ca rc namespace) (\<lambda>ca. Ret (Inr (result'\<lparr>mmr_CaCert := ca\<rparr>)))
            else Ret (Inr result'))))"

definition component_metrics ::
  "yaml_codec \<Rightarrow> string \<Rightarrow> component_metrics_configuration option \<Rightarrow> (error + m_component_metrics_configuration option) io" where
  "component_metrics y namespace spec = (case spec of
      None \<Rightarrow> Ret (Inr None)
    | Some c \<Rightarrow>
        (let conf = \<lparr>mcm_AllowList = None, mcm_Disabled = cmc_Disabled c, mcm_Interval = cmc_Interval c\<rparr> in
         case cmc_AllowList c of
           None \<Rightarrow> Ret (Inr (Some conf))
         | Some n \<Rightarrow> tryp (GenerateFromConfigMap y (nr_Name n) namespace) (\<lambda>al.
             Ret (Inr (Some (conf\<lparr>mcm_AllowList := Some al\<rparr>))))))"

definition getDeviceMetricsConfiguration ::
  "yaml_codec \<Rightarrow> edge_device \<Rightarrow> edge_device_set option \<Rightarrow> (error + m_metrics_configuration) io" where
  "getDeviceMetricsConfiguration y edgeDevice deviceSet =
     (let spec = from_set (ds_Metrics (ed_Spec edgeDevice)) deviceSet dss_Metrics in
      tryp (getMetricsReceiverConfiguration spec (ed_Namespace edgeDevice)) (\<lambda>receiver.
        let conf = \<lparr>mmc_DataTransfer = None, mmc_Receiver = Some receiver, mmc_Retention = None, mmc_System = None\<rparr> in
        case spec of
          None \<Rightarrow> Ret (Inr conf)
        | Some m \<Rightarrow>
            tryp (component_metrics y (ed_Namespace edgeDevice) (mc_SystemMetrics m)) (\<lambda>system.
            tryp (component_metrics y (ed_Namespace edgeDevice) (mc_DataTransferMetrics m)) (\<lambda>dataTransfer.
            Ret (Inr (conf\<lparr>
              mmc_Retention := map_option (\<lambda>r. \<lparr>mrt_MaxHours = rt_MaxHours r, mrt_MaxMib = rt_MaxMiB r\<rparr>) (mc_Retention m),
              mmc_System := system, mmc_DataTransfer := dataTransfer\<rparr>))))))"

text \<open>The error about an unknown protocol prints the default instead of the value that was found.\<close>

definition getDeviceSyslogLogConfig :: "string \<Rightarrow> name_ref \<Rightarrow> (error + syslog_config) io" where
  "getDeviceSyslogLogConfig namespace ref =
     bindp (Facade_GetConfigMap (nr_Name ref) namespace) (\<lambda>res. Ret (case res of
         Inl e \<Rightarrow> Inl (WrapError (''cannot get syslogconfig from configmap '' @ nr_Name ref @ '': '' @ Error e) e)
       | Inr cm \<Rightarrow> (case mget (cm_Data cm) ''Protocol'' of
           None \<Rightarrow> Inr \<lparr>sy_Address = mget0 (cm_Data cm) ''Address'', sy_Protocol = ''tcp''\<rparr>
         | Some p \<Rightarrow> if p = ''tcp'' \<or> p = ''udp''
             then Inr \<lparr>sy_Address = mget0 (cm_Data cm) ''Address'', sy_Protocol = p\<rparr>
             else Inl (PlainError ''Protocol 'tcp' is not valid for syslog server''))))"

primrec log_configs ::
  "string \<Rightarrow> (string, log_collection_config option) fmap \<Rightarrow> string list \<Rightarrow>
   (string, logs_collection_information) fmap \<Rightarrow> (error + (string, logs_collection_information) fmap) io" where
  "log_configs namespace m [] acc = Ret (Inr acc)"
| "log_configs namespace m (key # ks) acc =
     bindp (deref (the (fmlookup m key))) (\<lambda>val.
       let conf = \<lparr>li_BufferSize = lc_BufferSize val, li_Kind = lc_Kind val, li_SyslogConfig = None\<rparr> in
       case lc_SyslogConfig val of
         None \<Rightarrow> log_configs namespace m ks (fmupd key conf acc)
       | Some ref \<Rightarrow> tryp (getDeviceSyslogLogConfig namespace ref) (\<lambda>sy.
           log_configs namespace m ks (fmupd key (conf\<lparr>li_SyslogConfig := Some sy\<rparr>) acc)))"

definition getDeviceLogConfig ::
  "edge_device \<Rightarrow> edge_device_set option \<Rightarrow> (error + (string, logs_collection_information) gomap) io" where
  "getDeviceLogConfig edgeDevice deviceSet =
     (let logCollection = from_set (ds_LogCollection (ed_Spec edgeDevice)) deviceSet dss_LogCollection in
      if entries logCollection = fmempty then Ret (Inr None)
      else bindp (range_keys logCollection) (\<lambda>ks.
        tryp (log_configs (ed_Namespace edgeDevice) (entries logCollection) ks fmempty) (\<lambda>m. Ret (Inr (Some m)))))"

section \<open>Workloads\<close>

definition toDataPath :: "data_path list \<Rightarrow> m_data_path slice" where
  "toDataPath input = appended (map (\<lambda>p. \<lparr>dp_Source = dp_Source p, dp_Target = dp_Target p\<rparr>) input)"

definition getAuthFile :: "image_registries_configuration option \<Rightarrow> string \<Rightarrow> (error + string) io" where
  "getAuthFile imageRegistries namespace = (case imageRegistries of
      None \<Rightarrow> Ret (Inr [])
    | Some r \<Rightarrow> (case ir_AuthFileSecret r of
        None \<Rightarrow> Ret (Inr []) | Some secretRef \<Rightarrow> GetAuthFileFromSecret namespace (nr_Name secretRef)))"

primrec container_metrics_of ::
  "(string, metrics_config_entity option) fmap \<Rightarrow> string list \<Rightarrow> (string, container_metrics) fmap \<Rightarrow>
   ('q, 'r, (string, container_metrics) fmap) prog" where
  "container_metrics_of m [] acc = Ret acc"
| "container_metrics_of m (n # ns) acc =
     bindp (deref (the (fmlookup m n))) (\<lambda>c. container_metrics_of m ns
       (fmupd n \<lparr>cme_Disabled = mce_Disabled c, cme_Path = mce_Path c, cme_Port = mce_Port c\<rparr> acc))"

definition workload_metrics ::
  "yaml_codec \<Rightarrow> edge_workload \<Rightarrow> (error + m_metrics option) io" where
  "workload_metrics y w = (case ws_Metrics (ew_Spec w) of
      None \<Rightarrow> Ret (Inr None)
    | Some spec \<Rightarrow>
        if \<not> cmet_Port spec > 0 then Ret (Inr None)
        else bindp (case cmet_AllowList spec of
              None \<Rightarrow> Ret (Inr None)
            | Some n \<Rightarrow> mapp (\<lambda>res. case res of
                Inl e \<Rightarrow> Inl (PlainError (''cannot get AllowList Metrics Confimap for '' @ ew_Name w @ '': '' @ Error e))
              | Inr al \<Rightarrow> Inr (Some al)) (GenerateFromConfigMap y (nr_Name n) (ew_Namespace w))) (\<lambda>res. case res of
            Inl e \<Rightarrow> Ret (Inl e)
          | Inr al \<Rightarrow> bindp (range_keys (cmet_Containers spec)) (\<lambda>names.
              bindp (container_metrics_of (entries (cmet_Containers spec)) names fmempty) (\<lambda>containers.
              Ret (Inr (Some \<lparr>mm_AllowList = al,
                mm_Containers = (if containers = fmempty then None else Some containers),
                mm_Interval = cmet_Interval spec, mm_Path = cmet_Path spec, mm_Port = cmet_Port spec\<rparr>))))))"

definition missing_auth_file :: "edge_device \<Rightarrow> edge_workload \<Rightarrow> request" where
  "missing_auth_file device w = RecordEvent device EventTypeWarning ''Misconfiguration''
     (''Auth file secret '' @ nr_Name (the (ir_AuthFileSecret (the (ws_ImageRegistries (ew_Spec w))))) @
      '' used by edgeworkload '' @ ew_Namespace w @ ''/'' @ ew_Name w @ '' is missing'')"

text \<open>The body of the loop of \<open>toWorkloadList\<close> for one workload and the marshalled pod specification.\<close>

definition toWorkload :: "yaml_codec \<Rightarrow> edge_device \<Rightarrow> edge_workload \<Rightarrow> string \<Rightarrow> (error + m_workload) io" where
  "toWorkload y device w podSpec =
     bindp (getAuthFile (ws_ImageRegistries (ew_Spec w)) (ew_Namespace w)) (\<lambda>res. case res of
         Inl e \<Rightarrow> bindp (tell (missing_auth_file device w)) (\<lambda>_. Ret (Inl e))
       | Inr authFile \<Rightarrow>
           tryp (workload_metrics y w) (\<lambda>metrics.
           bindp (Fetch y w (ed_Namespace device)) (\<lambda>res. Ret (case res of
               Inl e \<Rightarrow> Inl (PlainError (''failed to fetch configmaps: '' @ Error e))
             | Inr configmapList \<Rightarrow> Inr
                 \<lparr>mw_Annotations = FilterByPodmanPrefix (om_Annotations (ew_meta w)),
                  mw_Configmaps = configmapList,
                  mw_Data = map_option (\<lambda>d. \<lparr>md_Egress = toDataPath (dc_Egress d), md_Ingress = toDataPath (dc_Ingress d)\<rparr>)
                    (ws_Data (ew_Spec w)),
                  mw_ImageRegistries = (if authFile \<noteq> [] then Some \<lparr>ig_AuthFile = authFile\<rparr> else None),
                  mw_Labels = FilterByPodmanPrefix (ew_Labels w),
                  mw_LogCollection = ws_LogCollection (ew_Spec w),
                  mw_Metrics = metrics,
                  mw_Name = ew_Name w, mw_Namespace = ew_Namespace w,
                  mw_Specification = podSpec\<rparr>))))"

primrec toWorkloadList :: "yaml_codec \<Rightarrow> edge_device \<Rightarrow> edge_workload list \<Rightarrow> m_workload list \<Rightarrow> (error + m_workload list) io" where
  "toWorkloadList y device [] list = Ret (Inr list)"
| "toWorkloadList y device (w # ws) list =
     (if om_DeletionTimestamp (ew_meta w) \<noteq> None then toWorkloadList y device ws list
      else case y_pod y (ws_Pod (ew_Spec w)) of
        Inl e \<Rightarrow> toWorkloadList y device ws list
      | Inr podSpec \<Rightarrow> tryp (toWorkload y device w podSpec) (\<lambda>workload.
          toWorkloadList y device ws (list @ [workload])))"

primrec device_workloads :: "string \<Rightarrow> workload list \<Rightarrow> (error + edge_workload list) io" where
  "device_workloads namespace [] = Ret (Inr [])"
| "device_workloads namespace (wl # wls) =
     bindp (GetEdgeWorkload (wl_Name wl) namespace) (\<lambda>(w, err). case err of
         Some e \<Rightarrow> if IsNotFound e then device_workloads namespace wls else Ret (Inl e)
       | None \<Rightarrow> mapp (map_sum id (\<lambda>ws. if om_DeletionTimestamp (ew_meta w) = None then w # ws else ws))
           (device_workloads namespace wls))"

section \<open>GetDeviceConfiguration\<close>

definition workloads_and_secrets ::
  "yaml_codec \<Rightarrow> edge_device \<Rightarrow> (error + workload_list \<times> secret_list) io" where
  "workloads_and_secrets y edgeDevice =
     (if om_DeletionTimestamp (ed_meta edgeDevice) \<noteq> None then Ret (Inr (None, None))
      else tryp (device_workloads (ed_Namespace edgeDevice) (elems (es_Workloads (ed_Status edgeDevice)))) (\<lambda>ws.
        tryp (toWorkloadList y edgeDevice ws []) (\<lambda>workloadList.
        bindp (createSecretList ws edgeDevice) (\<lambda>res. Ret (case res of
            Inl e \<Rightarrow> Inl (PlainError (''failed reading secrets for device workloads: '' @ Error e))
          | Inr secretList \<Rightarrow> Inr (Some workloadList, Some secretList))))))"

definition device_set_of :: "edge_device \<Rightarrow> edge_device_set option io" where
  "device_set_of edgeDevice = (case mget (ed_Labels edgeDevice) ''flotta/member-of'' of
      None \<Rightarrow> Ret None
    | Some deviceSetName \<Rightarrow> mapp (\<lambda>(s, err). if err = None then Some s else None)
        (GetEdgeDeviceSet deviceSetName (ed_Namespace edgeDevice)))"

definition error_prefix :: "string \<Rightarrow> (error + 'a) io \<Rightarrow> (error + 'a) io" where
  "error_prefix msg p = mapp (\<lambda>res. case res of Inl e \<Rightarrow> Inl (PlainError (msg @ Error e)) | Inr a \<Rightarrow> Inr a) p"

definition GetDeviceConfiguration :: "yaml_codec \<Rightarrow> edge_device \<Rightarrow> (error + device_configuration_message) io" where
  "GetDeviceConfiguration y edgeDevice =
     tryp (workloads_and_secrets y edgeDevice) (\<lambda>(workloadList, secretList).
     bindp (device_set_of edgeDevice) (\<lambda>deviceSet.
     bindp (getStorageConfiguration edgeDevice deviceSet) (\<lambda>st.
     tryp (error_prefix ''failed getting device metrics configuration: ''
             (getDeviceMetricsConfiguration y edgeDevice deviceSet)) (\<lambda>metrics.
     tryp (error_prefix ''failed getting device log configuration: '' (getDeviceLogConfig edgeDevice deviceSet)) (\<lambda>logs.
     Ret (Inr \<lparr>cf_Configuration = Some \<lparr>
           cfg_AnsibleManager = None,
           cfg_Heartbeat = Some (getHeartbeatConfiguration edgeDevice deviceSet),
           cfg_LogCollection = logs,
           cfg_Metrics = Some metrics,
           cfg_Mounts = getMountConfiguration edgeDevice deviceSet,
           cfg_Os = getOsConfiguration edgeDevice deviceSet,
           cfg_Storage = (case st of Inl e \<Rightarrow> None | Inr c \<Rightarrow> c)\<rparr>,
         cf_DeviceID = ed_Name edgeDevice,
         cf_Secrets = secretList,
         cf_Version = om_ResourceVersion (ed_meta edgeDevice),
         cf_Workloads = workloadList,
         cf_WorkloadsMonitoringInterval = 0\<rparr>))))))"

section \<open>What assembling a configuration asks for\<close>

fun is_config_read :: "edge_device \<Rightarrow> request \<Rightarrow> bool" where
  "is_config_read d (RecordEvent d' ty reason msg) = (\<exists>w. RecordEvent d' ty reason msg = missing_auth_file d w)"
| "is_config_read d (GetWorkload _ ns) = (ns = ed_Namespace d)"
| "is_config_read d (GetConfigMap _ _) = True"
| "is_config_read d (GetSecret _ _) = True"
| "is_config_read d (GetDeviceSet _ ns) = (ns = ed_Namespace d)"
| "is_config_read d (GetOBC _ ns) = (ns = ed_Namespace d)"
| "is_config_read d (GetRoute _ _) = True"
| "is_config_read d _ = False"

lemma is_config_read_no_write: "is_config_read d q \<Longrightarrow> \<not> is_write q"
  by (cases q) auto

lemma is_config_read_event: "is_config_read d (missing_auth_file d w)"
  by (auto simp: missing_auth_file_def)

named_theorems config_reads \<open>every request of a part of the assembler is a read\<close>

lemma issues_ExtractInfoFromEnv:
  "(\<And>e. issues P (ref e)) \<Longrightarrow> issues P (ExtractInfoFromEnv env m ref)"
  by (induction env arbitrary: m) (auto intro!: issues_bindpI)

lemma issues_extract_config_maps [config_reads]: "issues P (extract_config_maps vols cs m)"
  by (induction cs arbitrary: m) (auto simp: extractConfigMapsFromEnv_def env_config_map_key_def
      intro!: issues_bindpI issues_ExtractInfoFromEnv)

lemma issues_first_missing [config_reads]: "issues P (first_missing keys data)"
  by (auto simp: first_missing_def intro!: issues_bindpI split: option.split)

lemma issues_fetch_config_maps [config_reads]: "issues (is_config_read d) (fetch_config_maps y ns m names acc)"
  by (induction names arbitrary: acc) (auto simp: readAndValidateConfigMap_def config_reads
      intro!: issues_bindpI split: sum.split option.split)

lemma issues_Fetch [config_reads]: "issues (is_config_read d) (Fetch y w ns)"
  by (auto simp: Fetch_def Let_def config_reads intro!: issues_bindpI)

lemma issues_read_secrets [config_reads]: "issues (is_config_read d) (read_secrets ns m names acc)"
  by (induction names arbitrary: acc) (auto simp: readAndValidateSecret_def config_reads Facade_GetSecret_def
      intro!: issues_bindpI issues_trypI split: sum.split option.split)

lemma issues_createSecretList [config_reads]: "issues (is_config_read d) (createSecretList ws d')"
  by (auto simp: createSecretList_def Let_def config_reads intro!: issues_bindpI)

lemma issues_GenerateFromConfigMap [config_reads]: "issues (is_config_read d) (GenerateFromConfigMap y n ns)"
  by (auto simp: GenerateFromConfigMap_def intro!: issues_trypI)

lemma issues_GetAuthFileFromSecret [config_reads]: "issues (is_config_read d) (GetAuthFileFromSecret ns n)"
  by (auto simp: GetAuthFileFromSecret_def intro!: issues_trypI)

lemma issues_container_metrics_of [config_reads]: "issues P (container_metrics_of m ns acc)"
  by (induction ns arbitrary: acc) (auto intro!: issues_bindpI)

lemma issues_workload_metrics [config_reads]: "issues (is_config_read d) (workload_metrics y w)"
  by (auto simp: workload_metrics_def config_reads intro!: issues_bindpI split: option.split sum.split)

lemma issues_toWorkload [config_reads]: "issues (is_config_read d) (toWorkload y d w pod)"
  by (auto simp: toWorkload_def getAuthFile_def config_reads is_config_read_event
      intro!: issues_bindpI issues_trypI split: option.split sum.split)

lemma issues_toWorkloadList [config_reads]: "issues (is_config_read d) (toWorkloadList y d ws acc)"
  by (induction ws arbitrary: acc) (auto simp: config_reads intro!: issues_trypI split: sum.split)

lemma issues_device_workloads [config_reads]: "issues (is_config_read d) (device_workloads (ed_Namespace d) wls)"
  by (induction wls) (auto simp: GetEdgeWorkload_def EdgeWorkload_Read_def intro!: issues_bindpI split: option.split)

lemma issues_workloads_and_secrets [config_reads]: "issues (is_config_read d) (workloads_and_secrets y d)"
  by (auto simp: workloads_and_secrets_def config_reads intro!: issues_bindpI issues_trypI)

lemma issues_getStorageConfiguration [config_reads]: "issues (is_config_read d) (getStorageConfiguration d s)"
  by (auto simp: getStorageConfiguration_def GetStorageConfiguration_def GetExternalStorageConfig_def GetClaim_def Let_def
      intro!: issues_bindpI issues_trypI split: option.split)

lemma issues_receiver [config_reads]: "issues (is_config_read d) (getMetricsReceiverConfiguration m ns)"
  by (auto simp: getMetricsReceiverConfiguration_def receiver_ca_def Facade_GetSecret_def Let_def
      intro!: issues_trypI split: option.split)

lemma issues_component_metrics [config_reads]: "issues (is_config_read d) (component_metrics y ns c)"
  by (auto simp: component_metrics_def config_reads Let_def intro!: issues_trypI split: option.split)

lemma issues_getDeviceMetrics [config_reads]: "issues (is_config_read d) (getDeviceMetricsConfiguration y d' s)"
  by (auto simp: getDeviceMetricsConfiguration_def config_reads Let_def intro!: issues_trypI split: option.split)

lemma issues_log_configs [config_reads]: "issues (is_config_read d) (log_configs ns m ks acc)"
  by (induction ks arbitrary: acc) (auto simp: getDeviceSyslogLogConfig_def Facade_GetConfigMap_def Let_def
      intro!: issues_bindpI issues_trypI split: option.split)

lemma issues_getDeviceLogConfig [config_reads]: "issues (is_config_read d) (getDeviceLogConfig d' s)"
  by (auto simp: getDeviceLogConfig_def config_reads Let_def intro!: issues_bindpI issues_trypI)

lemma issues_GetDeviceConfiguration: "issues (is_config_read d) (GetDeviceConfiguration y d)"
  by (auto simp: GetDeviceConfiguration_def device_set_of_def error_prefix_def config_reads
      GetEdgeDeviceSet_def EdgeDeviceSet_Read_def
      intro!: issues_bindpI issues_trypI split: option.split)

section \<open>The references of a workload\<close>

text \<open>
  A reference is the name of the object, whether it is declared optional, and the key when it asks for one.
  What the extraction loops leave in their map is a function of the list of references: an object that is
  only referenced optionally may be missing; any other must exist and have the keys of the mandatory
  references.
\<close>

type_synonym reference = "string \<times> bool option \<times> string option"

fun extract_one :: "reference \<Rightarrow> MapType \<Rightarrow> MapType" where
  "extract_one (n, opt, None) m = extract_ref (True, opt, n) m"
| "extract_one (n, opt, Some k) m = extract_key_ref opt n k m"

definition mandatory_refs :: "reference list \<Rightarrow> string \<Rightarrow> reference list" where
  "mandatory_refs rs n = filter (\<lambda>(n', opt, k). n' = n \<and> opt \<noteq> Some True) rs"

definition ref_keys :: "reference list \<Rightarrow> string fset" where
  "ref_keys rs = fset_of_list (List.map_filter (snd \<circ> snd) rs)"

definition needed_keys :: "reference list \<Rightarrow> string \<Rightarrow> StringSet option" where
  "needed_keys rs n =
     (if \<not> (\<exists>r \<in> set rs. fst r = n) then None
      else if mandatory_refs rs n = [] then Some None
      else Some (Some (ref_keys (mandatory_refs rs n))))"

lemma extract_one_lookup:
  "fmlookup (extract_one (n', opt, k) m) n =
     (if n' \<noteq> n then fmlookup m n
      else if opt = Some True then Some (case fmlookup m n of None \<Rightarrow> None | Some ks \<Rightarrow> ks)
      else Some (Some ((case fmlookup m n of Some (Some ks) \<Rightarrow> ks | _ \<Rightarrow> {||}) |\<union>|
        (case k of None \<Rightarrow> {||} | Some k \<Rightarrow> {|k|}))))"
  by (cases k; cases "fmlookup m n'"; cases opt) (auto simp: extract_ref_def extract_key_ref_def split: option.split)

declare extract_one.simps [simp del]

lemma mandatory_refs_snoc:
  "mandatory_refs (rs @ [(n', opt, k)]) n = mandatory_refs rs n @ (if n' = n \<and> opt \<noteq> Some True then [(n', opt, k)] else [])"
  by (simp add: mandatory_refs_def)

lemma ref_keys_simps [simp]:
  "ref_keys [] = {||}" "ref_keys (rs @ [(n, opt, k)]) = ref_keys rs |\<union>| (case k of None \<Rightarrow> {||} | Some k \<Rightarrow> {|k|})"
  by (auto simp: ref_keys_def List.map_filter_def split: option.split)

lemma extract_needed: "fmlookup (fold extract_one rs fmempty) n = needed_keys rs n"
proof (induction rs rule: rev_induct)
  case Nil
  then show ?case by (simp add: needed_keys_def)
next
  case (snoc r rs)
  obtain n' opt k where r: "r = (n', opt, k)" by (cases r)
  have none: "mandatory_refs rs n = []" if "\<not> (\<exists>r \<in> set rs. fst r = n)"
    using that by (auto simp: mandatory_refs_def filter_empty_conv)
  show ?case
  proof (cases "\<exists>r \<in> set rs. fst r = n")
    case True
    then show ?thesis
      by (simp add: r snoc extract_one_lookup needed_keys_def mandatory_refs_snoc)
  next
    case False
    with none show ?thesis
      by (auto simp: r snoc extract_one_lookup needed_keys_def mandatory_refs_snoc ref_keys_simps(2) [of "[]", simplified])
  qed
qed

definition container_secret_refs :: "container \<Rightarrow> reference list" where
  "container_secret_refs c =
     map (\<lambda>r. (ref_Name r, ref_Optional r, None)) (List.map_filter ef_SecretRef (ct_EnvFrom c)) @
     map (\<lambda>r. (kr_Name r, kr_Optional r, Some (kr_Key r)))
       (List.map_filter vs_SecretKeyRef (List.map_filter ev_ValueFrom (ct_Env c)))"

definition secret_refs :: "edge_workload \<Rightarrow> reference list" where
  "secret_refs w = concat (map container_secret_refs (ps_InitContainers (ws_Pod (ew_Spec w)) @ ps_Containers (ws_Pod (ew_Spec w))))"

lemma extractSecretsFromContainer_fold:
  "extractSecretsFromContainer c m = fold extract_one (container_secret_refs c) m"
proof -
  have "extractSecretsFromEnvFrom es m = fold extract_one
      (map (\<lambda>r. (ref_Name r, ref_Optional r, None)) (List.map_filter ef_SecretRef es)) m" for es m
    by (induction es arbitrary: m) (auto simp: List.map_filter_simps extract_one.simps split: option.split)
  moreover have "extractSecretsFromEnv es m = fold extract_one (map (\<lambda>r. (kr_Name r, kr_Optional r, Some (kr_Key r)))
       (List.map_filter vs_SecretKeyRef (List.map_filter ev_ValueFrom es))) m" for es m
    by (induction es arbitrary: m) (auto simp: List.map_filter_simps extract_one.simps split: option.split)
  ultimately show ?thesis
    by (simp add: extractSecretsFromContainer_def container_secret_refs_def)
qed

lemma fold_concat_map: "fold f (concat (map g xs)) m = fold (\<lambda>x. fold f (g x)) xs m"
  by (induction xs arbitrary: m) auto

lemma secret_map_needed: "fmlookup (secret_map ws) n = needed_keys (concat (map secret_refs ws)) n"
proof -
  have "secret_map ws = fold extract_one (concat (map secret_refs ws)) fmempty"
    unfolding secret_map_def fold_concat_map secret_refs_def extractSecretsFromContainer_fold by (simp add: comp_def)
  then show ?thesis by (simp add: extract_needed)
qed

lemma exec_first_missing:
  "exec (first_missing keys data) t (Returned m) \<Longrightarrow> t = [] \<and>
     (m = None \<longleftrightarrow> (\<forall>ks. keys = Some ks \<longrightarrow> (\<forall>k |\<in>| ks. mget data k \<noteq> None)))"
proof (cases keys)
  case (Some ks)
  assume "exec (first_missing keys data) t (Returned m)"
  then obtain ys where "t = []" "mset ys = mset (sorted_list_of_fset ks)" "m = find (\<lambda>k. mget data k = None) ys"
    by (auto simp: first_missing_def Some exec_bindp exec_pick_perm)
  then show ?thesis using Some mset_eq_setD [of ys "sorted_list_of_fset ks"] by (auto simp: find_None_iff)
qed (simp add: first_missing_def)

text \<open>How one answer serves a need for a secret.\<close>

definition secret_entry :: "secret \<Rightarrow> m_secret" where
  "secret_entry s = \<lparr>ms_Data = json_map (fmmap base64_EncodeToString (entries (se_Data s))), ms_Name = om_Name (se_meta s)\<rparr>"

lemma addSecretToSecretList_entry: "addSecretToSecretList l s = l @ [secret_entry s]"
  by (simp add: addSecretToSecretList_def secret_entry_def)

definition served :: "StringSet \<Rightarrow> response \<Rightarrow> m_secret list \<Rightarrow> bool" where
  "served keys r es = (case object_result as_secret r of
      Inl e \<Rightarrow> IsNotFound e \<and> keys = None
    | Inr s \<Rightarrow> (\<forall>ks. keys = Some ks \<longrightarrow> (\<forall>k |\<in>| ks. mget (se_Data s) k \<noteq> None)) \<and> secret_entry s \<in> set es)"

lemma served_mono: "served keys r l \<Longrightarrow> set l \<subseteq> set l' \<Longrightarrow> served keys r l'"
  by (auto simp: served_def split: sum.splits)

lemma exec_readAndValidateSecret:
  assumes "exec (readAndValidateSecret n ns keys) t (Returned (Inr found))"
  shows "\<exists>r. t = [(GetSecret n ns, r)] \<and> (case found of
      None \<Rightarrow> \<exists>e. object_result as_secret r = Inl e \<and> IsNotFound e \<and> keys = None
    | Some s \<Rightarrow> object_result as_secret r = Inr s \<and>
        (\<forall>ks. keys = Some ks \<longrightarrow> (\<forall>k |\<in>| ks. mget (se_Data s) k \<noteq> None)))"
proof -
  from assms obtain r t' where t: "t = (GetSecret n ns, r) # t'" and k: "exec (case object_result as_secret r of
         Inl e \<Rightarrow> Ret (if IsNotFound e \<and> keys = None then Inr None else Inl e)
       | Inr s \<Rightarrow> bindp (first_missing keys (se_Data s)) (\<lambda>missing. Ret (case missing of
             Some key \<Rightarrow> Inl (PlainError (''missing secret key. secret: '' @ n @ ''. key: '' @ key @ ''. Namespace: '' @ ns))
           | None \<Rightarrow> Inr (Some s)))) t' (Returned (Inr found))"
    unfolding readAndValidateSecret_def Facade_GetSecret_def by (auto simp: exec_bindp exec_call_object)
  show ?thesis
  proof (cases "object_result as_secret r")
    case (Inl e)
    with k t show ?thesis by (auto split: if_splits)
  next
    case (Inr s)
    with k obtain m where "exec (first_missing keys (se_Data s)) t' (Returned m)"
      "Inr found = (case m of Some key \<Rightarrow> Inl (PlainError (''missing secret key. secret: '' @ n @ ''. key: '' @ key @ ''. Namespace: '' @ ns))
           | None \<Rightarrow> Inr (Some s))"
      by (auto simp: exec_bindp)
    with exec_first_missing [OF this(1)] t Inr show ?thesis by (auto split: option.splits)
  qed
qed

lemma exec_tryp_Inr:
  "exec (tryp p f) t (Returned (Inr b)) \<longleftrightarrow>
     (\<exists>t1 t2 a. t = t1 @ t2 \<and> exec p t1 (Returned (Inr a)) \<and> exec (f a) t2 (Returned (Inr b)))"
  by (auto simp: exec_tryp)

lemma exec_read_secrets:
  "exec (read_secrets ns m names acc) t (Returned (Inr l)) \<Longrightarrow> set acc \<subseteq> set l \<and>
     (\<forall>n \<in> set names. \<exists>r. (GetSecret n ns, r) \<in> set t \<and> served (the (fmlookup m n)) r l) \<and>
     (\<forall>x \<in> set l. x \<in> set acc \<or> (\<exists>n \<in> set names. \<exists>r s. (GetSecret n ns, r) \<in> set t \<and>
        object_result as_secret r = Inr s \<and> x = secret_entry s))"
proof (induction names arbitrary: acc t)
  case (Cons n names)
  then obtain t1 t2 found where t: "t = t1 @ t2"
    and read: "exec (readAndValidateSecret n ns (the (fmlookup m n))) t1 (Returned (Inr found))"
    and rest: "exec (case found of None \<Rightarrow> read_secrets ns m names acc
      | Some s \<Rightarrow> read_secrets ns m names (acc @ [secret_entry s])) t2 (Returned (Inr l))"
    by (auto simp: exec_tryp_Inr addSecretToSecretList_entry cong: option.case_cong)
  from exec_readAndValidateSecret [OF read] obtain r where r: "t1 = [(GetSecret n ns, r)]"
    "case found of None \<Rightarrow> \<exists>e. object_result as_secret r = Inl e \<and> IsNotFound e \<and> the (fmlookup m n) = None
    | Some s \<Rightarrow> object_result as_secret r = Inr s \<and>
        (\<forall>ks. the (fmlookup m n) = Some ks \<longrightarrow> (\<forall>k |\<in>| ks. mget (se_Data s) k \<noteq> None))"
    by blast
  show ?case
  proof (cases found)
    case None
    with rest have "exec (read_secrets ns m names acc) t2 (Returned (Inr l))" by simp
    from Cons.IH [OF this] have ih: "set acc \<subseteq> set l"
      "\<forall>n \<in> set names. \<exists>r. (GetSecret n ns, r) \<in> set t2 \<and> served (the (fmlookup m n)) r l"
      "\<forall>x \<in> set l. x \<in> set acc \<or> (\<exists>n \<in> set names. \<exists>r s. (GetSecret n ns, r) \<in> set t2 \<and>
        object_result as_secret r = Inr s \<and> x = secret_entry s)"
      by blast+
    moreover have "served (the (fmlookup m n)) r l" using r(2) None by (auto simp: served_def)
    ultimately show ?thesis unfolding t r(1) by fastforce
  next
    case (Some s)
    with rest have "exec (read_secrets ns m names (acc @ [secret_entry s])) t2 (Returned (Inr l))" by simp
    from Cons.IH [OF this] have ih: "set (acc @ [secret_entry s]) \<subseteq> set l"
      "\<forall>n \<in> set names. \<exists>r. (GetSecret n ns, r) \<in> set t2 \<and> served (the (fmlookup m n)) r l"
      "\<forall>x \<in> set l. x \<in> set (acc @ [secret_entry s]) \<or> (\<exists>n \<in> set names. \<exists>r s. (GetSecret n ns, r) \<in> set t2 \<and>
        object_result as_secret r = Inr s \<and> x = secret_entry s)"
      by blast+
    moreover have "served (the (fmlookup m n)) r l" using r(2) Some ih(1) by (simp add: served_def)
    moreover have "object_result as_secret r = Inr s" using r(2) Some by simp
    ultimately show ?thesis unfolding t r(1) by fastforce
  qed
qed simp

section \<open>The workloads of a configuration\<close>

definition found_workloads :: "response list \<Rightarrow> edge_workload list" where
  "found_workloads rs = filter (\<lambda>w. om_DeletionTimestamp (ew_meta w) = None)
     (List.map_filter (\<lambda>r. case object_result as_workload r of Inl e \<Rightarrow> None | Inr w \<Rightarrow> Some w) rs)"

lemma exec_device_workloads:
  "exec (device_workloads ns wls) t (Returned (Inr ws)) \<Longrightarrow>
     map fst t = map (\<lambda>wl. GetWorkload (wl_Name wl) ns) wls \<and> ws = found_workloads (map snd t)"
proof (induction wls arbitrary: t ws)
  case Nil
  then show ?case by (simp add: found_workloads_def List.map_filter_def)
next
  case (Cons wl wls)
  then obtain r t' where t: "t = (GetWorkload (wl_Name wl) ns, r) # t'" and k: "exec (case object_result as_workload r of
      Inl e \<Rightarrow> if IsNotFound e then device_workloads ns wls else Ret (Inl e)
    | Inr w \<Rightarrow> mapp (map_sum id (\<lambda>ws. if om_DeletionTimestamp (ew_meta w) = None then w # ws else ws))
           (device_workloads ns wls)) t' (Returned (Inr ws))"
    by (auto simp: GetEdgeWorkload_def EdgeWorkload_Read_def exec_bind_read_sum cong: sum.case_cong)
  show ?case
  proof (cases "object_result as_workload r")
    case (Inl e)
    with k have "exec (device_workloads ns wls) t' (Returned (Inr ws))" by (auto split: if_splits)
    from Cons.IH [OF this] show ?thesis
      by (simp add: t Inl found_workloads_def List.map_filter_simps)
  next
    case (Inr w)
    with k obtain res where "exec (device_workloads ns wls) t' (Returned res)"
      "map_sum id (\<lambda>ws. if om_DeletionTimestamp (ew_meta w) = None then w # ws else ws) res = Inr ws"
      by (auto simp: exec_mapp)
    then obtain ws' where ws': "exec (device_workloads ns wls) t' (Returned (Inr ws'))"
      "ws = (if om_DeletionTimestamp (ew_meta w) = None then w # ws' else ws')"
      by (cases res) auto
    from Cons.IH [OF this(1)] show ?thesis
      by (simp add: t Inr ws'(2) found_workloads_def List.map_filter_simps)
  qed
qed

text \<open>How a workload of the message describes a workload of the cluster.\<close>

definition describes :: "yaml_codec \<Rightarrow> edge_workload \<Rightarrow> m_workload \<Rightarrow> bool" where
  "describes y w m \<longleftrightarrow> mw_Name m = ew_Name w \<and> mw_Namespace m = ew_Namespace w \<and>
     y_pod y (ws_Pod (ew_Spec w)) = Inr (mw_Specification m) \<and>
     mw_LogCollection m = ws_LogCollection (ew_Spec w) \<and>
     (\<forall>k. fmlookup (mw_Labels m) k = mget (ew_Labels w) (podman_prefix @ k)) \<and>
     (\<forall>k. fmlookup (mw_Annotations m) k = mget (om_Annotations (ew_meta w)) (podman_prefix @ k))"

lemma exec_toWorkload:
  "exec (toWorkload y d w pod) t (Returned (Inr m)) \<Longrightarrow> y_pod y (ws_Pod (ew_Spec w)) = Inr pod \<Longrightarrow> describes y w m"
  by (auto simp: toWorkload_def exec_bind_sum exec_bindp [of "tell _"] exec_bindp [of "Fetch _ _ _"] exec_tryp_Inr
      split_sum_ex describes_def FilterByPodmanPrefix_lookup)

definition deployable :: "yaml_codec \<Rightarrow> edge_workload \<Rightarrow> bool" where
  "deployable y w \<longleftrightarrow> om_DeletionTimestamp (ew_meta w) = None \<and> (\<exists>pod. y_pod y (ws_Pod (ew_Spec w)) = Inr pod)"

lemma exec_toWorkloadList:
  "exec (toWorkloadList y d ws acc) t (Returned (Inr l)) \<Longrightarrow>
     \<exists>l'. l = acc @ l' \<and> list_all2 (describes y) (filter (deployable y) ws) l'"
proof (induction ws arbitrary: acc t)
  case (Cons w ws)
  show ?case
  proof (cases "deployable y w")
    case True
    then obtain pod where pod: "y_pod y (ws_Pod (ew_Spec w)) = Inr pod" "om_DeletionTimestamp (ew_meta w) = None"
      by (auto simp: deployable_def)
    with Cons.prems obtain t1 t2 m where "exec (toWorkload y d w pod) t1 (Returned (Inr m))"
      "exec (toWorkloadList y d ws (acc @ [m])) t2 (Returned (Inr l))"
      by (auto simp: exec_tryp_Inr)
    with Cons.IH [OF this(2)] exec_toWorkload [OF this(1) pod(1)] True show ?thesis by auto
  next
    case False
    with Cons.prems have "exec (toWorkloadList y d ws acc) t (Returned (Inr l))"
      by (auto simp: deployable_def split: if_splits sum.split_asm)
    from Cons.IH [OF this] False show ?thesis by simp
  qed
qed simp

lemma exec_GetDeviceConfiguration:
  assumes "exec (GetDeviceConfiguration y d) t (Returned (Inr msg))"
  obtains t1 t2 where "t = t1 @ t2" "exec (workloads_and_secrets y d) t1 (Returned (Inr (cf_Workloads msg, cf_Secrets msg)))"
    "cf_DeviceID msg = ed_Name d" "cf_Version msg = om_ResourceVersion (ed_meta d)"
  using assms by (auto simp: GetDeviceConfiguration_def exec_tryp_Inr exec_bindp)

section \<open>Properties\<close>

text \<open>
  Assembling the configuration of a device changes nothing in the cluster, whatever the API
  server answers: it only reads, and the only event it records is the warning about a missing registry
  secret of one of its workloads.
\<close>

theorem configuration_read_only:
  "reads_only (GetDeviceConfiguration y d) \<and> issues (is_config_read d) (GetDeviceConfiguration y d)"
  unfolding reads_only_def
  by (intro conjI issues_GetDeviceConfiguration issues_mono [OF issues_GetDeviceConfiguration is_config_read_no_write])

text \<open>
  Property C10: the configuration names the device and its version. For a device that is being deleted it has
  no workloads and no secrets; otherwise the workloads on the device are read one by one, in order, and the
  list describes exactly those that exist, are not being deleted and can be marshalled, in that order.
\<close>

theorem configuration_workloads:
  assumes "exec (GetDeviceConfiguration y d) t (Returned (Inr msg))"
  shows "cf_DeviceID msg = ed_Name d \<and> cf_Version msg = om_ResourceVersion (ed_meta d) \<and>
    (if om_DeletionTimestamp (ed_meta d) \<noteq> None then cf_Workloads msg = None \<and> cf_Secrets msg = None
     else \<exists>t1 t2 l. t = t1 @ t2 \<and> cf_Workloads msg = Some l \<and>
       map fst t1 = map (\<lambda>wl. GetWorkload (wl_Name wl) (ed_Namespace d)) (elems (es_Workloads (ed_Status d))) \<and>
       list_all2 (describes y) (filter (deployable y) (found_workloads (map snd t1))) l)"
proof -
  from assms obtain t1 t2 where t: "t = t1 @ t2" and
    w: "exec (workloads_and_secrets y d) t1 (Returned (Inr (cf_Workloads msg, cf_Secrets msg)))"
    "cf_DeviceID msg = ed_Name d" "cf_Version msg = om_ResourceVersion (ed_meta d)"
    by (rule exec_GetDeviceConfiguration)
  show ?thesis
  proof (cases "om_DeletionTimestamp (ed_meta d) = None")
    case True
    with w(1) obtain a b c ws l where "t1 = a @ b @ c" "cf_Workloads msg = Some l"
      "exec (device_workloads (ed_Namespace d) (elems (es_Workloads (ed_Status d)))) a (Returned (Inr ws))"
      "exec (toWorkloadList y d ws []) b (Returned (Inr l))"
      by (auto simp: workloads_and_secrets_def exec_tryp_Inr exec_bindp split_sum_ex)
    with exec_device_workloads [OF this(3)] exec_toWorkloadList [OF this(4)] w t True show ?thesis by auto
  next
    case False
    with w show ?thesis by (auto simp: workloads_and_secrets_def)
  qed
qed

text \<open>
  Property C11: the secrets sent to a device are complete and nothing more. Every secret a container of a
  workload refers to has been read; one that is missing was referenced only optionally; one that exists has
  every key a mandatory reference asks for and is in the list, base64-encoded; and the list has no other entry.
\<close>

theorem secrets_complete:
  assumes "exec (createSecretList ws d) t (Returned (Inr l))"
  shows "(\<forall>n keys. needed_keys (concat (map secret_refs ws)) n = Some keys \<longrightarrow>
      (\<exists>r. (GetSecret n (ed_Namespace d), r) \<in> set t \<and> served keys r l)) \<and>
    (\<forall>x \<in> set l. \<exists>n r s. needed_keys (concat (map secret_refs ws)) n \<noteq> None \<and>
      (GetSecret n (ed_Namespace d), r) \<in> set t \<and> object_result as_secret r = Inr s \<and> x = secret_entry s)"
proof -
  from assms obtain names where names: "set names = fmdom' (secret_map ws)"
    and e: "exec (read_secrets (ed_Namespace d) (secret_map ws) names []) t (Returned (Inr l))"
    by (auto simp: createSecretList_def Let_def exec_bindp exec_range_keys)
  from exec_read_secrets [OF e] names show ?thesis
    by (fastforce simp: secret_map_needed [symmetric] fmlookup_dom'_iff)
qed

lemma ExtractInfoFromEnv_literal:
  "exec (ExtractInfoFromEnv env m env_config_map_key) t out \<Longrightarrow> e \<in> set env \<Longrightarrow> ev_ValueFrom e = None \<Longrightarrow>
     t = [] \<and> out = Panicked nil_dereference"
proof (induction env arbitrary: m t)
  case (Cons a env)
  show ?case
  proof (cases "ev_ValueFrom a")
    case None
    with Cons.prems show ?thesis by (simp add: env_config_map_key_def deref_def)
  next
    case (Some src)
    with Cons show ?thesis by (auto simp: env_config_map_key_def deref_def split: option.splits)
  qed
qed simp

lemma ExtractInfoFromEnv_silent: "exec (ExtractInfoFromEnv env m env_config_map_key) t out \<Longrightarrow> t = []"
  by (rule silent_exec [of "ExtractInfoFromEnv env m env_config_map_key"])
    (auto simp: silent_def env_config_map_key_def intro!: issues_ExtractInfoFromEnv issues_bindpI)

lemma ExtractInfoFromEnv_panic:
  "exec (ExtractInfoFromEnv env m env_config_map_key) t (Panicked p) \<Longrightarrow> p = nil_dereference"
  by (induction env arbitrary: m t) (auto simp: env_config_map_key_def deref_def exec_bindp split: option.splits)

lemma extract_config_maps_literal:
  "exec (extract_config_maps vols cs m) t out \<Longrightarrow> c \<in> set cs \<Longrightarrow> e \<in> set (ct_Env c) \<Longrightarrow> ev_ValueFrom e = None \<Longrightarrow>
     t = [] \<and> out = Panicked nil_dereference"
proof (induction cs arbitrary: m t)
  case (Cons a cs)
  from Cons.prems(1) consider
      (ret) t1 t2 m' where "exec (extractConfigMapsFromEnv a m) t1 (Returned m')" "t = t1 @ t2"
        "exec (extract_config_maps vols cs (ExtractInfoFromVolume vols m' volume_config_map)) t2 out"
    | (panic) p where "exec (extractConfigMapsFromEnv a m) t (Panicked p)" "out = Panicked p"
    by (auto simp: exec_bindp)
  then show ?case
  proof cases
    case ret
    have "t1 = []" using ret(1) ExtractInfoFromEnv_silent by (simp add: extractConfigMapsFromEnv_def)
    moreover have "c \<noteq> a"
      using ret(1) Cons.prems ExtractInfoFromEnv_literal unfolding extractConfigMapsFromEnv_def by fastforce
    ultimately show ?thesis using Cons.IH [OF ret(3)] Cons.prems ret(2) by auto
  next
    case panic
    then show ?thesis
      using ExtractInfoFromEnv_silent ExtractInfoFromEnv_panic by (fastforce simp: extractConfigMapsFromEnv_def)
  qed
qed simp

text \<open>
  Collecting the config maps of a workload panics, before any request, as soon as a container of
  the workload has an environment variable with a literal value.
\<close>

theorem literal_variable_panics:
  assumes "c \<in> set (ps_InitContainers (ws_Pod (ew_Spec w))) \<union> set (ps_Containers (ws_Pod (ew_Spec w)))"
    and "v \<in> set (ct_Env c)" and "ev_ValueFrom v = None"
  shows "exec (Fetch y w ns) t out \<longleftrightarrow> t = [] \<and> out = Panicked nil_dereference"
proof -
  have all: "t = [] \<and> out = Panicked nil_dereference" if "exec (Fetch y w ns) t out" for t out
    using that assms extract_config_maps_literal [where c = c and e = v]
    unfolding Fetch_def Let_def exec_bindp by (fastforce simp: Fetch_def)
  moreover obtain t0 out0 where "exec (Fetch y w ns) t0 out0" using exec_exists by blast
  ultimately show ?thesis by metis
qed

text \<open>A result that is passed on with its error or its value changed.\<close>

lemma passed_on:
  "Inl e = (case a of Inl x \<Rightarrow> Inl (f x) | Inr y \<Rightarrow> Inr (g y)) \<longleftrightarrow> (\<exists>x. a = Inl x \<and> e = f x)"
  "Inr b = (case a of Inl x \<Rightarrow> Inl (f x) | Inr y \<Rightarrow> Inr (g y)) \<longleftrightarrow> (\<exists>y. a = Inr y \<and> b = g y)"
  "Inl e = map_sum id h c \<longleftrightarrow> c = Inl e"
  by (cases a; auto; fail)+ (cases c; auto)

lemma device_workloads_error:
  "exec (device_workloads ns wls) t (Returned (Inl e)) \<Longrightarrow> \<not> IsNotFound e"
proof (induction wls arbitrary: t)
  case (Cons wl wls)
  then obtain r t' where "exec (case object_result as_workload r of
      Inl e \<Rightarrow> if IsNotFound e then device_workloads ns wls else Ret (Inl e)
    | Inr w \<Rightarrow> mapp (map_sum id (\<lambda>ws. if om_DeletionTimestamp (ew_meta w) = None then w # ws else ws))
           (device_workloads ns wls)) t' (Returned (Inl e))"
    by (auto simp: GetEdgeWorkload_def EdgeWorkload_Read_def exec_bind_read_sum cong: sum.case_cong)
  then show ?case
    using Cons.IH by (cases "object_result as_workload r") (auto simp: exec_mapp passed_on split: if_splits)
qed simp

text \<open>The failure of a read of the registry secret of a workload, and the event that reports it.\<close>

definition registry_failure :: "edge_device \<Rightarrow> error \<Rightarrow> io_trace \<Rightarrow> bool" where
  "registry_failure d e t \<longleftrightarrow> (\<exists>w n r r'. (GetSecret n (ew_Namespace w), r) \<in> set t \<and>
     object_result as_secret r = Inl e \<and> (missing_auth_file d w, r') \<in> set t)"

lemma registry_failure_append: "registry_failure d e t \<Longrightarrow> registry_failure d e (t1 @ t @ t2)"
  by (auto simp: registry_failure_def)

lemma getAuthFile_error:
  "exec (getAuthFile i ns) t (Returned (Inl e)) \<Longrightarrow> IsNotFound e \<Longrightarrow>
     \<exists>n r. (GetSecret n ns, r) \<in> set t \<and> object_result as_secret r = Inl e"
  by (auto simp: getAuthFile_def GetAuthFileFromSecret_def exec_tryp exec_call_object split: option.split_asm)

lemma workload_metrics_error: "exec (workload_metrics y w) t (Returned (Inl e)) \<Longrightarrow> \<not> IsNotFound e"
  by (auto simp: workload_metrics_def exec_bind_sum exec_bindp [of "range_keys _"] exec_bindp [of "container_metrics_of _ _ _"]
      exec_mapp passed_on split: option.split_asm if_split_asm)

lemma toWorkload_error:
  "exec (toWorkload y d w pod) t (Returned (Inl e)) \<Longrightarrow> IsNotFound e \<Longrightarrow> registry_failure d e t"
  by (fastforce simp: toWorkload_def exec_bind_sum exec_bindp [of "tell _"] exec_bindp [of "Fetch _ _ _"] exec_tryp
      tell_def exec_Call passed_on registry_failure_def dest: getAuthFile_error workload_metrics_error)

lemma toWorkloadList_error:
  "exec (toWorkloadList y d ws acc) t (Returned (Inl e)) \<Longrightarrow> IsNotFound e \<Longrightarrow> registry_failure d e t"
proof (induction ws arbitrary: acc t)
  case (Cons w ws)
  show ?case
  proof (cases "\<exists>pod. om_DeletionTimestamp (ew_meta w) = None \<and> y_pod y (ws_Pod (ew_Spec w)) = Inr pod")
    case True
    then obtain pod where pod: "om_DeletionTimestamp (ew_meta w) = None" "y_pod y (ws_Pod (ew_Spec w)) = Inr pod"
      by blast
    with Cons.prems(1) consider "exec (toWorkload y d w pod) t (Returned (Inl e))"
      | t1 t2 m where "t = t1 @ t2" "exec (toWorkloadList y d ws (acc @ [m])) t2 (Returned (Inl e))"
      by (auto simp: exec_tryp)
    then show ?thesis
      using toWorkload_error Cons.prems(2) Cons.IH registry_failure_append [of d e _ _ "[]"] by cases fastforce+
  next
    case False
    with Cons.prems(1) have "exec (toWorkloadList y d ws acc) t (Returned (Inl e))"
      by (auto split: if_splits sum.split_asm)
    then show ?thesis using Cons by blast
  qed
qed simp

lemma workloads_and_secrets_error:
  assumes "exec (workloads_and_secrets y d) t (Returned (Inl e))" "IsNotFound e"
  shows "registry_failure d e t"
proof -
  from assms obtain ws t1 t2 where "t = t1 @ t2" "exec (toWorkloadList y d ws []) t2 (Returned (Inl e))"
    by (auto simp: workloads_and_secrets_def exec_tryp exec_bindp passed_on dest: device_workloads_error split: if_split_asm)
  with toWorkloadList_error [OF this(2) assms(2)] registry_failure_append [of d e t2 t1 "[]"] show ?thesis by simp
qed

text \<open>
  The only NotFound error that assembling a configuration ever returns is that of a missing
  registry secret of a workload, which is also recorded as an event. Every other error has lost its status:
  a missing secret, config map or allow-list is reported as an internal error, never as NotFound.
\<close>

theorem configuration_not_found:
  assumes "exec (GetDeviceConfiguration y d) t (Returned (Inl e))" and "IsNotFound e"
  shows "registry_failure d e t"
proof -
  from assms obtain t1 t2 where "t = t1 @ t2" "exec (workloads_and_secrets y d) t1 (Returned (Inl e))"
    by (auto simp: GetDeviceConfiguration_def error_prefix_def exec_tryp exec_bindp exec_mapp passed_on)
  with workloads_and_secrets_error [OF this(2) assms(2)] registry_failure_append [of d e t1 "[]" t2] show ?thesis
    by simp
qed

section \<open>Concrete runs\<close>

definition plain_codec :: yaml_codec where
  "plain_codec = \<lparr>y_pod = (\<lambda>p. Inr (ps_Rest p)), y_config_map = (\<lambda>c. Inr (cm_Rest c)),
     y_allow_list = (\<lambda>s. Inr \<lparr>al_Names = [s]\<rparr>)\<rparr>"

definition app_container :: container where
  "app_container = \<lparr>ct_Name = ''app'',
     ct_EnvFrom = [\<lparr>ef_SecretRef = Some \<lparr>ref_Name = ''creds'', ref_Optional = None\<rparr>, ef_ConfigMapRef = None\<rparr>],
     ct_Env = [], ct_Lifecycle = None, ct_LivenessProbe = None, ct_ReadinessProbe = None, ct_StartupProbe = None,
     ct_VolumeDevices = [], ct_Limits = [], ct_Requests = [], ct_HostPorts = [], ct_Rest = []\<rparr>"

definition app_workload :: edge_workload where
  "app_workload = zero_edge_workload\<lparr>ew_meta := zero_meta\<lparr>om_Name := ''web'', om_Namespace := ''ns''\<rparr>,
     ew_Spec := (ew_Spec zero_edge_workload)\<lparr>ws_Pod := zero_pod_spec\<lparr>ps_Containers := [app_container], ps_Rest := ''pod''\<rparr>\<rparr>\<rparr>"

definition registry_workload :: edge_workload where
  "registry_workload = app_workload\<lparr>ew_Spec := (ew_Spec app_workload)\<lparr>ws_ImageRegistries :=
     Some \<lparr>ir_AuthFileSecret = Some \<lparr>nr_Name = ''reg''\<rparr>\<rparr>\<rparr>\<rparr>"

definition app_device :: edge_device where
  "app_device = set_ed_Workloads
     (Some [\<lparr>wl_Name = ''web'', wl_Phase = Running, wl_LastTransitionTime = 1, wl_LastDataUpload = 0\<rparr>])
     (zero_edge_device\<lparr>ed_meta := zero_meta\<lparr>om_Name := ''dev'', om_Namespace := ''ns'', om_ResourceVersion := ''5''\<rparr>\<rparr>)"

definition creds :: secret where
  "creds = \<lparr>se_meta = zero_meta\<lparr>om_Name := ''creds''\<rparr>, se_Data = None\<rparr>"

definition literal_workload :: edge_workload where
  "literal_workload = app_workload\<lparr>ew_Spec := (ew_Spec app_workload)\<lparr>ws_Pod := (ws_Pod (ew_Spec app_workload))
     \<lparr>ps_Containers := [app_container\<lparr>ct_Env := [\<lparr>ev_Name = ''A'', ev_ValueFrom = None\<rparr>]\<rparr>]\<rparr>\<rparr>\<rparr>"

lemma sample_configuration:
  "map_option (\<lambda>(t, out). case out of Returned (Inr m) \<Rightarrow>
      Some (cf_DeviceID m, map_option (map mw_Name) (cf_Workloads m), map_option (map ms_Data) (cf_Secrets m), t)
    | _ \<Rightarrow> None)
     (replay (GetDeviceConfiguration plain_codec app_device) [RWorkload app_workload, RSecret creds] []) =
   Some (Some (''dev'', Some [''web''], Some [''{}''],
     [(GetWorkload ''web'' ''ns'', RWorkload app_workload), (GetSecret ''creds'' ''ns'', RSecret creds)]))"
  by code_simp

theorem configuration_workloads_witness:
  "\<exists>t msg l. exec (GetDeviceConfiguration plain_codec app_device) t (Returned (Inr msg)) \<and>
     cf_DeviceID msg = ''dev'' \<and> cf_Version msg = ''5'' \<and> cf_Workloads msg = Some l"
proof -
  from sample_configuration obtain t out where r: "replay (GetDeviceConfiguration plain_codec app_device)
      [RWorkload app_workload, RSecret creds] [] = Some (t, out)"
    and out: "(case out of Returned (Inr m) \<Rightarrow>
      Some (cf_DeviceID m, map_option (map mw_Name) (cf_Workloads m), map_option (map ms_Data) (cf_Secrets m), t)
    | _ \<Rightarrow> None) \<noteq> None"
    by auto
  from out obtain msg where "out = Returned (Inr msg)" by (auto split: outcome.splits sum.splits)
  with replay_exec [OF r] have e: "exec (GetDeviceConfiguration plain_codec app_device) t (Returned (Inr msg))" by simp
  from configuration_workloads [OF e] e show ?thesis
    by (auto simp: app_device_def set_ed_Workloads_def zero_edge_device_def zero_meta_def)
qed

theorem secrets_complete_witness:
  "\<exists>t l r. exec (createSecretList [app_workload] app_device) t (Returned (Inr l)) \<and>
     (GetSecret ''creds'' ''ns'', r) \<in> set t \<and> served (Some {||}) r l"
proof -
  have "map_option (\<lambda>(t, out). case out of Returned (Inr l) \<Rightarrow> True | _ \<Rightarrow> False)
     (replay (createSecretList [app_workload] app_device) [RSecret creds] []) = Some True"
    by code_simp
  then obtain t out where r: "replay (createSecretList [app_workload] app_device) [RSecret creds] [] = Some (t, out)"
    and out: "case out of Returned (Inr l) \<Rightarrow> True | _ \<Rightarrow> False" by auto
  from out obtain l where "out = Returned (Inr l)" by (auto split: outcome.splits sum.splits)
  with replay_exec [OF r] have e: "exec (createSecretList [app_workload] app_device) t (Returned (Inr l))" by simp
  have "needed_keys (concat (map secret_refs [app_workload])) ''creds'' = Some (Some {||})" by code_simp
  moreover have "ed_Namespace app_device = ''ns''" by code_simp
  ultimately show ?thesis using secrets_complete [OF e] e by fastforce
qed

theorem literal_variable_panics_witness:
  "exec (Fetch plain_codec literal_workload ''ns'') [] (Panicked nil_dereference)"
proof -
  have "app_container\<lparr>ct_Env := [\<lparr>ev_Name = ''A'', ev_ValueFrom = None\<rparr>]\<rparr> \<in>
      set (ps_InitContainers (ws_Pod (ew_Spec literal_workload))) \<union> set (ps_Containers (ws_Pod (ew_Spec literal_workload)))"
    by (simp add: literal_workload_def)
  from literal_variable_panics [OF this] show ?thesis by auto
qed

theorem configuration_not_found_witness:
  "\<exists>t e. exec (GetDeviceConfiguration plain_codec app_device) t (Returned (Inl e)) \<and> registry_failure app_device e t"
proof -
  have "map_option (\<lambda>(t, out). case out of Returned (Inl e) \<Rightarrow> IsNotFound e | _ \<Rightarrow> False)
     (replay (GetDeviceConfiguration plain_codec app_device)
       [RWorkload registry_workload, RErr (StatusError NotFound 404 ''none''), ROk] []) = Some True"
    by code_simp
  then obtain t out where r: "replay (GetDeviceConfiguration plain_codec app_device)
       [RWorkload registry_workload, RErr (StatusError NotFound 404 ''none''), ROk] [] = Some (t, out)"
    and out: "case out of Returned (Inl e) \<Rightarrow> IsNotFound e | _ \<Rightarrow> False" by auto
  from out obtain e where "out = Returned (Inl e)" "IsNotFound e" by (auto split: outcome.splits sum.splits)
  with replay_exec [OF r] configuration_not_found [of plain_codec app_device t e] show ?thesis by auto
qed

end
