(* ===== verification/Backend.thy ===== *)
theory Backend
  imports Heartbeat Assembler
begin

text \<open>
  The Kubernetes backend of the edge API (\<open>src/internal/edgeapi/backend/k8s/backend.go\<close>) and the interface it
  implements (\<open>src/internal/edgeapi/backend/api.go\<close>).

  The Go interface \<open>EdgeDeviceBackend\<close> is the record \<open>edge_device_backend\<close> of its methods; \<open>k8s_backend\<close> is the
  value the program builds. The contract the comments of the interface give is the locale \<open>device_backend\<close>,
  interpreted on \<open>k8s_backend\<close>: the queries change nothing, enrolment only creates requests that are not
  approved, registration only patches the device it is called for.
\<close>

section \<open>The interface\<close>

text \<open>\<open>RegistrationStatus\<close> is a string type with three named values.\<close>

type_synonym registration_status = string

definition Registered :: registration_status where "Registered = ''registered''"
definition Unregistered :: registration_status where "Unregistered = ''unregistered''"
definition Unknown :: registration_status where "Unknown = ''unknown''"

lemma registration_status_distinct [simp]:
  "Registered \<noteq> Unregistered" "Registered \<noteq> Unknown" "Unregistered \<noteq> Unknown"
  "Unregistered \<noteq> Registered" "Unknown \<noteq> Registered" "Unknown \<noteq> Unregistered"
  by (simp_all add: Registered_def Unregistered_def Unknown_def)

record edge_device_backend =
  be_GetRegistrationStatus :: "string \<Rightarrow> string \<Rightarrow> (registration_status \<times> error option) io"
  be_GetConfiguration :: "string \<Rightarrow> string \<Rightarrow> (error + device_configuration_message) io"
  be_Enrol :: "string \<Rightarrow> string \<Rightarrow> enrolment_info \<Rightarrow> (bool \<times> error option) io"
  be_GetTargetNamespace :: "string \<Rightarrow> string \<Rightarrow> bool \<Rightarrow> (error + string) io"
  be_GetPlaybookExecutions :: "string \<Rightarrow> string \<Rightarrow> (error + m_playbook_execution list) io"
  be_Register :: "string \<Rightarrow> string \<Rightarrow> registration_info \<Rightarrow> error option io"
  be_UpdateStatus :: "bool \<Rightarrow> string \<Rightarrow> string \<Rightarrow> heartbeat \<Rightarrow> (bool \<times> error option) io"

section \<open>Queries\<close>

definition GetRegistrationStatus :: "string \<Rightarrow> string \<Rightarrow> (registration_status \<times> error option) io" where
  "GetRegistrationStatus name namespace =
     bindp (GetEdgeDevice name namespace) (\<lambda>(edgeDevice, err). Ret (case err of
         Some e \<Rightarrow> if IsNotFound e then (Unregistered, None) else (Unknown, Some e)
       | None \<Rightarrow> if om_DeletionTimestamp (ed_meta edgeDevice) \<noteq> None then (Unregistered, None) else (Registered, None)))"

definition GetConfiguration :: "yaml_codec \<Rightarrow> string \<Rightarrow> string \<Rightarrow> (error + device_configuration_message) io" where
  "GetConfiguration y name namespace =
     bindp (GetEdgeDevice name namespace) (\<lambda>(edgeDevice, err). case err of
         Some e \<Rightarrow> Ret (Inl e)
       | None \<Rightarrow> GetDeviceConfiguration y edgeDevice)"

text \<open>A device carries the label of its signed request until it registers for the first time.\<close>

definition is_init :: "edge_device \<Rightarrow> bool" where
  "is_init d \<longleftrightarrow> mget0 (ed_Labels d) EdgeDeviceSignedRequestLabelName = EdgeDeviceSignedRequestLabelValue"

definition GetTargetNamespace :: "string \<Rightarrow> string \<Rightarrow> string \<Rightarrow> bool \<Rightarrow> (error + string) io" where
  "GetTargetNamespace initialNamespace name identityNamespace matchesCertificate =
     tryp (if identityNamespace = initialNamespace \<and> \<not> matchesCertificate then
             bindp (GetEdgeDeviceSignedRequest name initialNamespace) (\<lambda>(esdr, err). Ret (case err of
                 Some e \<Rightarrow> Inl e
               | None \<Rightarrow> Inr (if rs_TargetNamespace (sr_Spec esdr) \<noteq> [] then rs_TargetNamespace (sr_Spec esdr)
                   else identityNamespace)))
           else Ret (Inr identityNamespace)) (\<lambda>namespace.
     bindp (GetEdgeDevice name namespace) (\<lambda>(dvc, err). Ret (case err of
         Some e \<Rightarrow> Inl (if IsNotFound e then NotApproved e else e)
       | None \<Rightarrow> if \<not> is_init dvc \<and> \<not> matchesCertificate then Inl (PlainError ''forbidden'') else Inr namespace)))"

primrec playbook_answers :: "string \<Rightarrow> string \<Rightarrow> (string, string) gomap \<Rightarrow> string list \<Rightarrow>
    m_playbook_execution list \<Rightarrow> (error + m_playbook_execution list) io" where
  "playbook_answers deviceID namespace labels [] response = Ret (Inr response)"
| "playbook_answers deviceID namespace labels (labelName # ls) response =
     (if IsEdgeConfigLabel labelName then
        bindp (GetPlaybookExecution (deviceID @ ''-'' @ mget0 labels labelName) namespace) (\<lambda>(pe, err). case err of
            Some e \<Rightarrow> Ret (Inl e)
          | None \<Rightarrow> playbook_answers deviceID namespace labels ls (response @
              [\<lparr>mpe_AnsiblePlaybookString = pb_Content (psp_Playbook (pex_Spec pe)), mpe_LastDataUpload = zero_time,
                mpe_Name = om_Name (pex_meta pe)\<rparr>]))
      else playbook_answers deviceID namespace labels ls response)"

definition GetPlaybookExecutions :: "string \<Rightarrow> string \<Rightarrow> (error + m_playbook_execution list) io" where
  "GetPlaybookExecutions deviceID namespace =
     bindp (GetEdgeDevice deviceID namespace) (\<lambda>(edgeDevice, err). case err of
         Some e \<Rightarrow> Ret (Inl e)
       | None \<Rightarrow> bindp (range_keys (ed_Labels edgeDevice)) (\<lambda>names.
           playbook_answers deviceID namespace (ed_Labels edgeDevice) names []))"

section \<open>Enrolment\<close>

definition enrolment_request :: "string \<Rightarrow> string \<Rightarrow> string \<Rightarrow> hardware option \<Rightarrow> edsr" where
  "enrolment_request initialNamespace name namespace hw =
     zero_edsr\<lparr>sr_meta := zero_meta\<lparr>om_Name := name, om_Namespace := initialNamespace\<rparr>,
       sr_Spec := \<lparr>rs_TargetNamespace = namespace, rs_TargetSet = [], rs_Approved = False,
         rs_Features = Some \<lparr>ft_ModelName = [], ft_Hardware = hw\<rparr>\<rparr>\<rparr>"

definition Enrol :: "string \<Rightarrow> string \<Rightarrow> string \<Rightarrow> enrolment_info \<Rightarrow> (bool \<times> error option) io" where
  "Enrol initialNamespace name namespace enrolmentInfo =
     bindp (GetEdgeDevice name namespace) (\<lambda>(_, err). if err = None then Ret (True, None) else
     bindp (GetEdgeDeviceSignedRequest name initialNamespace) (\<lambda>(request, err).
       if err = None then
         (if rs_TargetNamespace (sr_Spec request) \<noteq> namespace then
            bindp (GetEdgeDevice name (rs_TargetNamespace (sr_Spec request))) (\<lambda>(_, err). Ret (err = None, None))
          else Ret (False, None))
       else
         bindp (deref (en_Features enrolmentInfo)) (\<lambda>features.
         bindp (MapHardware (ef_Hardware features)) (\<lambda>hw.
         mapp (\<lambda>err. (False, err))
           (CreateEdgeDeviceSignedRequest (enrolment_request initialNamespace name namespace hw))))))"

section \<open>Registration\<close>

text \<open>\<open>m[key] = val\<close> for every entry of \<open>new\<close>: a nil map may not be written.\<close>

definition write_labels :: "(string, string) gomap \<Rightarrow> (string, string) gomap \<Rightarrow> ('q, 'r, (string, string) gomap) prog" where
  "write_labels new m =
     (if entries new = fmempty then Ret m
      else case m of None \<Rightarrow> Panic nil_map_write | Some f \<Rightarrow> Ret (Some (f ++\<^sub>f entries new)))"

definition set_hardware :: "hardware option \<Rightarrow> edge_device \<Rightarrow> edge_device" where
  "set_hardware hw d = d\<lparr>ed_Status := (ed_Status d)\<lparr>es_Hardware := hw\<rparr>\<rparr>"

text \<open>One attempt at the status of a device: \<open>updateFunc\<close> may panic.\<close>

definition patch_status :: "edge_device \<Rightarrow> (edge_device \<Rightarrow> edge_device io) \<Rightarrow> error option io" where
  "patch_status device updateFunc =
     bindp (updateFunc device) (\<lambda>device'. mapp fst (PatchEdgeDeviceStatus device device'))"

definition status_attempt :: "edge_device \<Rightarrow> (edge_device \<Rightarrow> edge_device io) \<Rightarrow> error option io" where
  "status_attempt device updateFunc =
     bindp (GetEdgeDevice (ed_Name device) (ed_Namespace device)) (\<lambda>(device2, err).
       if err \<noteq> None then Ret err else patch_status device2 updateFunc)"

definition updateDeviceStatus :: "edge_device \<Rightarrow> (edge_device \<Rightarrow> edge_device io) \<Rightarrow> error option io" where
  "updateDeviceStatus device updateFunc =
     bindp (patch_status device updateFunc) (\<lambda>err. case err of
         None \<Rightarrow> Ret None
       | Some e \<Rightarrow> retries [1, 2, 3] (status_attempt device updateFunc) e)"

text \<open>The error of the read is overwritten before it is looked at: the zero device is registered instead.\<close>

definition Register :: "unicode_tables \<Rightarrow> string \<Rightarrow> string \<Rightarrow> registration_info \<Rightarrow> error option io" where
  "Register u name namespace registrationInfo =
     bindp (GetEdgeDevice name namespace) (\<lambda>(dvc, _).
     bindp (write_labels (MapLabels u (ri_Hardware registrationInfo)) (ed_Labels dvc)) (\<lambda>labels.
     bindp (PatchEdgeDevice dvc (set_ed_Labels (mdelete EdgeDeviceSignedRequestLabelName labels) dvc)) (\<lambda>(err, _).
       case err of
         Some e \<Rightarrow> Ret (Some e)
       | None \<Rightarrow> updateDeviceStatus dvc (\<lambda>device.
           mapp (\<lambda>hw. set_hardware hw device) (MapHardware (ri_Hardware registrationInfo))))))"

definition UpdateStatus :: "unicode_tables \<Rightarrow> bool \<Rightarrow> string \<Rightarrow> string \<Rightarrow> heartbeat \<Rightarrow> (bool \<times> error option) io" where
  "UpdateStatus = SynchronousHandler_Process"

text \<open>\<open>NewBackend\<close>.\<close>

definition k8s_backend :: "unicode_tables \<Rightarrow> yaml_codec \<Rightarrow> string \<Rightarrow> edge_device_backend" where
  "k8s_backend u y initialNamespace =
     \<lparr>be_GetRegistrationStatus = GetRegistrationStatus,
      be_GetConfiguration = GetConfiguration y,
      be_Enrol = Enrol initialNamespace,
      be_GetTargetNamespace = GetTargetNamespace initialNamespace,
      be_GetPlaybookExecutions = GetPlaybookExecutions,
      be_Register = Register u,
      be_UpdateStatus = UpdateStatus u\<rparr>"

lemmas backend_defs = GetRegistrationStatus_def GetConfiguration_def GetTargetNamespace_def
  GetPlaybookExecutions_def Enrol_def Register_def UpdateStatus_def

section \<open>What the operations ask for\<close>

text \<open>
  A query changes no object of the cluster, signs no certificate and goes to no other system; it may count something or record an event.
  \<open>endpoint_requests\<close> in \<open>Yggdrasil\<close> says which.
\<close>

fun is_sign :: "request \<Rightarrow> bool" where
  "is_sign (CreateCertificate _ _ _ _) = True" | "is_sign _ = False"

fun is_outside :: "request \<Rightarrow> bool" where
  "is_outside (Remote _) = True" | "is_outside (System _) = True" | "is_outside (WritePoint _ _ _) = True" | "is_outside _ = False"

definition is_query :: "request \<Rightarrow> bool" where
  "is_query q \<longleftrightarrow> \<not> is_write q \<and> \<not> is_sign q \<and> \<not> is_outside q"

lemma config_read_query: "is_config_read d q \<Longrightarrow> is_query q"
  by (cases q) (auto simp: is_query_def)

lemma query_simps [simp]:
  "is_query (GetDevice n ns)" "is_query (GetEDSR n ns)" "is_query (GetPlaybookExec n ns)"
  "is_query (Metric m)" "is_query NewUUID" "is_query Now" "is_query (SleepMs k)"
  by (simp_all add: is_query_def)

lemma issues_read_facade [simp]:
  "issues P (GetEdgeDevice n ns) = P (GetDevice n ns)"
  "issues P (GetEdgeDeviceSignedRequest n ns) = P (GetEDSR n ns)"
  "issues P (GetPlaybookExecution n ns) = P (GetPlaybookExec n ns)"
  by (simp_all add: go_defs)

lemma issues_playbook_answers:
  "(\<And>n. P (GetPlaybookExec n ns)) \<Longrightarrow> issues P (playbook_answers d ns labels names acc)"
  by (induction names arbitrary: acc) (auto intro!: issues_bindpI split: option.split)

lemma issues_queries:
  "issues is_query (GetRegistrationStatus n ns)" "issues is_query (GetConfiguration y n ns)"
  "issues is_query (GetTargetNamespace i n ns m)" "issues is_query (GetPlaybookExecutions n ns)"
  by (auto simp: backend_defs issues_playbook_answers
      intro!: issues_bindpI issues_trypI issues_mono [OF issues_GetDeviceConfiguration config_read_query]
      split: option.split)

text \<open>Enrolment creates at most a request for the device that is not approved.\<close>

fun is_enrolment :: "string \<Rightarrow> request \<Rightarrow> bool" where
  "is_enrolment n (CreateEDSR r) = (om_Name (sr_meta r) = n \<and> \<not> rs_Approved (sr_Spec r))"
| "is_enrolment n q = is_query q"

lemma issues_Enrol: "issues (is_enrolment n) (Enrol i n ns info)"
  by (auto simp: Enrol_def CreateEdgeDeviceSignedRequest_def EDSR_Create_def enrolment_request_def is_query_def
      intro!: issues_bindpI split: option.split)

text \<open>Registration patches labels and hardware and nothing else.\<close>

fun is_registration :: "request \<Rightarrow> bool" where
  "is_registration (PatchDevice old new) = (new = set_ed_Labels (ed_Labels new) old)"
| "is_registration (PatchDeviceStatus old new) = (new = set_hardware (es_Hardware (ed_Status new)) old)"
| "is_registration q = is_query q"

lemma issues_write_labels [simp]: "issues P (write_labels new m)"
  by (simp add: write_labels_def split: option.split)

lemma issues_patch_status:
  "issues is_registration (patch_status d (\<lambda>device. mapp (\<lambda>hw. set_hardware hw device) (MapHardware h)))"
  by (auto simp: patch_status_def issues_bindp_iff exec_mapp PatchEdgeDeviceStatus_def EdgeDevice_PatchStatus_def
      set_hardware_def)

lemma issues_Register: "issues is_registration (Register u n ns info)"
proof -
  have "issues is_registration (status_attempt d (\<lambda>device. mapp (\<lambda>hw. set_hardware hw device) (MapHardware h)))" for d h
    by (auto simp: status_attempt_def issues_patch_status is_query_def intro!: issues_bindpI)
  then show ?thesis
    by (auto simp: Register_def updateDeviceStatus_def PatchEdgeDevice_def EdgeDevice_Patch_def is_query_def
        intro!: issues_bindpI issues_patch_status issues_retries split: option.split)
qed

section \<open>The contract\<close>

text \<open>
  The comments of the interface as laws: the \<open>Get\<close> methods change nothing and an undetermined status comes with
  its error; \<open>Enrol\<close> records a request that still has to be approved; \<open>Register\<close> updates labels and hardware of
  the device; \<open>UpdateStatus\<close> records events only when it is not a retry.
\<close>

fun is_status_request :: "request \<Rightarrow> bool" where
  "is_status_request (PatchDeviceStatus old new) = (new = old\<lparr>ed_Status := ed_Status new\<rparr>)"
| "is_status_request q = (is_event q \<or> is_playbook_request q)"

text \<open>
  What the requests of a backend may be, by operation. The handler of the API adds requests of its own (metrics,
  clock, identifiers, pauses), which count as queries.
\<close>

record footprint =
  fp_query :: "request \<Rightarrow> bool"
  fp_enrolment :: "string \<Rightarrow> request \<Rightarrow> bool"
  fp_registration :: "request \<Rightarrow> bool"
  fp_status :: "request \<Rightarrow> bool"

locale device_backend =
  fixes b :: edge_device_backend
    and fp :: footprint
  assumes status_reads: "issues (fp_query fp) (be_GetRegistrationStatus b n ns)"
    and configuration_reads: "issues (fp_query fp) (be_GetConfiguration b n ns)"
    and target_reads: "issues (fp_query fp) (be_GetTargetNamespace b n ns matches)"
    and playbooks_read: "issues (fp_query fp) (be_GetPlaybookExecutions b n ns)"
    and enrol_requests: "issues (fp_enrolment fp n) (be_Enrol b n ns info)"
    and register_requests: "issues (fp_registration fp) (be_Register b n ns reg)"
    and status_requests: "issues (fp_status fp) (be_UpdateStatus b retry n ns hb)"
    and status_contract: "status_updater (\<lambda>retry. be_UpdateStatus b retry n ns hb) (\<lambda>q. \<not> is_event q)"
    and local_queries: "fp_query fp (Metric m)" "fp_query fp NewUUID" "fp_query fp Now" "fp_query fp (SleepMs ms)"
    and query_registration: "fp_query fp q \<Longrightarrow> fp_registration fp q"
    and registration_no_sign: "fp_registration fp q \<Longrightarrow> \<not> is_sign q"
    and enrolment_no_sign: "fp_enrolment fp n q \<Longrightarrow> \<not> is_sign q"
    and status_no_sign: "fp_status fp q \<Longrightarrow> \<not> is_sign q"

text \<open>The comments name the status of a device whose data cannot be read: the Kubernetes backend keeps to it.\<close>

locale status_backend = device_backend +
  assumes status_unknown: "exec (be_GetRegistrationStatus b n ns) t (Returned (s, err)) \<Longrightarrow>
      s = Unknown \<longleftrightarrow> err \<noteq> None"

lemma reports_status_request: "reports hb q \<Longrightarrow> is_status_request q"
  by (cases q) auto

lemma issues_processEvents: "issues is_status_request (processEvents d es)"
  by (induction es) (auto intro!: issues_bindpI simp: event_request_def split: option.split)

lemma label_status_request: "is_label_request q \<Longrightarrow> is_status_request q"
  by (cases q) auto

lemma issues_UpdateStatus: "issues is_status_request (UpdateStatus u retry n ns hb)"
  by (auto simp: UpdateStatus_def SynchronousHandler_Process_def GetEdgeDevice_def EdgeDevice_Read_def issues_processEvents
      intro!: issues_bindpI issues_mono [OF issues_updateStatus] reports_status_request
        issues_mono [OF issues_updateLabels_heartbeat label_status_request]
      split: option.splits)

lemma GetRegistrationStatus_unknown:
  "exec (GetRegistrationStatus n ns) t (Returned (s, err)) \<Longrightarrow> s = Unknown \<longleftrightarrow> err \<noteq> None"
  by (auto simp: GetRegistrationStatus_def exec_bindp split: option.splits if_splits)

definition k8s_footprint :: footprint where
  "k8s_footprint = \<lparr>fp_query = is_query, fp_enrolment = is_enrolment, fp_registration = is_registration,
     fp_status = is_status_request\<rparr>"

lemma writes_not_sign:
  "is_registration q \<Longrightarrow> \<not> is_sign q" "is_enrolment n q \<Longrightarrow> \<not> is_sign q" "is_status_request q \<Longrightarrow> \<not> is_sign q"
  by (cases q; auto simp: is_query_def)+

lemma query_is_registration: "is_query q \<Longrightarrow> is_registration q"
  by (cases q) (auto simp: is_query_def)

interpretation k8s: status_backend "k8s_backend u y initialNamespace" k8s_footprint
proof unfold_locales
  show "issues (\<lambda>q. \<not> is_event q) (be_UpdateStatus (k8s_backend u y initialNamespace) True n ns hb)" for n ns hb
    using issues_mono [OF issues_retry reports_no_event] by (simp add: k8s_backend_def UpdateStatus_def)
qed (simp_all add: k8s_backend_def k8s_footprint_def issues_queries issues_Enrol issues_Register issues_UpdateStatus
    GetRegistrationStatus_unknown writes_not_sign query_is_registration, simp_all add: UpdateStatus_def Process_one_patch [simplified])

section \<open>Properties\<close>

lemma exec_bind_read_cases:
  "exec (bindp (read_object z q sel) f) t out \<longleftrightarrow> (\<exists>r t'. t = (q, r) # t' \<and>
     ((\<exists>e. object_result sel r = Inl e \<and> exec (f (z, Some e)) t' out) \<or>
      (\<exists>a. object_result sel r = Inr a \<and> exec (f (a, None)) t' out)))"
proof -
  have "exec (f (case res of Inl e \<Rightarrow> (z, Some e) | Inr a \<Rightarrow> (a, None))) t' out \<longleftrightarrow>
      (\<exists>e. res = Inl e \<and> exec (f (z, Some e)) t' out) \<or> (\<exists>a. res = Inr a \<and> exec (f (a, None)) t' out)" for res t'
    by (cases res) auto
  then show ?thesis by (simp add: exec_bind_read)
qed

lemma exec_bind_Read:
  "exec (bindp (GetEdgeDevice n ns) f) t out \<longleftrightarrow> (\<exists>r t'. t = (GetDevice n ns, r) # t' \<and>
     ((\<exists>e. object_result as_device r = Inl e \<and> exec (f (zero_edge_device, Some e)) t' out) \<or>
      (\<exists>a. object_result as_device r = Inr a \<and> exec (f (a, None)) t' out)))"
  "exec (bindp (GetEdgeDeviceSignedRequest n ns) g) t out \<longleftrightarrow> (\<exists>r t'. t = (GetEDSR n ns, r) # t' \<and>
     ((\<exists>e. object_result as_edsr r = Inl e \<and> exec (g (zero_edsr, Some e)) t' out) \<or>
      (\<exists>a. object_result as_edsr r = Inr a \<and> exec (g (a, None)) t' out)))"
  by (simp_all only: GetEdgeDevice_def EdgeDevice_Read_def GetEdgeDeviceSignedRequest_def EDSR_Read_def
      exec_bind_read_cases)


text \<open>The namespace a device is sent to before its own certificate says so.\<close>

definition proposed_namespace :: "string \<Rightarrow> string \<Rightarrow> bool \<Rightarrow> string \<Rightarrow> string \<Rightarrow> io_trace \<Rightarrow> bool" where
  "proposed_namespace initial ns matches name ns' t \<longleftrightarrow>
     (if ns = initial \<and> \<not> matches
      then \<exists>r request. t = [(GetEDSR name initial, r)] \<and> object_result as_edsr r = Inr request \<and>
        ns' = (if rs_TargetNamespace (sr_Spec request) = [] then ns else rs_TargetNamespace (sr_Spec request))
      else t = [] \<and> ns' = ns)"

lemma exec_proposal:
  "exec (if ns = initial \<and> \<not> matches then
      bindp (GetEdgeDeviceSignedRequest name initial) (\<lambda>(esdr, err). Ret (case err of
          Some e \<Rightarrow> Inl e
        | None \<Rightarrow> Inr (if rs_TargetNamespace (sr_Spec esdr) \<noteq> [] then rs_TargetNamespace (sr_Spec esdr) else ns)))
    else Ret (Inr ns)) t (Returned (Inr ns')) \<longleftrightarrow> proposed_namespace initial ns matches name ns' t"
  by (simp add: proposed_namespace_def exec_bind_Read) (fastforce split: if_splits)

lemma exec_admission:
  "exec (bindp (GetEdgeDevice name ns) (\<lambda>(dvc, err). Ret (case err of
      Some e \<Rightarrow> Inl (if IsNotFound e then NotApproved e else e)
    | None \<Rightarrow> if \<not> is_init dvc \<and> \<not> matches then Inl (PlainError ''forbidden'') else Inr ns))) t (Returned (Inr ns')) \<longleftrightarrow>
   (\<exists>r d. t = [(GetDevice name ns', r)] \<and> object_result as_device r = Inr d \<and> (matches \<or> is_init d) \<and> ns' = ns)"
  by (simp add: exec_bind_Read) (fastforce split: if_splits)

lemma exec_GetTargetNamespace:
  "exec (GetTargetNamespace initial name ns matches) t (Returned (Inr ns')) \<longleftrightarrow>
     (\<exists>t1 r d. t = t1 @ [(GetDevice name ns', r)] \<and> object_result as_device r = Inr d \<and>
        (matches \<or> is_init d) \<and> proposed_namespace initial ns matches name ns' t1)"
  unfolding GetTargetNamespace_def exec_tryp exec_proposal exec_admission by (simp, blast)

text \<open>
  Property C12: the gate of registration. A namespace is only handed out for a device that exists there, and
  only to a caller whose certificate is the device's own or to a device that was approved and has not
  registered yet. It is the namespace of the caller's identity, except for a caller with the registration
  certificate, who is sent to the target namespace of the signed request.
\<close>

theorem target_namespace_gate:
  "exec (GetTargetNamespace initial name ns matches) t (Returned (Inr ns')) \<longleftrightarrow>
     (\<exists>t1 r d. t = t1 @ [(GetDevice name ns', r)] \<and> object_result as_device r = Inr d \<and>
        (matches \<or> is_init d) \<and> proposed_namespace initial ns matches name ns' t1)"
  by (rule exec_GetTargetNamespace)


subsection \<open>Registration\<close>

text \<open>A retry loop that reports success ends with an attempt that did.\<close>

lemma retries_success:
  "exec (retries is attempt err) t (Returned None) \<Longrightarrow> \<exists>t1 t2. t = t1 @ t2 \<and> exec attempt t2 (Returned None)"
proof (induction "is" arbitrary: t)
  case (Cons i "is")
  from Cons.prems obtain r t1 t2 e where t: "t = (SleepMs (i * 50), r) # t1 @ t2" and a: "exec attempt t1 (Returned e)"
    and k: "exec (if e = None then Ret None else retries is attempt err) t2 (Returned None)"
    by (auto simp: retries.simps exec_bindp tell_def exec_Call)
  show ?case
  proof (cases e)
    case None
    with k a t have "t = [(SleepMs (i * 50), r)] @ t1 \<and> exec attempt t1 (Returned None)" by simp
    then show ?thesis by blast
  next
    case (Some x)
    with k have "exec (retries is attempt err) t2 (Returned None)" by simp
    from Cons.IH [OF this] obtain u1 u2 where "t2 = u1 @ u2" "exec attempt u2 (Returned None)" by blast
    with t have "t = ((SleepMs (i * 50), r) # t1 @ u1) @ u2 \<and> exec attempt u2 (Returned None)" by simp
    then show ?thesis by blast
  qed
qed (simp add: retries.simps)

lemma wp_patch_status:
  "wp (patch_status d (\<lambda>device. Ret (set_hardware hw device))) \<Phi> \<longleftrightarrow>
     (\<forall>r. \<Phi> [(PatchDeviceStatus d (set_hardware hw d), r)] (Returned
       (case object_result as_device r of Inl e \<Rightarrow> Some e | Inr _ \<Rightarrow> None)))"
proof -
  have "fst (case res of Inl e \<Rightarrow> (Some e, x) | Inr a \<Rightarrow> (None, a)) = (case res of Inl e \<Rightarrow> Some e | Inr _ \<Rightarrow> None)"
    for res :: "error + edge_device" and x by (cases res) auto
  then show ?thesis
    by (simp add: patch_status_def PatchEdgeDeviceStatus_def EdgeDevice_PatchStatus_def wp_mapp)
qed

interpretation hardware_retry: update_attempt "status_attempt d (\<lambda>device. Ret (set_hardware hw device))"
  by unfold_locales (auto simp: status_attempt_def go_defs wp_base wp_patch_status split: sum.split)

definition hardware_written :: "hardware option \<Rightarrow> io_trace \<Rightarrow> bool" where
  "hardware_written hw t \<longleftrightarrow> (\<exists>t' old r d. t = t' @ [(PatchDeviceStatus old (set_hardware hw old), r)] \<and>
     object_result as_device r = Inr d)"

lemma hardware_written_append [intro]: "hardware_written hw t \<Longrightarrow> hardware_written hw (t' @ t)"
  unfolding hardware_written_def by (metis append_assoc)

lemma hardware_written_Cons [intro]: "hardware_written hw t \<Longrightarrow> hardware_written hw (c # t)"
  using hardware_written_append [of hw t "[c]"] by simp

lemma wp_status_success:
  "wp (status_attempt d (\<lambda>device. Ret (set_hardware hw device))) (\<lambda>t out. out = Returned None \<longrightarrow> hardware_written hw t)"
  by (auto simp: status_attempt_def go_defs wp_base wp_patch_status hardware_written_def split: sum.split)

lemma wp_updateDeviceStatus:
  "wp (updateDeviceStatus d (\<lambda>device. Ret (set_hardware hw device))) (\<lambda>t out. \<exists>err. out = Returned err \<and>
     count_calls is_write t \<le> 4 \<and> (err = None \<longrightarrow> hardware_written hw t))"
proof -
  have retry: "wp (retries [1, 2, 3] (status_attempt d (\<lambda>device. Ret (set_hardware hw device))) e) (\<lambda>t out.
      \<exists>err. out = Returned err \<and> count_calls is_write t \<le> 3 \<and> (err = None \<longrightarrow> hardware_written hw t))" for e
    using hardware_retry.retries_bound [of "[1, 2, 3]" d hw e] wp_execD [OF wp_status_success]
    unfolding wp_exec by (fastforce dest: retries_success)
  show ?thesis
    unfolding updateDeviceStatus_def wp_bindp wp_patch_status
    by (auto simp: hardware_written_def [of hw "[c]" for c] simp del: One_nat_def split: sum.split intro!: wp_conseq [OF retry])
qed

lemma write_labels_lookup:
  "exec (write_labels new m) t (Returned m') \<Longrightarrow>
     t = [] \<and> (\<forall>k. mget m' k = (case mget new k of Some v \<Rightarrow> Some v | None \<Rightarrow> mget m k))"
  by (cases m) (auto simp: write_labels_def mget_def fmlookup_dom_iff split: if_splits option.splits)

lemma registration_tail:
  assumes "exec (bindp (write_labels new (ed_Labels d)) (\<lambda>labels.
     bindp (PatchEdgeDevice d (set_ed_Labels (mdelete EdgeDeviceSignedRequestLabelName labels) d)) (\<lambda>(err, _).
       case err of Some e \<Rightarrow> Ret (Some e) | None \<Rightarrow> p))) t (Returned err)"
  shows "\<exists>r labels t'. t = (PatchDevice d (set_ed_Labels labels d), r) # t' \<and>
    (\<forall>k. mget labels k = (if k = EdgeDeviceSignedRequestLabelName then None
       else case mget new k of Some v \<Rightarrow> Some v | None \<Rightarrow> mget (ed_Labels d) k)) \<and>
    ((\<exists>e. t' = [] \<and> err = Some e) \<or> exec p t' (Returned err))"
proof -
  from assms obtain m t2 where m: "\<forall>k. mget m k = (case mget new k of Some v \<Rightarrow> Some v | None \<Rightarrow> mget (ed_Labels d) k)"
    and "exec (bindp (PatchEdgeDevice d (set_ed_Labels (mdelete EdgeDeviceSignedRequestLabelName m) d)) (\<lambda>(err, _).
       case err of Some e \<Rightarrow> Ret (Some e) | None \<Rightarrow> p)) t (Returned err)"
    by (auto simp: exec_bindp [of "write_labels new (ed_Labels d)"] dest!: write_labels_lookup)
  then obtain r t' e x where "t = (PatchDevice d (set_ed_Labels (mdelete EdgeDeviceSignedRequestLabelName m) d), r) # t'"
    "exec (case e of Some e \<Rightarrow> Ret (Some e) | None \<Rightarrow> p) t' (Returned err)"
    by (auto simp: exec_bindp PatchEdgeDevice_def EdgeDevice_Patch_def exec_patch_object)
  moreover from this(2) have "(\<exists>e. t' = [] \<and> err = Some e) \<or> exec p t' (Returned err)"
    by (cases e) auto
  ultimately show ?thesis
    using m by (intro exI [of _ r] exI [of _ "mdelete EdgeDeviceSignedRequestLabelName m"] exI [of _ t']) simp
qed

lemma updateDeviceStatus_hardware:
  assumes "exec (updateDeviceStatus d (\<lambda>device. mapp (\<lambda>hw. set_hardware hw device) (MapHardware h))) t (Returned err)"
  shows "count_calls is_write t \<le> 4 \<and>
    (err = None \<longrightarrow> (\<exists>hw. MapHardware h = (Ret hw :: hardware option io) \<and> hardware_written hw t))"
proof -
  obtain hw where hw: "MapHardware h = (Ret hw :: hardware option io)"
  proof (cases h)
    case (Some x)
    with assms show thesis
      using that by (cases "hardware_ok x")
        (auto simp: MapHardware_closed updateDeviceStatus_def patch_status_def mapp_def)
  qed (use that in simp)
  with assms have "exec (updateDeviceStatus d (\<lambda>device. Ret (set_hardware hw device))) t (Returned err)"
    by (simp add: mapp_def)
  from wp_execD [OF wp_updateDeviceStatus this] hw show ?thesis by auto
qed

text \<open>
  Property C32: registration. Whatever is written is a patch of labels or of the hardware status; there are at
  most five such writes. The first takes the label of the signed request off the device and puts the
  labels of the reported hardware on it; a run that reports success ends with a successful patch of the
  hardware status.
\<close>

theorem register_exact:
  assumes "exec (Register u name ns info) t (Returned err)"
  shows "(\<forall>c \<in> set t. is_registration (fst c)) \<and> count_calls is_write t \<le> 5 \<and>
    (\<exists>r1 r2 d labels t'. t = (GetDevice name ns, r1) # (PatchDevice d (set_ed_Labels labels d), r2) # t' \<and>
       (\<forall>k. mget labels k = (if k = EdgeDeviceSignedRequestLabelName then None
          else case mget (MapLabels u (ri_Hardware info)) k of Some v \<Rightarrow> Some v | None \<Rightarrow> mget (ed_Labels d) k)) \<and>
       (err = None \<longrightarrow> (\<exists>hw. MapHardware (ri_Hardware info) = (Ret hw :: hardware option io) \<and> hardware_written hw t')))"
proof -
  let ?f = "\<lambda>device. mapp (\<lambda>hw. set_hardware hw device) (MapHardware (ri_Hardware info)) :: edge_device io"
  have calls: "\<forall>c \<in> set t. is_registration (fst c)"
    using issues_Register assms unfolding issues_exec by blast
  from assms obtain r1 r2 d labels t' where t: "t = (GetDevice name ns, r1) # (PatchDevice d (set_ed_Labels labels d), r2) # t'"
      and labels: "\<forall>k. mget labels k = (if k = EdgeDeviceSignedRequestLabelName then None
          else case mget (MapLabels u (ri_Hardware info)) k of Some v \<Rightarrow> Some v | None \<Rightarrow> mget (ed_Labels d) k)"
      and k: "(\<exists>e. t' = [] \<and> err = Some e) \<or> exec (updateDeviceStatus d ?f) t' (Returned err)"
    unfolding Register_def exec_bind_Read by (auto dest!: registration_tail) 
  have "count_calls is_write t' \<le> 4 \<and> (err = None \<longrightarrow>
      (\<exists>hw. MapHardware (ri_Hardware info) = (Ret hw :: hardware option io) \<and> hardware_written hw t'))"
    using k updateDeviceStatus_hardware by auto
  then show ?thesis using calls t labels by auto
qed

text \<open>
  Registering a device that cannot be read, or one without labels, while reporting hardware that
  gives labels panics: the error of the read is dropped and the labels are written into a nil map. Nothing
  has been written to the cluster by then.
\<close>

theorem register_without_labels_panics:
  assumes "case object_result as_device r of Inl e \<Rightarrow> True | Inr d \<Rightarrow> ed_Labels d = None"
    and "entries (MapLabels u (ri_Hardware info)) \<noteq> fmempty"
  shows "exec (Register u name ns info) ((GetDevice name ns, r) # t) out \<longleftrightarrow> t = [] \<and> out = Panicked nil_map_write"
  using assms
  by (cases "object_result as_device r")
    (auto simp: Register_def exec_bind_Read write_labels_def zero_edge_device_def zero_meta_def)

section \<open>Concrete runs\<close>

definition new_device :: edge_device where
  "new_device = set_ed_Labels (Some (fmupd EdgeDeviceSignedRequestLabelName EdgeDeviceSignedRequestLabelValue fmempty)) zero_edge_device"

definition empty_hardware :: hardware_info where
  "empty_hardware = \<lparr>hi_Boot = None, hi_ConnectedWirelessDevices = [], hi_CPU = None, hi_Disks = [], hi_Gpus = [], hi_HostDevices = [], hi_Hostname = ''a'',
     hi_Interfaces = [], hi_Memory = None, hi_Mounts = [], hi_SystemVendor = None\<rparr>"

definition missing :: response where
  "missing = RErr (StatusError NotFound 404 ''none'')"


theorem register_exact_witness:
  "\<exists>t d labels r1 r2 t'. exec (Register ascii_tables ''dev'' ''ns'' \<lparr>ri_CertificateRequest = [], ri_Hardware = None\<rparr>) t (Returned None) \<and>
     t = (GetDevice ''dev'' ''ns'', r1) # (PatchDevice d (set_ed_Labels labels d), r2) # t' \<and>
     mget labels EdgeDeviceSignedRequestLabelName = None \<and> hardware_written None t'"
proof -
  let ?p = "Register ascii_tables ''dev'' ''ns'' \<lparr>ri_CertificateRequest = [], ri_Hardware = None\<rparr>"
  have "map_option snd (replay ?p [RDevice new_device, RDevice new_device, RDevice new_device] []) = Some (Returned None)"
    by code_simp
  then obtain t where "replay ?p [RDevice new_device, RDevice new_device, RDevice new_device] [] = Some (t, Returned None)"
    by auto
  then have e: "exec ?p t (Returned None)" by (rule replay_exec)
  from register_exact [OF e] obtain r1 r2 d labels t' where
    "t = (GetDevice ''dev'' ''ns'', r1) # (PatchDevice d (set_ed_Labels labels d), r2) # t'"
    "mget labels EdgeDeviceSignedRequestLabelName = None" "hardware_written None t'"
    by auto
  with e show ?thesis by blast
qed

theorem register_without_labels_panics_witness:
  "exec (Register ascii_tables ''dev'' ''ns'' \<lparr>ri_CertificateRequest = [], ri_Hardware = Some empty_hardware\<rparr>)
     [(GetDevice ''dev'' ''ns'', missing)] (Panicked nil_map_write)"
proof -
  have "NormalizeLabel ascii_tables ''a'' = Inr ''a''"
    by (subst NormalizeLabel_ascii) (code_simp, code_simp)
  then have "entries (MapLabels ascii_tables (Some empty_hardware)) \<noteq> fmempty"
    by (simp add: MapLabels_def empty_hardware_def put_label_def)
  with register_without_labels_panics [of missing ascii_tables
      "\<lparr>ri_CertificateRequest = [], ri_Hardware = Some empty_hardware\<rparr>" "''dev''" "''ns''" "[]"]
  show ?thesis by (simp add: missing_def)
qed

end
