(* ===== verification/Mqtt_Bridge.thy ===== *)
theory Mqtt_Bridge
  imports Backend Go_Text
begin

text \<open>
  The bridge from the MQTT broker into the cluster and the time series database (the second half of
  \<open>src/cmd/httpapi/main.go\<close>): end nodes behind a device report over LoRa or WiFi, and the bridge keeps them in the
  status of the device. The stand-alone client of \<open>src/cmd/mqtt/main.go\<close> and the package \<open>src/mqtt\<close> connect the same way.

  Decoding a payload and printing a value with \<open>%v\<close> are \<open>encoding/json\<close> and \<open>fmt\<close>; they are the fields of
  \<open>bridge_codec\<close>. The end of the process (\<open>os.Exit\<close>, \<open>log.Fatalf\<close>) is a panic with a message of its own, which
  runs no deferred call.
\<close>

section \<open>The end of the process\<close>

definition exit_status :: string where "exit_status = ''exit status 1''"

definition go_exit :: "('q, 'r, 'a) prog" where
  "go_exit = Panic exit_status"

text \<open>\<open>defer\<close> of one call: it is made when the function returns or panics.\<close>

primrec deferred :: "'q \<Rightarrow> ('q, 'r, 'a) prog \<Rightarrow> ('q, 'r, 'a) prog" where
  "deferred q (Ret a) = Call q (\<lambda>_. Ret a)"
| "deferred q (Panic m) = (if m = exit_status then Panic m else Call q (\<lambda>_. Panic m))"
| "deferred q (Call q' k) = Call q' (\<lambda>r. deferred q (k r))"
| "deferred q (Pick k) = Pick (\<lambda>i. deferred q (k i))"

section \<open>Text\<close>

text \<open>\<open>unicode.IsSpace\<close>.\<close>

definition is_space :: "nat \<Rightarrow> bool" where
  "is_space r \<longleftrightarrow> (9 \<le> r \<and> r \<le> 13) \<or> r = 32 \<or> r = 0x85 \<or> r = 0xA0 \<or> r = 0x1680 \<or> (0x2000 \<le> r \<and> r \<le> 0x200A) \<or>
     r = 0x2028 \<or> r = 0x2029 \<or> r = 0x202F \<or> r = 0x205F \<or> r = 0x3000"

text \<open>\<open>strings.TrimSpace\<close>: from the first to the last rune that is no space.\<close>

definition TrimSpace :: "string \<Rightarrow> string" where
  "TrimSpace s = (case dropWhile (is_space \<circ> snd) (runes s) of
      [] \<Rightarrow> []
    | (i, r) # rs \<Rightarrow>
        (let spaces = takeWhile (is_space \<circ> snd) (rev ((i, r) # rs));
             end_of = (if spaces = [] then length s else fst (last spaces))
         in take (end_of - i) (drop i s)))"

text \<open>\<open>strings.ReplaceAll(key, " ", "_")\<close>.\<close>

definition underscores :: "string \<Rightarrow> string" where
  "underscores s = map (\<lambda>c. if c = CHR '' '' then CHR ''_'' else c) s"

section \<open>Messages\<close>

record bridge_message =
  br_FlottaDeviceID :: string
  br_EventType :: string
  br_TenantID :: string
  br_TenantName :: string
  br_ApplicationID :: string
  br_ApplicationName :: string
  br_DeviceProfileID :: string
  br_DeviceProfileName :: string
  br_DeviceName :: string
  br_DevEUI :: string
  br_DevAddr :: string
  br_Data :: "(string, json) gomap"
  br_Confirmed :: bool
  br_Latitude :: string
  br_Longitude :: string
  br_Bandwidth :: int
  br_Frequency :: int
  br_SpreadingFactor :: int
  br_CodeRate :: string
  br_DeviceType :: string
  br_Time :: string
  br_RegionName :: string
  br_LocationSource :: string
  br_BatteryLevel :: string
  br_Tags :: "(string, json) gomap"
  br_Measurement :: string

record bridge_codec =
  bc_unmarshal :: "string \<Rightarrow> error + bridge_message"
  bc_sprint :: "json \<Rightarrow> string"

section \<open>End nodes\<close>

definition zero_wireless_info :: wireless_device_info where
  "zero_wireless_info = \<lparr>wi_TenantId = [], wi_TenantName = [], wi_ApplicationId = [], wi_ApplicationName = [],
     wi_DeviceProfileId = [], wi_DeviceProfileName = [], wi_DeviceName = [], wi_DevEui = [], wi_DevAddr = [],
     wi_Location = \<lparr>lo_Longitude = [], lo_Latitude = [], lo_LocationSource = []\<rparr>,
     wi_Region = \<lparr>rg_RegionName = [], rg_Bandwidth = 0\<rparr>,
     wi_TransmitInfo = \<lparr>ti_Frequency = 0, ti_Power = [], ti_SpreadingFactor = 0, ti_CodeRate = [], ti_PolarizationInversion = False\<rparr>,
     wi_BatteryLevel = [], wi_Data = None, wi_Confirmed = False, wi_LastSeen = [], wi_Tags = None, wi_EventType = []\<rparr>"

definition lora_device :: "bridge_message \<Rightarrow> wireless_devices" where
  "lora_device msg = \<lparr>wd_InterfaceType = WirelessInterfaceTypeLora,
     wd_Info = zero_wireless_info\<lparr>
       wi_EventType := br_EventType msg,
       wi_BatteryLevel := br_BatteryLevel msg,
       wi_TenantId := br_TenantID msg,
       wi_TenantName := br_TenantName msg,
       wi_ApplicationId := br_ApplicationID msg,
       wi_ApplicationName := br_ApplicationName msg,
       wi_DeviceProfileId := br_DeviceProfileID msg,
       wi_DeviceProfileName := br_DeviceProfileName msg,
       wi_DeviceName := br_DeviceName msg,
       wi_DevEui := br_DevEUI msg,
       wi_DevAddr := br_DevAddr msg,
       wi_Location := \<lparr>lo_Longitude = br_Longitude msg, lo_Latitude = br_Latitude msg, lo_LocationSource = []\<rparr>,
       wi_Region := \<lparr>rg_RegionName = [], rg_Bandwidth = br_Bandwidth msg\<rparr>,
       wi_TransmitInfo := \<lparr>ti_Frequency = br_Frequency msg, ti_Power = [], ti_SpreadingFactor = br_SpreadingFactor msg,
         ti_CodeRate = br_CodeRate msg, ti_PolarizationInversion = False\<rparr>,
       wi_LastSeen := br_Time msg\<rparr>\<rparr>"

text \<open>The string values of a map, in the order the keys are visited.\<close>

definition string_items :: "(string, json) gomap \<Rightarrow> string list \<Rightarrow> (string \<times> string) list" where
  "string_items m keys = concat (map (\<lambda>k. case mget m k of Some (JString v) \<Rightarrow> [(k, v)] | _ \<Rightarrow> []) keys)"

text \<open>The device a WiFi message describes: nothing of the message but its data and tags.\<close>

definition wifi_device :: "bridge_message \<Rightarrow> string list \<Rightarrow> string list \<Rightarrow> wireless_devices" where
  "wifi_device msg dataKeys tagKeys = \<lparr>wd_InterfaceType = WirelessInterfaceTypeWiFi,
     wd_Info = zero_wireless_info\<lparr>
       wi_Data := appended (map (\<lambda>(k, v). \<lparr>da_Name = k, da_Value = v\<rparr>) (string_items (br_Data msg) dataKeys)),
       wi_Tags := appended (map (\<lambda>(k, v). \<lparr>ta_Name = k, ta_Value = v\<rparr>) (string_items (br_Tags msg) tagKeys))\<rparr>\<rparr>"

text \<open>The index of the first end node with an identifier; a nil entry before it panics.\<close>

primrec find_node :: "string \<Rightarrow> wireless_devices option list \<Rightarrow> nat \<Rightarrow> nat option io" where
  "find_node eui [] i = Ret None"
| "find_node eui (d # ds) i = (case d of
      None \<Rightarrow> Panic nil_dereference
    | Some node \<Rightarrow> if wi_DevEui (wd_Info node) = eui then Ret (Some i) else find_node eui ds (Suc i))"

definition set_status_nodes :: "wireless_devices option slice \<Rightarrow> edge_device \<Rightarrow> edge_device" where
  "set_status_nodes ns d = d\<lparr>ed_Status := (ed_Status d)\<lparr>es_WirelessDevices := ns\<rparr>\<rparr>"

text \<open>The end node takes the place of the one with the message's identifier, at the end of the list.\<close>

definition replace_node :: "nat option \<Rightarrow> wireless_devices \<Rightarrow> wireless_devices option slice \<Rightarrow> wireless_devices option slice" where
  "replace_node index node nodes = go_append (case index of
      Some i \<Rightarrow> go_append (Some (take i (elems nodes))) (drop (Suc i) (elems nodes))
    | None \<Rightarrow> nodes) [Some node]"

definition put_node :: "string \<Rightarrow> wireless_devices \<Rightarrow> edge_device \<Rightarrow> edge_device io" where
  "put_node eui node d =
     bindp (find_node eui (elems (es_WirelessDevices (ed_Status d))) 0) (\<lambda>index.
     Ret (set_status_nodes (replace_node index node (es_WirelessDevices (ed_Status d))) d))"

definition processDeviceLora :: "bridge_message \<Rightarrow> edge_device \<Rightarrow> unit io" where
  "processDeviceLora msg edgeDevice =
     bindp (put_node (br_DevEUI msg) (lora_device msg) edgeDevice) (\<lambda>edgeDevice'.
     mapp (\<lambda>_. ()) (call_unit (UpdateDeviceStatus edgeDevice')))"

section \<open>Points\<close>

text \<open>\<open>Point.AddField\<close> and \<open>Point.AddTag\<close>: the first entry with the key is overwritten, otherwise one is added.\<close>

definition convertField :: "bridge_codec \<Rightarrow> json \<Rightarrow> json" where
  "convertField c v = (case v of JArray _ \<Rightarrow> JString (bc_sprint c v) | JObject _ \<Rightarrow> JString (bc_sprint c v) | _ \<Rightarrow> v)"

fun overwrite :: "'k \<Rightarrow> 'v \<Rightarrow> ('k \<times> 'v) list \<Rightarrow> ('k \<times> 'v) list" where
  "overwrite k v [] = []"
| "overwrite k v ((k', v') # xs) = (if k = k' then (k, v) # xs else (k', v') # overwrite k v xs)"

definition AddField :: "bridge_codec \<Rightarrow> string \<Rightarrow> json \<Rightarrow> (string \<times> json) list \<Rightarrow> (string \<times> json) list" where
  "AddField c k v fs = (if k \<in> fst ` set fs then overwrite k v fs else fs @ [(k, convertField c v)])"

definition AddTag :: "string \<Rightarrow> string \<Rightarrow> (string \<times> string) list \<Rightarrow> (string \<times> string) list" where
  "AddTag k v tags = (if k \<in> fst ` set tags then overwrite k v tags else tags @ [(k, v)])"

primrec point_fields :: "bridge_codec \<Rightarrow> (string, json) gomap \<Rightarrow> string list \<Rightarrow> (string \<times> json) list \<Rightarrow> (string \<times> json) list" where
  "point_fields c m [] fs = fs"
| "point_fields c m (k # ks) fs = point_fields c m ks (case mget m k of
      Some v \<Rightarrow> if v \<noteq> JNull then AddField c (underscores k) v fs else fs
    | None \<Rightarrow> fs)"

primrec point_tags :: "bridge_codec \<Rightarrow> (string, json) gomap \<Rightarrow> string list \<Rightarrow> (string \<times> string) list \<Rightarrow> (string \<times> string) list" where
  "point_tags c m [] tags = tags"
| "point_tags c m (k # ks) tags = point_tags c m ks (case mget m k of
      Some v \<Rightarrow> if v \<noteq> JNull then AddTag ''Network'' ''WiFi'' (AddTag (underscores k)
          (case v of JString s \<Rightarrow> s | _ \<Rightarrow> bc_sprint c v) tags) else tags
    | None \<Rightarrow> tags)"

definition write_point :: "bridge_codec \<Rightarrow> bridge_message \<Rightarrow> unit io" where
  "write_point c msg =
     bindp go_now (\<lambda>timestamp.
     bindp (range_keys (br_Data msg)) (\<lambda>dataKeys.
     bindp (range_keys (br_Tags msg)) (\<lambda>tagKeys.
     bindp (tell (WritePoint (point_fields c (br_Data msg) dataKeys []) (point_tags c (br_Tags msg) tagKeys []) timestamp)) (\<lambda>_.
     tell (System FlushPoints)))))"

text \<open>The device is written and read back, then its status is written, then the point.\<close>

definition store_wifi :: "bridge_codec \<Rightarrow> bridge_message \<Rightarrow> wireless_devices \<Rightarrow> edge_device \<Rightarrow> unit io" where
  "store_wifi c msg connectedDevice edgeDevice =
     bindp (patch_object (UpdateDevice edgeDevice) as_device edgeDevice) (\<lambda>(err, edgeDevice2).
     if err \<noteq> None then Ret ()
     else bindp (put_node (br_DevEUI msg) connectedDevice edgeDevice2) (\<lambda>edgeDevice3.
       bindp (call_unit (UpdateDeviceStatus edgeDevice3)) (\<lambda>err.
       if err \<noteq> None then Ret () else write_point c msg)))"

text \<open>
  Where the log speaks of adding the end node to the specification, the status in memory is replaced by the
  end nodes of the specification and the new one.
\<close>

definition processDeviceWiFi :: "bridge_codec \<Rightarrow> bridge_message \<Rightarrow> edge_device \<Rightarrow> unit io" where
  "processDeviceWiFi c msg edgeDevice =
     bindp (range_keys (br_Data msg)) (\<lambda>dataKeys.
     bindp (range_keys (br_Tags msg)) (\<lambda>tagKeys.
     let connectedDevice = wifi_device msg dataKeys tagKeys in
     bindp (find_node (br_DevEUI msg) (elems (ds_WirelessDevices (ed_Spec edgeDevice))) 0) (\<lambda>y.
     store_wifi c msg connectedDevice (if y \<noteq> None then edgeDevice
       else set_status_nodes (go_append (ds_WirelessDevices (ed_Spec edgeDevice)) [Some connectedDevice]) edgeDevice))))"

section \<open>Handling a message\<close>

text \<open>The configuration of the client; on an error the program goes on with a nil configuration.\<close>

definition getRestConfig :: "string \<Rightarrow> error option io" where
  "getRestConfig kubeconfigPath = call_unit (System (GetRestConfig kubeconfigPath))"

text \<open>
  A client over a cache of its own. The cache runs in a goroutine with a context that is never cancelled; the
  error that goroutine may leave behind is read without waiting for it, so the answer to \<open>StartCache\<close> is whatever is
  there at that moment.
\<close>

definition getClient :: "error option io" where
  "getClient =
     bindp (call_unit (System NewClient)) (\<lambda>err. case err of Some e \<Rightarrow> Ret (Some e) | None \<Rightarrow>
     bindp (call_unit (System NewCache)) (\<lambda>err. case err of Some e \<Rightarrow> Ret (Some e) | None \<Rightarrow>
     bindp (call_unit (System StartCache)) (\<lambda>err. case err of Some e \<Rightarrow> Ret (Some e) | None \<Rightarrow>
     bindp (call_unit (System WaitForCacheSync)) (\<lambda>err. case err of
         Some _ \<Rightarrow> Ret (Some (PlainError ''cannot sync cache''))
       | None \<Rightarrow> call_unit (System NewDelegatingClient)))))"

primrec find_device :: "bridge_codec \<Rightarrow> bridge_message \<Rightarrow> bool \<Rightarrow> string list \<Rightarrow> unit io" where
  "find_device c msg nil_client [] = Ret ()"
| "find_device c msg nil_client (ns # nss) =
     (if nil_client then Panic nil_dereference
      else bindp (EdgeDevice_Read (br_FlottaDeviceID msg) ns) (\<lambda>(edgeDevice, err). case err of
          Some _ \<Rightarrow> find_device c msg nil_client nss
        | None \<Rightarrow> if br_DeviceType msg = ''Lora'' then processDeviceLora msg edgeDevice
            else processDeviceWiFi c msg edgeDevice))"

text \<open>\<open>kubernetes.NewForConfig\<close> dereferences its argument, which is nil when the configuration could not be read.\<close>

definition processMqttData :: "bridge_codec \<Rightarrow> api_config \<Rightarrow> string \<Rightarrow> unit io" where
  "processMqttData c config payload = (case bc_unmarshal c (TrimSpace payload) of
      Inl e \<Rightarrow> Ret ()
    | Inr msg \<Rightarrow>
        bindp (getRestConfig (ac_Kubeconfig config)) (\<lambda>err.
        if err \<noteq> None then Panic nil_dereference
        else bindp (call_unit (System NewClientset)) (\<lambda>err.
        if err \<noteq> None then go_exit
        else bindp getClient (\<lambda>client_err.
          deferred (System CloseInflux)
            (bindp (call_object ListNamespaces as_names) (\<lambda>res. case res of
                Inl e \<Rightarrow> go_exit
              | Inr namespaces \<Rightarrow> find_device c msg (client_err \<noteq> None) namespaces))))))"

definition publish_handler :: "bridge_codec \<Rightarrow> api_config \<Rightarrow> string \<Rightarrow> string \<Rightarrow> unit io" where
  "publish_handler c config topic payload =
     (if topic = ''device/up'' then processMqttData c config payload else Ret ())"

section \<open>The connection to the broker\<close>

definition client_alphabet :: string where
  "client_alphabet = ''ThisIsaRandomString1234567890qwertyuiopasdfghjklzxcvbnmQWERTYUIOPASDFGJHJKLZCM''"

text \<open>\<open>rand.Shuffle\<close>: any order, as the seed is the clock.\<close>

definition shuffled_id :: "string io" where
  "shuffled_id = bindp go_now (\<lambda>_. pick_perm client_alphabet)"

definition MqttHandler :: "string \<Rightarrow> unit io" where
  "MqttHandler broker =
     bindp shuffled_id (\<lambda>client_id.
     bindp (call_unit (System (MqttConnect broker client_id))) (\<lambda>err. case err of
         Some e \<Rightarrow> Panic (Error e)
       | None \<Rightarrow> bindp (call_unit (System (MqttSubscribe ''device/up'' 0))) (\<lambda>err.
           if err \<noteq> None then go_exit
           else bindp (tell (System (MqttPublish ''testtopic/1'' 0 ''Hello World''))) (\<lambda>_. tell (SleepMs 6000)))))"

text \<open>The package \<open>src/mqtt\<close>: connect, subscribe and publish with the errors returned or swallowed.\<close>

definition brokerConnect :: "error option io" where
  "brokerConnect = bindp shuffled_id (\<lambda>client_id. call_unit (System (MqttConnect ''tcp://localhost:1883'' client_id)))"

definition subscribeTopic :: "string \<Rightarrow> (error option \<times> bool) io" where
  "subscribeTopic topic = mapp (\<lambda>err. (None, err = None)) (call_unit (System (MqttSubscribe topic 0)))"

definition publishTopic :: "error option io" where
  "publishTopic = bindp (call_unit (System (MqttPublish ''device/data/1/in'' 0 ''Hello World''))) (\<lambda>err.
     bindp (tell (SleepMs 6000)) (\<lambda>_. Ret err))"

section \<open>The list of end nodes\<close>

definition nodes_of :: "edge_device \<Rightarrow> wireless_devices option list" where
  "nodes_of d = elems (es_WirelessDevices (ed_Status d))"

definition node_eui :: "wireless_devices option \<Rightarrow> string" where
  "node_eui d = (case d of Some node \<Rightarrow> wi_DevEui (wd_Info node) | None \<Rightarrow> [])"

primrec drop_first :: "string \<Rightarrow> wireless_devices option list \<Rightarrow> wireless_devices option list" where
  "drop_first eui [] = []"
| "drop_first eui (d # ds) = (if node_eui d = eui then ds else d # drop_first eui ds)"

lemma node_eui_simps [simp]: "node_eui (Some n) = wi_DevEui (wd_Info n)" "node_eui None = []"
  by (simp_all add: node_eui_def)

lemma set_status_nodes_simps [simp]:
  "nodes_of (set_status_nodes ns d) = elems ns" "ed_Spec (set_status_nodes ns d) = ed_Spec d"
  "ed_meta (set_status_nodes ns d) = ed_meta d"
  by (simp_all add: nodes_of_def set_status_nodes_def)

lemma find_node_index:
  "exec (find_node eui ds i) t (Returned idx) \<Longrightarrow> t = [] \<and> (case idx of
      None \<Rightarrow> drop_first eui ds = ds
    | Some j \<Rightarrow> i \<le> j \<and> take (j - i) ds @ drop (Suc (j - i)) ds = drop_first eui ds)"
proof (induction ds arbitrary: i)
  case (Cons d ds)
  then obtain node where d: "d = Some node" by (cases d) auto
  show ?case
  proof (cases "wi_DevEui (wd_Info node) = eui")
    case False
    with Cons.prems d have "exec (find_node eui ds (Suc i)) t (Returned idx)" by simp
    from Cons.IH [OF this] False d show ?thesis
      by (cases idx) (auto simp: Suc_diff_le take_Cons' Suc_diff_Suc split: nat.splits)
  qed (use Cons.prems d in auto)
qed simp

lemma find_node_returns: "None \<notin> set ds \<Longrightarrow> \<exists>idx. find_node eui ds i = Ret idx"
proof (induction ds arbitrary: i)
  case (Cons d ds)
  then show ?case by (cases d) auto
qed simp

lemma exec_put_node:
  assumes "exec (put_node eui node d) t (Returned d')"
  shows "t = [] \<and> d' = set_status_nodes (Some (drop_first eui (nodes_of d) @ [Some node])) d"
proof -
  from assms obtain idx where i: "exec (find_node eui (nodes_of d) 0) t (Returned idx)"
    and d': "d' = set_status_nodes (replace_node idx node (es_WirelessDevices (ed_Status d))) d"
    by (auto simp: put_node_def exec_bindp nodes_of_def)
  from find_node_index [OF i] d' show ?thesis
    by (cases idx) (auto simp: replace_node_def go_append_def nodes_of_def)
qed

lemma put_node_returns: "None \<notin> set (nodes_of d) \<Longrightarrow> \<exists>d'. put_node eui node d = Ret d'"
  using find_node_returns [of "nodes_of d" eui 0] by (auto simp: put_node_def nodes_of_def)

text \<open>The end nodes of a device as a map from identifiers; the list is in order when no identifier occurs twice.\<close>

definition nodes_ok :: "edge_device \<Rightarrow> bool" where
  "nodes_ok d \<longleftrightarrow> None \<notin> set (nodes_of d) \<and> distinct (map node_eui (nodes_of d))"

definition node_map :: "edge_device \<Rightarrow> string \<Rightarrow> wireless_devices option" where
  "node_map d = map_of (map (\<lambda>n. (node_eui n, the n)) (nodes_of d))"

lemma drop_first_set: "set (drop_first eui ds) \<subseteq> set ds"
  by (induction ds) auto

lemma drop_first_distinct:
  "distinct (map node_eui ds) \<Longrightarrow> distinct (map node_eui (drop_first eui ds)) \<and> eui \<notin> node_eui ` set (drop_first eui ds)"
  using drop_first_set by (induction ds) (auto simp: image_iff, blast+)

lemma drop_first_map:
  "distinct (map node_eui ds) \<Longrightarrow>
     map_of (map (\<lambda>n. (node_eui n, the n)) (drop_first eui ds)) = (map_of (map (\<lambda>n. (node_eui n, the n)) ds))(eui := None)"
proof (induction ds)
  case (Cons d ds)
  then show ?case
    by (cases "node_eui d = eui") (auto simp: fun_eq_iff map_of_eq_None_iff image_iff)
qed auto

section \<open>Properties\<close>

lemma put_node_map:
  assumes "nodes_ok d" and "d' = set_status_nodes (Some (drop_first eui (nodes_of d) @ [Some node])) d"
    and "wi_DevEui (wd_Info node) = eui"
  shows "nodes_ok d' \<and> node_map d' = (node_map d)(eui \<mapsto> node)"
proof -
  from assms have d: "None \<notin> set (nodes_of d)" "distinct (map node_eui (nodes_of d))" by (simp_all add: nodes_ok_def)
  then have "nodes_ok d'" using assms(2,3) drop_first_set drop_first_distinct [OF d(2), of eui] by (auto simp: nodes_ok_def)
  moreover have "node_map d' = (node_map d)(eui \<mapsto> node)"
    using assms(2,3) drop_first_map [OF d(2), of eui] by (auto simp: node_map_def map_of_append fun_eq_iff map_add_def split: option.split)
  ultimately show ?thesis by simp
qed

text \<open>
  Property C31: a LoRa message updates the register of end nodes. In a device whose end nodes are listed once each, the bridge
  makes one request, an update of the status, in which only the end nodes differ: they are again listed once
  each, the end node of the message is the one it describes, and all the others are as they were.
\<close>

theorem lora_updates_register:
  assumes "nodes_ok d"
  shows "exec (processDeviceLora msg d) t out \<longleftrightarrow> (\<exists>d' r. t = [(UpdateDeviceStatus d', r)] \<and> out = Returned () \<and>
    d' = set_status_nodes (Some (drop_first (br_DevEUI msg) (nodes_of d) @ [Some (lora_device msg)])) d \<and>
    nodes_ok d' \<and> node_map d' = (node_map d)(br_DevEUI msg \<mapsto> lora_device msg))"
proof -
  from assms obtain d' where d': "put_node (br_DevEUI msg) (lora_device msg) d = Ret d'"
    using put_node_returns unfolding nodes_ok_def by blast
  then have n: "d' = set_status_nodes (Some (drop_first (br_DevEUI msg) (nodes_of d) @ [Some (lora_device msg)])) d"
    using exec_put_node [of "br_DevEUI msg" "lora_device msg" d "[]" d'] by simp
  have "wi_DevEui (wd_Info (lora_device msg)) = br_DevEUI msg" by (simp add: lora_device_def)
  from put_node_map [OF assms n this] have "nodes_ok d' \<and> node_map d' = (node_map d)(br_DevEUI msg \<mapsto> lora_device msg)" .
  with d' n show ?thesis by (auto simp: processDeviceLora_def exec_mapp exec_call_unit)
qed

lemma exec_find_silent: "exec (find_node eui ds i) t out \<Longrightarrow> t = []"
  by (induction ds arbitrary: i) (auto split: option.splits if_splits)

lemma exec_bind_find:
  assumes "exec (bindp (find_node eui ds i) f) t out"
  obtains m where "t = []" | y where "exec (f y) t out"
  using assms unfolding exec_bindp by (fastforce dest: exec_find_silent)

lemma exec_put_silent: "exec (put_node eui node d) t out \<Longrightarrow> t = []"
  by (auto simp: put_node_def exec_bindp dest: exec_find_silent)

text \<open>The device as it is handed to \<open>Update\<close>: the specification is the one that was read.\<close>

definition wifi_update :: "edge_device \<Rightarrow> edge_device \<Rightarrow> bool" where
  "wifi_update d d1 \<longleftrightarrow> d1 = set_status_nodes (es_WirelessDevices (ed_Status d1)) d"

text \<open>The writes of a WiFi message: the device, and when that succeeds its status.\<close>

lemma exec_patch_device:
  "exec (bindp (patch_object (UpdateDevice d1) as_device d1) f) t out \<longleftrightarrow> (\<exists>r t'. t = (UpdateDevice d1, r) # t' \<and>
     ((\<exists>e. object_result as_device r = Inl e \<and> exec (f (Some e, d1)) t' out) \<or>
      (\<exists>d2. object_result as_device r = Inr d2 \<and> exec (f (None, d2)) t' out)))"
proof -
  have "exec (f (case res of Inl e \<Rightarrow> (Some e, d1) | Inr a \<Rightarrow> (None, a))) t' out \<longleftrightarrow>
      (\<exists>e. res = Inl e \<and> exec (f (Some e, d1)) t' out) \<or> (\<exists>d2. res = Inr d2 \<and> exec (f (None, d2)) t' out)"
    for res :: "error + edge_device" and t' by (cases res) auto
  moreover have "exec (bindp (patch_object (UpdateDevice d1) as_device d1) f) t out \<longleftrightarrow> (\<exists>r t'. t = (UpdateDevice d1, r) # t' \<and>
      exec (f (case object_result as_device r of Inl e \<Rightarrow> (Some e, d1) | Inr a \<Rightarrow> (None, a))) t' out)"
    by (auto simp: patch_object_def call_object_def object_result_def mapp_def exec_Call)
  ultimately show ?thesis by simp
qed

text \<open>What a message can do to the world: write an object of the cluster, or a point to the time series database.\<close>

fun bridge_effect :: "request \<Rightarrow> bool" where
  "bridge_effect (WritePoint _ _ _) = True"
| "bridge_effect q = is_write q"

definition effects :: "io_trace \<Rightarrow> request list" where
  "effects t = filter bridge_effect (map fst t)"

lemma effects_simps [simp]:
  "effects [] = []" "effects ((q, r) # t) = (if bridge_effect q then q # effects t else effects t)"
  "effects (t @ t') = effects t @ effects t'"
  by (simp_all add: effects_def)

lemma effects_quiet: "issues (\<lambda>q. \<not> bridge_effect q) p \<Longrightarrow> exec p t out \<Longrightarrow> effects t = []"
  by (auto simp: issues_exec filter_empty_conv effects_def)

text \<open>The point of a message: its data as fields, its tags as tags, each visited in some order.\<close>

definition message_point :: "bridge_codec \<Rightarrow> bridge_message \<Rightarrow> request \<Rightarrow> bool" where
  "message_point c msg q \<longleftrightarrow> (\<exists>ks ts time. distinct ks \<and> set ks = mkeys (br_Data msg) \<and> distinct ts \<and> set ts = mkeys (br_Tags msg) \<and>
     q = WritePoint (point_fields c (br_Data msg) ks []) (point_tags c (br_Tags msg) ts []) time)"

lemma exec_write_point:
  assumes "exec (write_point c msg) t out"
  shows "\<exists>q. message_point c msg q \<and> effects t = [q]"
proof -
  let ?point = "\<lambda>ks ts time. WritePoint (point_fields c (br_Data msg) ks []) (point_tags c (br_Tags msg) ts []) time"
  from assms obtain time ks ts r0 r1 r2 where
    "distinct ks" "set ks = mkeys (br_Data msg)" "distinct ts" "set ts = mkeys (br_Tags msg)"
    and t: "t = [(Now, r0), (?point ks ts time, r1), (System FlushPoints, r2)]"
    unfolding write_point_def go_now_def tell_def
    by (auto simp: exec_Call exec_bindp [of "range_keys _"] exec_range_keys)
  then have "message_point c msg (?point ks ts time)" unfolding message_point_def by blast
  with t show ?thesis by auto
qed

definition wifi_writes :: "bridge_codec \<Rightarrow> bridge_message \<Rightarrow> edge_device \<Rightarrow> io_trace \<Rightarrow> bool" where
  "wifi_writes c msg d t \<longleftrightarrow> effects t = [] \<or>
     (\<exists>d1 r. wifi_update d d1 \<and> (UpdateDevice d1, r) \<in> set t \<and> (effects t = [UpdateDevice d1] \<or>
       (\<exists>d2 node d3 rest. object_result as_device r = Inr d2 \<and> wi_DevEui (wd_Info node) = [] \<and>
          d3 = set_status_nodes (Some (drop_first (br_DevEUI msg) (nodes_of d2) @ [Some node])) d2 \<and>
          effects t = UpdateDevice d1 # UpdateDeviceStatus d3 # rest \<and>
          (rest = [] \<or> (\<exists>r3 q. (UpdateDeviceStatus d3, r3) \<in> set t \<and> unit_result r3 = None \<and> message_point c msg q \<and> rest = [q])))))"

text \<open>After the device is stored: its status, and after that the point.\<close>

definition status_and_point :: "bridge_codec \<Rightarrow> bridge_message \<Rightarrow> edge_device \<Rightarrow> io_trace \<Rightarrow> request list \<Rightarrow> bool" where
  "status_and_point c msg d3 t es \<longleftrightarrow> (\<exists>rest. es = UpdateDeviceStatus d3 # rest \<and>
     (rest = [] \<or> (\<exists>r3 q. (UpdateDeviceStatus d3, r3) \<in> set t \<and> unit_result r3 = None \<and> message_point c msg q \<and> rest = [q])))"

lemma status_and_point_mono: "status_and_point c msg d3 t es \<Longrightarrow> set t \<subseteq> set t' \<Longrightarrow> status_and_point c msg d3 t' es"
  unfolding status_and_point_def by blast

lemma wifi_writes_alt:
  "wifi_writes c msg d t \<longleftrightarrow> effects t = [] \<or>
     (\<exists>d1 r. wifi_update d d1 \<and> (UpdateDevice d1, r) \<in> set t \<and> (effects t = [UpdateDevice d1] \<or>
       (\<exists>d2 node es. object_result as_device r = Inr d2 \<and> wi_DevEui (wd_Info node) = [] \<and> effects t = UpdateDevice d1 # es \<and>
          status_and_point c msg (set_status_nodes (Some (drop_first (br_DevEUI msg) (nodes_of d2) @ [Some node])) d2) t es)))"
  unfolding wifi_writes_def status_and_point_def by (intro iffI; elim disjE exE conjE; simp; blast)

lemma wifi_tail:
  assumes "exec (bindp (put_node eui node d2) (\<lambda>d3. bindp (call_unit (UpdateDeviceStatus d3)) (\<lambda>err.
      if err \<noteq> None then Ret () else write_point c msg))) t out"
  shows "effects t = [] \<or>
    status_and_point c msg (set_status_nodes (Some (drop_first eui (nodes_of d2) @ [Some node])) d2) t (effects t)"
proof -
  from assms consider d3 u v where "exec (put_node eui node d2) u (Returned d3)" "t = u @ v"
      "exec (bindp (call_unit (UpdateDeviceStatus d3)) (\<lambda>err. if err \<noteq> None then Ret () else write_point c msg)) v out"
    | m where "exec (put_node eui node d2) t (Panicked m)"
    unfolding exec_bindp [of "put_node eui node d2"] by blast
  then show ?thesis
  proof cases
    case 1
    then have u: "u = []" "d3 = set_status_nodes (Some (drop_first eui (nodes_of d2) @ [Some node])) d2"
      using exec_put_node by blast+
    from 1(3) obtain r v' where v: "v = (UpdateDeviceStatus d3, r) # v'"
      "exec (if unit_result r \<noteq> None then Ret () else write_point c msg) v' out"
      by (auto simp: exec_bindp exec_call_unit)
    have "status_and_point c msg d3 t (effects t)"
    proof (cases "unit_result r")
      case (Some e)
      with v 1(2) u(1) show ?thesis by (simp add: status_and_point_def)
    next
      case None
      with v(2) obtain q where "message_point c msg q" "effects v' = [q]" using exec_write_point by fastforce
      with None v(1) 1(2) u(1) show ?thesis unfolding status_and_point_def by auto
    qed
    with u show ?thesis by simp
  next
    case 2
    then show ?thesis using exec_put_silent by fastforce
  qed
qed

lemma exec_store_wifi:
  assumes "exec (store_wifi c msg node d1) t out"
  obtains r where "(UpdateDevice d1, r) \<in> set t" "effects t = [UpdateDevice d1]"
  | r d2 es where "(UpdateDevice d1, r) \<in> set t" "object_result as_device r = Inr d2" "effects t = UpdateDevice d1 # es"
      "status_and_point c msg (set_status_nodes (Some (drop_first (br_DevEUI msg) (nodes_of d2) @ [Some node])) d2) t es"
proof -
  let ?tail = "\<lambda>d2. bindp (put_node (br_DevEUI msg) node d2) (\<lambda>d3. bindp (call_unit (UpdateDeviceStatus d3)) (\<lambda>err.
        if err \<noteq> None then Ret () else write_point c msg))"
  from assms obtain r t' where t: "t = (UpdateDevice d1, r) # t'"
    and k: "t' = [] \<or> (\<exists>d2. object_result as_device r = Inr d2 \<and> exec (?tail d2) t' out)"
    unfolding store_wifi_def exec_patch_device by auto
  from k show thesis
  proof
    assume "t' = []"
    with t that(1) [of r] show thesis by simp
  next
    assume "\<exists>d2. object_result as_device r = Inr d2 \<and> exec (?tail d2) t' out"
    then obtain d2 where r: "object_result as_device r = Inr d2" and "exec (?tail d2) t' out" by blast
    from wifi_tail [OF this(2)] show thesis
    proof
      assume "effects t' = []"
      with t that(1) [of r] show thesis by simp
    next
      let ?d3 = "set_status_nodes (Some (drop_first (br_DevEUI msg) (nodes_of d2) @ [Some node])) d2"
      assume "status_and_point c msg ?d3 t' (effects t')"
      then have "status_and_point c msg ?d3 t (effects t')" by (rule status_and_point_mono) (auto simp: t)
      with t r that(2) [of r d2 "effects t'"] show thesis by simp
    qed
  qed
qed

lemma exec_wifi:
  assumes "exec (processDeviceWiFi c msg d) t out"
  shows "wifi_writes c msg d t"
proof -
  let ?d1 = "\<lambda>node y. if y \<noteq> None then d else set_status_nodes (go_append (ds_WirelessDevices (ed_Spec d)) [Some node]) d"
  from assms obtain ks ts where
    "exec (bindp (find_node (br_DevEUI msg) (elems (ds_WirelessDevices (ed_Spec d))) 0) (\<lambda>y.
      store_wifi c msg (wifi_device msg ks ts) (?d1 (wifi_device msg ks ts) y))) t out"
    unfolding processDeviceWiFi_def Let_def by (auto simp: exec_bindp [of "range_keys _"] exec_range_keys)
  then show ?thesis
  proof (rule exec_bind_find)
    fix y :: "nat option"
    let ?node = "wifi_device msg ks ts"
    have eui: "wi_DevEui (wd_Info ?node) = []" by (simp add: wifi_device_def zero_wireless_info_def)
    have upd: "wifi_update d (?d1 ?node y)" by (simp add: wifi_update_def set_status_nodes_def)
    assume "exec (store_wifi c msg ?node (?d1 ?node y)) t out"
    then show ?thesis
    proof (rule exec_store_wifi)
      fix r assume "(UpdateDevice (?d1 ?node y), r) \<in> set t" "effects t = [UpdateDevice (?d1 ?node y)]"
      with upd show ?thesis unfolding wifi_writes_alt by metis
    next
      fix r d2 es assume w: "(UpdateDevice (?d1 ?node y), r) \<in> set t" "object_result as_device r = Inr d2"
        "effects t = UpdateDevice (?d1 ?node y) # es"
        "status_and_point c msg (set_status_nodes (Some (drop_first (br_DevEUI msg) (nodes_of d2) @ [Some ?node])) d2) t es"
      show ?thesis unfolding wifi_writes_alt
        by (rule disjI2, rule exI [of _ "?d1 ?node y"], rule exI [of _ r], intro conjI upd w(1), rule disjI2,
            rule exI [of _ d2], rule exI [of _ ?node], rule exI [of _ es]) (intro conjI w(2-4) eui)
    qed
  qed (simp add: wifi_writes_alt)
qed

text \<open>
  WiFi end nodes pile up. The entry the bridge makes for a WiFi message has no identifier, while the entry it
  replaces is looked up by the identifier of the message. So whenever the message has one, the status that is
  written has one entry without identifier more than the device that the server had just returned, and the object
  written before it carries the specification as it was read.
\<close>

theorem wifi_nodes_pile_up:
  assumes "exec (processDeviceWiFi c msg d) t out" and "br_DevEUI msg \<noteq> []" and "(UpdateDeviceStatus d3, r) \<in> set t"
  shows "\<exists>d1 r1 d2. (UpdateDevice d1, r1) \<in> set t \<and> object_result as_device r1 = Inr d2 \<and> ed_Spec d1 = ed_Spec d \<and>
    length (filter (\<lambda>n. node_eui n = []) (nodes_of d3)) = Suc (length (filter (\<lambda>n. node_eui n = []) (nodes_of d2)))"
proof -
  have keep: "filter (\<lambda>n. node_eui n = []) (drop_first (br_DevEUI msg) ds) = filter (\<lambda>n. node_eui n = []) ds" for ds
    using assms(2) by (induction ds) auto
  have mem: "UpdateDeviceStatus d3 \<in> set (effects t)" using assms(3) by (force simp: effects_def)
  have none: "effects t \<noteq> []" "effects t \<noteq> [UpdateDevice d1]" for d1
  proof -
    show "effects t \<noteq> []" using mem by (metis empty_iff empty_set)
    show "effects t \<noteq> [UpdateDevice d1]"
    proof
      assume "effects t = [UpdateDevice d1]"
      from mem [unfolded this] show False by simp
    qed
  qed
  from exec_wifi [OF assms(1)] none obtain d1 r1 d2 node es where w: "wifi_update d d1" "(UpdateDevice d1, r1) \<in> set t"
    "object_result as_device r1 = Inr d2" "wi_DevEui (wd_Info node) = []"
    and ws: "effects t = UpdateDevice d1 # es"
      "status_and_point c msg (set_status_nodes (Some (drop_first (br_DevEUI msg) (nodes_of d2) @ [Some node])) d2) t es"
    unfolding wifi_writes_alt by blast
  from mem [unfolded ws(1)] ws(2) have d3: "d3 = set_status_nodes (Some (drop_first (br_DevEUI msg) (nodes_of d2) @ [Some node])) d2"
    by (auto simp: status_and_point_def message_point_def)
  have "ed_Spec d1 = ed_Spec d" using w(1) unfolding wifi_update_def by (metis set_status_nodes_simps(2))
  with w d3 show ?thesis by (intro exI [of _ d1] exI [of _ r1] exI [of _ d2]) (simp add: keep)
qed

section \<open>A whole message\<close>

lemma exec_deferred:
  "exec (deferred q p) t out \<Longrightarrow> \<exists>t' u. exec p t' out \<and> t = t' @ u \<and> fst ` set u \<subseteq> {q}"
proof (induction p arbitrary: t)
  case (Call q' k)
  then obtain r t1 where t: "t = (q', r) # t1" "exec (deferred q (k r)) t1 out" by (auto simp: exec_Call)
  from Call.IH [OF _ this(2)] obtain t' u where "exec (k r) t' out" "t1 = t' @ u" "fst ` set u \<subseteq> {q}" by auto
  with t show ?case by (intro exI [of _ "(q', r) # t'"] exI [of _ u]) (auto simp: exec_Call)
next
  case (Pick k)
  then obtain i where i: "exec (deferred q (k i)) t out" by (auto simp: exec_Pick)
  from Pick.IH [OF _ this] show ?case by (auto simp: exec_Pick)
qed (auto simp: exec_Call split: if_splits)

lemma exec_deferredI:
  "exec p t (Returned a) \<Longrightarrow> exec (deferred q p) (t @ [(q, r)]) (Returned a)"
proof (induction p arbitrary: t)
  case (Pick k)
  then obtain i where "exec (k i) t (Returned a)" by (auto simp: exec_Pick)
  with Pick.IH have "exec (deferred q (k i)) (t @ [(q, r)]) (Returned a)" by blast
  then show ?case by (auto simp: exec_Pick)
qed (auto simp: exec_Call)

text \<open>What a message may write: of one device, read under the name in the message.\<close>

definition lora_writes :: "bridge_message \<Rightarrow> edge_device \<Rightarrow> io_trace \<Rightarrow> bool" where
  "lora_writes msg d t \<longleftrightarrow> effects t = [] \<or> (\<exists>node nodes. effects t =
     [UpdateDeviceStatus (set_status_nodes (Some (nodes @ [Some node])) d)] \<and> set nodes \<subseteq> set (nodes_of d) \<and>
     wi_DevEui (wd_Info node) = br_DevEUI msg)"

definition bridge_writes :: "bridge_codec \<Rightarrow> bridge_message \<Rightarrow> io_trace \<Rightarrow> bool" where
  "bridge_writes c msg t \<longleftrightarrow> effects t = [] \<or>
     (\<exists>ns r d. (GetDevice (br_FlottaDeviceID msg) ns, r) \<in> set t \<and> object_result as_device r = Inr d \<and>
        (if br_DeviceType msg = ''Lora'' then lora_writes msg d t else wifi_writes c msg d t))"

lemma bridge_writes_none: "effects t = [] \<Longrightarrow> bridge_writes c msg t"
  by (simp add: bridge_writes_def)

lemma wifi_writes_extend:
  assumes "wifi_writes c msg d t" "effects u = []" "effects v = []"
  shows "wifi_writes c msg d (u @ t @ v)"
proof -
  have eq: "effects (u @ t @ v) = effects t" using assms(2,3) by simp
  have sub: "set t \<subseteq> set (u @ t @ v)" by auto
  from assms(1) consider "effects t = []"
    | d1 r where "wifi_update d d1" "(UpdateDevice d1, r) \<in> set t" "effects t = [UpdateDevice d1]"
    | d1 r d2 node es where "wifi_update d d1" "(UpdateDevice d1, r) \<in> set t" "object_result as_device r = Inr d2"
       "wi_DevEui (wd_Info node) = []" "effects t = UpdateDevice d1 # es"
       "status_and_point c msg (set_status_nodes (Some (drop_first (br_DevEUI msg) (nodes_of d2) @ [Some node])) d2) t es"
    unfolding wifi_writes_alt by blast
  then show ?thesis
  proof cases
    case 1
    then show ?thesis unfolding wifi_writes_alt eq by (rule disjI1)
  next
    case 2
    then have "(UpdateDevice d1, r) \<in> set (u @ t @ v)" by simp
    with 2 show ?thesis unfolding wifi_writes_alt eq by blast
  next
    case 3
    then have "(UpdateDevice d1, r) \<in> set (u @ t @ v)" by simp
    with 3(1,3-5) status_and_point_mono [OF 3(6) sub] show ?thesis unfolding wifi_writes_alt eq by blast
  qed
qed

lemma bridge_writes_extend:
  assumes "bridge_writes c msg t" "effects u = []" "effects v = []"
  shows "bridge_writes c msg (u @ t @ v)"
proof -
  have eq: "effects (u @ t @ v) = effects t" using assms(2,3) by simp
  from assms(1) consider "effects t = []"
    | ns r d where "(GetDevice (br_FlottaDeviceID msg) ns, r) \<in> set t" "object_result as_device r = Inr d"
       "if br_DeviceType msg = ''Lora'' then lora_writes msg d t else wifi_writes c msg d t"
    unfolding bridge_writes_def by blast
  then show ?thesis
  proof cases
    case 1
    then show ?thesis unfolding bridge_writes_def eq by (rule disjI1)
  next
    case 2
    from 2(1) have "(GetDevice (br_FlottaDeviceID msg) ns, r) \<in> set (u @ t @ v)" by simp
    moreover have "if br_DeviceType msg = ''Lora'' then lora_writes msg d (u @ t @ v) else wifi_writes c msg d (u @ t @ v)"
      using 2(3) wifi_writes_extend [OF _ assms(2,3)] unfolding lora_writes_def eq by (simp split: if_splits)
    ultimately show ?thesis unfolding bridge_writes_def using 2(2) by blast
  qed
qed

lemma exec_lora:
  assumes "exec (processDeviceLora msg d) t out"
  shows "lora_writes msg d t"
proof -
  have eui: "wi_DevEui (wd_Info (lora_device msg)) = br_DevEUI msg" by (simp add: lora_device_def)
  from assms consider r where
      "t = [(UpdateDeviceStatus (set_status_nodes (Some (drop_first (br_DevEUI msg) (nodes_of d) @ [Some (lora_device msg)])) d), r)]"
    | "t = []"
    unfolding processDeviceLora_def exec_bindp [of "put_node _ _ _"] exec_mapp exec_call_unit
    by (auto dest: exec_put_node exec_put_silent)
  then show ?thesis
  proof cases
    case 1
    with eui drop_first_set [of "br_DevEUI msg" "nodes_of d"] show ?thesis unfolding lora_writes_def
      by (intro disjI2 exI [of _ "lora_device msg"] exI [of _ "drop_first (br_DevEUI msg) (nodes_of d)"]) simp
  qed (simp add: lora_writes_def)
qed

lemma find_device_writes: "exec (find_device c msg b nss) t out \<Longrightarrow> bridge_writes c msg t"
proof (induction nss arbitrary: t)
  case (Cons ns nss)
  show ?case
  proof (cases b)
    case False
    let ?k = "\<lambda>(d, err). case err of Some _ \<Rightarrow> find_device c msg b nss
      | None \<Rightarrow> if br_DeviceType msg = ''Lora'' then processDeviceLora msg d else processDeviceWiFi c msg d"
    from Cons.prems have "exec (bindp (read_object zero_edge_device (GetDevice (br_FlottaDeviceID msg) ns) as_device) ?k) t out"
      unfolding find_device.simps if_not_P [OF False] EdgeDevice_Read_def .
    then obtain r t' where t: "t = [(GetDevice (br_FlottaDeviceID msg) ns, r)] @ t' @ []"
      and k: "(\<exists>e. object_result as_device r = Inl e \<and> exec (?k (zero_edge_device, Some e)) t' out) \<or>
        (\<exists>d. object_result as_device r = Inr d \<and> exec (?k (d, None)) t' out)"
      unfolding exec_bind_read_cases by auto
    from k consider "exec (find_device c msg b nss) t' out"
      | d where "object_result as_device r = Inr d"
          "exec (if br_DeviceType msg = ''Lora'' then processDeviceLora msg d else processDeviceWiFi c msg d) t' out"
      by auto
    then show ?thesis
    proof cases
      case 1
      show ?thesis unfolding t by (rule bridge_writes_extend [OF Cons.IH [OF 1]]) simp_all
    next
      case 2
      then have w: "if br_DeviceType msg = ''Lora'' then lora_writes msg d t' else wifi_writes c msg d t'"
        using exec_lora exec_wifi by (auto split: if_splits)
      from wifi_writes_extend [of c msg d t' "[(GetDevice (br_FlottaDeviceID msg) ns, r)]" "[]"] w
      have "if br_DeviceType msg = ''Lora'' then lora_writes msg d t else wifi_writes c msg d t"
        unfolding t lora_writes_def by (simp split: if_splits)
      with 2(1) t show ?thesis unfolding bridge_writes_def by (intro disjI2 exI [of _ ns] exI [of _ r] exI [of _ d]) simp
    qed
  qed (use Cons.prems in \<open>simp add: bridge_writes_none\<close>)
qed (simp add: bridge_writes_none)

lemma quiet_bind:
  assumes "exec (bindp p f) t out" and "issues (\<lambda>q. \<not> bridge_effect q) p"
    and "\<And>a t. exec (f a) t out \<Longrightarrow> bridge_writes c msg t"
  shows "bridge_writes c msg t"
proof -
  from assms(1) consider t1 t2 a where "exec p t1 (Returned a)" "exec (f a) t2 out" "t = t1 @ t2 @ []" | m where "exec p t (Panicked m)"
    unfolding exec_bindp by auto
  then show ?thesis
  proof cases
    case 1
    from bridge_writes_extend [OF assms(3) [OF 1(2)] effects_quiet [OF assms(2) 1(1)], of "[]"] 1(3) show ?thesis by simp
  next
    case 2
    from bridge_writes_none [OF effects_quiet [OF assms(2) 2]] show ?thesis .
  qed
qed

lemma quiet_if:
  assumes "exec (if b then p else q) t out" "exec p t out \<Longrightarrow> bridge_writes c msg t" "exec q t out \<Longrightarrow> bridge_writes c msg t"
  shows "bridge_writes c msg t"
  using assms by (auto split: if_splits)

lemma issues_getClient: "issues (\<lambda>q. \<not> bridge_effect q) getClient"
  by (auto simp: getClient_def intro!: issues_bindpI split: option.splits)

lemma quiet_deferred:
  assumes "exec (deferred q p) t out" "\<not> bridge_effect q" "\<And>t. exec p t out \<Longrightarrow> bridge_writes c msg t"
  shows "bridge_writes c msg t"
proof -
  from exec_deferred [OF assms(1)] obtain t' u where t: "exec p t' out" "t = [] @ t' @ u" "fst ` set u \<subseteq> {q}" by auto
  then have "effects u = []" using assms(2) by (auto simp: effects_def filter_empty_conv)
  from bridge_writes_extend [OF assms(3) [OF t(1)] _ this, of "[]"] show ?thesis unfolding t(2) by simp
qed

text \<open>
  Property C30: what a message from the broker may change. \<open>effects\<close> are the requests of a run that write an object of the cluster or a
  point to the time series database. Whatever the payload, the answers and the outcome (the process may also end or panic), a payload
  that cannot be decoded leads to no request at all, and a message has at most the following effects, all for one device that
  was found under its name in some namespace. A LoRa message writes the status of that device, once, where it adds one end node with the
  identifier of the message and invents no other. Any other message writes the device, with the specification as it was read; if
  the server accepts that, the status of what the server returned; and if the server accepts that too, one point
  with the data and the tags of the message.
\<close>

theorem bridge_message_writes:
  assumes "exec (publish_handler c config topic payload) t out"
  shows "case bc_unmarshal c (TrimSpace payload) of Inl e \<Rightarrow> t = [] | Inr msg \<Rightarrow> bridge_writes c msg t"
proof (cases "topic = ''device/up''")
  case False
  with assms show ?thesis by (simp add: publish_handler_def bridge_writes_none split: sum.split)
next
  case True
  with assms have p: "exec (processMqttData c config payload) t out" by (simp add: publish_handler_def)
  show ?thesis
  proof (cases "bc_unmarshal c (TrimSpace payload)")
    case (Inl e)
    with p show ?thesis by (simp add: processMqttData_def)
  next
    case (Inr msg)
    let ?list = "\<lambda>b. bindp (call_object ListNamespaces as_names) (\<lambda>res. case res of Inl e \<Rightarrow> go_exit | Inr nss \<Rightarrow> find_device c msg b nss)"
    have dev: "bridge_writes c msg u" if "exec (?list b) u out" for b u
      using that
    proof (rule quiet_bind)
      fix res v assume "exec (case res of Inl e \<Rightarrow> go_exit | Inr nss \<Rightarrow> find_device c msg b nss) v out"
      then show "bridge_writes c msg v" by (cases res) (simp_all add: go_exit_def bridge_writes_none find_device_writes)
    qed simp
    have close: "bridge_writes c msg u"
      if "exec (bindp getClient (\<lambda>e. deferred (System CloseInflux) (?list (e \<noteq> None)))) u out" for u
      using that
    proof (rule quiet_bind [OF _ issues_getClient])
      fix e v assume "exec (deferred (System CloseInflux) (?list (e \<noteq> None))) v out"
      then show "bridge_writes c msg v" by (rule quiet_deferred) (use dev in simp_all)
    qed
    have set: "bridge_writes c msg u" if "exec (bindp (call_unit (System NewClientset)) (\<lambda>err. if err \<noteq> None then go_exit else
        bindp getClient (\<lambda>e. deferred (System CloseInflux) (?list (e \<noteq> None))))) u out" for u
      using that
    proof (rule quiet_bind)
      fix e :: "error option" and v
      assume "exec (if e \<noteq> None then go_exit else bindp getClient (\<lambda>e. deferred (System CloseInflux) (?list (e \<noteq> None)))) v out"
      then show "bridge_writes c msg v" by (rule quiet_if) (simp_all add: go_exit_def bridge_writes_none close)
    qed simp
    from p Inr have "exec (bindp (getRestConfig (ac_Kubeconfig config)) (\<lambda>err. if err \<noteq> None then Panic nil_dereference else
        bindp (call_unit (System NewClientset)) (\<lambda>err. if err \<noteq> None then go_exit else
        bindp getClient (\<lambda>e. deferred (System CloseInflux) (?list (e \<noteq> None)))))) t out"
      by (simp add: processMqttData_def)
    then have "bridge_writes c msg t"
    proof (rule quiet_bind)
      fix e :: "error option" and v
      assume "exec (if e \<noteq> None then Panic nil_dereference else bindp (call_unit (System NewClientset)) (\<lambda>err.
        if err \<noteq> None then go_exit else bindp getClient (\<lambda>e. deferred (System CloseInflux) (?list (e \<noteq> None))))) v out"
      then show "bridge_writes c msg v" by (rule quiet_if) (simp_all add: bridge_writes_none set)
    qed (simp add: getRestConfig_def)
    with Inr show ?thesis by simp
  qed
qed

section \<open>Witnesses\<close>

definition demo_message :: "string \<Rightarrow> string \<Rightarrow> bridge_message" where
  "demo_message kind eui = \<lparr>br_FlottaDeviceID = ''dev'', br_EventType = ''up'', br_TenantID = [], br_TenantName = [],
     br_ApplicationID = [], br_ApplicationName = [], br_DeviceProfileID = [], br_DeviceProfileName = [], br_DeviceName = [],
     br_DevEUI = eui, br_DevAddr = [], br_Data = None, br_Confirmed = False, br_Latitude = [], br_Longitude = [],
     br_Bandwidth = 125000, br_Frequency = 0, br_SpreadingFactor = 7, br_CodeRate = [], br_DeviceType = kind, br_Time = [],
     br_RegionName = [], br_LocationSource = [], br_BatteryLevel = [], br_Tags = None, br_Measurement = []\<rparr>"

definition demo_gateway :: edge_device where
  "demo_gateway = set_status_nodes (Some [Some (lora_device (demo_message ''Lora'' ''a'')), Some (lora_device (demo_message ''Lora'' ''b''))])
     zero_edge_device"

theorem lora_updates_register_witness:
  "nodes_ok demo_gateway \<and> exec (processDeviceLora (demo_message ''Lora'' ''a'') demo_gateway)
     [(UpdateDeviceStatus (set_status_nodes (Some [Some (lora_device (demo_message ''Lora'' ''b'')),
        Some (lora_device (demo_message ''Lora'' ''a''))]) demo_gateway), ROk)] (Returned ())"
proof -
  have ok: "nodes_ok demo_gateway"
    by (simp add: nodes_ok_def demo_gateway_def lora_device_def demo_message_def)
  have "drop_first ''a'' (nodes_of demo_gateway) = [Some (lora_device (demo_message ''Lora'' ''b''))]"
    by (simp add: demo_gateway_def lora_device_def demo_message_def)
  then have eq: "set_status_nodes (Some (drop_first (br_DevEUI (demo_message ''Lora'' ''a'')) (nodes_of demo_gateway) @
      [Some (lora_device (demo_message ''Lora'' ''a''))])) demo_gateway =
    set_status_nodes (Some [Some (lora_device (demo_message ''Lora'' ''b'')), Some (lora_device (demo_message ''Lora'' ''a''))]) demo_gateway"
    by (simp add: demo_message_def)
  have eui: "wi_DevEui (wd_Info (lora_device m)) = br_DevEUI m" for m by (simp add: lora_device_def)
  from put_node_map [OF ok refl eui] ok show ?thesis unfolding lora_updates_register [OF ok] eq [symmetric]
    by (intro conjI exI) (rule refl | assumption | simp)+
qed

definition demo_wifi :: bridge_message where
  "demo_wifi = demo_message ''WiFi'' ''a''"

definition demo_node :: wireless_devices where
  "demo_node = wifi_device demo_wifi [] []"

definition demo_listed :: edge_device where
  "demo_listed = set_status_nodes (Some [Some demo_node]) zero_edge_device"

definition demo_wifi_trace :: io_trace where
  "demo_wifi_trace = [(UpdateDevice demo_listed, RDevice demo_listed),
     (UpdateDeviceStatus (set_status_nodes (Some [Some demo_node, Some demo_node]) demo_listed), RErr (PlainError ''conflict''))]"

lemma demo_node_eui: "wi_DevEui (wd_Info demo_node) = []"
  by (simp add: demo_node_def wifi_device_def zero_wireless_info_def)

lemma demo_put: "put_node ''a'' demo_node demo_listed = Ret (set_status_nodes (Some [Some demo_node, Some demo_node]) demo_listed)"
  by (simp add: put_node_def demo_listed_def set_status_nodes_def replace_node_def go_append_def demo_node_eui)

lemma demo_wifi_run: "exec (processDeviceWiFi c demo_wifi zero_edge_device) demo_wifi_trace (Returned ())"
proof -
  have keys: "br_Data demo_wifi = None" "br_Tags demo_wifi = None" "br_DevEUI demo_wifi = ''a''"
    by (simp_all add: demo_wifi_def demo_message_def)
  have spec: "ds_WirelessDevices (ed_Spec zero_edge_device) = None" by (simp add: zero_edge_device_def zero_edge_device_spec_def)
  have "exec (store_wifi c demo_wifi demo_node demo_listed) demo_wifi_trace (Returned ())"
    by (simp add: store_wifi_def patch_object_def call_object_def call_unit_def mapp_def exec_Call keys demo_put
        demo_wifi_trace_def as_device_def)
  moreover have "set_status_nodes (go_append None [Some demo_node]) zero_edge_device = demo_listed"
    by (simp add: demo_listed_def go_append_def)
  ultimately have "exec (let node = wifi_device demo_wifi [] [] in
      bindp (find_node (br_DevEUI demo_wifi) (elems (ds_WirelessDevices (ed_Spec zero_edge_device))) 0) (\<lambda>y.
      store_wifi c demo_wifi node (if y \<noteq> None then zero_edge_device
       else set_status_nodes (go_append (ds_WirelessDevices (ed_Spec zero_edge_device)) [Some node]) zero_edge_device)))
     demo_wifi_trace (Returned ())"
    by (simp add: spec demo_node_def [symmetric])
  then show ?thesis unfolding processDeviceWiFi_def keys
    by (auto simp: exec_bindp [of "range_keys _"] exec_range_keys)
qed

theorem wifi_nodes_pile_up_witness:
  "exec (processDeviceWiFi (\<lparr>bc_unmarshal = \<lambda>_. Inr demo_wifi, bc_sprint = \<lambda>_. []\<rparr>) demo_wifi zero_edge_device) demo_wifi_trace (Returned ()) \<and>
   (\<exists>d1 r1 d2. (UpdateDevice d1, r1) \<in> set demo_wifi_trace \<and> object_result as_device r1 = Inr d2 \<and> ed_Spec d1 = ed_Spec zero_edge_device \<and>
     2 = Suc (length (filter (\<lambda>n. node_eui n = []) (nodes_of d2))))"
proof -
  let ?c = "\<lparr>bc_unmarshal = \<lambda>_. Inr demo_wifi, bc_sprint = \<lambda>_. []\<rparr>"
  let ?d3 = "set_status_nodes (Some [Some demo_node, Some demo_node]) demo_listed"
  have mem: "(UpdateDeviceStatus ?d3, RErr (PlainError ''conflict'')) \<in> set demo_wifi_trace" by (simp add: demo_wifi_trace_def)
  have "br_DevEUI demo_wifi \<noteq> []" by (simp add: demo_wifi_def demo_message_def)
  moreover have "length (filter (\<lambda>n. node_eui n = []) (nodes_of ?d3)) = 2" by (simp add: demo_node_eui)
  ultimately show ?thesis using wifi_nodes_pile_up [OF demo_wifi_run [of ?c] _ mem] demo_wifi_run [of ?c] by simp
qed

definition bridge_config :: api_config where
  "bridge_config = \<lparr>ac_HttpsPort = 8043, ac_Domain = ''project-flotta.io'', ac_TLSLocalhostEnabled = False, ac_MetricsAddr = '':8080'',
     ac_LogLevel = ''info'', ac_ClientCertExpirationTime = 30, ac_Kubeconfig = [], ac_Backend = ''crd'', ac_RemoteBackendURL = [],
     ac_RemoteBackendTimeout = 5, ac_MqttBroker = [], ac_InfluxDbHost = [], ac_InfluxDbToken = []\<rparr>"

text \<open>A WiFi message: the device, its status and the point are written.\<close>

definition demo_point_trace :: io_trace where
  "demo_point_trace = [(UpdateDevice demo_listed, RDevice demo_listed),
     (UpdateDeviceStatus (set_status_nodes (Some [Some demo_node, Some demo_node]) demo_listed), ROk),
     (Now, RTime 7), (WritePoint [] [] 7, ROk), (System FlushPoints, ROk)]"

lemma demo_point_run: "exec (processDeviceWiFi c demo_wifi zero_edge_device) demo_point_trace (Returned ())"
proof -
  have keys: "br_Data demo_wifi = None" "br_Tags demo_wifi = None" "br_DevEUI demo_wifi = ''a''"
    by (simp_all add: demo_wifi_def demo_message_def)
  have spec: "ds_WirelessDevices (ed_Spec zero_edge_device) = None" by (simp add: zero_edge_device_def zero_edge_device_spec_def)
  have none: "range_keys None = (Ret [] :: (request, response, string list) prog)"
    by (simp add: range_keys_def sorted_list_of_fset_def)
  have "exec (write_point c demo_wifi) [(Now, RTime 7), (WritePoint [] [] 7, ROk), (System FlushPoints, ROk)] (Returned ())"
    by (simp add: write_point_def keys none go_now_def tell_def exec_Call)
  then have "exec (store_wifi c demo_wifi demo_node demo_listed) demo_point_trace (Returned ())"
    by (simp add: store_wifi_def patch_object_def call_object_def call_unit_def mapp_def exec_Call keys demo_put
        demo_point_trace_def as_device_def)
  moreover have "set_status_nodes (go_append None [Some demo_node]) zero_edge_device = demo_listed"
    by (simp add: demo_listed_def go_append_def)
  ultimately show ?thesis
    by (simp add: processDeviceWiFi_def keys none spec demo_node_def [symmetric])
qed

definition demo_wifi_codec :: bridge_codec where
  "demo_wifi_codec = \<lparr>bc_unmarshal = \<lambda>_. Inr demo_wifi, bc_sprint = \<lambda>_. []\<rparr>"

theorem bridge_message_writes_witness:
  "\<exists>t. exec (publish_handler demo_wifi_codec bridge_config ''device/up'' []) t (Returned ()) \<and>
     bridge_writes demo_wifi_codec demo_wifi t \<and> WritePoint [] [] 7 \<in> set (effects t)"
proof -
  let ?calls = "map (\<lambda>c. (System c, ROk)) [GetRestConfig [], NewClientset, NewClient, NewCache, StartCache, WaitForCacheSync,
      NewDelegatingClient] @ [(ListNamespaces, RNames [''edge'']), (GetDevice ''dev'' ''edge'', RDevice zero_edge_device)]"
  let ?t = "?calls @ demo_point_trace @ [(System CloseInflux, ROk)]"
  have m: "br_FlottaDeviceID demo_wifi = ''dev''" "br_DeviceType demo_wifi = ''WiFi''"
    "bc_unmarshal demo_wifi_codec (TrimSpace []) = Inr demo_wifi" "ac_Kubeconfig bridge_config = []"
    by (simp_all add: demo_wifi_def demo_message_def demo_wifi_codec_def bridge_config_def)
  have "exec (deferred (System CloseInflux) (processDeviceWiFi demo_wifi_codec demo_wifi zero_edge_device))
      (demo_point_trace @ [(System CloseInflux, ROk)]) (Returned ())"
    by (rule exec_deferredI [OF demo_point_run])
  then have run: "exec (publish_handler demo_wifi_codec bridge_config ''device/up'' []) ?t (Returned ())"
    by (simp add: publish_handler_def processMqttData_def m getRestConfig_def getClient_def call_unit_def
        call_object_def exec_Call EdgeDevice_Read_def read_object_def as_device_def as_names_def mapp_def)
  moreover have "WritePoint [] [] 7 \<in> set (effects ?t)" by (simp add: demo_point_trace_def)
  ultimately show ?thesis using bridge_message_writes [OF run] m by (intro exI [of _ ?t]) simp
qed

end
