(* ===== verification/Mtls.thy ===== *)
theory Mtls
  imports Repositories Storage
begin

text \<open>
  Certificates of the control plane and of devices (\<open>src/pkg/mtls\<close>): the certificate groups (\<open>cert_utils.go\<close>),
  the provider that keeps the certificate authority in a secret (\<open>caprovider_secret.go\<close>) and the TLS
  configuration with the verification of requests (\<open>ca.go\<close>).

  Encodings, key material and signatures are those of the packages \<open>encoding/pem\<close> and \<open>crypto/x509\<close>. Their
  functions are the fields of the argument \<open>x509_codec\<close>; drawing a key and signing a certificate are requests,
  since both are randomised. Writing PEM to memory does not fail.
\<close>

section \<open>The cryptographic library\<close>

record x509_codec =
  pem_Decode :: "bytes \<Rightarrow> (string \<times> bytes) option"
  pem_Encode :: "string \<Rightarrow> bytes \<Rightarrow> bytes"
  ParseCertificate :: "bytes \<Rightarrow> error + certificate"
  ParseECPrivateKey :: "bytes \<Rightarrow> error + bytes"
  MarshalECPrivateKey :: "bytes \<Rightarrow> error + bytes"
  ParsePKCS1PrivateKey :: "bytes \<Rightarrow> error + bytes"
  MarshalPKCS1PrivateKey :: "bytes \<Rightarrow> bytes"
  ParseCertificateRequest :: "bytes \<Rightarrow> error + certificate_request"
  X509KeyPair :: "bytes \<Rightarrow> bytes \<Rightarrow> error + string"
  CheckSignatureFrom :: "certificate \<Rightarrow> certificate \<Rightarrow> error option"

text \<open>\<open>hashicorp/go-multierror\<close>: the message lists the errors, \<open>errors.As\<close> finds the first that fits.\<close>

definition multierror :: "error list \<Rightarrow> error" where
  "multierror es =
     (let points = map (\<lambda>e. ''* '' @ Error e) es; sep = [chr 10, chr 9];
          msg = (case es of [e] \<Rightarrow> ''1 error occurred:'' | _ \<Rightarrow> print_nat (length es) @ '' errors occurred:'') @
            sep @ Join points sep @ [chr 10, chr 10]
      in case find (\<lambda>e. status_of e \<noteq> None) es of Some e \<Rightarrow> WrapError msg e | None \<Rightarrow> PlainError msg)"

definition wrap :: "string \<Rightarrow> error \<Rightarrow> error" where
  "wrap msg e = WrapError (msg @ Error e) e"

section \<open>Certificate groups\<close>

definition ECPrivateKeyBlockType :: string where "ECPrivateKeyBlockType = ''EC PRIVATE KEY''"
definition RSAPrivateKeyBlockType :: string where "RSAPrivateKeyBlockType = ''RSA PRIVATE KEY''"
definition certificate_block :: string where "certificate_block = ''CERTIFICATE''"

definition caCertSecretKey :: string where "caCertSecretKey = ''ca.key''"
definition caCertCertKey :: string where "caCertCertKey = ''ca.crt''"
definition serverSecretKey :: string where "serverSecretKey = ''server.key''"
definition serverCert :: string where "serverCert = ''server.crt''"
definition clientCertSecretKey :: string where "clientCertSecretKey = ''client.key''"
definition clientCertCertKey :: string where "clientCertCertKey = ''client.crt''"
definition CASecretName :: string where "CASecretName = ''flotta-ca''"
definition HostTLSCertName :: string where "HostTLSCertName = ''flotta-host-certificate''"
definition providerName :: string where "providerName = ''secret''"
definition certOrganization :: string where "certOrganization = ''flotta-operator''"
definition serverCertOrganization :: string where "serverCertOrganization = ''flotta-operator''"
definition CertRegisterCN :: string where "CertRegisterCN = ''register''"
definition certDefaultExpiration :: int where "certDefaultExpiration = 1"

record certificate_group =
  cg_cert :: "certificate option"
  cg_signedCert :: "certificate option"
  cg_privKey :: "private_key option"
  cg_certBytes :: bytes
  cg_CertPEM :: bytes
  cg_PrivKeyPEM :: bytes

definition pem_group :: "bytes \<Rightarrow> bytes \<Rightarrow> certificate_group" where
  "pem_group certPEM keyPEM = \<lparr>cg_cert = None, cg_signedCert = None, cg_privKey = None, cg_certBytes = [],
     cg_CertPEM = certPEM, cg_PrivKeyPEM = keyPEM\<rparr>"

definition decodePrivKeyFromPEM :: "x509_codec \<Rightarrow> certificate_group \<Rightarrow> error + certificate_group" where
  "decodePrivKeyFromPEM x c = (case pem_Decode x (cg_PrivKeyPEM c) of
      None \<Rightarrow> Inl (PlainError ''Cannot get Certificate key'')
    | Some (ty, b) \<Rightarrow>
        if ty = ECPrivateKeyBlockType then
          (case ParseECPrivateKey x b of Inl e \<Rightarrow> Inl e | Inr k \<Rightarrow> Inr (c\<lparr>cg_privKey := Some (EcdsaKey k)\<rparr>))
        else if ty = RSAPrivateKeyBlockType then
          (case ParsePKCS1PrivateKey x b of
             Inl e \<Rightarrow> Inl (wrap ''failing parsing key: '' e) | Inr k \<Rightarrow> Inr (c\<lparr>cg_privKey := Some (RsaKey k)\<rparr>))
        else Inl (PlainError ''Cannot decode PEM cert key''))"

definition ImportFromPem :: "x509_codec \<Rightarrow> certificate_group \<Rightarrow> error + certificate_group" where
  "ImportFromPem x c = (case pem_Decode x (cg_CertPEM c) of
      None \<Rightarrow> Inl (PlainError ''Cannot get CA certificate'')
    | Some (_, b) \<Rightarrow> (case ParseCertificate x b of
        Inl e \<Rightarrow> Inl (wrap ''Failing parsing cert: '' e)
      | Inr cert \<Rightarrow> (case decodePrivKeyFromPEM x c of
          Inl e \<Rightarrow> Inl e
        | Inr c' \<Rightarrow> Inr (c'\<lparr>cg_cert := Some cert, cg_signedCert := Some cert\<rparr>))))"

definition NewCACertificateGroupFromSecret :: "x509_codec \<Rightarrow> (string, bytes) gomap \<Rightarrow> error + certificate_group" where
  "NewCACertificateGroupFromSecret x secretData =
     ImportFromPem x (pem_group (mget0 secretData caCertCertKey) (mget0 secretData caCertSecretKey))"

definition MarshalKeyToPem :: "x509_codec \<Rightarrow> private_key option \<Rightarrow> error + bytes" where
  "MarshalKeyToPem x privKey = (case privKey of
      Some (EcdsaKey k) \<Rightarrow> (case MarshalECPrivateKey x k of
        Inl e \<Rightarrow> Inl e | Inr b \<Rightarrow> Inr (pem_Encode x ECPrivateKeyBlockType b))
    | Some (RsaKey k) \<Rightarrow> Inr (pem_Encode x RSAPrivateKeyBlockType (MarshalPKCS1PrivateKey x k))
    | _ \<Rightarrow> Inl (PlainError ''Provider key not supported''))"

definition CreatePem :: "x509_codec \<Rightarrow> certificate_group \<Rightarrow> error + certificate_group" where
  "CreatePem x c = (case MarshalKeyToPem x (cg_privKey c) of
      Inl e \<Rightarrow> Inl (wrap ''Cannot marshal to PEM: '' e)
    | Inr k \<Rightarrow> Inr (c\<lparr>cg_CertPEM := pem_Encode x certificate_block (cg_certBytes c), cg_PrivKeyPEM := k\<rparr>))"

definition GetNewKey :: "certificate_group \<Rightarrow> (error + private_key \<times> bytes) io" where
  "GetNewKey c = (case cg_privKey c of
      Some (EcdsaKey _) \<Rightarrow> call_object (GenerateKey P256) as_key
    | Some (RsaKey _) \<Rightarrow> call_object (GenerateKey Rsa4096) as_key
    | _ \<Rightarrow> Ret (Inl (PlainError ''unknown algorithm to create the key'')))"

definition parseSignedCertificate :: "x509_codec \<Rightarrow> certificate_group \<Rightarrow> error + certificate_group" where
  "parseSignedCertificate x c = (case ParseCertificate x (cg_certBytes c) of
      Inl e \<Rightarrow> Inl e | Inr cert \<Rightarrow> Inr (c\<lparr>cg_signedCert := Some cert\<rparr>))"

definition GetCertificate :: "x509_codec \<Rightarrow> certificate_group \<Rightarrow> error + string" where
  "GetCertificate x c = X509KeyPair x (cg_CertPEM c) (cg_PrivKeyPEM c)"

text \<open>The end of \<open>getCACertificate\<close> and \<open>createKeyAndCSR\<close>: the bundle around a signed certificate.\<close>

definition finish_bundle :: "x509_codec \<Rightarrow> certificate_group \<Rightarrow> error + certificate_group" where
  "finish_bundle x c = (case CreatePem x c of
      Inl e \<Rightarrow> Inl (wrap ''Cannot encode certificate: '' e)
    | Inr c' \<Rightarrow> (case parseSignedCertificate x c' of
        Inl e \<Rightarrow> Inl (wrap ''Cannot parse PEM certificate: '' e) | Inr c'' \<Rightarrow> Inr c''))"

definition ca_template :: "Time \<Rightarrow> Time \<Rightarrow> Time \<Rightarrow> certificate" where
  "ca_template t1 t2 t3 = zero_certificate\<lparr>xc_SerialNumber := Unix t1,
     xc_Subject := zero_name\<lparr>pn_Organization := [serverCertOrganization]\<rparr>,
     xc_NotBefore := t2, xc_NotAfter := AddDate t3 10 0, xc_IsCA := True,
     xc_ExtKeyUsage := [ExtKeyUsageClientAuth, ExtKeyUsageServerAuth],
     xc_KeyUsage := [KeyUsageDigitalSignature, KeyUsageCertSign], xc_BasicConstraintsValid := True\<rparr>"

definition getCACertificate :: "x509_codec \<Rightarrow> (error + certificate_group) io" where
  "getCACertificate x =
     bindp go_now (\<lambda>t1. bindp go_now (\<lambda>t2. bindp go_now (\<lambda>t3.
       let ca = ca_template t1 t2 t3 in
       bindp (call_object (GenerateKey P256) as_key) (\<lambda>res. case res of
           Inl e \<Rightarrow> Ret (Inl (PlainError ''Cannot generate CA Key''))
         | Inr (key, pub) \<Rightarrow>
             tryp (call_object (CreateCertificate ca ca pub (Some key)) as_text) (\<lambda>caBytes.
             Ret (case finish_bundle x \<lparr>cg_cert = Some ca, cg_signedCert = None, cg_privKey = Some key,
                 cg_certBytes = caBytes, cg_CertPEM = [], cg_PrivKeyPEM = []\<rparr> of
               Inl e \<Rightarrow> Inl e | Inr c \<Rightarrow> Inr (c\<lparr>cg_cert := cg_signedCert c\<rparr>)))))))"

definition createKeyAndCSR :: "x509_codec \<Rightarrow> certificate \<Rightarrow> certificate_group \<Rightarrow> (error + certificate_group) io" where
  "createKeyAndCSR x cert caCert =
     bindp (GetNewKey caCert) (\<lambda>res. case res of
         Inl e \<Rightarrow> Ret (Inl (wrap ''Cannot generate cert Key: '' e))
       | Inr (key, pub) \<Rightarrow>
           bindp (deref (cg_cert caCert)) (\<lambda>parent.
           bindp (call_object (CreateCertificate cert parent pub (cg_privKey caCert)) as_text) (\<lambda>res. Ret (case res of
               Inl e \<Rightarrow> Inl (wrap ''cannot sign certificate: '' e)
             | Inr certBytes \<Rightarrow> finish_bundle x \<lparr>cg_cert = Some cert, cg_signedCert = None, cg_privKey = Some key,
                 cg_certBytes = certBytes, cg_CertPEM = [], cg_PrivKeyPEM = []\<rparr>))))"

text \<open>The template of a server or registration certificate.\<close>

definition end_template :: "int \<Rightarrow> pkix_name \<Rightarrow> Time \<Rightarrow> Time \<Rightarrow> certificate" where
  "end_template serial subject t1 t2 = zero_certificate\<lparr>xc_SerialNumber := serial, xc_Subject := subject,
     xc_NotBefore := t1, xc_NotAfter := AddDate t2 certDefaultExpiration 0, xc_SubjectKeyId := [1, 2, 3, 4, 6],
     xc_ExtKeyUsage := [ExtKeyUsageClientAuth, ExtKeyUsageServerAuth], xc_KeyUsage := [KeyUsageDigitalSignature]\<rparr>"

definition getServerCertificate ::
  "x509_codec \<Rightarrow> string list \<Rightarrow> bool \<Rightarrow> certificate_group \<Rightarrow> (error + certificate_group) io" where
  "getServerCertificate x dnsNames localhostEnabled CACert =
     bindp (deref (cg_cert CACert)) (\<lambda>ca. bindp go_now (\<lambda>t1. bindp go_now (\<lambda>t2.
       createKeyAndCSR x ((end_template (xc_SerialNumber ca)
           (zero_name\<lparr>pn_CommonName := ''*'', pn_Organization := [serverCertOrganization]\<rparr>) t1 t2)
         \<lparr>xc_DNSNames := dnsNames, xc_IPAddresses := (if localhostEnabled then [''127.0.0.1'', ''::1''] else [])\<rparr>) CACert)))"

section \<open>The provider\<close>

record ca_secret_provider =
  sp_namespace :: string
  sp_latestCA :: "certificate_group option"

definition new_secret :: "string \<Rightarrow> string \<Rightarrow> (string, string) gomap \<Rightarrow> (string, bytes) fmap \<Rightarrow> secret" where
  "new_secret name ns labels data = \<lparr>se_meta = zero_meta\<lparr>om_Name := name, om_Namespace := ns, om_Labels := labels\<rparr>,
     se_Data = Some data\<rparr>"

definition ca_secret :: "string \<Rightarrow> certificate_group \<Rightarrow> secret" where
  "ca_secret ns g = new_secret CASecretName ns None
     (fmupd caCertSecretKey (cg_PrivKeyPEM g) (fmupd caCertCertKey (cg_CertPEM g) fmempty))"

definition GetCACertificate ::
  "x509_codec \<Rightarrow> ca_secret_provider \<Rightarrow> ((error + certificate_group) \<times> ca_secret_provider) io" where
  "GetCACertificate x config =
     bindp (call_object (GetSecret CASecretName (sp_namespace config)) as_secret) (\<lambda>res. case res of
         Inr secret \<Rightarrow> Ret (case NewCACertificateGroupFromSecret x (se_Data secret) of
             Inl e \<Rightarrow> (Inl e, config) | Inr g \<Rightarrow> (Inr g, config\<lparr>sp_latestCA := Some g\<rparr>))
       | Inl e \<Rightarrow>
           if \<not> IsNotFound e then Ret (Inl e, config)
           else bindp (getCACertificate x) (\<lambda>res. case res of
               Inl e \<Rightarrow> Ret (Inl (PlainError ''cannot create sample certificate''), config)
             | Inr g \<Rightarrow> bindp (call_unit (CreateSecret (ca_secret (sp_namespace config) g))) (\<lambda>err. Ret (case err of
                 Some e \<Rightarrow> (Inl e, config) | None \<Rightarrow> (Inr g, config\<lparr>sp_latestCA := Some g\<rparr>)))))"

definition server_secret :: "string \<Rightarrow> certificate_group \<Rightarrow> secret" where
  "server_secret ns g = new_secret HostTLSCertName ns None
     (fmupd serverSecretKey (cg_PrivKeyPEM g) (fmupd serverCert (cg_CertPEM g) fmempty))"

definition GetServerCertificate ::
  "x509_codec \<Rightarrow> string list \<Rightarrow> bool \<Rightarrow> ca_secret_provider \<Rightarrow> ((error + certificate_group) \<times> ca_secret_provider) io" where
  "GetServerCertificate x dnsNames localhostEnabled config =
     bindp (call_object (GetSecret HostTLSCertName (sp_namespace config)) as_secret) (\<lambda>res. case res of
         Inr secret \<Rightarrow> Ret (case ImportFromPem x (pem_group (mget0 (se_Data secret) serverCert)
               (mget0 (se_Data secret) serverSecretKey)) of
             Inl e \<Rightarrow> (Inl (wrap ''cannot import server cert from configmap: '' e), config) | Inr g \<Rightarrow> (Inr g, config))
       | Inl e \<Rightarrow>
           if \<not> IsNotFound e then Ret (Inl (wrap ''cannot get Host TLS cert: '' e), config)
           else bindp (GetCACertificate x config) (\<lambda>(res, config'). case res of
               Inl e \<Rightarrow> Ret (Inl (wrap ''cannot get Host CA TLS cert: '' e), config')
             | Inr CACert \<Rightarrow> bindp (getServerCertificate x dnsNames localhostEnabled CACert) (\<lambda>res. case res of
                 Inl e \<Rightarrow> Ret (Inl (wrap ''cannot create host TLS cert: '' e), config')
               | Inr cert \<Rightarrow> bindp (call_unit (CreateSecret (server_secret (sp_namespace config') cert))) (\<lambda>err. Ret (case err of
                   Some e \<Rightarrow> (Inl (wrap ''cannot store server cert: '' e), config') | None \<Rightarrow> (Inr cert, config'))))))"

definition CreateRegistrationCertificate ::
  "x509_codec \<Rightarrow> string \<Rightarrow> ca_secret_provider \<Rightarrow> ((error + (string, bytes) fmap) \<times> ca_secret_provider) io" where
  "CreateRegistrationCertificate x name config =
     bindp (GetCACertificate x config) (\<lambda>(res, config'). case res of
         Inl e \<Rightarrow> Ret (Inl (PlainError ''Cannot retrieve caCert''), config')
       | Inr CACert \<Rightarrow>
           bindp (deref (cg_cert CACert)) (\<lambda>ca. bindp go_now (\<lambda>t1. bindp go_now (\<lambda>t2.
           bindp (createKeyAndCSR x (end_template (xc_SerialNumber ca)
               (zero_name\<lparr>pn_CommonName := CertRegisterCN, pn_Organization := [certOrganization], pn_SerialNumber := name\<rparr>)
               t1 t2) CACert) (\<lambda>res. Ret (case res of
               Inl e \<Rightarrow> (Inl (wrap ''Cannot sign certificate request: '' e), config')
             | Inr g \<Rightarrow> (case CreatePem x g of
                 Inl e \<Rightarrow> (Inl (wrap ''Cannot encode certs: '' e), config')
               | Inr g' \<Rightarrow> (Inr (fmupd clientCertSecretKey (cg_PrivKeyPEM g')
                   (fmupd clientCertCertKey (cg_CertPEM g') fmempty)), config'))))))))"

text \<open>The certificate that is signed for a request: the subject's names are overwritten.\<close>

definition client_template :: "certificate_request \<Rightarrow> string \<Rightarrow> string \<Rightarrow> Time \<Rightarrow> Time \<Rightarrow> Time \<Rightarrow> certificate" where
  "client_template CSR commonName namespace t1 t2 expiration = zero_certificate\<lparr>
     xc_Signature := cr_Signature CSR, xc_SignatureAlgorithm := cr_SignatureAlgorithm CSR,
     xc_PublicKeyAlgorithm := cr_PublicKeyAlgorithm CSR, xc_PublicKey := cr_PublicKey CSR,
     xc_SerialNumber := Unix t1,
     xc_Subject := (cr_Subject CSR)\<lparr>pn_CommonName := commonName, pn_Organization := [certOrganization],
       pn_OrganizationalUnit := [namespace]\<rparr>,
     xc_NotBefore := AddDate t2 0 (- 1), xc_NotAfter := expiration,
     xc_KeyUsage := [KeyUsageDigitalSignature], xc_ExtKeyUsage := [ExtKeyUsageClientAuth, ExtKeyUsageServerAuth]\<rparr>"

definition Provider_SignCSR ::
  "x509_codec \<Rightarrow> string \<Rightarrow> string \<Rightarrow> string \<Rightarrow> Time \<Rightarrow> ca_secret_provider \<Rightarrow> (error + bytes) io" where
  "Provider_SignCSR x CSRPem commonName namespace expiration config = (case sp_latestCA config of
      None \<Rightarrow> Ret (Inl (PlainError ''Cannot get CA certificate''))
    | Some CA \<Rightarrow> (case pem_Decode x CSRPem of
        None \<Rightarrow> Ret (Inl (PlainError ''cannot decode CSR certificate''))
      | Some (_, b) \<Rightarrow> (case ParseCertificateRequest x b of
          Inl e \<Rightarrow> Ret (Inl (wrap ''cannot parse CSR: '' e))
        | Inr CSR \<Rightarrow> bindp go_now (\<lambda>t1. bindp go_now (\<lambda>t2. bindp (deref (cg_cert CA)) (\<lambda>parent.
            bindp (call_object (CreateCertificate (client_template CSR commonName namespace t1 t2 expiration) parent
                (cr_PublicKey CSR) (cg_privKey CA)) as_text) (\<lambda>res. Ret (case res of
                Inl e \<Rightarrow> Inl (wrap ''Cannot sign certificate reques: '' e)
              | Inr certBytes \<Rightarrow> Inr (pem_Encode x certificate_block certBytes)))))))))"

section \<open>The TLS configuration\<close>

record tls_config =
  tc_caProvider :: "ca_secret_provider list"
  tc_Domains :: "string list"
  tc_LocalhostEnabled :: bool
  tc_namespace :: string
  tc_clientExpirationDays :: int

definition defaultDaysToExpireClientCertificate :: int where "defaultDaysToExpireClientCertificate = 7"
definition regClientSecretNamePrefix :: string where "regClientSecretNamePrefix = ''reg-client-ca''"
definition regClientSecretLabelKey :: string where "regClientSecretLabelKey = ''reg-client-ca''"
definition regClientSecretNameRandomLen :: nat where "regClientSecretNameRandomLen = 10"

definition NewMTLSConfig :: "string \<Rightarrow> string list \<Rightarrow> bool \<Rightarrow> tls_config" where
  "NewMTLSConfig namespace domains localhostEnabled =
     \<lparr>tc_caProvider = [\<lparr>sp_namespace = namespace, sp_latestCA = None\<rparr>], tc_Domains = domains,
      tc_LocalhostEnabled = localhostEnabled, tc_namespace = namespace,
      tc_clientExpirationDays = defaultDaysToExpireClientCertificate\<rparr>"

definition SetClientExpiration :: "int \<Rightarrow> tls_config \<Rightarrow> error option \<times> tls_config" where
  "SetClientExpiration days conf =
     (if days \<le> 0 then (Some (PlainError ''Cannot set 1 day expiration time''), conf)
      else (None, conf\<lparr>tc_clientExpirationDays := days\<rparr>))"

definition SetCAProvider :: "ca_secret_provider list \<Rightarrow> tls_config \<Rightarrow> tls_config" where
  "SetCAProvider ps conf = conf\<lparr>tc_caProvider := ps\<rparr>"

definition SignCSR :: "x509_codec \<Rightarrow> tls_config \<Rightarrow> string \<Rightarrow> string \<Rightarrow> string \<Rightarrow> (error + bytes) io" where
  "SignCSR x conf CSRPem commonName namespace = (case tc_caProvider conf of
      [] \<Rightarrow> Ret (Inl (PlainError ''Cannot get caProvider to sign the CSR''))
    | p # _ \<Rightarrow> bindp go_now (\<lambda>now.
        Provider_SignCSR x CSRPem commonName namespace (AddDate now 0 (tc_clientExpirationDays conf)) p))"

record server_config =
  sc_Certificate :: string
  sc_ClientCAs :: "bytes list"

text \<open>The loop over the providers: groups, errors and the providers afterwards.\<close>

primrec provider_certificates :: "x509_codec \<Rightarrow> ca_secret_provider list \<Rightarrow>
    ((certificate_group \<times> certificate) list \<times> error list \<times> ca_secret_provider list) io" where
  "provider_certificates x [] = Ret ([], [], [])"
| "provider_certificates x (p # ps) =
     bindp (GetCACertificate x p) (\<lambda>(res, p'). case res of
         Inl e \<Rightarrow> mapp (\<lambda>(gs, es, ps'). (gs, wrap (''cannot get CA certificate for provider '' @ providerName @ '': '') e # es, p' # ps'))
             (provider_certificates x ps)
       | Inr g \<Rightarrow> bindp (deref (cg_cert g)) (\<lambda>cert.
           mapp (\<lambda>(gs, es, ps'). ((g, cert) # gs, es, p' # ps')) (provider_certificates x ps)))"

definition InitCertificates ::
  "x509_codec \<Rightarrow> tls_config \<Rightarrow> ((error + server_config \<times> certificate list) \<times> tls_config) io" where
  "InitCertificates x conf =
     (if tc_caProvider conf = [] then Ret (Inl (PlainError ''no CA provider is set''), conf)
      else bindp (provider_certificates x (tc_caProvider conf)) (\<lambda>(caCerts, errors, ps).
        let conf' = conf\<lparr>tc_caProvider := ps\<rparr> in
        if errors \<noteq> [] then Ret (Inl (multierror errors), conf')
        else if caCerts = [] then Ret (Inl (PlainError ''cannot get any CA certificate''), conf')
        else bindp (GetServerCertificate x (tc_Domains conf) (tc_LocalhostEnabled conf) (hd ps)) (\<lambda>(res, p').
          let conf'' = conf'\<lparr>tc_caProvider := p' # tl ps\<rparr> in
          Ret (case res of
            Inl e \<Rightarrow> (Inl e, conf'')
          | Inr server \<Rightarrow> (case GetCertificate x server of
              Inl e \<Rightarrow> (Inl (wrap ''Cannot create server certfificate: '' e), conf'')
            | Inr certificate \<Rightarrow> (Inr (\<lparr>sc_Certificate = certificate, sc_ClientCAs = map (cg_CertPEM \<circ> fst) caCerts\<rparr>,
                map snd caCerts), conf''))))))"

definition CreateRegistrationClientCerts :: "x509_codec \<Rightarrow> tls_config \<Rightarrow> (error option \<times> tls_config) io" where
  "CreateRegistrationClientCerts x conf = (case tc_caProvider conf of
      [] \<Rightarrow> Ret (Some (PlainError ''Cannot get ca provider''), conf)
    | p # ps \<Rightarrow> bindp (go_rand_string regClientSecretNameRandomLen) (\<lambda>suffix.
        let name = regClientSecretNamePrefix @ ''-'' @ suffix in
        bindp (CreateRegistrationCertificate x name p) (\<lambda>(res, p').
        let conf' = conf\<lparr>tc_caProvider := p' # ps\<rparr> in
        case res of
          Inl e \<Rightarrow> Ret (Some (PlainError ''Cannot create client certificate''), conf')
        | Inr certData \<Rightarrow> mapp (\<lambda>err. (err, conf'))
            (call_unit (CreateSecret (new_secret name (tc_namespace conf)
              (Some (fmupd regClientSecretLabelKey ''true'' fmempty)) certData))))))"

section \<open>Verification of requests\<close>

record request_auth_val =
  ra_CommonName :: string
  ra_Namespace :: string

text \<open>The signature errors in the order of the two loops, or none as soon as one pair fits.\<close>

definition isClientCertificateSigned :: "x509_codec \<Rightarrow> certificate list \<Rightarrow> certificate list \<Rightarrow> bool \<times> error option" where
  "isClientCertificateSigned x PeerCertificates CAChain =
     (let results = concat (map (\<lambda>cert. map (CheckSignatureFrom x cert) CAChain) PeerCertificates) in
      if None \<in> set results then (True, None)
      else (False, Some (if results = [] then PlainError ''<nil>'' else multierror (map the results))))"

definition YggdrasilRegisterAuth :: int where "YggdrasilRegisterAuth = 1"
definition YggdrasilCompleteAuth :: int where "YggdrasilCompleteAuth = 0"

definition auth_value :: "unicode_tables \<Rightarrow> certificate \<Rightarrow> request_auth_val" where
  "auth_value u cert = \<lparr>ra_CommonName = ToLower u (pn_CommonName (xc_Subject cert)),
     ra_Namespace = (case pn_OrganizationalUnit (xc_Subject cert) of [] \<Rightarrow> [] | ou # _ \<Rightarrow> ou)\<rparr>"

text \<open>
  \<open>verify cert\<close> is \<open>cert.Verify(verifyOpts)\<close> at the time of the request. The result is the decision, the error
  and the value put into the context of the request.
\<close>

primrec verify_all :: "(certificate \<Rightarrow> error option) \<Rightarrow> certificate list \<Rightarrow> bool \<times> error option" where
  "verify_all verify [] = (True, None)"
| "verify_all verify (cert # certs) =
     (if pn_CommonName (xc_Subject cert) = CertRegisterCN
      then (False, Some (PlainError ''cannot use register certificate on this resource''))
      else case verify cert of
        Some e \<Rightarrow> (False, Some (PlainError (''cannot verify certificate: '' @ Error e)))
      | None \<Rightarrow> verify_all verify certs)"

definition VerifyRequest :: "x509_codec \<Rightarrow> unicode_tables \<Rightarrow> int \<Rightarrow> (certificate \<Rightarrow> error option) \<Rightarrow> certificate list \<Rightarrow>
    certificate list \<Rightarrow> (bool \<times> error option) \<times> request_auth_val option" where
  "VerifyRequest x u verifyType verify CACertChain PeerCertificates = (case PeerCertificates of
      [] \<Rightarrow> ((False, Some (PlainError ''no Client cert was sent'')), None)
    | cert # _ \<Rightarrow>
        (if verifyType = YggdrasilRegisterAuth then
           (case isClientCertificateSigned x PeerCertificates CACertChain of
              (res, Some e) \<Rightarrow> (res, Some (PlainError (''cannot verify register certificate: '' @ Error e)))
            | (res, None) \<Rightarrow> (res, None))
         else verify_all verify PeerCertificates, Some (auth_value u cert)))"

section \<open>Programs that return\<close>

text \<open>The program never panics and its result satisfies \<open>P\<close>.\<close>

definition returns :: "('a \<Rightarrow> bool) \<Rightarrow> 'a io \<Rightarrow> bool" where
  "returns P p \<longleftrightarrow> wp p (\<lambda>t out. \<exists>a. out = Returned a \<and> P a)"

lemma returns_exec: "returns P p \<Longrightarrow> exec p t out \<Longrightarrow> \<exists>a. out = Returned a \<and> P a"
  by (auto simp: returns_def wp_exec)

lemma returns_value: "returns P p \<Longrightarrow> exec p t (Returned a) \<Longrightarrow> P a"
  by (auto simp: returns_def wp_exec)

lemma returns_bindp: "returns P (bindp p f) \<longleftrightarrow> returns (\<lambda>a. returns P (f a)) p"
  by (induction p) (simp_all add: returns_def)

lemma returns_mono: "returns P p \<Longrightarrow> (\<And>a. P a \<Longrightarrow> Q a) \<Longrightarrow> returns Q p"
  unfolding returns_def wp_exec by blast

lemma returns_mapp: "returns P (mapp f p) = returns (\<lambda>a. P (f a)) p"
  by (simp add: mapp_def returns_bindp) (simp add: returns_def)

lemma returns_calls [simp]:
  "returns P (Ret a) = P a" "\<not> returns P (Panic m)"
  "returns Q (call_object q sel) = (\<forall>r. Q (object_result sel r))"
  "returns R (call_unit q) = (\<forall>r. R (unit_result r))"
  "returns S (deref p) = (case p of None \<Rightarrow> False | Some a \<Rightarrow> S a)"
  by (simp_all add: returns_def split: option.split)

lemma returns_tryp: "returns P (tryp p f) \<longleftrightarrow> returns (\<lambda>a. case a of Inl e \<Rightarrow> P (Inl e) | Inr a \<Rightarrow> returns P (f a)) p"
  by (simp add: tryp_def returns_bindp sum.case_distrib [of "returns P"] cong: sum.case_cong)

lemma returns_now: "(\<And>now. P now) \<Longrightarrow> returns P go_now"
  "(\<And>s. Q s) \<Longrightarrow> returns Q (go_rand_string n)"
  by (simp_all add: returns_def go_rand_string_def)

lemmas returns_base = returns_bindp returns_mapp returns_tryp

section \<open>Bundles\<close>

text \<open>A group that can sign: its certificate and a key of a supported kind are there.\<close>

definition group_ok :: "certificate_group \<Rightarrow> bool" where
  "group_ok g \<longleftrightarrow> cg_cert g \<noteq> None \<and> cg_signedCert g = cg_cert g \<and>
     (case cg_privKey g of Some (EcdsaKey _) \<Rightarrow> True | Some (RsaKey _) \<Rightarrow> True | _ \<Rightarrow> False)"

lemma ImportFromPem_ok: "ImportFromPem x c = Inr g \<Longrightarrow> group_ok g"
  by (auto simp: ImportFromPem_def decodePrivKeyFromPEM_def group_ok_def split: option.splits sum.splits if_splits)

lemma finish_bundle_ok:
  "finish_bundle x c = Inr g \<Longrightarrow> \<exists>k cert. MarshalKeyToPem x (cg_privKey c) = Inr k \<and>
     ParseCertificate x (cg_certBytes c) = Inr cert \<and>
     g = c\<lparr>cg_CertPEM := pem_Encode x certificate_block (cg_certBytes c), cg_PrivKeyPEM := k, cg_signedCert := Some cert\<rparr>"
  by (auto simp: finish_bundle_def CreatePem_def parseSignedCertificate_def split: sum.splits)

lemma marshalled_key:
  "MarshalKeyToPem x k = Inr b \<Longrightarrow> (case k of Some (EcdsaKey _) \<Rightarrow> True | Some (RsaKey _) \<Rightarrow> True | _ \<Rightarrow> False)"
  by (auto simp: MarshalKeyToPem_def split: option.splits private_key.splits)

lemma returns_getCACertificate:
  "returns (\<lambda>res. \<forall>g. res = Inr g \<longrightarrow> (\<exists>k cert. MarshalKeyToPem x (cg_privKey g) = Inr k \<and>
     ParseCertificate x (cg_certBytes g) = Inr cert \<and> cg_cert g = Some cert \<and> cg_signedCert g = Some cert \<and>
     cg_CertPEM g = pem_Encode x certificate_block (cg_certBytes g) \<and> cg_PrivKeyPEM g = k)) (getCACertificate x)"
  by (auto simp: getCACertificate_def Let_def returns_base intro!: returns_now split: sum.split dest!: finish_bundle_ok)

lemmas exec_getCACertificate = returns_value [OF returns_getCACertificate, rule_format]

lemma getCACertificate_ok: "exec (getCACertificate x) t (Returned (Inr g)) \<Longrightarrow> group_ok g"
  using exec_getCACertificate [of x t "Inr g" g] marshalled_key [of x "cg_privKey g"] by (auto simp: group_ok_def)

text \<open>What the library promises about its encodings: decoding undoes encoding.\<close>

definition codec_inverts :: "x509_codec \<Rightarrow> bool" where
  "codec_inverts x \<longleftrightarrow> (\<forall>ty b. pem_Decode x (pem_Encode x ty b) = Some (ty, b)) \<and>
     (\<forall>k b. MarshalECPrivateKey x k = Inr b \<longrightarrow> ParseECPrivateKey x b = Inr k) \<and>
     (\<forall>k. ParsePKCS1PrivateKey x (MarshalPKCS1PrivateKey x k) = Inr k)"

lemma import_created:
  assumes "codec_inverts x" "exec (getCACertificate x) t (Returned (Inr g))"
  shows "NewCACertificateGroupFromSecret x (se_Data (ca_secret ns g)) = Inr (g\<lparr>cg_certBytes := []\<rparr>)"
proof -
  from exec_getCACertificate [OF assms(2) refl] obtain k cert where g: "MarshalKeyToPem x (cg_privKey g) = Inr k"
    "ParseCertificate x (cg_certBytes g) = Inr cert" "cg_cert g = Some cert" "cg_signedCert g = Some cert"
    "cg_CertPEM g = pem_Encode x certificate_block (cg_certBytes g)" "cg_PrivKeyPEM g = k"
    by blast
  have "decodePrivKeyFromPEM x (pem_group (cg_CertPEM g) k) = Inr ((pem_group (cg_CertPEM g) k)\<lparr>cg_privKey := cg_privKey g\<rparr>)"
    using g(1) assms(1)
    by (auto simp: MarshalKeyToPem_def decodePrivKeyFromPEM_def pem_group_def codec_inverts_def ECPrivateKeyBlockType_def
        RSAPrivateKeyBlockType_def split: option.splits private_key.splits sum.splits)
  then show ?thesis
    using g assms(1)
    by (cases g) (auto simp: NewCACertificateGroupFromSecret_def ImportFromPem_def ca_secret_def new_secret_def mget0_def
        caCertCertKey_def caCertSecretKey_def pem_group_def codec_inverts_def)
qed

section \<open>The invariant of the TLS configuration\<close>

definition provider_ok :: "ca_secret_provider \<Rightarrow> bool" where
  "provider_ok p \<longleftrightarrow> (case sp_latestCA p of None \<Rightarrow> True | Some g \<Rightarrow> group_ok g)"

definition tls_ok :: "tls_config \<Rightarrow> bool" where
  "tls_ok conf \<longleftrightarrow> list_all provider_ok (tc_caProvider conf) \<and> tc_clientExpirationDays conf > 0"

text \<open>What a call leaves of a provider: it stays sound and never forgets its certificate.\<close>

definition keeps :: "ca_secret_provider \<Rightarrow> ca_secret_provider \<Rightarrow> bool" where
  "keeps p p' \<longleftrightarrow> provider_ok p' \<and> sp_namespace p' = sp_namespace p \<and> (sp_latestCA p \<noteq> None \<longrightarrow> sp_latestCA p' \<noteq> None)"

lemma keeps_refl: "provider_ok p \<Longrightarrow> keeps p p"
  by (simp add: keeps_def)

lemma keeps_trans: "keeps p p' \<Longrightarrow> keeps p' p'' \<Longrightarrow> keeps p p''"
  by (auto simp: keeps_def)

lemma returns_GetCACertificate:
  "provider_ok p \<Longrightarrow> returns (\<lambda>(res, p'). keeps p p' \<and> (\<forall>g. res = Inr g \<longrightarrow> group_ok g \<and> sp_latestCA p' = Some g))
     (GetCACertificate x p)"
  unfolding GetCACertificate_def NewCACertificateGroupFromSecret_def returns_bindp returns_calls
  by (auto simp: returns_base keeps_def provider_ok_def group_ok_def split: sum.split option.split
      dest!: ImportFromPem_ok marshalled_key intro!: returns_mono [OF returns_getCACertificate])

lemma returns_createKeyAndCSR: "group_ok g \<Longrightarrow> returns (\<lambda>_. True) (createKeyAndCSR x cert g)"
  by (auto simp: createKeyAndCSR_def GetNewKey_def returns_base group_ok_def split: sum.split option.splits private_key.splits)

lemma returns_getServerCertificate: "group_ok g \<Longrightarrow> returns (\<lambda>_. True) (getServerCertificate x dns l g)"
  by (auto simp: getServerCertificate_def returns_base returns_createKeyAndCSR group_ok_def [of g] intro!: returns_now)

lemma returns_GetServerCertificate:
  "provider_ok p \<Longrightarrow> returns (\<lambda>(res, p'). keeps p p') (GetServerCertificate x dns l p)"
  unfolding GetServerCertificate_def returns_bindp returns_calls
  by (auto simp: returns_base keeps_refl split: sum.split option.split
      intro!: returns_mono [OF returns_GetCACertificate] returns_mono [OF returns_getServerCertificate])

lemma returns_CreateRegistrationCertificate:
  "provider_ok p \<Longrightarrow> returns (\<lambda>(res, p'). keeps p p') (CreateRegistrationCertificate x name p)"
  unfolding CreateRegistrationCertificate_def returns_bindp
  by (auto simp: returns_base group_ok_def [THEN iffD1] split: sum.split option.split
      intro!: returns_mono [OF returns_GetCACertificate] returns_mono [OF returns_createKeyAndCSR] returns_now)

lemma returns_provider_certificates:
  "list_all provider_ok ps \<Longrightarrow> returns (\<lambda>(gs, es, ps'). list_all2 keeps ps ps' \<and>
     (es = [] \<longrightarrow> list_all (\<lambda>p. sp_latestCA p \<noteq> None) ps')) (provider_certificates x ps)"
proof (induction ps)
  case (Cons p ps)
  then show ?case
    by (auto simp: returns_base group_ok_def split: sum.split option.split
        intro!: returns_mono [OF returns_GetCACertificate] returns_mono [OF Cons.IH])
qed simp

text \<open>
  The configurations the server goes through: it is created, given an expiration time, initialised and used
  to issue registration certificates, in any order and with any answers from the API server.
\<close>

inductive tls_reachable :: "x509_codec \<Rightarrow> tls_config \<Rightarrow> bool" for x where
  new: "tls_reachable x (NewMTLSConfig namespace domains localhost)"
| expiration: "tls_reachable x c \<Longrightarrow> SetClientExpiration days c = (err, c') \<Longrightarrow> tls_reachable x c'"
| init: "tls_reachable x c \<Longrightarrow> exec (InitCertificates x c) t (Returned (res, c')) \<Longrightarrow> tls_reachable x c'"
| registration: "tls_reachable x c \<Longrightarrow> exec (CreateRegistrationClientCerts x c) t (Returned (err, c')) \<Longrightarrow> tls_reachable x c'"

lemma list_all2_keeps: "list_all2 keeps ps ps' \<Longrightarrow> list_all provider_ok ps'"
  by (induction rule: list_all2_induct) (auto simp: keeps_def)

definition signs :: "tls_config \<Rightarrow> bool" where
  "signs conf \<longleftrightarrow> (case tc_caProvider conf of [] \<Rightarrow> False | p # _ \<Rightarrow> sp_latestCA p \<noteq> None)"

lemma returns_InitCertificates:
  assumes "tls_ok conf"
  shows "returns (\<lambda>(res, conf'). tls_ok conf' \<and> (signs conf \<longrightarrow> signs conf') \<and> (\<not> isl res \<longrightarrow> signs conf'))
    (InitCertificates x conf)"
proof (cases "tc_caProvider conf")
  case Nil
  with assms show ?thesis by (simp add: InitCertificates_def)
next
  case (Cons p ps)
  have step: "returns (\<lambda>(res, conf'). tls_ok conf' \<and> (signs conf \<longrightarrow> signs conf') \<and> (\<not> isl res \<longrightarrow> signs conf'))
      (case a of (caCerts, errors, qs) \<Rightarrow>
        let conf' = conf\<lparr>tc_caProvider := qs\<rparr> in
        if errors \<noteq> [] then Ret (Inl (multierror errors), conf')
        else if caCerts = [] then Ret (Inl (PlainError ''cannot get any CA certificate''), conf')
        else bindp (GetServerCertificate x (tc_Domains conf) (tc_LocalhostEnabled conf) (hd qs)) (\<lambda>(res, p').
          let conf'' = conf'\<lparr>tc_caProvider := p' # tl qs\<rparr> in
          Ret (case res of
            Inl e \<Rightarrow> (Inl e, conf'')
          | Inr server \<Rightarrow> (case GetCertificate x server of
              Inl e \<Rightarrow> (Inl (wrap ''Cannot create server certfificate: '' e), conf'')
            | Inr certificate \<Rightarrow> (Inr (\<lparr>sc_Certificate = certificate, sc_ClientCAs = map (cg_CertPEM \<circ> fst) caCerts\<rparr>,
                map snd caCerts), conf'')))))"
    if "case a of (gs, es, qs) \<Rightarrow> list_all2 keeps (p # ps) qs \<and> (es = [] \<longrightarrow> list_all (\<lambda>p. sp_latestCA p \<noteq> None) qs)" for a
  proof -
    obtain gs es qs where a: "a = (gs, es, qs)" by (cases a)
    with that obtain q qs' where qs: "qs = q # qs'" "keeps p q" "list_all2 keeps ps qs'"
      "es = [] \<longrightarrow> sp_latestCA q \<noteq> None"
      by (auto simp: list_all2_Cons1)
    then have ok: "provider_ok q" "list_all provider_ok qs'" by (auto simp: keeps_def list_all2_keeps)
    have "tls_ok (conf\<lparr>tc_caProvider := q' # qs'\<rparr>) \<and> (signs conf \<longrightarrow> signs (conf\<lparr>tc_caProvider := q' # qs'\<rparr>)) \<and>
        (es = [] \<longrightarrow> signs (conf\<lparr>tc_caProvider := q' # qs'\<rparr>))" if "keeps q q'" for q'
      using that qs ok assms Cons by (auto simp: tls_ok_def signs_def keeps_def)
    then show ?thesis
      using qs(1) ok keeps_refl [of q]
      by (auto simp: a Let_def returns_base split: sum.split intro!: returns_mono [OF returns_GetServerCertificate])
  qed
  have "list_all provider_ok (p # ps)" using assms Cons by (simp add: tls_ok_def)
  then show ?thesis
    unfolding InitCertificates_def returns_bindp Cons if_not_P [OF list.simps(3)]
    by (intro returns_mono [OF returns_provider_certificates] step)
qed

lemma returns_CreateRegistrationClientCerts:
  assumes "tls_ok conf"
  shows "returns (\<lambda>(res, conf'). tls_ok conf' \<and> (signs conf \<longrightarrow> signs conf')) (CreateRegistrationClientCerts x conf)"
proof (cases "tc_caProvider conf")
  case (Cons p ps)
  with assms have p: "provider_ok p" "list_all provider_ok ps" "tc_clientExpirationDays conf > 0"
    by (simp_all add: tls_ok_def)
  then have "tls_ok (conf\<lparr>tc_caProvider := p' # ps\<rparr>) \<and> (signs conf \<longrightarrow> signs (conf\<lparr>tc_caProvider := p' # ps\<rparr>))"
    if "keeps p p'" for p'
    using that Cons by (auto simp: tls_ok_def signs_def keeps_def)
  with p(1) Cons show ?thesis
    by (auto simp: CreateRegistrationClientCerts_def Let_def returns_base intro!: returns_now
        returns_mono [OF returns_CreateRegistrationCertificate] split: sum.split)
qed (simp add: CreateRegistrationClientCerts_def assms)

lemma reachable_ok: "tls_reachable x conf \<Longrightarrow> tls_ok conf"
proof (induction rule: tls_reachable.induct)
  case (new namespace domains localhost)
  show ?case by (simp add: NewMTLSConfig_def tls_ok_def provider_ok_def defaultDaysToExpireClientCertificate_def)
next
  case (expiration c days err c')
  then show ?case by (auto simp: SetClientExpiration_def tls_ok_def split: if_splits)
next
  case (init c t res c')
  from returns_value [OF returns_InitCertificates [OF init.IH] init.hyps(2)] show ?case by simp
next
  case (registration c t err c')
  from returns_value [OF returns_CreateRegistrationClientCerts [OF registration.IH] registration.hyps(2)]
  show ?case by simp
qed

lemma returns_SignCSR:
  assumes "tls_ok conf"
  shows "returns (\<lambda>_. True) (SignCSR x conf csr cn ns)"
proof -
  have "cg_cert g \<noteq> None" if "tc_caProvider conf = p # ps" "sp_latestCA p = Some g" for p ps g
    using assms that by (simp add: tls_ok_def provider_ok_def group_ok_def)
  then show ?thesis
    by (force simp: SignCSR_def Provider_SignCSR_def returns_base intro!: returns_now
        split: list.split option.split sum.split)
qed

section \<open>Properties\<close>

lemma store_ca:
  assumes "exec (bindp (call_unit (CreateSecret (ca_secret ns g))) (\<lambda>err. Ret (case err of
      Some e \<Rightarrow> (Inl e, p) | None \<Rightarrow> (Inr g, q)))) t (Returned (Inr g', p'))"
  shows "g' = g \<and> (\<exists>r. t = [(CreateSecret (ca_secret ns g), r)])"
proof -
  from assms obtain r where "t = [(CreateSecret (ca_secret ns g), r)]"
    "(Inr g', p') = (case unit_result r of Some e \<Rightarrow> (Inl e, p) | None \<Rightarrow> (Inr g, q))"
    by (auto simp: exec_bindp exec_call_unit)
  then show ?thesis by (cases "unit_result r") auto
qed

lemma created_ca_secret:
  assumes e: "exec (GetCACertificate x p) t (Returned (Inr g, p'))" and s: "(CreateSecret s, r) \<in> set t"
  shows "s = ca_secret (sp_namespace p) g \<and> (\<exists>t'. exec (getCACertificate x) t' (Returned (Inr g)))"
proof -
  from e obtain r0 t0 where t: "t = (GetSecret CASecretName (sp_namespace p), r0) # t0"
    and e0: "exec (case object_result as_secret r0 of
         Inr secret \<Rightarrow> Ret (case NewCACertificateGroupFromSecret x (se_Data secret) of
             Inl e \<Rightarrow> (Inl e, p) | Inr g \<Rightarrow> (Inr g, p\<lparr>sp_latestCA := Some g\<rparr>))
       | Inl e \<Rightarrow>
           if \<not> IsNotFound e then Ret (Inl e, p)
           else bindp (getCACertificate x) (\<lambda>res. case res of
               Inl e \<Rightarrow> Ret (Inl (PlainError ''cannot create sample certificate''), p)
             | Inr g \<Rightarrow> bindp (call_unit (CreateSecret (ca_secret (sp_namespace p) g))) (\<lambda>err. Ret (case err of
                 Some e \<Rightarrow> (Inl e, p) | None \<Rightarrow> (Inr g, p\<lparr>sp_latestCA := Some g\<rparr>))))) t0 (Returned (Inr g, p'))"
    unfolding GetCACertificate_def exec_bindp [of "call_object q sel" for q sel] exec_call_object by auto
  from s t have s0: "(CreateSecret s, r) \<in> set t0" by simp
  with e0 obtain e where "object_result as_secret r0 = Inl e" "IsNotFound e"
    by (auto split: sum.splits if_splits)
  with e0 obtain t1 t2 g' where t0: "t0 = t1 @ t2" and g': "exec (getCACertificate x) t1 (Returned (Inr g'))"
    and k: "exec (bindp (call_unit (CreateSecret (ca_secret (sp_namespace p) g'))) (\<lambda>err. Ret (case err of
        Some e \<Rightarrow> (Inl e, p) | None \<Rightarrow> (Inr g', p\<lparr>sp_latestCA := Some g'\<rparr>)))) t2 (Returned (Inr g, p'))"
    by (auto simp: exec_bind_sum)
  have "issues (\<lambda>q. \<forall>s. q \<noteq> CreateSecret s) (getCACertificate x)"
    by (auto simp: getCACertificate_def Let_def intro!: issues_bindpI issues_trypI split: sum.split)
  with g' have "(CreateSecret s, r) \<notin> set t1" unfolding issues_exec by fastforce
  with s0 t0 g' store_ca [OF k] show ?thesis by auto
qed

text \<open>
  Property C15: the certificate authority survives a restart. What \<open>GetCACertificate\<close> writes into the secret
  when there is none is read back by a later call as the same certificate, key and PEM texts.
\<close>

theorem ca_secret_roundtrip:
  assumes "codec_inverts x" and "exec (GetCACertificate x p) t (Returned (Inr g, p'))" and "(CreateSecret s, r) \<in> set t"
  shows "exec (GetCACertificate x q) [(GetSecret CASecretName (sp_namespace q), RSecret s)]
    (Returned (Inr (g\<lparr>cg_certBytes := []\<rparr>), q\<lparr>sp_latestCA := Some (g\<lparr>cg_certBytes := []\<rparr>)\<rparr>))"
proof -
  from created_ca_secret [OF assms(2,3)] obtain t' where "s = ca_secret (sp_namespace p) g"
    "exec (getCACertificate x) t' (Returned (Inr g))"
    by blast
  then have "NewCACertificateGroupFromSecret x (se_Data s) = Inr (g\<lparr>cg_certBytes := []\<rparr>)"
    using import_created [OF assms(1)] by simp
  then show ?thesis
    by (auto simp: GetCACertificate_def call_object_def exec_Call as_secret_def)
qed

text \<open>
  Property C14: in every configuration the server can reach, initialising the certificates and signing a
  request never panic; the lifetime of client certificates is positive, every provider that knows a
  certificate authority knows its certificate and its key, and a successful initialisation leaves a provider
  that can sign.
\<close>

theorem reachable_configuration_signs:
  assumes "tls_reachable x conf"
  shows "tls_ok conf \<and> returns (\<lambda>_. True) (SignCSR x conf csr cn ns) \<and>
    returns (\<lambda>(res, conf'). isl res \<or> signs conf') (InitCertificates x conf)"
proof -
  from reachable_ok [OF assms] have ok: "tls_ok conf" .
  moreover have "returns (\<lambda>(res, conf'). isl res \<or> signs conf') (InitCertificates x conf)"
    by (rule returns_mono [OF returns_InitCertificates [OF ok]]) auto
  ultimately show ?thesis by (simp add: returns_SignCSR)
qed

definition clock :: "response \<Rightarrow> Time" where
  "clock r = (case r of RTime t \<Rightarrow> t | _ \<Rightarrow> zero_time)"

lemma exec_bind_now: "exec (bindp go_now f) t out \<longleftrightarrow> (\<exists>r t'. t = (Now, r) # t' \<and> exec (f (clock r)) t' out)"
  by (auto simp: go_now_def exec_Call clock_def)

lemma exec_sign:
  assumes "exec (bindp (call_object q as_text) (\<lambda>res. Ret (case res of
      Inl e \<Rightarrow> Inl (g e) | Inr der \<Rightarrow> Inr (f der)))) t (Returned (Inr cert))"
  shows "\<exists>der. t = [(q, RText der)] \<and> cert = f der"
proof -
  from assms obtain r where t: "t = [(q, r)]"
    and "Inr cert = (case object_result as_text r of Inl e \<Rightarrow> Inl (g e) | Inr der \<Rightarrow> Inr (f der))"
    by (auto simp: exec_bindp exec_call_object)
  then show ?thesis
    by (cases r) (auto simp: object_result_def as_text_def)
qed

text \<open>
  Property C13: a signed client certificate says who the device is. It is signed by the certificate authority of
  the first provider, exactly once, and whatever the request claimed its common name is the given device, its
  organizational unit the given namespace; it is no authority itself and expires the configured
  number of days after the call.
\<close>

theorem sign_csr_identity:
  assumes "exec (SignCSR x conf csr cn ns) t (Returned (Inr cert))"
  shows "\<exists>p ps CA parent template pub now r2 r3 der.
    tc_caProvider conf = p # ps \<and> sp_latestCA p = Some CA \<and> cg_cert CA = Some parent \<and>
    t = [(Now, now), (Now, r2), (Now, r3), (CreateCertificate template parent pub (cg_privKey CA), RText der)] \<and>
    cert = pem_Encode x certificate_block der \<and>
    pn_CommonName (xc_Subject template) = cn \<and> pn_OrganizationalUnit (xc_Subject template) = [ns] \<and>
    pn_Organization (xc_Subject template) = [certOrganization] \<and> \<not> xc_IsCA template \<and>
    xc_NotAfter template = clock now + tc_clientExpirationDays conf * day_ns"
proof -
  from assms obtain p ps now t1 where p: "tc_caProvider conf = p # ps" and t: "t = (Now, now) # t1"
    and e: "exec (Provider_SignCSR x csr cn ns (AddDate (clock now) 0 (tc_clientExpirationDays conf)) p) t1 (Returned (Inr cert))"
    by (auto simp: SignCSR_def exec_bind_now split: list.splits)
  from e obtain CA req r2 r3 t2 parent where CA: "sp_latestCA p = Some CA" "cg_cert CA = Some parent"
    and t1: "t1 = (Now, r2) # (Now, r3) # t2"
    and s: "exec (bindp (call_object (CreateCertificate (client_template req cn ns (clock r2) (clock r3)
        (AddDate (clock now) 0 (tc_clientExpirationDays conf))) parent (cr_PublicKey req) (cg_privKey CA)) as_text) (\<lambda>res. Ret (case res of
        Inl e \<Rightarrow> Inl (wrap ''Cannot sign certificate reques: '' e)
      | Inr certBytes \<Rightarrow> Inr (pem_Encode x certificate_block certBytes)))) t2 (Returned (Inr cert))"
    by (auto simp: Provider_SignCSR_def exec_bind_now exec_bindp [of "deref p" for p] deref_def
        split: option.splits sum.splits)
  from exec_sign [OF s] obtain der where "t2 = [(CreateCertificate (client_template req cn ns (clock r2) (clock r3)
      (AddDate (clock now) 0 (tc_clientExpirationDays conf))) parent (cr_PublicKey req) (cg_privKey CA), RText der)]"
    "cert = pem_Encode x certificate_block der"
    by blast
  with p CA t t1 show ?thesis
    by (intro exI [of _ p] exI [of _ ps] exI [of _ CA] exI [of _ parent] exI conjI)
      (assumption | simp add: client_template_def AddDate_days zero_certificate_def)+
qed

lemma verify_all_accepts:
  "verify_all verify certs = (ok, err) \<Longrightarrow> (ok \<longleftrightarrow> err = None) \<and>
     (ok \<longleftrightarrow> (\<forall>c \<in> set certs. pn_CommonName (xc_Subject c) \<noteq> CertRegisterCN \<and> verify c = None))"
  by (induction certs) (auto split: if_splits option.splits)

lemma signed_accepts:
  "isClientCertificateSigned x certs chain = (ok, err) \<Longrightarrow> (ok \<longleftrightarrow> err = None) \<and>
     (ok \<longleftrightarrow> (\<exists>c \<in> set certs. \<exists>ca \<in> set chain. CheckSignatureFrom x c ca = None))"
proof -
  have "None \<in> set (concat (map (\<lambda>cert. map (CheckSignatureFrom x cert) chain) certs)) \<longleftrightarrow>
      (\<exists>c \<in> set certs. \<exists>ca \<in> set chain. CheckSignatureFrom x c ca = None)"
    by (simp add: image_iff eq_commute [of None "CheckSignatureFrom x c ca" for c ca])
  then show "isClientCertificateSigned x certs chain = (ok, err) \<Longrightarrow> ?thesis"
    by (simp only: isClientCertificateSigned_def Let_def) (auto split: if_splits)
qed

text \<open>
  Property C16: which requests pass. Without a client certificate none; on the registration path a request with
  any certificate that some authority signed, whether it expired or not; elsewhere one whose certificates
  are all valid and not registration certificates. A refusal always comes with an error. The
  identity of the caller is taken from the first certificate.
\<close>

theorem verify_request_exact:
  assumes "VerifyRequest x u verifyType verify chain certs = ((ok, err), identity)"
  shows "(ok \<longleftrightarrow> certs \<noteq> [] \<and> (if verifyType = YggdrasilRegisterAuth
        then \<exists>c \<in> set certs. \<exists>ca \<in> set chain. CheckSignatureFrom x c ca = None
        else \<forall>c \<in> set certs. pn_CommonName (xc_Subject c) \<noteq> CertRegisterCN \<and> verify c = None)) \<and>
    (ok \<longleftrightarrow> err = None) \<and> identity = (case certs of [] \<Rightarrow> None | c # _ \<Rightarrow> Some (auth_value u c))"
proof (cases certs)
  case Nil
  with assms show ?thesis by (auto simp: VerifyRequest_def)
next
  case (Cons c cs)
  obtain res e where signed: "isClientCertificateSigned x certs chain = (res, e)" by fastforce
  obtain res' e' where valid: "verify_all verify certs = (res', e')" by fastforce
  show ?thesis
    using assms signed_accepts [OF signed] verify_all_accepts [OF valid] signed valid Cons
    by (auto simp: VerifyRequest_def split: option.splits if_splits)
qed

section \<open>Concrete runs\<close>

text \<open>A codec that keeps its laws: a block is its type in a length-prefixed form, keys are their own encoding.\<close>

definition plain_encode :: "string \<Rightarrow> bytes \<Rightarrow> bytes" where
  "plain_encode ty b = replicate (length ty) CHR ''1'' @ ''0'' @ ty @ b"

definition plain_decode :: "bytes \<Rightarrow> (string \<times> bytes) option" where
  "plain_decode s = (let n = length (takeWhile (\<lambda>c. c = CHR ''1'') s) in
     if n < length s then Some (take n (drop (Suc n) s), drop (Suc (2 * n)) s) else None)"

definition plain_x509 :: x509_codec where
  "plain_x509 = \<lparr>pem_Decode = plain_decode, pem_Encode = plain_encode, ParseCertificate = (\<lambda>b. Inr zero_certificate),
     ParseECPrivateKey = Inr, MarshalECPrivateKey = Inr, ParsePKCS1PrivateKey = Inr, MarshalPKCS1PrivateKey = (\<lambda>b. b),
     ParseCertificateRequest = (\<lambda>b. Inr \<lparr>cr_Signature = [], cr_SignatureAlgorithm = [], cr_PublicKeyAlgorithm = [],
       cr_PublicKey = b, cr_Subject = zero_name\<lparr>pn_CommonName := ''other''\<rparr>\<rparr>),
     X509KeyPair = (\<lambda>c k. Inr c),
     CheckSignatureFrom = (\<lambda>c ca. if xc_Signature c = xc_PublicKey ca then None else Some (PlainError ''signature''))\<rparr>"

lemma plain_roundtrip: "plain_decode (plain_encode ty b) = Some (ty, b)"
proof -
  have "takeWhile (\<lambda>c. c = CHR ''1'') (replicate n CHR ''1'' @ CHR ''0'' # s) = replicate n CHR ''1''" for n s
    by (induction n) auto
  then show ?thesis by (simp add: plain_decode_def plain_encode_def Let_def)
qed

lemma plain_inverts: "codec_inverts plain_x509"
  by (simp add: codec_inverts_def plain_x509_def plain_roundtrip)

definition fresh_provider :: ca_secret_provider where
  "fresh_provider = \<lparr>sp_namespace = ''flotta'', sp_latestCA = None\<rparr>"

lemma first_ca_run:
  "map_option (\<lambda>(t, out). (case out of Returned (res, p) \<Rightarrow> \<not> isl res | _ \<Rightarrow> False,
       case fst (last t) of CreateSecret s \<Rightarrow> True | _ \<Rightarrow> False))
     (replay (GetCACertificate plain_x509 fresh_provider)
       [RErr (StatusError NotFound 404 ''none''), RTime 1, RTime 2, RTime 3, RKey (EcdsaKey ''key'') ''pub'', RText ''der'', ROk] []) =
   Some (True, True)"
  by code_simp

theorem ca_secret_roundtrip_witness:
  "\<exists>t g p' s r. exec (GetCACertificate plain_x509 fresh_provider) t (Returned (Inr g, p')) \<and> (CreateSecret s, r) \<in> set t \<and>
     exec (GetCACertificate plain_x509 fresh_provider) [(GetSecret CASecretName ''flotta'', RSecret s)]
       (Returned (Inr (g\<lparr>cg_certBytes := []\<rparr>), fresh_provider\<lparr>sp_latestCA := Some (g\<lparr>cg_certBytes := []\<rparr>)\<rparr>))"
proof -
  from first_ca_run obtain t out where
    r: "replay (GetCACertificate plain_x509 fresh_provider)
       [RErr (StatusError NotFound 404 ''none''), RTime 1, RTime 2, RTime 3, RKey (EcdsaKey ''key'') ''pub'', RText ''der'', ROk] [] =
       Some (t, out)"
    and out: "case out of Returned (res, p) \<Rightarrow> \<not> isl res | _ \<Rightarrow> False"
    and c: "case fst (last t) of CreateSecret s \<Rightarrow> True | _ \<Rightarrow> False"
    by auto
  from out obtain g p' where "out = Returned (Inr g, p')" by (auto split: outcome.splits simp: isl_def) (metis sum.exhaust)
  with replay_exec [OF r] have e: "exec (GetCACertificate plain_x509 fresh_provider) t (Returned (Inr g, p'))" by simp
  from e have "t \<noteq> []" by (auto simp: GetCACertificate_def call_object_def exec_Call)
  moreover from c obtain s where "fst (last t) = CreateSecret s" by (auto split: request.splits)
  ultimately have s: "(CreateSecret s, snd (last t)) \<in> set t" by (metis last_in_set prod.collapse)
  have "sp_namespace fresh_provider = ''flotta''" by (simp add: fresh_provider_def)
  with ca_secret_roundtrip [OF plain_inverts e s, of fresh_provider] e s show ?thesis by auto
qed

theorem reachable_configuration_signs_witness:
  "tls_ok (NewMTLSConfig ''flotta'' [''host''] True) \<and>
   returns (\<lambda>(res, conf'). isl res \<or> signs conf') (InitCertificates plain_x509 (NewMTLSConfig ''flotta'' [''host''] True))"
  using reachable_configuration_signs [OF tls_reachable.new [of plain_x509 "''flotta''" "[''host'']" True]] by blast

definition signing_config :: tls_config where
  "signing_config = SetCAProvider [\<lparr>sp_namespace = ''flotta'', sp_latestCA = Some
     \<lparr>cg_cert = Some zero_certificate, cg_signedCert = Some zero_certificate, cg_privKey = Some (EcdsaKey ''key''),
      cg_certBytes = [], cg_CertPEM = [], cg_PrivKeyPEM = []\<rparr>\<rparr>] (NewMTLSConfig ''flotta'' [''host''] True)"

theorem sign_csr_identity_witness:
  "\<exists>t cert template parent pub k r. exec (SignCSR plain_x509 signing_config ''0csr'' ''dev'' ''ns'') t (Returned (Inr cert)) \<and>
     (CreateCertificate template parent pub k, r) \<in> set t \<and> pn_CommonName (xc_Subject template) = ''dev'' \<and>
     pn_OrganizationalUnit (xc_Subject template) = [''ns'']"
proof -
  let ?p = "SignCSR plain_x509 signing_config ''0csr'' ''dev'' ''ns''"
  have "map_option (\<lambda>(t, out). case out of Returned res \<Rightarrow> \<not> isl res | _ \<Rightarrow> False)
      (replay ?p [RTime 0, RTime 0, RTime 0, RText ''der''] []) = Some True"
    by code_simp
  then obtain t out where r: "replay ?p [RTime 0, RTime 0, RTime 0, RText ''der''] [] = Some (t, out)"
    and out: "case out of Returned res \<Rightarrow> \<not> isl res | _ \<Rightarrow> False" by auto
  from out obtain cert where "out = Returned (Inr cert)" by (auto split: outcome.splits simp: isl_def) (metis sum.exhaust)
  with replay_exec [OF r] have e: "exec ?p t (Returned (Inr cert))" by simp
  from sign_csr_identity [OF e] e show ?thesis by fastforce
qed

definition plain_tables :: unicode_tables where
  "plain_tables = \<lparr>u_to_lower = (\<lambda>r. r), u_is_lower = (\<lambda>_. False), u_is_digit = (\<lambda>_. False)\<rparr>"

theorem verify_request_exact_witness:
  "\<exists>err identity. VerifyRequest plain_x509 plain_tables YggdrasilRegisterAuth (\<lambda>_. None) [zero_certificate] [zero_certificate] =
     ((True, err), identity) \<and> identity = Some (auth_value plain_tables zero_certificate)"
proof -
  obtain ok err identity where e: "VerifyRequest plain_x509 plain_tables YggdrasilRegisterAuth (\<lambda>_. None)
     [zero_certificate] [zero_certificate] = ((ok, err), identity)" by (metis prod.collapse)
  have "CheckSignatureFrom plain_x509 zero_certificate zero_certificate = None"
    by (simp add: plain_x509_def zero_certificate_def)
  with verify_request_exact [OF e] e show ?thesis by auto
qed

end
