(* ===== verification/Yggdrasil.thy ===== *)
theory Yggdrasil
  imports Backend Mtls
begin

text \<open>
  The HTTP API for devices: the handler of the four endpoints (\<open>src/internal/edgeapi/yggdrasil/yggdrasil.go\<close>) and
  the middleware in front of it that checks client certificates (\<open>src/cmd/httpapi/main.go\<close>).

  The handler calls its backend through the interface \<open>edge_device_backend\<close>. What it needs of the backend's
  contract is proved inside the locale \<open>device_api\<close>, which extends \<open>device_backend\<close>; the interpretation on
  \<open>k8s_backend\<close> gives the facts about the running program. Decoding the content of a message into a Go struct
  and encoding the playbooks are \<open>encoding/json\<close>; they are the fields of \<open>message_codec\<close>.

  A response is its status code and its payload. The value under \<open>AuthzKey\<close> in the context of a request is an
  argument of every handler, \<open>None\<close> when there is none.
\<close>

section \<open>Messages\<close>

record 'c message =
  msg_Content :: 'c
  msg_Directive :: string
  msg_MessageID :: string
  msg_Metadata :: json
  msg_ResponseTo :: string
  msg_Sent :: Time
  msg_Type :: string
  msg_Version :: int

definition MessageTypeCommand :: string where "MessageTypeCommand = ''command''"
definition MessageTypeData :: string where "MessageTypeData = ''data''"

text \<open>The contents the server sends: a configuration or the command \<open>disconnect\<close> without arguments.\<close>

datatype content = ConfigurationContent device_configuration_message | CommandContent string

datatype response_content = RegistrationContent string | TextContent string

record message_response =
  mrs_Content :: response_content
  mrs_Directive :: string
  mrs_MessageID :: string
  mrs_Metadata :: "(string, string) gomap"

text \<open>The body of an answer. An error of the generated layer has the code and the name of what it is about.\<close>

datatype payload =
    NoPayload
  | MessagePayload "content message"
  | ResponsePayload message_response
  | ErrorPayload nat string

record responder =
  rp_Code :: nat
  rp_Payload :: payload

definition respond :: "nat \<Rightarrow> responder" where
  "respond code = \<lparr>rp_Code = code, rp_Payload = NoPayload\<rparr>"

definition OK :: nat where "OK = 200"
definition AlreadyReported :: nat where "AlreadyReported = 208"
definition BadRequest :: nat where "BadRequest = 400"
definition Unauthorized :: nat where "Unauthorized = 401"
definition Forbidden :: nat where "Forbidden = 403"
definition NotFoundCode :: nat where "NotFoundCode = 404"
definition InternalServerError :: nat where "InternalServerError = 500"

record message_codec =
  decode_heartbeat :: "json \<Rightarrow> error + heartbeat"
  decode_enrolment :: "json \<Rightarrow> error + enrolment_info"
  decode_registration :: "json \<Rightarrow> error + registration_info"
  encode_playbooks :: "m_playbook_execution list \<Rightarrow> error + string"

section \<open>The handler\<close>

record handler =
  yh_backend :: edge_device_backend
  yh_initialNamespace :: string
  yh_mtlsConfig :: tls_config
  yh_x509 :: x509_codec
  yh_unicode :: unicode_tables
  yh_codec :: message_codec

type_synonym auth_context = "request_auth_val option"

definition IsOwnDevice :: "unicode_tables \<Rightarrow> auth_context \<Rightarrow> string \<Rightarrow> bool" where
  "IsOwnDevice u ctx deviceID =
     (if deviceID = [] then False
      else case ctx of None \<Rightarrow> False | Some val \<Rightarrow> ra_CommonName val = ToLower u deviceID)"

text \<open>The route of a request: no API yet, no match, or a match with the operation's name if there is one.\<close>

datatype api_route = NoApi | NoMatch | Route "string option"

definition YggrasilAPIRegistrationOperation :: string where
  "YggrasilAPIRegistrationOperation = ''PostDataMessageForDevice''"

definition GetAuthType :: "api_route \<Rightarrow> int" where
  "GetAuthType r = (case r of
      NoApi \<Rightarrow> 1
    | NoMatch \<Rightarrow> 1
    | Route (Some operation) \<Rightarrow> if operation = YggrasilAPIRegistrationOperation then YggdrasilRegisterAuth else 1
    | Route None \<Rightarrow> 1)"

definition getNamespace :: "handler \<Rightarrow> auth_context \<Rightarrow> string" where
  "getNamespace h ctx = (case ctx of
      None \<Rightarrow> yh_initialNamespace h
    | Some val \<Rightarrow> if ra_Namespace val \<noteq> [] then ra_Namespace val else yh_initialNamespace h)"

definition createDisconnectCommand :: "content message io" where
  "createDisconnectCommand = bindp go_uuid (\<lambda>uuid. bindp go_now (\<lambda>now.
     Ret \<lparr>msg_Content = CommandContent ''disconnect'', msg_Directive = [], msg_MessageID = uuid,
       msg_Metadata = JNull, msg_ResponseTo = [], msg_Sent = now,
       msg_Type = MessageTypeCommand, msg_Version = 1\<rparr>))"

text \<open>A request for a device other than the caller's.\<close>

definition refuse_owner :: "responder io" where
  "refuse_owner = bindp (tell (Metric IncEdgeDeviceInvalidOwnerCounter)) (\<lambda>_. Ret (respond Forbidden))"

definition GetControlMessageForDevice :: "handler \<Rightarrow> auth_context \<Rightarrow> string \<Rightarrow> responder io" where
  "GetControlMessageForDevice h ctx deviceID =
     (if \<not> IsOwnDevice (yh_unicode h) ctx deviceID then refuse_owner
      else bindp (be_GetRegistrationStatus (yh_backend h) deviceID (getNamespace h ctx)) (\<lambda>(regStatus, err). case err of
          Some e \<Rightarrow> Ret (respond (if IsNotFound e then NotFoundCode else InternalServerError))
        | None \<Rightarrow>
            if regStatus = Unregistered then
              bindp (tell (Metric IncEdgeDeviceUnregistration)) (\<lambda>_.
              mapp (\<lambda>m. \<lparr>rp_Code = OK, rp_Payload = MessagePayload m\<rparr>) createDisconnectCommand)
            else Ret (respond OK)))"

definition GetDataMessageForDevice :: "handler \<Rightarrow> auth_context \<Rightarrow> string \<Rightarrow> responder io" where
  "GetDataMessageForDevice h ctx deviceID =
     (if \<not> IsOwnDevice (yh_unicode h) ctx deviceID then refuse_owner
      else bindp (be_GetConfiguration (yh_backend h) deviceID (getNamespace h ctx)) (\<lambda>res. case res of
          Inl e \<Rightarrow> Ret (respond (if IsNotFound e then NotFoundCode else InternalServerError))
        | Inr dc \<Rightarrow> bindp go_uuid (\<lambda>uuid. bindp go_now (\<lambda>now.
            Ret \<lparr>rp_Code = OK, rp_Payload = MessagePayload
              \<lparr>msg_Content = ConfigurationContent dc, msg_Directive = ''device'', msg_MessageID = uuid,
       msg_Metadata = JNull, msg_ResponseTo = [], msg_Sent = now,
               msg_Type = MessageTypeData, msg_Version = 1\<rparr>\<rparr>))))"

definition PostControlMessageForDevice :: "handler \<Rightarrow> auth_context \<Rightarrow> string \<Rightarrow> responder io" where
  "PostControlMessageForDevice h ctx deviceID =
     (if \<not> IsOwnDevice (yh_unicode h) ctx deviceID then refuse_owner else Ret (respond OK))"

text \<open>The two loops that print a heartbeat dereference every event and every workload of it.\<close>

definition print_heartbeat :: "heartbeat \<Rightarrow> unit io" where
  "print_heartbeat hb = bindp (for_each deref (hb_Events hb)) (\<lambda>_. mapp (\<lambda>_. ()) (for_each deref (hb_Workloads hb)))"

definition post_heartbeat :: "handler \<Rightarrow> auth_context \<Rightarrow> string \<Rightarrow> json message \<Rightarrow> responder io" where
  "post_heartbeat h ctx deviceID msg = (case decode_heartbeat (yh_codec h) (msg_Content msg) of
      Inl e \<Rightarrow> Ret (respond BadRequest)
    | Inr hb \<Rightarrow>
        bindp (print_heartbeat hb) (\<lambda>_.
        bindp (RetryingDelegatingHandler_Process (\<lambda>retry.
            be_UpdateStatus (yh_backend h) retry deviceID (getNamespace h ctx) hb)) (\<lambda>err. case err of
            Some e \<Rightarrow> Ret (respond (if IsNotFound e then NotFoundCode else InternalServerError))
          | None \<Rightarrow> bindp (tell (Metric (RecordEdgeDevicePresence (getNamespace h ctx) deviceID))) (\<lambda>_. Ret (respond OK)))))"

definition post_enrolment :: "handler \<Rightarrow> string \<Rightarrow> json message \<Rightarrow> responder io" where
  "post_enrolment h deviceID msg = (case decode_enrolment (yh_codec h) (msg_Content msg) of
      Inl e \<Rightarrow> Ret (respond BadRequest)
    | Inr info \<Rightarrow>
        bindp (be_Enrol (yh_backend h) deviceID
            (case en_TargetNamespace info of Some ns \<Rightarrow> ns | None \<Rightarrow> yh_initialNamespace h) info) (\<lambda>(alreadyCreated, err).
          Ret (respond (if err \<noteq> None then BadRequest else if alreadyCreated then AlreadyReported else OK))))"

definition post_registration :: "handler \<Rightarrow> auth_context \<Rightarrow> string \<Rightarrow> json message \<Rightarrow> responder io" where
  "post_registration h ctx deviceID msg = (case decode_registration (yh_codec h) (msg_Content msg) of
      Inl e \<Rightarrow> Ret (respond BadRequest)
    | Inr info \<Rightarrow>
        bindp (be_GetTargetNamespace (yh_backend h) deviceID (getNamespace h ctx)
            (IsOwnDevice (yh_unicode h) ctx deviceID)) (\<lambda>res. case res of
          Inl e \<Rightarrow>
            if \<not> IsNotFound e then
              bindp (tell (Metric IncEdgeDeviceFailedRegistration)) (\<lambda>_. Ret (respond InternalServerError))
            else (case e of
                NotApproved _ \<Rightarrow> Ret (respond NotFoundCode)
              | _ \<Rightarrow> bindp (tell (Metric IncEdgeDeviceFailedRegistration)) (\<lambda>_. Ret (respond NotFoundCode)))
        | Inr ns \<Rightarrow>
            bindp (SignCSR (yh_x509 h) (yh_mtlsConfig h) (ri_CertificateRequest info) deviceID ns) (\<lambda>res. case res of
              Inl e \<Rightarrow> Ret (respond BadRequest)
            | Inr cert \<Rightarrow>
                bindp (be_Register (yh_backend h) deviceID ns info) (\<lambda>err.
                  if err \<noteq> None then
                    bindp (tell (Metric IncEdgeDeviceFailedRegistration)) (\<lambda>_. Ret (respond InternalServerError))
                  else
                    bindp (tell (Metric IncEdgeDeviceSuccessfulRegistration)) (\<lambda>_.
                    Ret \<lparr>rp_Code = OK, rp_Payload = ResponsePayload \<lparr>mrs_Content = RegistrationContent cert,
                      mrs_Directive = msg_Directive msg, mrs_MessageID = msg_MessageID msg, mrs_Metadata = None\<rparr>\<rparr>)))))"

definition post_ansible :: "handler \<Rightarrow> auth_context \<Rightarrow> string \<Rightarrow> json message \<Rightarrow> responder io" where
  "post_ansible h ctx deviceID msg =
     bindp (be_GetPlaybookExecutions (yh_backend h) deviceID (getNamespace h ctx)) (\<lambda>res. case res of
         Inl e \<Rightarrow> Ret (respond (if IsNotFound e then NotFoundCode else InternalServerError))
       | Inr playbookExecutions \<Rightarrow>
           if playbookExecutions = [] then Ret (respond InternalServerError)
           else (case encode_playbooks (yh_codec h) playbookExecutions of
               Inl e \<Rightarrow> Ret (respond InternalServerError)
             | Inr peBytes \<Rightarrow> bindp go_uuid (\<lambda>uuid.
                 Ret \<lparr>rp_Code = OK, rp_Payload = ResponsePayload \<lparr>mrs_Content = TextContent peBytes,
                   mrs_Directive = msg_Directive msg, mrs_MessageID = msg_MessageID msg,
                   mrs_Metadata = Some (fmupd ''return_url'' ''return_url''
                     (fmupd ''crc_dispatcher_correlation_id'' ''fake-crc-id'' (fmupd ''message-id'' uuid fmempty)))\<rparr>\<rparr>)))"

definition PostDataMessageForDevice :: "handler \<Rightarrow> auth_context \<Rightarrow> string \<Rightarrow> json message \<Rightarrow> responder io" where
  "PostDataMessageForDevice h ctx deviceID msg =
     (let d = msg_Directive msg in
      if d \<noteq> ''registration'' \<and> d \<noteq> ''enrolment'' \<and> \<not> IsOwnDevice (yh_unicode h) ctx deviceID then refuse_owner
      else if d = ''heartbeat'' then post_heartbeat h ctx deviceID msg
      else if d = ''enrolment'' then post_enrolment h deviceID msg
      else if d = ''registration'' then post_registration h ctx deviceID msg
      else if d = ''ansible'' then post_ansible h ctx deviceID msg
      else Ret (respond BadRequest))"

section \<open>The server\<close>

datatype api_call =
    GetControl string
  | GetData string
  | PostControl string
  | PostData string "json message"

fun handle :: "handler \<Rightarrow> auth_context \<Rightarrow> api_call \<Rightarrow> responder io" where
  "handle h ctx (GetControl deviceID) = GetControlMessageForDevice h ctx deviceID"
| "handle h ctx (GetData deviceID) = GetDataMessageForDevice h ctx deviceID"
| "handle h ctx (PostControl deviceID) = PostControlMessageForDevice h ctx deviceID"
| "handle h ctx (PostData deviceID msg) = PostDataMessageForDevice h ctx deviceID msg"

text \<open>
  \<open>InnerMiddleware\<close>: \<open>tls\<close> holds the certificates of the connection, \<open>None\<close> when it is not encrypted. The identity
  found by \<open>VerifyRequest\<close> becomes the context of the handler.
\<close>

definition InnerMiddleware :: "handler \<Rightarrow> certificate list \<Rightarrow> (certificate \<Rightarrow> error option) \<Rightarrow>
    certificate list option \<Rightarrow> api_route \<Rightarrow> (auth_context \<Rightarrow> responder io) \<Rightarrow> responder io" where
  "InnerMiddleware h CACertChain verify tls route next = (case tls of
      None \<Rightarrow> Ret (respond BadRequest)
    | Some certs \<Rightarrow>
        (case VerifyRequest (yh_x509 h) (yh_unicode h) (GetAuthType route) verify CACertChain certs of
          ((ok, _), ctx) \<Rightarrow>
            if \<not> ok then
              bindp (tell (Metric IncEdgeDeviceFailedAuthenticationCounter)) (\<lambda>_. Ret (respond Unauthorized))
            else next ctx))"

definition serve :: "handler \<Rightarrow> certificate list \<Rightarrow> (certificate \<Rightarrow> error option) \<Rightarrow>
    certificate list option \<Rightarrow> api_route \<Rightarrow> api_call \<Rightarrow> responder io" where
  "serve h chain verify tls route call = InnerMiddleware h chain verify tls route (\<lambda>ctx. handle h ctx call)"

text \<open>\<open>NewYggdrasilHandler\<close> over the Kubernetes backend.\<close>

definition k8s_handler :: "unicode_tables \<Rightarrow> yaml_codec \<Rightarrow> x509_codec \<Rightarrow> message_codec \<Rightarrow> string \<Rightarrow> tls_config \<Rightarrow> handler" where
  "k8s_handler u y x codec initialNamespace mtlsConfig =
     \<lparr>yh_backend = k8s_backend u y initialNamespace, yh_initialNamespace = initialNamespace, yh_mtlsConfig = mtlsConfig,
      yh_x509 = x, yh_unicode = u, yh_codec = codec\<rparr>"

section \<open>The handler over any backend that keeps the contract\<close>

fun permitted :: "footprint \<Rightarrow> api_call \<Rightarrow> request \<Rightarrow> bool" where
  "permitted fp (PostData deviceID msg) q =
     (if msg_Directive msg = ''heartbeat'' then fp_status fp q \<or> fp_query fp q
      else if msg_Directive msg = ''enrolment'' then fp_enrolment fp deviceID q
      else if msg_Directive msg = ''registration'' then fp_registration fp q \<or> is_sign q
      else fp_query fp q)"
| "permitted fp _ q = fp_query fp q"

text \<open>What is signed in the name of a device.\<close>

fun signs_for :: "string \<Rightarrow> string \<Rightarrow> request \<Rightarrow> bool" where
  "signs_for cn ns (CreateCertificate template _ _ _) =
     (pn_CommonName (xc_Subject template) = cn \<and> pn_OrganizationalUnit (xc_Subject template) = [ns])"
| "signs_for cn ns q = (q = Now)"

lemma issues_SignCSR: "issues (signs_for cn ns) (SignCSR x conf csr cn ns)"
  by (auto simp: SignCSR_def Provider_SignCSR_def client_template_def is_query_def intro!: issues_bindpI
      split: list.split option.split sum.split)

lemma signs_for_cases: "signs_for cn ns q \<Longrightarrow> q = Now \<or> is_sign q"
  by (cases q) auto

lemma issues_refuse_owner: "P (Metric IncEdgeDeviceInvalidOwnerCounter) \<Longrightarrow> issues P refuse_owner"
  by (simp add: refuse_owner_def issues_bindpI)

lemma issues_print_heartbeat [simp]: "issues P (print_heartbeat hb)"
  by (auto simp: print_heartbeat_def intro!: issues_bindpI issues_for_each)

lemma issues_process_attempts:
  "(\<And>b. issues P (delegate b)) \<Longrightarrow> (\<And>ms. P (SleepMs ms)) \<Longrightarrow> issues P (process_attempts is b err delegate)"
  by (induction "is" arbitrary: b err) (auto simp: process_attempts.simps intro!: issues_bindpI split: option.split)

text \<open>Where in a sequence of two programs a request was made.\<close>

lemma request_in_second:
  assumes "exec (bindp p f) t out" "c \<in> set t" "P (fst c)" "issues (\<lambda>q. \<not> P q) p"
  obtains a t1 t2 where "exec p t1 (Returned a)" "exec (f a) t2 out" "t = t1 @ t2" "c \<in> set t2"
proof -
  have "c \<notin> set t'" if "exec p t' o'" for t' o' using that assms(3,4) by (auto simp: issues_exec)
  with assms(1,2) that show thesis unfolding exec_bindp by (metis Un_iff set_append)
qed

lemma request_in_first:
  assumes "exec (bindp p f) t out" "c \<in> set t" "P (fst c)" "\<And>a. issues (\<lambda>q. \<not> P q) (f a)"
  obtains t1 out1 where "exec p t1 out1" "c \<in> set t1"
proof -
  have "c \<notin> set t'" if "exec (f a) t' o'" for a t' o' using that assms(3) assms(4) [of a] by (auto simp: issues_exec)
  with assms(1,2) that show thesis unfolding exec_bindp by (metis Un_iff set_append)
qed

locale device_api = device_backend "yh_backend h" fp for h :: handler and fp :: footprint
begin

lemma query_no_sign: "fp_query fp q \<Longrightarrow> \<not> is_sign q"
  by (rule registration_no_sign [OF query_registration])

lemma issues_heartbeat: "issues (\<lambda>q. fp_status fp q \<or> fp_query fp q) (post_heartbeat h ctx dev msg)"
  by (auto simp: post_heartbeat_def RetryingDelegatingHandler_Process_def local_queries
      intro!: issues_bindpI issues_process_attempts issues_mono [OF status_requests] split: sum.split option.split)

lemma issues_enrolment: "issues (fp_enrolment fp dev) (post_enrolment h dev msg)"
  by (auto simp: post_enrolment_def intro!: issues_bindpI enrol_requests split: sum.split option.split)

lemma sign_permitted: "signs_for cn ns q \<Longrightarrow> fp_registration fp q \<or> is_sign q"
  using signs_for_cases query_registration local_queries(3) by blast

lemma issues_registration: "issues (\<lambda>q. fp_registration fp q \<or> is_sign q) (post_registration h ctx dev msg)"
  by (auto simp: post_registration_def local_queries intro!: issues_bindpI issues_mono [OF register_requests]
      issues_mono [OF target_reads] issues_mono [OF issues_SignCSR sign_permitted] query_registration
      split: sum.split error.split)

lemma issues_ansible: "issues (fp_query fp) (post_ansible h ctx dev msg)"
  by (auto simp: post_ansible_def local_queries intro!: issues_bindpI playbooks_read split: sum.split)

lemma issues_handle: "issues (permitted fp call) (handle h ctx call)"
proof (cases call)
  case (PostData dev msg)
  then show ?thesis
    by (auto simp: PostDataMessageForDevice_def Let_def local_queries
        intro!: issues_refuse_owner issues_mono [OF issues_heartbeat] issues_mono [OF issues_enrolment]
          issues_mono [OF issues_registration] issues_mono [OF issues_ansible])
qed (auto simp: GetControlMessageForDevice_def GetDataMessageForDevice_def PostControlMessageForDevice_def
    createDisconnectCommand_def local_queries intro!: issues_refuse_owner issues_bindpI
      issues_mono [OF status_reads] issues_mono [OF configuration_reads]
    split: sum.split option.split)

text \<open>A certificate is only signed on the registration path, after a namespace was handed out.\<close>

lemma registration_signs:
  assumes "exec (post_registration h ctx dev msg) t out" and s: "(CreateCertificate template parent pub k, r) \<in> set t"
  shows "\<exists>ns t1 t2. exec (be_GetTargetNamespace (yh_backend h) dev (getNamespace h ctx) (IsOwnDevice (yh_unicode h) ctx dev))
      t1 (Returned (Inr ns)) \<and> t = t1 @ t2 \<and> (CreateCertificate template parent pub k, r) \<in> set t2 \<and>
      signs_for dev ns (CreateCertificate template parent pub k)"
proof -
  let ?c = "(CreateCertificate template parent pub k, r)"
  let ?gate = "be_GetTargetNamespace (yh_backend h) dev (getNamespace h ctx) (IsOwnDevice (yh_unicode h) ctx dev)"
  from assms obtain info where i: "decode_registration (yh_codec h) (msg_Content msg) = Inr info"
    by (auto simp: post_registration_def split: sum.splits)
  let ?reg = "\<lambda>ns cert. bindp (be_Register (yh_backend h) dev ns info) (\<lambda>err.
      if err \<noteq> None then bindp (tell (Metric IncEdgeDeviceFailedRegistration)) (\<lambda>_. Ret (respond InternalServerError))
      else bindp (tell (Metric IncEdgeDeviceSuccessfulRegistration)) (\<lambda>_.
        Ret \<lparr>rp_Code = OK, rp_Payload = ResponsePayload \<lparr>mrs_Content = RegistrationContent cert,
          mrs_Directive = msg_Directive msg, mrs_MessageID = msg_MessageID msg, mrs_Metadata = None\<rparr>\<rparr>))"
  let ?sign = "\<lambda>ns. bindp (SignCSR (yh_x509 h) (yh_mtlsConfig h) (ri_CertificateRequest info) dev ns) (\<lambda>res. case res of
      Inl e \<Rightarrow> Ret (respond BadRequest) | Inr cert \<Rightarrow> ?reg ns cert)"
  let ?fail = "\<lambda>e. if \<not> IsNotFound e then
      bindp (tell (Metric IncEdgeDeviceFailedRegistration)) (\<lambda>_. Ret (respond InternalServerError))
    else (case e of NotApproved _ \<Rightarrow> Ret (respond NotFoundCode)
      | _ \<Rightarrow> bindp (tell (Metric IncEdgeDeviceFailedRegistration)) (\<lambda>_. Ret (respond NotFoundCode))) :: responder io"
  from assms(1) have e: "exec (bindp ?gate (\<lambda>res. case res of Inl e \<Rightarrow> ?fail e | Inr ns \<Rightarrow> ?sign ns)) t out"
    by (simp only: post_registration_def i sum.case)
  have fail: "issues (\<lambda>q. \<not> is_sign q) (?fail e)" for e
    by (auto intro!: issues_bindpI split: error.split)
  from e s obtain a t1 t2 where gate: "exec ?gate t1 (Returned a)" and t: "t = t1 @ t2" and s2: "?c \<in> set t2"
    and rest: "exec (case a of Inl e \<Rightarrow> ?fail e | Inr ns \<Rightarrow> ?sign ns) t2 out"
    by (rule request_in_second [where P = is_sign]) (auto intro: issues_mono [OF target_reads query_no_sign])
  obtain ns where ns: "a = Inr ns"
  proof (cases a)
    case (Inl e)
    with rest s2 fail [of e] show thesis by (fastforce simp: issues_exec)
  qed (rule that)
  have quiet: "issues (\<lambda>q. \<not> is_sign q) (case res of Inl e \<Rightarrow> Ret (respond BadRequest) | Inr cert \<Rightarrow> ?reg ns cert)" for res
    by (auto intro!: issues_bindpI issues_mono [OF register_requests registration_no_sign] split: sum.split)
  from rest [unfolded ns sum.case] s2 obtain t3 out3 where
    "exec (SignCSR (yh_x509 h) (yh_mtlsConfig h) (ri_CertificateRequest info) dev ns) t3 out3" "?c \<in> set t3"
    by (rule request_in_first [where P = is_sign, OF _ _ _ quiet]) simp_all
  with issues_SignCSR have "signs_for dev ns (CreateCertificate template parent pub k)"
    by (fastforce simp: issues_exec)
  with gate ns t s2 show ?thesis by auto
qed

lemma signs_on_registration:
  assumes "exec (handle h ctx call) t out" and s: "(CreateCertificate template parent pub k, r) \<in> set t"
  obtains dev msg where "call = PostData dev msg" "msg_Directive msg = ''registration''" "exec (post_registration h ctx dev msg) t out"
proof -
  from issues_handle assms have p: "permitted fp call (CreateCertificate template parent pub k)"
    by (fastforce simp: issues_exec)
  then obtain dev msg where "call = PostData dev msg" "msg_Directive msg = ''registration''"
    by (cases call) (auto dest: query_no_sign enrolment_no_sign status_no_sign split: if_splits)
  with assms that show thesis by (auto simp: PostDataMessageForDevice_def)
qed

end

interpretation k8s_api: device_api "k8s_handler u y x codec initialNamespace mtlsConfig" k8s_footprint
  using k8s.device_backend_axioms by (simp add: device_api_def k8s_handler_def)

section \<open>Properties\<close>

text \<open>
  What an endpoint may ask for. \<open>is_lookup\<close> is a read of one object, the clock, an identifier or a pause. Everything else is
  listed per endpoint: \<open>counts\<close> for the counters of the metrics, \<open>changes\<close> for what is written, recorded or signed.
\<close>

fun is_lookup :: "request \<Rightarrow> bool" where
  "is_lookup (GetDevice _ _) = True"
| "is_lookup (GetWorkload _ _) = True"
| "is_lookup (GetEDSR _ _) = True"
| "is_lookup (GetPlaybookExec _ _) = True"
| "is_lookup (GetDeviceSet _ _) = True"
| "is_lookup (GetOBC _ _) = True"
| "is_lookup (GetConfigMap _ _) = True"
| "is_lookup (GetSecret _ _) = True"
| "is_lookup (GetRoute _ _) = True"
| "is_lookup NewUUID = True"
| "is_lookup Now = True"
| "is_lookup (SleepMs _) = True"
| "is_lookup _ = False"

text \<open>The warning about a workload whose pull secret is missing.\<close>

definition warns :: "request \<Rightarrow> bool" where
  "warns q \<longleftrightarrow> (\<exists>d w. q = missing_auth_file d w)"

fun enrols :: "string \<Rightarrow> request \<Rightarrow> bool" where
  "enrols n (CreateEDSR r) = (om_Name (sr_meta r) = n \<and> \<not> rs_Approved (sr_Spec r))"
| "enrols n q = False"

fun registers :: "request \<Rightarrow> bool" where
  "registers (PatchDevice old new) = (new = set_ed_Labels (ed_Labels new) old)"
| "registers (PatchDeviceStatus old new) = (new = set_hardware (es_Hardware (ed_Status new)) old)"
| "registers q = False"

fun counts :: "api_call \<Rightarrow> metric_op \<Rightarrow> bool" where
  "counts (GetControl _) m = (m = IncEdgeDeviceUnregistration \<or> m = IncEdgeDeviceInvalidOwnerCounter)"
| "counts (PostData d msg) m =
     (if msg_Directive msg = ''registration'' then m = IncEdgeDeviceFailedRegistration \<or> m = IncEdgeDeviceSuccessfulRegistration
      else if msg_Directive msg = ''enrolment'' then False
      else if msg_Directive msg = ''heartbeat'' then m = IncEdgeDeviceInvalidOwnerCounter \<or> (\<exists>ns. m = RecordEdgeDevicePresence ns d)
      else m = IncEdgeDeviceInvalidOwnerCounter)"
| "counts _ m = (m = IncEdgeDeviceInvalidOwnerCounter)"

fun changes :: "api_call \<Rightarrow> request \<Rightarrow> bool" where
  "changes (GetData _) q = warns q"
| "changes (PostData d msg) q =
     (if msg_Directive msg = ''heartbeat'' then is_status_request q
      else if msg_Directive msg = ''enrolment'' then enrols d q
      else if msg_Directive msg = ''registration'' then registers q \<or> is_sign q
      else False)"
| "changes _ q = False"

definition endpoint_request :: "api_call \<Rightarrow> request \<Rightarrow> bool" where
  "endpoint_request call q \<longleftrightarrow> is_lookup q \<or> (\<exists>m. q = Metric m \<and> counts call m) \<or> changes call q"

lemma config_read_lookup: "is_config_read d q \<Longrightarrow> is_lookup q \<or> warns q"
  by (cases q) (auto simp: warns_def)

lemma lookups:
  "issues is_lookup (GetRegistrationStatus n ns)" "issues is_lookup (GetTargetNamespace i n ns m)"
  "issues is_lookup (GetPlaybookExecutions n ns)"
  by (auto simp: backend_defs issues_playbook_answers intro!: issues_bindpI issues_trypI split: option.split)

lemma configuration_lookups: "issues (\<lambda>q. is_lookup q \<or> warns q) (GetConfiguration y n ns)"
  by (auto simp: backend_defs intro!: issues_bindpI issues_trypI issues_mono [OF issues_GetDeviceConfiguration config_read_lookup]
      split: option.split)

lemma enrolment_changes: "issues (\<lambda>q. is_lookup q \<or> enrols n q) (Enrol i n ns info)"
  by (auto simp: Enrol_def CreateEdgeDeviceSignedRequest_def EDSR_Create_def enrolment_request_def
      intro!: issues_bindpI split: option.split)

lemma registration_patch:
  "issues (\<lambda>q. is_lookup q \<or> registers q) (patch_status d (\<lambda>device. mapp (\<lambda>hw. set_hardware hw device) (MapHardware h)))"
  by (auto simp: patch_status_def issues_bindp_iff exec_mapp PatchEdgeDeviceStatus_def EdgeDevice_PatchStatus_def
      set_hardware_def)

lemma registration_changes: "issues (\<lambda>q. is_lookup q \<or> registers q) (Register u n ns info)"
proof -
  have "issues (\<lambda>q. is_lookup q \<or> registers q) (status_attempt d (\<lambda>device. mapp (\<lambda>hw. set_hardware hw device) (MapHardware h)))" for d h
    by (auto simp: status_attempt_def registration_patch intro!: issues_bindpI)
  then show ?thesis
    by (auto simp: Register_def updateDeviceStatus_def PatchEdgeDevice_def EdgeDevice_Patch_def 
        intro!: issues_bindpI registration_patch issues_retries split: option.split)
qed

lemma k8s_operations [simp]:
  "be_GetRegistrationStatus (yh_backend (k8s_handler u y x codec ns tls)) = GetRegistrationStatus"
  "be_GetConfiguration (yh_backend (k8s_handler u y x codec ns tls)) = GetConfiguration y"
  "be_Enrol (yh_backend (k8s_handler u y x codec ns tls)) = Enrol ns"
  "be_GetTargetNamespace (yh_backend (k8s_handler u y x codec ns tls)) = GetTargetNamespace ns"
  "be_GetPlaybookExecutions (yh_backend (k8s_handler u y x codec ns tls)) = GetPlaybookExecutions"
  "be_Register (yh_backend (k8s_handler u y x codec ns tls)) = Register u"
  "be_UpdateStatus (yh_backend (k8s_handler u y x codec ns tls)) = UpdateStatus u"
  by (simp_all add: k8s_handler_def k8s_backend_def)

lemma get_requests:
  "issues (endpoint_request (GetControl d)) (GetControlMessageForDevice (k8s_handler u y x codec ns tls) ctx d)"
  "issues (endpoint_request (GetData d)) (GetDataMessageForDevice (k8s_handler u y x codec ns tls) ctx d)"
  "issues (endpoint_request (PostControl d)) (PostControlMessageForDevice (k8s_handler u y x codec ns tls) ctx d)"
  by (auto simp: endpoint_request_def GetControlMessageForDevice_def GetDataMessageForDevice_def PostControlMessageForDevice_def createDisconnectCommand_def
      intro!: issues_refuse_owner issues_bindpI issues_mono [OF lookups(1)] issues_mono [OF configuration_lookups]
      split: option.split sum.split)

lemma heartbeat_requests:
  assumes "msg_Directive msg = ''heartbeat''"
  shows "issues (endpoint_request (PostData d msg)) (post_heartbeat (k8s_handler u y x codec ns tls) ctx d msg)"
  using assms
  by (auto simp: endpoint_request_def post_heartbeat_def RetryingDelegatingHandler_Process_def
      intro!: issues_bindpI issues_process_attempts issues_mono [OF issues_UpdateStatus]
      split: option.split sum.split)

lemma enrolment_requests:
  assumes "msg_Directive msg = ''enrolment''"
  shows "issues (endpoint_request (PostData d msg)) (post_enrolment (k8s_handler u y x codec ns tls) d msg)"
  using assms
  by (auto simp: endpoint_request_def post_enrolment_def intro!: issues_bindpI issues_mono [OF enrolment_changes]
      split: option.split sum.split)

lemma registration_requests:
  assumes "msg_Directive msg = ''registration''"
  shows "issues (endpoint_request (PostData d msg)) (post_registration (k8s_handler u y x codec ns tls) ctx d msg)"
proof -
  have sign: "endpoint_request (PostData d msg) q" if "signs_for cn n q" for cn n q
    using signs_for_cases [OF that] assms by (auto simp: endpoint_request_def)
  show ?thesis using assms
    by (auto simp: endpoint_request_def post_registration_def intro!: issues_bindpI issues_mono [OF lookups(2)] issues_mono [OF issues_SignCSR sign]
        issues_mono [OF registration_changes] split: sum.split error.split)
qed

lemma ansible_requests:
  "issues (endpoint_request (PostData d msg)) (post_ansible (k8s_handler u y x codec ns tls) ctx d msg)"
  by (auto simp: endpoint_request_def post_ansible_def intro!: issues_bindpI issues_mono [OF lookups(3)] split: sum.split)

text \<open>
  Property C9: what the endpoints may ask for, whatever the API server answers. Besides lookups of single objects, the clock, identifiers
  and pauses:
  \<^item> the control channel only counts: a caller that is not the owner, and for \<open>GET\<close> a device that is unregistered;
  \<^item> \<open>GET\<close> of the data counts a foreign caller and may record the warning about a workload without its pull secret;
  \<^item> a heartbeat counts a foreign caller and the presence of the device, patches statuses and labels of devices and
    playbook executions, and records events;
  \<^item> enrolment only creates a signed request that has the name of the device and is not approved;
  \<^item> registration counts its success or failure, patches labels and hardware of devices, and signs;
  \<^item> the playbook query and every unknown directive only count a foreign caller.
\<close>

theorem endpoint_requests:
  "issues (endpoint_request call) (handle (k8s_handler u y x codec initialNamespace mtlsConfig) ctx call)"
proof (cases call)
  case (PostData d msg)
  then show ?thesis
    by (auto simp: endpoint_request_def PostDataMessageForDevice_def Let_def intro!: issues_refuse_owner heartbeat_requests
        enrolment_requests registration_requests ansible_requests)
qed (simp_all add: get_requests)

fun device_of :: "api_call \<Rightarrow> string" where
  "device_of (GetControl d) = d" | "device_of (GetData d) = d" | "device_of (PostControl d) = d" | "device_of (PostData d _) = d"

fun needs_owner :: "api_call \<Rightarrow> bool" where
  "needs_owner (PostData _ msg) = (msg_Directive msg \<noteq> ''registration'' \<and> msg_Directive msg \<noteq> ''enrolment'')"
| "needs_owner _ = True"

text \<open>
  Property C5: a caller may only speak for itself. Apart from registration and enrolment, a request for a device
  whose name is not the common name of the caller's certificate is answered 403 and reaches neither the
  cluster nor the backend: the invalid-owner counter is all that changes.
\<close>

theorem foreign_device_refused:
  assumes "needs_owner call" and "\<not> IsOwnDevice (yh_unicode h) ctx (device_of call)"
  shows "exec (handle h ctx call) t out \<longleftrightarrow>
    (\<exists>r. t = [(Metric IncEdgeDeviceInvalidOwnerCounter, r)]) \<and> out = Returned (respond Forbidden)"
  using assms
  by (cases call) (auto simp: GetControlMessageForDevice_def GetDataMessageForDevice_def PostControlMessageForDevice_def
      PostDataMessageForDevice_def Let_def refuse_owner_def tell_def exec_Call)

text \<open>
  Property C3: no certificate without admission. Whenever the server signs a certificate it does so on the
  registration endpoint, for the device named in the request and a namespace in which that device was
  just read, and either the caller already holds that device's certificate or the device was approved and has not
  registered yet.
\<close>

theorem certificate_needs_admission:
  assumes "exec (handle (k8s_handler u y x codec initialNamespace mtlsConfig) ctx call) t out"
    and "(CreateCertificate template parent pub k, r) \<in> set t"
  shows "\<exists>dev msg ns r' d. call = PostData dev msg \<and> pn_CommonName (xc_Subject template) = dev \<and>
    pn_OrganizationalUnit (xc_Subject template) = [ns] \<and>
    (GetDevice dev ns, r') \<in> set t \<and> object_result as_device r' = Inr d \<and> (IsOwnDevice u ctx dev \<or> is_init d)"
proof -
  let ?h = "k8s_handler u y x codec initialNamespace mtlsConfig"
  from assms obtain dev msg where call: "call = PostData dev msg" "msg_Directive msg = ''registration''"
    and reg: "exec (post_registration ?h ctx dev msg) t out"
    by (rule k8s_api.signs_on_registration)
  from k8s_api.registration_signs [OF reg assms(2)] obtain ns t1 t2 where
    gate: "exec (GetTargetNamespace initialNamespace dev (getNamespace ?h ctx) (IsOwnDevice u ctx dev)) t1 (Returned (Inr ns))"
    and t: "t = t1 @ t2" and signed: "signs_for dev ns (CreateCertificate template parent pub k)"
    by (auto simp: k8s_handler_def k8s_backend_def)
  from t have sub: "set t1 \<subseteq> set t" by simp
  from gate sub obtain r' d where "(GetDevice dev ns, r') \<in> set t" "object_result as_device r' = Inr d"
    "IsOwnDevice u ctx dev \<or> is_init d"
    by (auto simp: exec_GetTargetNamespace)
  with call signed show ?thesis by auto
qed

text \<open>
  Property C17: a certificate signed for a device lets that device in under its own name: presented first and
  accepted, its subject makes the caller the owner of the device and sends it to the namespace it was signed for, neither of which is
  empty.
\<close>

theorem issued_certificate_identifies:
  assumes "VerifyRequest x (yh_unicode h) verifyType verify chain (cert # certs) = ((True, err), ctx)"
    and "xc_Subject cert = xc_Subject (client_template req dev ns t1 t2 expiration)" and "dev \<noteq> []" and "ns \<noteq> []"
  shows "IsOwnDevice (yh_unicode h) ctx dev \<and> getNamespace h ctx = ns"
proof -
  from assms(1) have "ctx = Some (auth_value (yh_unicode h) cert)" by (simp add: VerifyRequest_def)
  with assms(2-4) show ?thesis
    by (simp add: IsOwnDevice_def getNamespace_def auth_value_def client_template_def)
qed

text \<open>
  Property C40: the middleware lets a caller choose its identity. Every route is checked like registration, so
  one certificate of the authority anywhere in the chain is enough, while the identity is read from the first
  certificate, which nobody signed: any holder of a signed certificate, expired or for registration only,
  is served as the owner of any device it names.
\<close>

theorem any_certificate_impersonates:
  assumes "CheckSignatureFrom (yh_x509 h) c ca = None" and "ca \<in> set chain" and "dev \<noteq> []"
    and "pn_CommonName (xc_Subject forged) = dev"
  shows "serve h chain verify (Some [forged, c]) route call = handle h (Some (auth_value (yh_unicode h) forged)) call \<and>
    IsOwnDevice (yh_unicode h) (Some (auth_value (yh_unicode h) forged)) dev"
proof -
  have "GetAuthType route = YggdrasilRegisterAuth"
    by (cases route) (auto simp: GetAuthType_def YggdrasilRegisterAuth_def split: option.split)
  moreover obtain ok err where signed: "isClientCertificateSigned (yh_x509 h) [forged, c] chain = (ok, err)" by fastforce
  moreover from signed_accepts [OF signed] assms(1,2) have "ok" "err = None" by auto
  ultimately show ?thesis
    using assms(3,4)
    by (simp add: serve_def InnerMiddleware_def VerifyRequest_def IsOwnDevice_def auth_value_def)
qed

lemma for_each_deref: "for_each deref xs = (if None \<in> set xs then Panic nil_dereference else Ret (map the xs))"
  by (induction xs) (auto simp: deref_def mapp_def split: option.split)

text \<open>
  A heartbeat with a \<open>null\<close> event or workload in it panics while it is printed, before anything is
  recorded, although the code that records events skips such entries.
\<close>

theorem null_entry_panics:
  assumes "decode_heartbeat (yh_codec h) (msg_Content msg) = Inr hb" and "None \<in> set (hb_Events hb) \<or> None \<in> set (hb_Workloads hb)"
    and "msg_Directive msg = ''heartbeat''" and "IsOwnDevice (yh_unicode h) ctx dev"
  shows "exec (handle h ctx (PostData dev msg)) t out \<longleftrightarrow> t = [] \<and> out = Panicked nil_dereference"
  using assms
  by (auto simp: PostDataMessageForDevice_def post_heartbeat_def print_heartbeat_def for_each_deref mapp_def)

section \<open>Typed answers\<close>

text \<open>The status codes of \<open>src/swagger.yaml\<close> per operation, and where an answer may have which body.\<close>

fun documented :: "api_call \<Rightarrow> nat set" where
  "documented (PostData _ _) = {OK, AlreadyReported, BadRequest, Unauthorized, Forbidden, NotFoundCode, InternalServerError}"
| "documented _ = {OK, Unauthorized, Forbidden, NotFoundCode, InternalServerError}"

fun body_allowed :: "api_call \<Rightarrow> payload \<Rightarrow> bool" where
  "body_allowed _ NoPayload = True"
| "body_allowed (GetControl _) (MessagePayload m) = (msg_Type m = MessageTypeCommand)"
| "body_allowed (GetData _) (MessagePayload m) = (msg_Type m = MessageTypeData)"
| "body_allowed (PostData _ msg) (ResponsePayload r) = (mrs_Directive r = msg_Directive msg \<and> mrs_MessageID r = msg_MessageID msg)"
| "body_allowed _ _ = False"

definition typed_answer :: "api_call \<Rightarrow> responder \<Rightarrow> bool" where
  "typed_answer call resp \<longleftrightarrow> rp_Code resp \<in> documented call \<and> body_allowed call (rp_Payload resp) \<and>
     (rp_Payload resp \<noteq> NoPayload \<longrightarrow> rp_Code resp = OK)"

text \<open>Every value the program returns satisfies \<open>P\<close>.\<close>

definition yields :: "('a \<Rightarrow> bool) \<Rightarrow> 'a io \<Rightarrow> bool" where
  "yields P p \<longleftrightarrow> (\<forall>t a. exec p t (Returned a) \<longrightarrow> P a)"

lemma yields_bindpI: "(\<And>a. yields P (f a)) \<Longrightarrow> yields P (bindp p f)"
  by (auto simp: yields_def exec_bindp)

lemma yields_Ret [simp]: "yields P (Ret a) = P a"
  by (auto simp: yields_def)

lemma yields_mapp: "yields (P \<circ> g) p \<Longrightarrow> yields P (mapp g p)"
  by (auto simp: yields_def exec_mapp)

lemma typed_respond [simp]: "typed_answer call (respond code) \<longleftrightarrow> code \<in> documented call"
  by (simp add: typed_answer_def respond_def)

lemma yields_refuse: "Forbidden \<in> documented call \<Longrightarrow> yields (typed_answer call) refuse_owner"
  by (auto simp: refuse_owner_def intro!: yields_bindpI)

lemma documented_simps [simp]:
  "OK \<in> documented call" "Unauthorized \<in> documented call" "Forbidden \<in> documented call" "NotFoundCode \<in> documented call"
  "InternalServerError \<in> documented call" "BadRequest \<in> documented (PostData d m)" "AlreadyReported \<in> documented (PostData d m)"
  by (cases call; simp)+

lemma yields_post:
  "yields (typed_answer (PostData d msg)) (post_heartbeat h ctx d msg)"
  "yields (typed_answer (PostData d msg)) (post_enrolment h d msg)"
  "yields (typed_answer (PostData d msg)) (post_ansible h ctx d msg)"
  by (auto simp: post_heartbeat_def post_enrolment_def post_ansible_def typed_answer_def [of _ "\<lparr>rp_Code = _, rp_Payload = _\<rparr>"]
      intro!: yields_bindpI split: sum.split option.split)

lemma yields_registration: "yields (typed_answer (PostData d msg)) (post_registration h ctx d msg)"
  by (auto simp: post_registration_def typed_answer_def [of _ "\<lparr>rp_Code = _, rp_Payload = _\<rparr>"]
      intro!: yields_bindpI split: sum.split option.split error.split)

lemma yields_handle: "yields (typed_answer call) (handle h ctx call)"
proof (cases call)
  case (GetControl d)
  have "yields (typed_answer call \<circ> (\<lambda>m. \<lparr>rp_Code = OK, rp_Payload = MessagePayload m\<rparr>)) createDisconnectCommand"
    using GetControl by (auto simp: createDisconnectCommand_def typed_answer_def intro!: yields_bindpI)
  with GetControl show ?thesis
    by (auto simp: GetControlMessageForDevice_def yields_refuse intro!: yields_bindpI yields_mapp split: option.split)
next
  case (GetData d)
  then show ?thesis
    by (auto simp: GetDataMessageForDevice_def yields_refuse typed_answer_def [of _ "\<lparr>rp_Code = _, rp_Payload = _\<rparr>"]
        intro!: yields_bindpI split: sum.split)
next
  case (PostControl d)
  then show ?thesis by (simp add: PostControlMessageForDevice_def yields_refuse)
next
  case (PostData d msg)
  then show ?thesis by (simp add: PostDataMessageForDevice_def Let_def yields_refuse yields_post yields_registration)
qed

lemma yields_serve: "yields (typed_answer call) (serve h chain verify (Some certs) route call)"
  by (auto simp: serve_def InnerMiddleware_def yields_handle intro!: yields_bindpI split: prod.split)

section \<open>Concrete runs\<close>

definition null_beat :: heartbeat where
  "null_beat = \<lparr>hb_Events = [None], hb_Hardware = None, hb_PlaybookExecutions = [], hb_Status = ''up'', hb_Upgrade = None,
     hb_Version = ''7'', hb_Workloads = []\<rparr>"

definition plain_messages :: message_codec where
  "plain_messages = \<lparr>decode_heartbeat = (\<lambda>_. Inr null_beat),
     decode_enrolment = (\<lambda>_. Inr \<lparr>en_Features = None, en_TargetNamespace = None\<rparr>),
     decode_registration = (\<lambda>_. Inr \<lparr>ri_CertificateRequest = ''0csr'', ri_Hardware = None\<rparr>),
     encode_playbooks = (\<lambda>_. Inr [])\<rparr>"

definition demo_handler :: handler where
  "demo_handler = k8s_handler ascii_tables plain_codec plain_x509 plain_messages ''flotta'' signing_config"

definition post :: "string \<Rightarrow> json message" where
  "post directive = \<lparr>msg_Content = JNull, msg_Directive = directive, msg_MessageID = ''1'',
     msg_Metadata = JNull, msg_ResponseTo = [], msg_Sent = 0, msg_Type = MessageTypeData,
     msg_Version = 1\<rparr>"

theorem foreign_device_refused_witness:
  "exec (handle demo_handler None (PostData ''dev'' (post ''heartbeat''))) [(Metric IncEdgeDeviceInvalidOwnerCounter, ROk)]
     (Returned (respond Forbidden))"
  by (subst foreign_device_refused) (simp_all add: post_def IsOwnDevice_def)

theorem certificate_needs_admission_witness:
  "\<exists>t out template parent pub k r r' d. exec (handle demo_handler None (PostData ''dev'' (post ''registration''))) t out \<and>
     (CreateCertificate template parent pub k, r) \<in> set t \<and> pn_CommonName (xc_Subject template) = ''dev'' \<and>
     object_result as_device r' = Inr d \<and> is_init d"
proof -
  let ?p = "handle demo_handler None (PostData ''dev'' (post ''registration''))"
  let ?rs = "[REdsr zero_edsr, RDevice new_device, RTime 0, RTime 0, RTime 0, RText ''der'',
     RDevice new_device, RDevice new_device, RDevice new_device, ROk]"
  have "map_option (\<lambda>(t, out). is_sign (fst (t ! 5)) \<and> length t = 10) (replay ?p ?rs []) = Some True"
    by code_simp
  then obtain t out where r: "replay ?p ?rs [] = Some (t, out)" and s: "is_sign (fst (t ! 5))" "length t = 10" by auto
  from s(1) obtain template parent pub k where "fst (t ! 5) = CreateCertificate template parent pub k"
    by (cases "fst (t ! 5)") auto
  then have c: "(CreateCertificate template parent pub k, snd (t ! 5)) \<in> set t"
    using s(2) nth_mem [of 5 t] by (cases "t ! 5") auto
  from replay_exec [OF r] have e: "exec ?p t out" .
  from certificate_needs_admission [OF e [unfolded demo_handler_def] c] obtain r' d where
    "pn_CommonName (xc_Subject template) = ''dev''" "object_result as_device r' = Inr d" "is_init d"
    by (auto simp: IsOwnDevice_def)
  with e c show ?thesis by blast
qed

theorem endpoint_requests_witness:
  "\<exists>t out. exec (handle demo_handler None (PostData ''dev'' (post ''registration''))) t out \<and> length t = 10 \<and>
     fst ` set t \<subseteq> Collect (endpoint_request (PostData ''dev'' (post ''registration'')))"
proof -
  let ?p = "handle demo_handler None (PostData ''dev'' (post ''registration''))"
  let ?rs = "[REdsr zero_edsr, RDevice new_device, RTime 0, RTime 0, RTime 0, RText ''der'',
     RDevice new_device, RDevice new_device, RDevice new_device, ROk]"
  have "map_option (length \<circ> fst) (replay ?p ?rs []) = Some 10" by code_simp
  then obtain t out where r: "replay ?p ?rs [] = Some (t, out)" and l: "length t = 10" by auto
  have "issues (endpoint_request (PostData ''dev'' (post ''registration''))) ?p"
    unfolding demo_handler_def by (rule endpoint_requests)
  with replay_exec [OF r] l show ?thesis unfolding issues_exec by blast
qed

definition device_certificate :: certificate where
  "device_certificate = zero_certificate\<lparr>xc_Subject := zero_name\<lparr>pn_CommonName := ''dev'', pn_Organization := [certOrganization],
     pn_OrganizationalUnit := [''ns'']\<rparr>\<rparr>"

lemma device_certificate_signed: "CheckSignatureFrom plain_x509 device_certificate zero_certificate = None"
  by (simp add: plain_x509_def device_certificate_def zero_certificate_def)

theorem issued_certificate_identifies_witness:
  "\<exists>err ctx. VerifyRequest plain_x509 (yh_unicode demo_handler) YggdrasilRegisterAuth (\<lambda>_. None) [zero_certificate]
       [device_certificate] = ((True, err), ctx) \<and> IsOwnDevice (yh_unicode demo_handler) ctx ''dev'' \<and> getNamespace demo_handler ctx = ''ns''"
proof -
  obtain ok e where signed: "isClientCertificateSigned plain_x509 [device_certificate] [zero_certificate] = (ok, e)" by fastforce
  with signed_accepts [OF signed] device_certificate_signed obtain err ctx where
    v: "VerifyRequest plain_x509 (yh_unicode demo_handler) YggdrasilRegisterAuth (\<lambda>_. None) [zero_certificate]
       [device_certificate] = ((True, err), ctx)"
    by (auto simp: VerifyRequest_def)
  have "xc_Subject device_certificate = xc_Subject (client_template \<lparr>cr_Signature = [], cr_SignatureAlgorithm = [],
      cr_PublicKeyAlgorithm = [], cr_PublicKey = [], cr_Subject = zero_name\<rparr> ''dev'' ''ns'' 0 0 0)"
    by (simp add: device_certificate_def client_template_def)
  from issued_certificate_identifies [OF v this] v show ?thesis by auto
qed

theorem any_certificate_impersonates_witness:
  "serve demo_handler [zero_certificate] (\<lambda>_. Some (PlainError ''expired'')) (Some [device_certificate\<lparr>xc_Signature := ''none''\<rparr>,
       zero_certificate]) (Route (Some ''GetDataMessageForDevice'')) (GetData ''dev'') =
     handle demo_handler (Some (auth_value ascii_tables (device_certificate\<lparr>xc_Signature := ''none''\<rparr>))) (GetData ''dev'') \<and>
   CheckSignatureFrom plain_x509 (device_certificate\<lparr>xc_Signature := ''none''\<rparr>) zero_certificate \<noteq> None"
proof -
  have "CheckSignatureFrom (yh_x509 demo_handler) zero_certificate zero_certificate = None"
    "yh_unicode demo_handler = ascii_tables"
    by (simp_all add: demo_handler_def k8s_handler_def plain_x509_def zero_certificate_def)
  moreover have "CheckSignatureFrom plain_x509 (device_certificate\<lparr>xc_Signature := ''none''\<rparr>) zero_certificate \<noteq> None"
    by (simp add: plain_x509_def device_certificate_def zero_certificate_def)
  ultimately show ?thesis
    using any_certificate_impersonates [of demo_handler zero_certificate zero_certificate "[zero_certificate]" "''dev''"
      "device_certificate\<lparr>xc_Signature := ''none''\<rparr>" "\<lambda>_. Some (PlainError ''expired'')" "Route (Some ''GetDataMessageForDevice'')"
      "GetData ''dev''"]
    by (simp add: device_certificate_def)
qed

theorem null_entry_panics_witness:
  "exec (handle demo_handler (Some \<lparr>ra_CommonName = ToLower ascii_tables ''dev'', ra_Namespace = ''ns''\<rparr>) (PostData ''dev'' (post ''heartbeat'')))
     [] (Panicked nil_dereference)"
proof -
  have "decode_heartbeat (yh_codec demo_handler) (msg_Content (post ''heartbeat'')) = Inr null_beat"
    "yh_unicode demo_handler = ascii_tables"
    by (simp_all add: demo_handler_def k8s_handler_def plain_messages_def)
  then show ?thesis
    using null_entry_panics [of demo_handler "post ''heartbeat''" null_beat
      "Some \<lparr>ra_CommonName = ToLower ascii_tables ''dev'', ra_Namespace = ''ns''\<rparr>" "''dev''" "[]"]
    by (simp add: null_beat_def post_def IsOwnDevice_def)
qed

end
