(* ===== verification/Remote_Backend.thy ===== *)
theory Remote_Backend
  imports Yggdrasil
begin

text \<open>
  The second implementation of the backend interface: devices kept in a remote store
  (\<open>src/internal/edgeapi/backend/remote/backend.go\<close>), spoken to over HTTP through the client of
  \<open>src/backend/client/backend\<close>, and the factory that chooses between the two
  (\<open>src/internal/edgeapi/backend/factory/factory.go\<close>).

  The remote backend is the second interpretation of the locales \<open>device_backend\<close> and \<open>device_api\<close>: what was proved
  for the handler over any backend that keeps the contract holds for it as well.
\<close>

section \<open>The client\<close>

text \<open>The error of an answer: the text of its payload is only logged and is left out.\<close>

definition http_error :: "string \<Rightarrow> nat \<Rightarrow> error" where
  "http_error operation code = PlainError (''['' @ operation @ '']['' @ print_nat code @ '']'')"

definition interface_conversion :: string where
  "interface_conversion = ''interface conversion''"

text \<open>
  A body is the value its JSON text stands for, or \<open>BadBody\<close> when it is not JSON. Every object can be read into
  a struct; fields the struct does not have are ignored.
\<close>

definition reads_object :: "remote_body \<Rightarrow> bool" where
  "reads_object body = (case body of PlaybooksBody _ \<Rightarrow> False | BadBody \<Rightarrow> False | _ \<Rightarrow> True)"

text \<open>
  \<open>ReadResponse\<close>: \<open>Inr (Some a)\<close> is the result for status 200, \<open>Inr None\<close> the default result, which is no
  error when its code is another 2xx. The default result reads an error message from the body.
\<close>

definition ReadResponse :: "string \<Rightarrow> (remote_body \<Rightarrow> 'a option) \<Rightarrow> nat \<Rightarrow> remote_body \<Rightarrow> error + 'a option" where
  "ReadResponse operation decode code body =
     (if code = 200 then (case decode body of Some a \<Rightarrow> Inr (Some a) | None \<Rightarrow> Inl decode_error)
      else if code = 401 \<or> code = 403 then Inl (http_error operation code)
      else if \<not> reads_object body then Inl decode_error
      else if code div 100 = 2 then Inr None
      else Inl (http_error operation code))"

text \<open>\<open>transport.Submit\<close> and the type assertion on its result.\<close>

definition submit :: "remote_call \<Rightarrow> (nat \<Rightarrow> remote_body \<Rightarrow> error + 'a option) \<Rightarrow> (error + 'a) io" where
  "submit c reader = Call (Remote c) (\<lambda>r. case r of
      RErr e \<Rightarrow> Ret (Inl e)
    | RHttp code body \<Rightarrow> (case reader code body of
          Inl e \<Rightarrow> Ret (Inl e)
        | Inr (Some a) \<Rightarrow> Ret (Inr a)
        | Inr None \<Rightarrow> Panic interface_conversion)
    | _ \<Rightarrow> Ret (Inl decode_error))"

definition DefaultTimeout :: int where "DefaultTimeout = 30000000000"

definition remote_params :: "remote_op \<Rightarrow> int \<Rightarrow> string \<Rightarrow> string \<Rightarrow> remote_call" where
  "remote_params operation timeout name namespace =
     \<lparr>rc_Op = operation, rc_Namespace = namespace, rc_DeviceID = name, rc_Timeout = timeout\<rparr>"

text \<open>An answer without a body leaves the payload at its zero value.\<close>

definition zero_registration_status :: device_registration_status_response where
  "zero_registration_status = \<lparr>rsr_Message = [], rsr_Namespace = [], rsr_Status = []\<rparr>"

fun status_payload :: "remote_body \<Rightarrow> device_registration_status_response option" where
  "status_payload (StatusBody p) = Some p"
| "status_payload NoBody = Some zero_registration_status"
| "status_payload (ConfigurationBody p) = Some (zero_registration_status \<lparr>rsr_Message := dcr_Message p\<rparr>)"
| "status_payload (ErrorBody m) = Some (zero_registration_status \<lparr>rsr_Message := m\<rparr>)"
| "status_payload _ = None"

definition zero_configuration :: device_configuration_response where
  "zero_configuration = \<lparr>dcr_DeviceConfiguration = \<lparr>cf_Configuration = None, cf_DeviceID = [], cf_Secrets = None,
     cf_Version = [], cf_Workloads = None, cf_WorkloadsMonitoringInterval = 0\<rparr>, dcr_Message = []\<rparr>"

fun configuration_payload :: "remote_body \<Rightarrow> device_configuration_response option" where
  "configuration_payload (ConfigurationBody p) = Some p"
| "configuration_payload NoBody = Some zero_configuration"
| "configuration_payload (StatusBody p) = Some (zero_configuration \<lparr>dcr_Message := rsr_Message p\<rparr>)"
| "configuration_payload (ErrorBody m) = Some (zero_configuration \<lparr>dcr_Message := m\<rparr>)"
| "configuration_payload _ = None"

fun playbooks_payload :: "remote_body \<Rightarrow> m_playbook_execution list option" where
  "playbooks_payload (PlaybooksBody p) = Some p" | "playbooks_payload NoBody = Some []" | "playbooks_payload _ = None"

text \<open>An answer whose body is not read.\<close>

definition no_payload :: "remote_body \<Rightarrow> unit option" where
  "no_payload body = Some ()"

text \<open>The readers of the operations.\<close>

definition GetRegistrationStatusReader :: "nat \<Rightarrow> remote_body \<Rightarrow> error + device_registration_status_response option" where
  "GetRegistrationStatusReader = ReadResponse ''GET /namespaces/{namespace}/devices/{device-id}/registration'' status_payload"

definition GetDeviceConfigurationReader :: "nat \<Rightarrow> remote_body \<Rightarrow> error + device_configuration_response option" where
  "GetDeviceConfigurationReader = ReadResponse ''GET /namespaces/{namespace}/devices/{device-id}/configuration'' configuration_payload"

definition GetPlaybookExecutionsReader :: "nat \<Rightarrow> remote_body \<Rightarrow> error + m_playbook_execution list option" where
  "GetPlaybookExecutionsReader = ReadResponse ''GET /namespaces/{namespace}/devices/{device-id}/playbookexecutions'' playbooks_payload"

definition RegisterDeviceReader :: "nat \<Rightarrow> remote_body \<Rightarrow> error + unit option" where
  "RegisterDeviceReader = ReadResponse ''PUT /namespaces/{namespace}/devices/{device-id}/registration'' no_payload"

definition UpdateHeartBeatReader :: "nat \<Rightarrow> remote_body \<Rightarrow> error + unit option" where
  "UpdateHeartBeatReader = ReadResponse ''PUT /namespaces/{namespace}/devices/{device-id}/heartbeat'' no_payload"

definition Client_GetRegistrationStatus :: "remote_call \<Rightarrow> (error + device_registration_status_response) io" where
  "Client_GetRegistrationStatus params =
     submit params GetRegistrationStatusReader"

definition Client_GetDeviceConfiguration :: "remote_call \<Rightarrow> (error + device_configuration_response) io" where
  "Client_GetDeviceConfiguration params =
     submit params GetDeviceConfigurationReader"

definition Client_GetPlaybookExecutions :: "remote_call \<Rightarrow> (error + m_playbook_execution list) io" where
  "Client_GetPlaybookExecutions params =
     submit params GetPlaybookExecutionsReader"

definition Client_RegisterDevice :: "remote_call \<Rightarrow> (error + unit) io" where
  "Client_RegisterDevice params =
     submit params RegisterDeviceReader"

definition Client_UpdateHeartBeat :: "remote_call \<Rightarrow> (error + unit) io" where
  "Client_UpdateHeartBeat params =
     submit params UpdateHeartBeatReader"

text \<open>
  Enrolment tells 200 from 201 and does not assert the type of its result: \<open>Some True\<close> for 200, \<open>Some False\<close> for
  201, \<open>None\<close> for another 2xx.
\<close>

definition EnrolDeviceReader :: "nat \<Rightarrow> remote_body \<Rightarrow> error + bool option" where
  "EnrolDeviceReader code body =
     (if code = 200 then Inr (Some True)
      else if code = 201 then Inr (Some False)
      else if code = 401 \<or> code = 403 then
        Inl (http_error ''POST /namespaces/{namespace}/devices/{device-id}/enrolment'' code)
      else if \<not> reads_object body then Inl decode_error
      else if code div 100 = 2 then Inr None
      else Inl (http_error ''POST /namespaces/{namespace}/devices/{device-id}/enrolment'' code))"

definition Client_EnrolDevice :: "remote_call \<Rightarrow> (error + bool option) io" where
  "Client_EnrolDevice params = Call (Remote params) (\<lambda>r. Ret (case r of
      RErr e \<Rightarrow> Inl e
    | RHttp code body \<Rightarrow> EnrolDeviceReader code body
    | _ \<Rightarrow> Inl decode_error))"

section \<open>The backend\<close>

record remote_state =
  rb_timeout :: int
  rb_initialNamespace :: string

definition getRegistrationStatus :: "remote_state \<Rightarrow> string \<Rightarrow> string \<Rightarrow> (error + device_registration_status_response) io" where
  "getRegistrationStatus b name namespace =
     Client_GetRegistrationStatus (remote_params OpGetRegistrationStatus (rb_timeout b) name namespace)"

definition Remote_GetRegistrationStatus :: "remote_state \<Rightarrow> string \<Rightarrow> string \<Rightarrow> (registration_status \<times> error option) io" where
  "Remote_GetRegistrationStatus b name namespace =
     bindp (getRegistrationStatus b name namespace) (\<lambda>res. Ret (case res of
         Inl e \<Rightarrow> ([], Some e)
       | Inr payload \<Rightarrow> (rsr_Status payload, None)))"

definition Remote_GetConfiguration :: "remote_state \<Rightarrow> string \<Rightarrow> string \<Rightarrow> (error + device_configuration_message) io" where
  "Remote_GetConfiguration b name namespace =
     bindp (Client_GetDeviceConfiguration (remote_params OpGetDeviceConfiguration (rb_timeout b) name namespace)) (\<lambda>res.
       Ret (case res of Inl e \<Rightarrow> Inl e | Inr payload \<Rightarrow> Inr (dcr_DeviceConfiguration payload)))"

definition Remote_Enrol :: "remote_state \<Rightarrow> string \<Rightarrow> string \<Rightarrow> enrolment_info \<Rightarrow> (bool \<times> error option) io" where
  "Remote_Enrol b name namespace enrolmentInfo =
     bindp (Client_EnrolDevice (remote_params (OpEnrolDevice enrolmentInfo) (rb_timeout b) name namespace)) (\<lambda>res.
       Ret (case res of
           Inl e \<Rightarrow> (False, Some e)
         | Inr existsResponse \<Rightarrow> if existsResponse = Some True then (True, None) else (False, None)))"

definition Remote_GetTargetNamespace :: "remote_state \<Rightarrow> string \<Rightarrow> string \<Rightarrow> bool \<Rightarrow> (error + string) io" where
  "Remote_GetTargetNamespace b name namespace matchesCertificate =
     bindp (getRegistrationStatus b name namespace) (\<lambda>res. Ret (case res of
         Inl e \<Rightarrow> Inl e
       | Inr payload \<Rightarrow> Inr (rsr_Namespace payload)))"

definition Remote_Register :: "remote_state \<Rightarrow> string \<Rightarrow> string \<Rightarrow> registration_info \<Rightarrow> error option io" where
  "Remote_Register b name namespace registrationInfo =
     bindp (Client_RegisterDevice (remote_params (OpRegisterDevice registrationInfo) (rb_timeout b) name namespace)) (\<lambda>res.
       Ret (case res of Inl e \<Rightarrow> Some e | Inr _ \<Rightarrow> None))"

text \<open>The retry flag of the context is not passed on; an error asks for a retry.\<close>

definition Remote_UpdateStatus :: "remote_state \<Rightarrow> bool \<Rightarrow> string \<Rightarrow> string \<Rightarrow> heartbeat \<Rightarrow> (bool \<times> error option) io" where
  "Remote_UpdateStatus b retry name namespace hb =
     bindp (Client_UpdateHeartBeat (remote_params (OpUpdateHeartBeat hb) (rb_timeout b) name namespace)) (\<lambda>res.
       Ret (case res of Inl e \<Rightarrow> (True, Some e) | Inr _ \<Rightarrow> (False, None)))"

definition Remote_GetPlaybookExecutions :: "remote_state \<Rightarrow> string \<Rightarrow> string \<Rightarrow> (error + m_playbook_execution list) io" where
  "Remote_GetPlaybookExecutions b name namespace =
     Client_GetPlaybookExecutions (remote_params OpGetPlaybookExecutions DefaultTimeout name namespace)"

definition remote_backend :: "remote_state \<Rightarrow> edge_device_backend" where
  "remote_backend b =
     \<lparr>be_GetRegistrationStatus = Remote_GetRegistrationStatus b,
      be_GetConfiguration = Remote_GetConfiguration b,
      be_Enrol = Remote_Enrol b,
      be_GetTargetNamespace = Remote_GetTargetNamespace b,
      be_GetPlaybookExecutions = Remote_GetPlaybookExecutions b,
      be_Register = Remote_Register b,
      be_UpdateStatus = Remote_UpdateStatus b\<rparr>"

section \<open>The factory\<close>

text \<open>
  \<open>url.Parse\<close> of the standard library gives the scheme of the address or an error; it is the argument \<open>parse_url\<close>.
  The address and the transport only decide where the requests go.
\<close>

type_synonym url_parser = "string \<Rightarrow> error + string"

record factory =
  fy_InitialDeviceNamespace :: string
  fy_unicode :: unicode_tables
  fy_yaml :: yaml_codec
  fy_parse_url :: url_parser

definition createRemoteBackend :: "factory \<Rightarrow> string \<Rightarrow> int \<Rightarrow> error + edge_device_backend" where
  "createRemoteBackend f remoteBackendURL remoteBackendTimeout =
     (if remoteBackendURL = [] then Inl (PlainError ''remote backend URL cannot be empty'')
      else case fy_parse_url f remoteBackendURL of
          Inl e \<Rightarrow> Inl e
        | Inr scheme \<Rightarrow> Inr (remote_backend
            \<lparr>rb_timeout = remoteBackendTimeout, rb_initialNamespace = fy_InitialDeviceNamespace f\<rparr>))"

definition createK8sBackend :: "factory \<Rightarrow> edge_device_backend" where
  "createK8sBackend f = k8s_backend (fy_unicode f) (fy_yaml f) (fy_InitialDeviceNamespace f)"

definition Factory_Create :: "factory \<Rightarrow> api_config \<Rightarrow> error + edge_device_backend" where
  "Factory_Create f config =
     (if ac_Backend config = ''remote'' then
        createRemoteBackend f (ac_RemoteBackendURL config) (ac_RemoteBackendTimeout config)
      else if ac_Backend config = ''crd'' then Inr (createK8sBackend f)
      else Inl (PlainError (''unsupported backend type: '' @ ac_Backend config)))"

text \<open>A call of a method of the nil interface panics.\<close>

definition nil_backend :: edge_device_backend where
  "nil_backend =
     \<lparr>be_GetRegistrationStatus = (\<lambda>_ _. Panic nil_dereference),
      be_GetConfiguration = (\<lambda>_ _. Panic nil_dereference),
      be_Enrol = (\<lambda>_ _ _. Panic nil_dereference),
      be_GetTargetNamespace = (\<lambda>_ _ _. Panic nil_dereference),
      be_GetPlaybookExecutions = (\<lambda>_ _. Panic nil_dereference),
      be_Register = (\<lambda>_ _ _. Panic nil_dereference),
      be_UpdateStatus = (\<lambda>_ _ _ _. Panic nil_dereference)\<rparr>"

section \<open>The contract\<close>

text \<open>What a call of the remote store answers, whatever comes back over the wire.\<close>

definition submit_outcome :: "(nat \<Rightarrow> remote_body \<Rightarrow> error + 'a option) \<Rightarrow> response \<Rightarrow> (error + 'a) outcome" where
  "submit_outcome reader r = (case r of
      RErr e \<Rightarrow> Returned (Inl e)
    | RHttp code body \<Rightarrow> (case reader code body of
          Inl e \<Rightarrow> Returned (Inl e)
        | Inr (Some a) \<Rightarrow> Returned (Inr a)
        | Inr None \<Rightarrow> Panicked interface_conversion)
    | _ \<Rightarrow> Returned (Inl decode_error))"

lemma exec_submit:
  "exec (submit c reader) t out \<longleftrightarrow> (\<exists>r. t = [(Remote c, r)] \<and> out = submit_outcome reader r)"
  by (auto simp: submit_def submit_outcome_def exec_Call split: response.splits sum.splits option.splits)

lemma issues_submit [simp]: "issues P (submit c reader) = P (Remote c)"
  by (auto simp: issues_exec exec_submit)

lemmas client_defs = Client_GetRegistrationStatus_def Client_GetDeviceConfiguration_def
  Client_GetPlaybookExecutions_def Client_RegisterDevice_def Client_UpdateHeartBeat_def

lemmas reader_defs = GetRegistrationStatusReader_def GetDeviceConfigurationReader_def GetPlaybookExecutionsReader_def
  RegisterDeviceReader_def UpdateHeartBeatReader_def

lemmas remote_defs = getRegistrationStatus_def Remote_GetRegistrationStatus_def Remote_GetConfiguration_def
  Remote_Enrol_def Remote_GetTargetNamespace_def Remote_Register_def Remote_UpdateStatus_def
  Remote_GetPlaybookExecutions_def

lemma issues_enrol_client [simp]: "issues P (Client_EnrolDevice c) = P (Remote c)"
  by (simp add: Client_EnrolDevice_def)

lemma issues_bind_Ret: "issues P (bindp p (\<lambda>a. Ret (f a))) = issues P p"
  using issues_mapp [of P f p] by (simp add: mapp_def)

text \<open>The requests of the remote backend, by operation.\<close>

fun remote_query :: "request \<Rightarrow> bool" where
  "remote_query (Remote c) = (\<not> is_remote_write (rc_Op c))"
| "remote_query (Metric _) = True"
| "remote_query NewUUID = True"
| "remote_query Now = True"
| "remote_query (SleepMs _) = True"
| "remote_query _ = False"

fun remote_enrolment :: "string \<Rightarrow> request \<Rightarrow> bool" where
  "remote_enrolment n (Remote c) = ((case rc_Op c of OpEnrolDevice _ \<Rightarrow> True | _ \<Rightarrow> False) \<and> rc_DeviceID c = n)"
| "remote_enrolment n _ = False"

fun remote_registration :: "request \<Rightarrow> bool" where
  "remote_registration (Remote c) = ((case rc_Op c of OpRegisterDevice _ \<Rightarrow> True | _ \<Rightarrow> \<not> is_remote_write (rc_Op c)))"
| "remote_registration q = remote_query q"

fun remote_status :: "request \<Rightarrow> bool" where
  "remote_status (Remote c) = (case rc_Op c of OpUpdateHeartBeat _ \<Rightarrow> True | _ \<Rightarrow> False)"
| "remote_status _ = False"

definition remote_footprint :: footprint where
  "remote_footprint = \<lparr>fp_query = remote_query, fp_enrolment = remote_enrolment, fp_registration = remote_registration,
     fp_status = remote_status\<rparr>"

lemma remote_not_sign:
  "remote_registration q \<Longrightarrow> \<not> is_sign q" "remote_enrolment n q \<Longrightarrow> \<not> is_sign q" "remote_status q \<Longrightarrow> \<not> is_sign q"
  by (cases q; auto)+

lemma remote_query_registration: "remote_query q \<Longrightarrow> remote_registration q"
  by (cases q) (auto split: remote_op.split)

lemma remote_status_once: "at_most n is_status_patch (Remote_UpdateStatus b retry name ns hb)"
  by (auto simp: at_most_def remote_defs client_defs wp_exec exec_bindp exec_submit)

interpretation remote: device_backend "remote_backend b" remote_footprint
  by unfold_locales
    (simp_all add: remote_backend_def remote_footprint_def remote_defs client_defs remote_params_def issues_bind_Ret
      remote_not_sign remote_query_registration remote_status_once [unfolded remote_defs client_defs remote_params_def])

text \<open>\<open>NewYggdrasilHandler\<close> over the remote backend.\<close>

definition remote_handler :: "unicode_tables \<Rightarrow> x509_codec \<Rightarrow> message_codec \<Rightarrow> string \<Rightarrow> tls_config \<Rightarrow> remote_state \<Rightarrow> handler" where
  "remote_handler u x codec initialNamespace mtlsConfig b =
     \<lparr>yh_backend = remote_backend b, yh_initialNamespace = initialNamespace, yh_mtlsConfig = mtlsConfig,
      yh_x509 = x, yh_unicode = u, yh_codec = codec\<rparr>"

interpretation remote_api: device_api "remote_handler u x codec initialNamespace mtlsConfig b" remote_footprint
  using remote.device_backend_axioms by (simp add: device_api_def remote_handler_def)

section \<open>Properties\<close>

text \<open>
  With the remote store behind it the API never touches an object of the cluster. The \<open>GET\<close> endpoints
  and the playbook query only read from the store, a heartbeat only replaces the heartbeat there, enrolment only
  enrols the device of the request, registration only registers and signs.
\<close>

theorem remote_endpoint_requests:
  "issues (permitted remote_footprint call) (handle (remote_handler u x codec initialNamespace mtlsConfig b) ctx call)"
  by (rule remote_api.issues_handle)

lemma submit_returned:
  "submit_outcome (ReadResponse operation decode) r = Returned (Inr a) \<longleftrightarrow> (\<exists>body. r = RHttp 200 body \<and> decode body = Some a)"
  by (auto simp: submit_outcome_def ReadResponse_def split: response.splits sum.splits option.splits if_splits)

lemma exec_Remote_GetTargetNamespace:
  "exec (Remote_GetTargetNamespace b name ns matches) t (Returned (Inr ns')) \<longleftrightarrow>
     (\<exists>body p. t = [(Remote (remote_params OpGetRegistrationStatus (rb_timeout b) name ns), RHttp 200 body)] \<and>
        status_payload body = Some p \<and> rsr_Namespace p = ns')"
proof -
  have res: "(case res of Inl e \<Rightarrow> Inl e | Inr payload \<Rightarrow> Inr (rsr_Namespace payload)) = (Inr ns' :: error + string) \<longleftrightarrow>
      (\<exists>p. res = Inr p \<and> rsr_Namespace p = ns')" for res by (cases res) auto
  have "exec (Remote_GetTargetNamespace b name ns matches) t (Returned (Inr ns')) \<longleftrightarrow>
      (\<exists>p. exec (getRegistrationStatus b name ns) t (Returned (Inr p)) \<and> rsr_Namespace p = ns')"
    by (simp add: Remote_GetTargetNamespace_def exec_bindp res eq_commute [of "Inr ns'"]) blast
  then show ?thesis
    by (simp only: getRegistrationStatus_def client_defs reader_defs exec_submit eq_commute [of "Returned (Inr _)"] submit_returned) blast
qed

text \<open>
  Property C21: who gets a certificate when devices are kept in the remote store. A certificate is only signed on the
  registration endpoint, for the device of the request. The first thing such a run does is to ask the store for the registration
  status of that device, in the namespace of the caller; the answer is 200, the certificate is signed later in the run,
  and it is for the namespace in that answer.
\<close>

theorem remote_admission:
  assumes "exec (handle (remote_handler u x codec initialNamespace mtlsConfig b) ctx call) t out"
    and "(CreateCertificate template parent pub k, r) \<in> set t"
  shows "\<exists>dev msg body p t2. call = PostData dev msg \<and> msg_Directive msg = ''registration'' \<and>
    t = (Remote (remote_params OpGetRegistrationStatus (rb_timeout b) dev
          (getNamespace (remote_handler u x codec initialNamespace mtlsConfig b) ctx)), RHttp 200 body) # t2 \<and>
    (CreateCertificate template parent pub k, r) \<in> set t2 \<and> status_payload body = Some p \<and>
    pn_CommonName (xc_Subject template) = dev \<and> pn_OrganizationalUnit (xc_Subject template) = [rsr_Namespace p]"
proof -
  let ?h = "remote_handler u x codec initialNamespace mtlsConfig b"
  from assms obtain dev msg where call: "call = PostData dev msg" "msg_Directive msg = ''registration''"
    and reg: "exec (post_registration ?h ctx dev msg) t out"
    by (rule remote_api.signs_on_registration)
  from remote_api.registration_signs [OF reg assms(2)] obtain ns t1 t2 where
    gate: "exec (Remote_GetTargetNamespace b dev (getNamespace ?h ctx) (IsOwnDevice u ctx dev)) t1 (Returned (Inr ns))"
    and t: "t = t1 @ t2" "(CreateCertificate template parent pub k, r) \<in> set t2"
    and signed: "signs_for dev ns (CreateCertificate template parent pub k)"
    by (auto simp: remote_handler_def remote_backend_def)
  from gate obtain body p where "t1 = [(Remote (remote_params OpGetRegistrationStatus (rb_timeout b) dev (getNamespace ?h ctx)),
      RHttp 200 body)]" "status_payload body = Some p" "rsr_Namespace p = ns"
    by (auto simp: exec_Remote_GetTargetNamespace)
  with t call signed show ?thesis
    by (intro exI [of _ dev] exI [of _ msg] exI [of _ body] exI [of _ p] exI [of _ t2]) auto
qed

text \<open>
  Neither the status in the answer nor the certificate of the caller is looked at: the handler asks the same and
  does the same for any two callers of the same namespace, and the gate hands out the namespace of the answer for every status.
\<close>

lemma remote_gate_ignores:
  "getNamespace h ctx = getNamespace h ctx' \<Longrightarrow> yh_backend h = remote_backend b \<Longrightarrow>
     post_registration h ctx dev msg = post_registration h ctx' dev msg"
  "exec (Remote_GetTargetNamespace b name ns matches)
     [(Remote (remote_params OpGetRegistrationStatus (rb_timeout b) name ns), RHttp 200 (StatusBody (p\<lparr>rsr_Status := status\<rparr>)))]
     (Returned (Inr (rsr_Namespace p)))"
proof -
  assume ns: "getNamespace h ctx = getNamespace h ctx'" and b: "yh_backend h = remote_backend b"
  have gate: "be_GetTargetNamespace (yh_backend h) = (\<lambda>name ns _. Remote_GetTargetNamespace b name ns False)"
    by (simp add: b remote_backend_def Remote_GetTargetNamespace_def fun_eq_iff)
  show "post_registration h ctx dev msg = post_registration h ctx' dev msg"
    unfolding post_registration_def ns gate ..
next
  show "exec (Remote_GetTargetNamespace b name ns matches)
     [(Remote (remote_params OpGetRegistrationStatus (rb_timeout b) name ns), RHttp 200 (StatusBody (p\<lparr>rsr_Status := status\<rparr>)))]
     (Returned (Inr (rsr_Namespace p)))"
    unfolding exec_Remote_GetTargetNamespace by simp
qed

text \<open>An answer with a success status other than 200 and a body that can be read makes every call but enrolment panic.\<close>

lemma other_success_panics:
  "code \<noteq> 200 \<Longrightarrow> code div 100 = 2 \<Longrightarrow> reads_object body \<Longrightarrow>
     exec (submit c (ReadResponse operation decode)) [(Remote c, RHttp code body)] (Panicked interface_conversion)"
  by (auto simp: exec_submit submit_outcome_def ReadResponse_def)

text \<open>
  The factory. \<open>remote\<close> with an address that parses gives the remote backend with the configured time-out,
  \<open>crd\<close> the Kubernetes backend; every other setting is an error. Whatever is built keeps the contract of the
  interface, so the API handler over it stays within the requests of that backend.
\<close>

theorem factory_backends:
  assumes "Factory_Create f config = Inr b"
  shows "(ac_Backend config = ''crd'' \<and> b = k8s_backend (fy_unicode f) (fy_yaml f) (fy_InitialDeviceNamespace f) \<and>
      device_backend b k8s_footprint) \<or>
    (ac_Backend config = ''remote'' \<and> ac_RemoteBackendURL config \<noteq> [] \<and>
      b = remote_backend \<lparr>rb_timeout = ac_RemoteBackendTimeout config, rb_initialNamespace = fy_InitialDeviceNamespace f\<rparr> \<and>
      device_backend b remote_footprint)"
  using assms k8s.device_backend_axioms remote.device_backend_axioms
  by (auto simp: Factory_Create_def createRemoteBackend_def createK8sBackend_def split: if_splits sum.splits)

section \<open>Concrete runs\<close>

definition demo_remote :: handler where
  "demo_remote = remote_handler ascii_tables plain_x509 plain_messages ''flotta'' signing_config
     \<lparr>rb_timeout = 5000000000, rb_initialNamespace = ''flotta''\<rparr>"

definition unregistered_answer :: remote_body where
  "unregistered_answer = StatusBody \<lparr>rsr_Message = [], rsr_Namespace = ''ns'', rsr_Status = Unregistered\<rparr>"

text \<open>The store says that the device is not registered and the device receives a certificate all the same.\<close>

theorem remote_admission_witness:
  "\<exists>t out template parent pub k r t2. exec (handle demo_remote None (PostData ''dev'' (post ''registration''))) t out \<and>
     t = (Remote (remote_params OpGetRegistrationStatus 5000000000 ''dev'' ''flotta''), RHttp 200 unregistered_answer) # t2 \<and>
     (CreateCertificate template parent pub k, r) \<in> set t2 \<and> pn_CommonName (xc_Subject template) = ''dev'' \<and>
     pn_OrganizationalUnit (xc_Subject template) = [''ns'']"
proof -
  let ?p = "handle demo_remote None (PostData ''dev'' (post ''registration''))"
  let ?rs = "[RHttp 200 unregistered_answer, RTime 0, RTime 0, RTime 0, RText ''der'', RHttp 200 NoBody, ROk]"
  have "map_option (\<lambda>(t, out). is_sign (fst (t ! 4)) \<and> length t = 7 \<and> snd (t ! 0) = RHttp 200 unregistered_answer) (replay ?p ?rs []) = Some True"
    by code_simp
  then obtain t out where r: "replay ?p ?rs [] = Some (t, out)" and s: "is_sign (fst (t ! 4))" "length t = 7"
    and first: "snd (t ! 0) = RHttp 200 unregistered_answer" by auto
  from s(1) obtain template parent pub k where "fst (t ! 4) = CreateCertificate template parent pub k"
    by (cases "fst (t ! 4)") auto
  then have c: "(CreateCertificate template parent pub k, snd (t ! 4)) \<in> set t"
    using s(2) nth_mem [of 4 t] by (cases "t ! 4") auto
  from replay_exec [OF r] have e: "exec ?p t out" .
  from remote_admission [OF e [unfolded demo_remote_def] c] obtain body p t2 where
    t: "t = (Remote (remote_params OpGetRegistrationStatus 5000000000 ''dev'' ''flotta''), RHttp 200 body) # t2"
    "(CreateCertificate template parent pub k, snd (t ! 4)) \<in> set t2" "status_payload body = Some p"
    "pn_CommonName (xc_Subject template) = ''dev''" "pn_OrganizationalUnit (xc_Subject template) = [rsr_Namespace p]"
    by (auto simp: getNamespace_def remote_handler_def)
  moreover from first t(1) have "body = unregistered_answer" by simp
  ultimately show ?thesis using e
    by (intro exI [of _ t] exI [of _ out] exI [of _ template] exI [of _ parent] exI [of _ pub] exI [of _ k] exI [of _ "snd (t ! 4)"]
        exI [of _ t2]) (auto simp: unregistered_answer_def)
qed

definition demo_factory :: factory where
  "demo_factory = \<lparr>fy_InitialDeviceNamespace = ''default'', fy_unicode = ascii_tables, fy_yaml = plain_codec,
     fy_parse_url = (\<lambda>_. Inr ''https'')\<rparr>"

definition demo_config :: "string \<Rightarrow> api_config" where
  "demo_config backend = \<lparr>ac_HttpsPort = 8043, ac_Domain = ''project-flotta.io'', ac_TLSLocalhostEnabled = False,
     ac_MetricsAddr = '':8080'', ac_LogLevel = ''info'', ac_ClientCertExpirationTime = 30, ac_Kubeconfig = [],
     ac_Backend = backend, ac_RemoteBackendURL = ''https://store'', ac_RemoteBackendTimeout = 5000000000,
     ac_MqttBroker = ''tcp://broker:1883'', ac_InfluxDbHost = ''http://influx'', ac_InfluxDbToken = ''token''\<rparr>"

theorem factory_backends_witness:
  "\<exists>b. Factory_Create demo_factory (demo_config ''remote'') = Inr b \<and> device_backend b remote_footprint"
proof -
  have e: "Factory_Create demo_factory (demo_config ''remote'') =
      Inr (remote_backend \<lparr>rb_timeout = 5000000000, rb_initialNamespace = ''default''\<rparr>)"
    by (simp add: Factory_Create_def createRemoteBackend_def demo_factory_def demo_config_def)
  from factory_backends [OF e] show ?thesis using e by (auto simp: demo_config_def)
qed

end
