(* ===== verification/Entry_Points.thy ===== *)
theory Entry_Points
  imports Mqtt_Bridge Remote_Backend Config_Reconcilers
begin

text \<open>
  How the two processes start: \<open>src/cmd/httpapi/main.go\<close> sets up the certificates, the backend and the handler and
  then serves; \<open>src/cmd/manager/main.go\<close> registers indexes, controllers and checks, watches its own config map
  (\<open>src/internal/operator/watchers\<close>) and starts the manager.

  The end of the process is a panic, as in \<open>Mqtt_Bridge\<close>: \<open>exit_status\<close> for \<open>os.Exit(1)\<close> and the fatal logs,
  \<open>main_returned\<close> when \<open>main\<close> returns, which ends the other goroutines too.
\<close>

section \<open>Guarded calls\<close>

text \<open>\<open>if err != nil { ...; os.Exit(1) }\<close>, after one call and after each of a sequence of calls.\<close>

definition or_exit :: "error option io \<Rightarrow> 'a io \<Rightarrow> 'a io" where
  "or_exit p k = bindp p (\<lambda>err. if err \<noteq> None then go_exit else k)"

primrec each_or_exit :: "system_call list \<Rightarrow> 'a io \<Rightarrow> 'a io" where
  "each_or_exit [] k = k"
| "each_or_exit (c # cs) k = or_exit (call_unit (System c)) (each_or_exit cs k)"

text \<open>\<open>if err != nil { panic(err.Error()) }\<close>.\<close>

definition or_panic :: "error option io \<Rightarrow> 'a io \<Rightarrow> 'a io" where
  "or_panic p k = bindp p (\<lambda>err. case err of Some e \<Rightarrow> Panic (Error e) | None \<Rightarrow> k)"

definition main_returned :: string where "main_returned = ''exit status 0''"

section \<open>The HTTP API\<close>

definition api_logger :: "string \<Rightarrow> error option io" where
  "api_logger logLevel =
     bindp (call_unit (System (ParseLogLevel logLevel))) (\<lambda>err. case err of
         Some e \<Rightarrow> Ret (Some e)
       | None \<Rightarrow> call_unit (System BuildLogger))"

text \<open>The libraries the process links.\<close>

record libraries =
  li_unicode :: unicode_tables
  li_yaml :: yaml_codec
  li_parse_url :: url_parser
  li_x509 :: x509_codec
  li_messages :: message_codec

text \<open>What the goroutines of the process serve: the settings, the TLS configuration, the chain of authorities and the handler.\<close>

record api_server =
  sv_config :: api_config
  sv_tls :: server_config
  sv_CACertChain :: "certificate list"
  sv_handler :: handler

definition initialDeviceNamespace :: string where "initialDeviceNamespace = ''default''"
definition api_operatorNamespace :: string where "api_operatorNamespace = ''flotta''"

definition api_factory :: "libraries \<Rightarrow> factory" where
  "api_factory l = \<lparr>fy_InitialDeviceNamespace = initialDeviceNamespace, fy_unicode = li_unicode l, fy_yaml = li_yaml l,
     fy_parse_url = li_parse_url l\<rparr>"

text \<open>The error of the factory is dropped; the handler then has the nil interface.\<close>

definition api_backend :: "libraries \<Rightarrow> api_config \<Rightarrow> edge_device_backend" where
  "api_backend l config = (case Factory_Create (api_factory l) config of Inl _ \<Rightarrow> nil_backend | Inr b \<Rightarrow> b)"

definition api_handler :: "libraries \<Rightarrow> api_config \<Rightarrow> tls_config \<Rightarrow> handler" where
  "api_handler l config mtlsConfig =
     \<lparr>yh_backend = api_backend l config, yh_initialNamespace = initialDeviceNamespace, yh_mtlsConfig = mtlsConfig,
      yh_x509 = li_x509 l, yh_unicode = li_unicode l, yh_codec = li_messages l\<rparr>"

text \<open>
  The expiration is an unsigned number of days, converted to a signed one; when it is refused the configuration
  keeps its default.
\<close>

definition api_mtls :: "api_config \<Rightarrow> tls_config" where
  "api_mtls config = snd (SetClientExpiration (sint (ac_ClientCertExpirationTime config))
     (NewMTLSConfig api_operatorNamespace [ac_Domain config] (ac_TLSLocalhostEnabled config)))"

definition api_setup :: "libraries \<Rightarrow> api_server io" where
  "api_setup l =
     bindp (call_object (System ReadEnvironment) as_env) (\<lambda>res. case res of
         Inl e \<Rightarrow> Panic (Error e)
       | Inr config \<Rightarrow>
           or_panic (api_logger (ac_LogLevel config))
           (or_panic (getRestConfig (ac_Kubeconfig config))
           (or_panic getClient
           (bindp (InitCertificates (li_x509 l) (api_mtls config)) (\<lambda>(res, mtls). case res of
               Inl e \<Rightarrow> go_exit
             | Inr (tlsConfig, CACertChain) \<Rightarrow>
                 bindp (CreateRegistrationClientCerts (li_x509 l) mtls) (\<lambda>(err, mtls').
                 if err \<noteq> None then go_exit
                 else or_panic (call_unit (System NewEventClient))
                   (or_exit (call_unit (System NewAPIHandler))
                   (Ret \<lparr>sv_config = config, sv_tls = tlsConfig, sv_CACertChain = CACertChain,
                      sv_handler = api_handler l config mtls'\<rparr>))))))))"

text \<open>\<open>logger.Fatal(server.ListenAndServe...)\<close>: the process ends when a server does.\<close>

definition serve_until_exit :: "system_call \<Rightarrow> unit io" where
  "serve_until_exit c = bindp (call_unit (System c)) (\<lambda>_. go_exit)"

definition api_main :: "libraries \<Rightarrow> unit io" where
  "api_main l = bindp (api_setup l) (\<lambda>s. mapp (\<lambda>_. ()) (par_list
     [MqttHandler (ac_MqttBroker (sv_config s)),
      serve_until_exit (ServeTLS (ac_HttpsPort (sv_config s))),
      serve_until_exit (ServeMetrics (ac_MetricsAddr (sv_config s)))]))"

section \<open>The config map watcher\<close>

text \<open>The value of the field in an event that adds or modifies the config map.\<close>

definition level_changed :: "string \<Rightarrow> string \<Rightarrow> watch_event \<Rightarrow> bool" where
  "level_changed dataField dataValue event \<longleftrightarrow> (we_Type event = EvAdded \<or> we_Type event = EvModified) \<and>
     (case we_Object event of
        None \<Rightarrow> False
      | Some updatedMap \<Rightarrow> (case mget (cm_Data updatedMap) dataField of
          None \<Rightarrow> False
        | Some updatedValue \<Rightarrow> updatedValue \<noteq> dataValue))"

text \<open>
  The loop over the channel, for at most \<open>n\<close> events: the result says whether the channel was closed.
\<close>

primrec checkConfigMapChanges :: "nat \<Rightarrow> string \<Rightarrow> string \<Rightarrow> unit io \<Rightarrow> bool io" where
  "checkConfigMapChanges 0 dataField dataValue exitFunc = Ret False"
| "checkConfigMapChanges (Suc n) dataField dataValue exitFunc =
     Call (System ReceiveEvent) (\<lambda>r. case r of
         REvent event \<Rightarrow>
           if level_changed dataField dataValue event
           then bindp exitFunc (\<lambda>_. checkConfigMapChanges n dataField dataValue exitFunc)
           else checkConfigMapChanges n dataField dataValue exitFunc
       | _ \<Rightarrow> Ret True)"

text \<open>Without a watcher, \<open>exitFunc\<close> is called and the nil watcher is used when it comes back.\<close>

definition WatchForChanges :: "nat \<Rightarrow> string \<Rightarrow> string \<Rightarrow> string \<Rightarrow> unit io \<Rightarrow> bool io" where
  "WatchForChanges n dataField dataValue lastResourceVersion exitFunc =
     bindp (call_unit (System (NewRetryWatcher lastResourceVersion))) (\<lambda>err.
     if err \<noteq> None then bindp exitFunc (\<lambda>_. Panic nil_dereference)
     else checkConfigMapChanges n dataField dataValue exitFunc)"

section \<open>The operator\<close>

definition serviceaccount :: string where "serviceaccount = ''/var/run/secrets/kubernetes.io/serviceaccount''"
definition defaultOperatorNamespace :: string where "defaultOperatorNamespace = ''flotta''"
definition defaultConfigMapName :: string where "defaultConfigMapName = ''flotta-manager-config''"
definition logLevelLabel :: string where "logLevelLabel = ''LOG_LEVEL''"

text \<open>Only a missing directory means that the process is outside a cluster; any other error does not.\<close>

definition isInCluster :: "bool io" where
  "isInCluster = Call (System (StatPath serviceaccount)) (\<lambda>r. Ret (r \<noteq> RNotExist))"

definition getOperatorNamespace :: "(error + string) io" where
  "getOperatorNamespace = bindp isInCluster (\<lambda>inside.
     if \<not> inside then Ret (Inr defaultOperatorNamespace)
     else mapp (map_sum id TrimSpace) (call_object (System (ReadFileText (serviceaccount @ ''/namespace''))) as_text))"

definition addIndexersToCache :: "'a io \<Rightarrow> 'a io" where
  "addIndexersToCache = each_or_exit [IndexField DeviceByWorkloadIndexKey, IndexField WorkloadByDeviceIndexKey]"

definition manager_controllers :: "manager_config \<Rightarrow> system_call list" where
  "manager_controllers cfg =
     (let max_concurrent = sint (mf_MaxConcurrentReconciles cfg) in
      [SetupController (SignedRequestController max_concurrent (mf_AutoApproval cfg)),
       SetupController (DeviceController max_concurrent initialDeviceNamespace (mf_EnableObcAutoCreation cfg)),
       SetupController (DeviceLabelsController max_concurrent),
       SetupController (WorkloadController max_concurrent (mf_EdgeWorkloadConcurrency cfg)),
       SetupController (ConfigController max_concurrent (mf_EdgeConfigConcurrency cfg))])"

definition manager_checks :: "manager_config \<Rightarrow> system_call list" where
  "manager_checks cfg = (if mf_EnableWebhooks cfg then [SetupWebhook ''EdgeWorkload''] else []) @
     [AddCheck ''healthz'', AddCheck ''readyz'', GetInformer]"

definition start_manager :: "unit io" where
  "start_manager = each_or_exit [StartManager] (Panic main_returned)"

definition watch_own_config :: "nat \<Rightarrow> string \<Rightarrow> unit io" where
  "watch_own_config n operatorNamespace =
     each_or_exit [NewClientset]
     (bindp (call_object (GetConfigMap defaultConfigMapName operatorNamespace) as_config_map) (\<lambda>res. case res of
         Inl e \<Rightarrow> go_exit
       | Inr currentConfigMap \<Rightarrow> mapp (\<lambda>_. ()) (par2
           (WatchForChanges n logLevelLabel
             (case mget (cm_Data currentConfigMap) logLevelLabel of Some v \<Rightarrow> v | None \<Rightarrow> [])
             (om_ResourceVersion (cm_meta currentConfigMap)) go_exit)
           start_manager)))"

definition manager_run :: "nat \<Rightarrow> string \<Rightarrow> manager_config \<Rightarrow> unit io" where
  "manager_run n operatorNamespace cfg =
     (if mf_EdgeWorkloadConcurrency cfg = 0 then go_exit
      else each_or_exit [ParseLogLevel (mf_LogLevel cfg), GetRestConfig [], NewManager cfg]
        (addIndexersToCache
        (each_or_exit (manager_controllers cfg)
        (each_or_exit (manager_checks cfg)
        (bindp (tell (System AddEventHandler)) (\<lambda>_.
        bindp isInCluster (\<lambda>inside. if inside then watch_own_config n operatorNamespace else start_manager)))))))"

definition manager_main :: "nat \<Rightarrow> unit io" where
  "manager_main n =
     bindp getOperatorNamespace (\<lambda>ns. case ns of
         Inl e \<Rightarrow> go_exit
       | Inr operatorNamespace \<Rightarrow>
           bindp (call_object (System ReadEnvironment) as_manager_env) (\<lambda>res. case res of
               Inl e \<Rightarrow> go_exit
             | Inr cfg \<Rightarrow> manager_run n operatorNamespace cfg))"

section \<open>Runs of guarded calls\<close>

lemma exec_or_exit:
  "exec (or_exit p k) t out \<longleftrightarrow> (\<exists>t1 t2. exec p t1 (Returned None) \<and> exec k t2 out \<and> t = t1 @ t2) \<or>
     (\<exists>e. exec p t (Returned (Some e)) \<and> out = Panicked exit_status) \<or> (\<exists>m. exec p t (Panicked m) \<and> out = Panicked m)"
proof -
  have "(\<exists>t1 t2 a. exec p t1 (Returned a) \<and> exec (if a \<noteq> None then go_exit else k) t2 out \<and> t = t1 @ t2) \<longleftrightarrow>
      (\<exists>t1 t2. exec p t1 (Returned None) \<and> exec k t2 out \<and> t = t1 @ t2) \<or>
      (\<exists>e. exec p t (Returned (Some e)) \<and> out = Panicked exit_status)" (is "?l \<longleftrightarrow> ?r")
  proof
    assume ?l
    then obtain t1 t2 a where a: "exec p t1 (Returned a)" "exec (if a \<noteq> None then go_exit else k) t2 out" "t = t1 @ t2" by blast
    then show ?r by (cases a) (auto simp: go_exit_def)
  next
    assume ?r
    then show ?l
    proof
      assume "\<exists>e. exec p t (Returned (Some e)) \<and> out = Panicked exit_status"
      then obtain e where "exec p t (Returned (Some e))" "out = Panicked exit_status" by blast
      then show ?l by (intro exI [of _ t] exI [of _ "[]"] exI [of _ "Some e"]) (simp add: go_exit_def)
    qed fastforce
  qed
  then show ?thesis by (simp add: or_exit_def exec_bindp)
qed

lemma exec_bind_returned:
  assumes "exec (bindp p f) t (Returned b)"
  obtains t1 t2 a where "exec p t1 (Returned a)" "exec (f a) t2 (Returned b)" "t = t1 @ t2"
  using assms unfolding exec_bindp by auto

lemma exec_or_panic:
  assumes "exec (or_panic p k) t (Returned a)"
  obtains t1 t2 where "exec p t1 (Returned None)" "exec k t2 (Returned a)" "t = t1 @ t2"
  using assms unfolding or_panic_def exec_bindp by (auto split: option.splits)

lemma exec_each_or_exit:
  "exec (each_or_exit cs k) t out \<Longrightarrow>
     (\<exists>rs t'. length rs = length cs \<and> (\<forall>r \<in> set rs. unit_result r = None) \<and> t = zip (map System cs) rs @ t' \<and> exec k t' out) \<or>
     (out = Panicked exit_status \<and> fst ` set t \<subseteq> System ` set cs)"
proof (induction cs arbitrary: t)
  case (Cons c cs)
  from Cons.prems consider r t2 where "t = (System c, r) # t2" "unit_result r = None" "exec (each_or_exit cs k) t2 out"
    | r where "t = [(System c, r)]" "out = Panicked exit_status"
    by (auto simp: exec_or_exit exec_call_unit)
  then show ?case
  proof cases
    case 1
    from Cons.IH [OF 1(3)] show ?thesis
    proof
      assume "\<exists>rs t'. length rs = length cs \<and> (\<forall>r \<in> set rs. unit_result r = None) \<and> t2 = zip (map System cs) rs @ t' \<and> exec k t' out"
      then obtain rs t' where "length rs = length cs" "\<forall>r \<in> set rs. unit_result r = None" "t2 = zip (map System cs) rs @ t'" "exec k t' out"
        by blast
      with 1 show ?thesis by (intro disjI1 exI [of _ "r # rs"] exI [of _ t']) simp
    qed (use 1 in auto)
  qed auto
qed simp

lemma each_append: "each_or_exit cs (each_or_exit ds k) = each_or_exit (cs @ ds) k"
  by (induction cs) simp_all

lemma exec_bind_object:
  "exec (bindp (call_object q sel) f) t out \<longleftrightarrow> (\<exists>r t'. t = (q, r) # t' \<and> exec (f (object_result sel r)) t' out)"
  by (auto simp: call_object_def object_result_def exec_Call)

text \<open>A prefix without the request is a prefix of what precedes the request.\<close>

lemma prefix_before:
  assumes "u @ v = t1 @ (q, r) # t2" "q \<notin> fst ` set u"
  shows "\<exists>w. t1 = u @ w \<and> v = w @ (q, r) # t2"
  using assms
proof (induction u arbitrary: t1)
  case (Cons c u)
  then obtain t1' where "t1 = c # t1'" by (cases t1) auto
  with Cons show ?case by auto
qed simp

section \<open>Properties of the operator\<close>

definition succeeded :: "io_trace \<Rightarrow> system_call \<Rightarrow> bool" where
  "succeeded t c \<longleftrightarrow> (\<exists>r. (System c, r) \<in> set t \<and> unit_result r = None)"

text \<open>What has to be in place before the manager may start, written out.\<close>

definition manager_setup :: "manager_config \<Rightarrow> system_call list" where
  "manager_setup cfg =
     [ParseLogLevel (mf_LogLevel cfg), GetRestConfig [], NewManager cfg,
      IndexField DeviceByWorkloadIndexKey, IndexField WorkloadByDeviceIndexKey,
      SetupController (SignedRequestController (sint (mf_MaxConcurrentReconciles cfg)) (mf_AutoApproval cfg)),
      SetupController (DeviceController (sint (mf_MaxConcurrentReconciles cfg)) initialDeviceNamespace (mf_EnableObcAutoCreation cfg)),
      SetupController (DeviceLabelsController (sint (mf_MaxConcurrentReconciles cfg))),
      SetupController (WorkloadController (sint (mf_MaxConcurrentReconciles cfg)) (mf_EdgeWorkloadConcurrency cfg)),
      SetupController (ConfigController (sint (mf_MaxConcurrentReconciles cfg)) (mf_EdgeConfigConcurrency cfg))] @
     (if mf_EnableWebhooks cfg then [SetupWebhook ''EdgeWorkload''] else []) @
     [AddCheck ''healthz'', AddCheck ''readyz'', GetInformer]"

lemma manager_setup_calls:
  "manager_setup cfg = [ParseLogLevel (mf_LogLevel cfg), GetRestConfig [], NewManager cfg,
     IndexField DeviceByWorkloadIndexKey, IndexField WorkloadByDeviceIndexKey] @ manager_controllers cfg @ manager_checks cfg"
  by (simp add: manager_setup_def manager_controllers_def manager_checks_def Let_def)

lemma manager_run_setup:
  "mf_EdgeWorkloadConcurrency cfg \<noteq> 0 \<Longrightarrow> manager_run n ns cfg = each_or_exit (manager_setup cfg)
     (bindp (tell (System AddEventHandler)) (\<lambda>_.
      bindp isInCluster (\<lambda>inside. if inside then watch_own_config n ns else start_manager)))"
  by (simp add: manager_run_def addIndexersToCache_def each_append manager_setup_calls del: each_or_exit.simps)

lemma setup_is_not_start: "StartManager \<notin> set (manager_setup cfg)"
  by (simp add: manager_setup_def)

lemma zip_succeeds:
  assumes "length rs = length cs" "\<forall>r \<in> set rs. unit_result r = None" "c \<in> set cs"
  shows "succeeded (zip (map System cs) rs) c"
proof -
  from assms(3) obtain i where "i < length cs" "c = cs ! i" by (auto simp: in_set_conv_nth)
  with assms(1,2) show ?thesis unfolding succeeded_def
    by (intro exI [of _ "rs ! i"]) (force simp: in_set_conv_nth)
qed

lemma issues_getOperatorNamespace: "issues (\<lambda>q. q \<noteq> System StartManager) getOperatorNamespace"
  by (auto simp: getOperatorNamespace_def isInCluster_def serviceaccount_def intro!: issues_bindpI)

lemma manager_run_start:
  assumes "exec (manager_run n ns cfg) t out" and t: "t = t1 @ (System StartManager, r) # t2"
  shows "mf_EdgeWorkloadConcurrency cfg \<noteq> 0 \<and> (\<forall>c \<in> set (manager_setup cfg). succeeded t1 c) \<and>
    System AddEventHandler \<in> fst ` set t1"
proof -
  from assms have c: "mf_EdgeWorkloadConcurrency cfg \<noteq> 0"
    by (auto simp: manager_run_def go_exit_def split: if_splits)
  let ?k = "\<lambda>_. bindp isInCluster (\<lambda>inside. if inside then watch_own_config n ns else start_manager)"
  have "\<not> fst ` set t \<subseteq> System ` set (manager_setup cfg)" using t setup_is_not_start [of cfg] by auto
  with exec_each_or_exit [OF assms(1) [unfolded manager_run_setup [OF c]]] obtain rs t' where
    rs: "length rs = length (manager_setup cfg)" "\<forall>r \<in> set rs. unit_result r = None"
    and t': "t = zip (map System (manager_setup cfg)) rs @ t'" "exec (bindp (tell (System AddEventHandler)) ?k) t' out"
    by blast
  from t'(2) obtain r' t'' where t'': "t' = (System AddEventHandler, r') # t''"
    by (auto simp: tell_def exec_Call)
  let ?u = "zip (map System (manager_setup cfg)) rs @ [(System AddEventHandler, r')]"
  have "System StartManager \<notin> fst ` set ?u" using setup_is_not_start [of cfg] by (auto dest: set_zip_leftD)
  with prefix_before [of ?u t'' t1 "System StartManager" r t2] t t' t'' obtain w where "t1 = ?u @ w" by auto
  moreover have "succeeded ?u c" if "c \<in> set (manager_setup cfg)" for c
    using zip_succeeds [OF rs that] by (auto simp: succeeded_def)
  ultimately show ?thesis using c by (auto simp: succeeded_def)
qed

text \<open>
  Property C29: the manager starts only when everything is in place. In every run, before the manager is started the settings
  were read, the pool for workloads is not empty, and each step of the set-up written out in \<open>manager_setup\<close> succeeded: the log level, the
  connection, the manager itself, the two indexes, the five controllers with their settings, the webhook for workloads when webhooks are
  enabled, the probes \<open>healthz\<close> and \<open>readyz\<close> and the informer; and the handler was attached to the informer.
\<close>

theorem manager_starts_complete:
  assumes "exec (manager_main n) (t1 @ (System StartManager, r) # t2) out"
  shows "\<exists>r0 cfg. (System ReadEnvironment, r0) \<in> set t1 \<and> object_result as_manager_env r0 = Inr cfg \<and>
    mf_EdgeWorkloadConcurrency cfg \<noteq> 0 \<and> (\<forall>c \<in> set (manager_setup cfg). succeeded t1 c) \<and>
    System AddEventHandler \<in> fst ` set t1"
proof -
  let ?env = "\<lambda>ns. case ns of Inl e \<Rightarrow> go_exit | Inr ns \<Rightarrow>
    bindp (call_object (System ReadEnvironment) as_manager_env) (\<lambda>res. case res of Inl e \<Rightarrow> go_exit | Inr cfg \<Rightarrow> manager_run n ns cfg)"
  have quiet: "System StartManager \<notin> fst ` set u" if "exec getOperatorNamespace u o'" for u o'
    using issues_getOperatorNamespace that unfolding issues_exec by fastforce
  let ?t = "t1 @ (System StartManager, r) # t2"
  from assms have "exec (bindp getOperatorNamespace ?env) ?t out" by (simp only: manager_main_def)
  then consider u v ns where "exec getOperatorNamespace u (Returned ns)" "exec (?env ns) v out" "u @ v = ?t"
    | m where "exec getOperatorNamespace ?t (Panicked m)"
    unfolding exec_bindp by metis
  then show ?thesis
  proof cases
    case 1
    from prefix_before [OF 1(3) quiet [OF 1(1)]] obtain w where w: "t1 = u @ w" "v = w @ (System StartManager, r) # t2" by blast
    from 1(2) w(2) obtain ns' where "ns = Inr ns'" by (cases ns) (auto simp: go_exit_def)
    with 1(2) obtain r0 v' where v: "v = (System ReadEnvironment, r0) # v'" and
      k: "exec (case object_result as_manager_env r0 of Inl e \<Rightarrow> go_exit | Inr cfg \<Rightarrow> manager_run n ns' cfg) v' out"
      by (auto simp: exec_bind_object)
    from v w(2) obtain w' where w': "w = (System ReadEnvironment, r0) # w'" "v' = w' @ (System StartManager, r) # t2"
      by (cases w) auto
    with k obtain cfg where cfg: "object_result as_manager_env r0 = Inr cfg"
      by (cases "object_result as_manager_env r0") (auto simp: go_exit_def)
    with k have "exec (manager_run n ns' cfg) v' out" by simp
    from manager_run_start [OF this w'(2)] cfg w(1) w'(1) show ?thesis
      by (intro exI [of _ r0] exI [of _ cfg]) (auto simp: succeeded_def)
  next
    case 2
    from quiet [OF this] show ?thesis by simp
  qed
qed

text \<open>
  An empty pool for configurations goes unnoticed. The start-up refuses an empty pool for workloads only; with
  one for configurations the manager starts all the same, and its controller only reads: no playbook is ever
  handed to a device, and no reconciliation that gets to the devices of a configuration with playbooks reports an error.
\<close>

theorem empty_config_pool_does_nothing:
  "reads_only (EdgeConfig_Reconcile 0 name ns) \<and>
   addPlaybookExecutionToDevices 0 cfg ds = (case ec_EdgePlaybook cfg of None \<Rightarrow> Panic nil_dereference | Some _ \<Rightarrow> Ret None)"
proof
  show "reads_only (EdgeConfig_Reconcile 0 name ns)"
    by (auto simp: reads_only_def EdgeConfig_Reconcile_def EdgeConfig_Read_def EdgeDevice_ListForEdgeConfig_def
        read_object_def addPlaybookExecutionToDevices_def createPlaybookExecutions_def Config_executeConcurrent_def ExecuteConcurrent_def
        intro!: issues_bindpI split: option.split sum.split)
  show "addPlaybookExecutionToDevices 0 cfg ds = (case ec_EdgePlaybook cfg of None \<Rightarrow> Panic nil_dereference | Some _ \<Rightarrow> Ret None)"
    by (simp add: addPlaybookExecutionToDevices_def createPlaybookExecutions_def Config_executeConcurrent_def ExecuteConcurrent_def
        deref_def errors_of_def mapp_def split: option.split)
qed

section \<open>Properties of the watcher\<close>

text \<open>
  The operator restarts exactly when its log level changes. A run of the watcher is a sequence of events that
  do not change the field (other types, other objects, a missing or an equal value), followed by the first
  event that does, which ends the process at once, or by the closing of the channel, which ends the watcher.
\<close>

theorem watcher_restarts_on_change:
  "exec (checkConfigMapChanges n dataField dataValue go_exit) t out \<longleftrightarrow>
     (\<exists>es rest. (\<forall>e \<in> set es. \<not> level_changed dataField dataValue e) \<and>
        t = map (\<lambda>e. (System ReceiveEvent, REvent e)) es @ rest \<and>
        ((rest = [] \<and> length es = n \<and> out = Returned False) \<or>
         (\<exists>e. rest = [(System ReceiveEvent, REvent e)] \<and> level_changed dataField dataValue e \<and> length es < n \<and>
            out = Panicked exit_status) \<or>
         (\<exists>r. rest = [(System ReceiveEvent, r)] \<and> (\<forall>e. r \<noteq> REvent e) \<and> length es < n \<and> out = Returned True)))"
  (is "?l n t \<longleftrightarrow> ?r n t")
proof (induction n arbitrary: t)
  case (Suc n)
  have step: "?l (Suc n) t \<longleftrightarrow> (\<exists>e t'. t = (System ReceiveEvent, REvent e) # t' \<and>
      (if level_changed dataField dataValue e then t' = [] \<and> out = Panicked exit_status else ?l n t')) \<or>
    (\<exists>r. t = [(System ReceiveEvent, r)] \<and> (\<forall>e. r \<noteq> REvent e) \<and> out = Returned True)"
  proof -
    have "exec (case r of REvent event \<Rightarrow>
           if level_changed dataField dataValue event
           then bindp go_exit (\<lambda>_. checkConfigMapChanges n dataField dataValue go_exit)
           else checkConfigMapChanges n dataField dataValue go_exit
       | _ \<Rightarrow> Ret True) t' out \<longleftrightarrow> (\<exists>e. r = REvent e \<and>
        (if level_changed dataField dataValue e then t' = [] \<and> out = Panicked exit_status else ?l n t')) \<or>
      (t' = [] \<and> (\<forall>e. r \<noteq> REvent e) \<and> out = Returned True)" for r t'
      by (cases r) (auto simp: go_exit_def)
    note this [simp]
    show ?thesis unfolding checkConfigMapChanges.simps exec_Call by auto
  qed
  show ?case
  proof
    assume "?l (Suc n) t"
    then consider e where "t = [(System ReceiveEvent, REvent e)]" "level_changed dataField dataValue e" "out = Panicked exit_status"
      | e t' where "t = (System ReceiveEvent, REvent e) # t'" "\<not> level_changed dataField dataValue e" "?l n t'"
      | r where "t = [(System ReceiveEvent, r)]" "\<forall>e. r \<noteq> REvent e" "out = Returned True"
      unfolding step by (auto split: if_splits)
    then show "?r (Suc n) t"
    proof cases
      case 2
      from 2(3) [unfolded Suc.IH] obtain es rest where r: "\<forall>e \<in> set es. \<not> level_changed dataField dataValue e"
        "t' = map (\<lambda>e. (System ReceiveEvent, REvent e)) es @ rest"
        "(rest = [] \<and> length es = n \<and> out = Returned False) \<or>
         (\<exists>e. rest = [(System ReceiveEvent, REvent e)] \<and> level_changed dataField dataValue e \<and> length es < n \<and>
            out = Panicked exit_status) \<or>
         (\<exists>r. rest = [(System ReceiveEvent, r)] \<and> (\<forall>e. r \<noteq> REvent e) \<and> length es < n \<and> out = Returned True)" by blast
      with 2 show ?thesis by (intro exI [of _ "e # es"] exI [of _ rest]) auto
    next
      case 1
      then show ?thesis by (intro exI [of _ "[]"] exI [of _ t]) simp
    next
      case 3
      then show ?thesis by (intro exI [of _ "[]"] exI [of _ t]) simp
    qed
  next
    assume "?r (Suc n) t"
    then obtain es rest where r: "\<forall>e \<in> set es. \<not> level_changed dataField dataValue e"
      "t = map (\<lambda>e. (System ReceiveEvent, REvent e)) es @ rest"
      "(rest = [] \<and> length es = Suc n \<and> out = Returned False) \<or>
       (\<exists>e. rest = [(System ReceiveEvent, REvent e)] \<and> level_changed dataField dataValue e \<and> length es < Suc n \<and>
          out = Panicked exit_status) \<or>
       (\<exists>r. rest = [(System ReceiveEvent, r)] \<and> (\<forall>e. r \<noteq> REvent e) \<and> length es < Suc n \<and> out = Returned True)" by blast
    show "?l (Suc n) t"
    proof (cases es)
      case Nil
      with r show ?thesis unfolding step by auto
    next
      case (Cons e es')
      with r have "?r n (map (\<lambda>e. (System ReceiveEvent, REvent e)) es' @ rest)" by (intro exI [of _ es'] exI [of _ rest]) auto
      with Suc.IH Cons r show ?thesis unfolding step by (intro disjI1 exI [of _ e]) auto
    qed
  qed
qed auto

section \<open>Properties of the HTTP API\<close>

lemma api_mtls_reachable: "tls_reachable x (api_mtls config)"
proof -
  let ?n = "NewMTLSConfig api_operatorNamespace [ac_Domain config] (ac_TLSLocalhostEnabled config)"
  have "SetClientExpiration (sint (ac_ClientCertExpirationTime config)) ?n =
      (fst (SetClientExpiration (sint (ac_ClientCertExpirationTime config)) ?n), api_mtls config)"
    by (simp add: api_mtls_def)
  from tls_reachable.expiration [OF tls_reachable.new this] show ?thesis .
qed

text \<open>The secret with the certificate that devices register with.\<close>

definition registration_secret :: "string \<Rightarrow> (string, bytes) fmap \<Rightarrow> string \<Rightarrow> secret" where
  "registration_secret name data ns = new_secret name ns (Some (fmupd regClientSecretLabelKey ''true'' fmempty)) data"

lemma registration_stored:
  assumes "exec (CreateRegistrationClientCerts x conf) t (Returned (None, conf'))"
  shows "\<exists>name data r. (CreateSecret (registration_secret name data (tc_namespace conf)), r) \<in> set t \<and> unit_result r = None"
proof (cases "tc_caProvider conf")
  case Nil
  with assms show ?thesis by (simp add: CreateRegistrationClientCerts_def)
next
  case (Cons p ps)
  let ?k = "\<lambda>name (res, p'). case res of
      Inl e \<Rightarrow> Ret (Some (PlainError ''Cannot create client certificate''), conf\<lparr>tc_caProvider := p' # ps\<rparr>)
    | Inr certData \<Rightarrow> mapp (\<lambda>err. (err, conf\<lparr>tc_caProvider := p' # ps\<rparr>))
        (call_unit (CreateSecret (registration_secret name certData (tc_namespace conf))))"
  let ?name = "\<lambda>suffix. regClientSecretNamePrefix @ ''-'' @ suffix"
  from assms have "exec (bindp (go_rand_string regClientSecretNameRandomLen) (\<lambda>suffix.
      bindp (CreateRegistrationCertificate x (?name suffix) p) (?k (?name suffix)))) t (Returned (None, conf'))"
    unfolding CreateRegistrationClientCerts_def Cons list.case registration_secret_def Let_def .
  then obtain t1 t2 name where t: "t = t1 @ t2" and
    e: "exec (bindp (CreateRegistrationCertificate x name p) (?k name)) t2 (Returned (None, conf'))"
    unfolding exec_bindp [of "go_rand_string _"] by blast
  from e obtain t3 t4 y where "exec (CreateRegistrationCertificate x name p) t3 (Returned y)"
    "exec (?k name y) t4 (Returned (None, conf'))" and t2: "t2 = t3 @ t4"
    by (rule exec_bind_returned)
  moreover obtain res p' where "y = (res, p')" by fastforce
  ultimately have "exec (?k name (res, p')) t4 (Returned (None, conf'))" by simp
  then obtain data r where "t4 = [(CreateSecret (registration_secret name data (tc_namespace conf)), r)]" "unit_result r = None"
    by (cases res) (auto simp: exec_mapp exec_call_unit)
  with t t2 show ?thesis by auto
qed

lemma tls_namespace:
  assumes "exec (InitCertificates x conf) t (Returned (res, conf'))"
  shows "tc_namespace conf' = tc_namespace conf"
proof -
  let ?k = "\<lambda>caCerts ps (res, p'). Ret (case res of
      Inl e \<Rightarrow> (Inl e, conf\<lparr>tc_caProvider := ps, tc_caProvider := p' # tl ps\<rparr>)
    | Inr server \<Rightarrow> (case GetCertificate x server of
        Inl e \<Rightarrow> (Inl (wrap ''Cannot create server certfificate: '' e), conf\<lparr>tc_caProvider := ps, tc_caProvider := p' # tl ps\<rparr>)
      | Inr certificate \<Rightarrow> (Inr (\<lparr>sc_Certificate = certificate, sc_ClientCAs = map (cg_CertPEM \<circ> fst) caCerts\<rparr>,
          map snd caCerts), conf\<lparr>tc_caProvider := ps, tc_caProvider := p' # tl ps\<rparr>)))"
  have k: "tc_namespace conf' = tc_namespace conf" if "exec (bindp q (?k caCerts ps)) u (Returned (res, conf'))" for q caCerts ps u
  proof -
    from that obtain u1 u2 y where "exec q u1 (Returned y)" and "exec (?k caCerts ps y) u2 (Returned (res, conf'))" and "u = u1 @ u2"
      by (rule exec_bind_returned)
    then show ?thesis
      by (cases y; cases "fst y"; cases "GetCertificate x (projr (fst y))") auto
  qed
  from assms show ?thesis unfolding InitCertificates_def Let_def
    by (auto simp: exec_bindp [of "provider_certificates _ _"] split: if_splits dest!: k)
qed

text \<open>A server that is ready: it can sign, and devices can register.\<close>

definition api_ready :: "libraries \<Rightarrow> io_trace \<Rightarrow> api_server \<Rightarrow> bool" where
  "api_ready l t s \<longleftrightarrow> (let mtls = yh_mtlsConfig (sv_handler s) in
     sv_handler s = api_handler l (sv_config s) mtls \<and> tls_reachable (li_x509 l) mtls \<and> tls_ok mtls \<and> signs mtls \<and>
     (\<exists>name data r. (CreateSecret (registration_secret name data api_operatorNamespace), r) \<in> set t \<and> unit_result r = None))"

lemma api_setup_ready:
  assumes "exec (api_setup l) t (Returned s)"
  shows "api_ready l t s"
proof -
  let ?x = "li_x509 l"
  let ?tail = "\<lambda>config tlsConfig CACertChain (err :: error option, mtls'). if err \<noteq> None then go_exit
      else or_panic (call_unit (System NewEventClient)) (or_exit (call_unit (System NewAPIHandler))
        (Ret \<lparr>sv_config = config, sv_tls = tlsConfig, sv_CACertChain = CACertChain, sv_handler = api_handler l config mtls'\<rparr>))"
  let ?certs = "\<lambda>config (res, mtls). case res of Inl e \<Rightarrow> go_exit | Inr (tlsConfig, CACertChain) \<Rightarrow>
      bindp (CreateRegistrationClientCerts ?x mtls) (?tail config tlsConfig CACertChain)"
  let ?main = "\<lambda>config. or_panic (api_logger (ac_LogLevel config)) (or_panic (getRestConfig (ac_Kubeconfig config))
      (or_panic getClient (bindp (InitCertificates ?x (api_mtls config)) (?certs config))))"
  from assms obtain r0 t0 where t: "t = (System ReadEnvironment, r0) # t0" and
    "exec (case object_result as_env r0 of Inl e \<Rightarrow> Panic (Error e) | Inr config \<Rightarrow> ?main config) t0 (Returned s)"
    unfolding api_setup_def exec_bind_object by blast
  then obtain config where "exec (?main config) t0 (Returned s)" by (cases "object_result as_env r0") auto
  then obtain t1 t2 t3 t4 where t0: "t0 = t1 @ t2 @ t3 @ t4"
    and e4: "exec (bindp (InitCertificates ?x (api_mtls config)) (?certs config)) t4 (Returned s)"
    by (elim exec_or_panic) blast
  from e4 obtain t5 t6 res mtls where t4: "t4 = t5 @ t6" and
    init: "exec (InitCertificates ?x (api_mtls config)) t5 (Returned (res, mtls))" and e6: "exec (?certs config (res, mtls)) t6 (Returned s)"
    unfolding exec_bindp [of "InitCertificates _ _"] by auto
  from e6 obtain tlsConfig chain where res: "res = Inr (tlsConfig, chain)" by (cases res) (auto simp: go_exit_def)
  with e6 have "exec (bindp (CreateRegistrationClientCerts ?x mtls) (?tail config tlsConfig chain)) t6 (Returned s)" by simp
  then obtain t7 t8 err mtls' where t6: "t6 = t7 @ t8" and
    reg: "exec (CreateRegistrationClientCerts ?x mtls) t7 (Returned (err, mtls'))" and e8: "exec (?tail config tlsConfig chain (err, mtls')) t8 (Returned s)"
    unfolding exec_bindp [of "CreateRegistrationClientCerts _ _"] by auto
  from e8 have err: "err = None" by (cases err) (auto simp: go_exit_def)
  with e8 have s: "s = \<lparr>sv_config = config, sv_tls = tlsConfig, sv_CACertChain = chain, sv_handler = api_handler l config mtls'\<rparr>"
    by (auto elim!: exec_or_panic simp: exec_or_exit)
  have r1: "tls_reachable ?x mtls" using tls_reachable.init [OF api_mtls_reachable init] .
  have r2: "tls_reachable ?x mtls'" using tls_reachable.registration [OF r1 reg] .
  have "signs mtls" using returns_value [OF returns_InitCertificates [OF reachable_ok [OF api_mtls_reachable]] init] res by auto
  then have sg: "signs mtls'" using returns_value [OF returns_CreateRegistrationClientCerts [OF reachable_ok [OF r1]] reg] by auto
  have ns: "tc_namespace mtls = api_operatorNamespace"
    using tls_namespace [OF init] by (simp add: api_mtls_def SetClientExpiration_def NewMTLSConfig_def)
  from registration_stored [OF reg [unfolded err]] obtain name data r where
    "(CreateSecret (registration_secret name data api_operatorNamespace), r) \<in> set t7" "unit_result r = None"
    unfolding ns by blast
  then have "\<exists>name data r. (CreateSecret (registration_secret name data api_operatorNamespace), r) \<in> set t \<and> unit_result r = None"
    unfolding t t0 t4 t6 by (intro exI [of _ name] exI [of _ data] exI [of _ r]) simp
  with r2 sg reachable_ok [OF r2] show ?thesis unfolding api_ready_def Let_def s by (simp add: api_handler_def)
qed

definition not_serving :: "request \<Rightarrow> bool" where
  "not_serving q \<longleftrightarrow> (\<forall>p. q \<noteq> System (ServeTLS p))"

lemma not_serving_simps [simp]:
  "not_serving (System c) \<longleftrightarrow> (\<forall>p. c \<noteq> ServeTLS p)" "not_serving Now" "not_serving (GetSecret n ns)"
  "not_serving (CreateSecret s)" "not_serving (GenerateKey k)" "not_serving (CreateCertificate template parent pub key)" "not_serving (RandString len)"
  by (simp_all add: not_serving_def)

lemma issues_getCACertificate: "issues not_serving (GetCACertificate x p)"
  by (auto simp: GetCACertificate_def getCACertificate_def Let_def intro!: issues_bindpI issues_trypI split: sum.split)

lemma issues_createKeyAndCSR: "issues not_serving (createKeyAndCSR x c g)"
  by (auto simp: createKeyAndCSR_def GetNewKey_def Let_def intro!: issues_bindpI issues_trypI
      split: sum.split option.split private_key.split)

lemma issues_provider_certificates: "issues not_serving (provider_certificates x ps)"
  by (induction ps) (auto intro!: issues_bindpI issues_getCACertificate split: sum.split)

lemma issues_InitCertificates: "issues not_serving (InitCertificates x conf)"
  by (auto simp: InitCertificates_def GetServerCertificate_def getServerCertificate_def Let_def
      intro!: issues_bindpI issues_provider_certificates issues_getCACertificate issues_createKeyAndCSR split: sum.split)

lemma issues_CreateRegistrationClientCerts: "issues not_serving (CreateRegistrationClientCerts x conf)"
  by (auto simp: CreateRegistrationClientCerts_def CreateRegistrationCertificate_def Let_def
      intro!: issues_bindpI issues_getCACertificate issues_createKeyAndCSR split: sum.split list.split)

lemma issues_api_setup: "issues not_serving (api_setup l)"
  by (auto simp: api_setup_def or_panic_def or_exit_def api_logger_def getRestConfig_def getClient_def go_exit_def
      intro!: issues_bindpI issues_InitCertificates issues_CreateRegistrationClientCerts split: sum.split option.split prod.split)

text \<open>
  Property C28: the API is served only with a working authority. In every run of the process in which the TLS server is
  started, the set-up had returned before: the handler is the one for the settings that were read, its TLS configuration
  is one the life cycle reaches, sound and able to sign, client certificates get a positive lifetime whatever
  number the settings hold, a registration certificate was stored, and the port is the configured one.
\<close>

theorem api_served_with_authority:
  assumes "exec (api_main l) t out" and "(System (ServeTLS port), r) \<in> set t"
  shows "\<exists>t1 t2 s. t = t1 @ t2 \<and> exec (api_setup l) t1 (Returned s) \<and> api_ready l t1 s \<and>
    tc_clientExpirationDays (yh_mtlsConfig (sv_handler s)) > 0 \<and> port = ac_HttpsPort (sv_config s)"
proof -
  let ?k = "\<lambda>s. mapp (\<lambda>_. ()) (par_list [MqttHandler (ac_MqttBroker (sv_config s)),
      serve_until_exit (ServeTLS (ac_HttpsPort (sv_config s))), serve_until_exit (ServeMetrics (ac_MetricsAddr (sv_config s)))])"
  have quiet: "(System (ServeTLS port), r) \<notin> set u" if "exec (api_setup l) u o'" for u o'
    using issues_api_setup that unfolding issues_exec by fastforce
  from assms(1) consider t1 t2 s where "exec (api_setup l) t1 (Returned s)" "exec (?k s) t2 out" "t = t1 @ t2"
    | m where "exec (api_setup l) t (Panicked m)"
    unfolding api_main_def exec_bindp [of "api_setup l"] by blast
  then show ?thesis
  proof cases
    case 1
    let ?P = "\<lambda>q. \<forall>p. q = System (ServeTLS p) \<longrightarrow> p = ac_HttpsPort (sv_config s)"
    have "issues ?P (?k s)"
      unfolding issues_mapp
      by (rule issues_par_list) (auto simp: MqttHandler_def shuffled_id_def serve_until_exit_def go_exit_def
          intro!: issues_bindpI split: option.split)
    moreover from quiet [OF 1(1)] assms(2) 1(3) have "(System (ServeTLS port), r) \<in> set t2" by simp
    ultimately have "port = ac_HttpsPort (sv_config s)" using 1(2) unfolding issues_exec by fastforce
    moreover from api_setup_ready [OF 1(1)] have "api_ready l t1 s" .
    ultimately show ?thesis using 1 by (intro exI [of _ t1] exI [of _ t2] exI [of _ s]) (simp add: api_ready_def tls_ok_def Let_def)
  next
    case 2
    from quiet [OF this] assms(2) show ?thesis by simp
  qed
qed

text \<open>
  A wrong backend setting is found out by the devices. The error of the factory is dropped, so with an unknown
  kind of backend or an empty address of the remote store the process still serves, and every request of a
  device that gets as far as the backend panics: the two fetches of its messages and every enrolment that can be decoded.
\<close>

theorem unsupported_backend_panics:
  assumes "Factory_Create (api_factory l) config = Inl e"
  shows "(IsOwnDevice (li_unicode l) ctx deviceID \<longrightarrow>
      handle (api_handler l config mtls) ctx (GetControl deviceID) = Panic nil_dereference \<and>
      handle (api_handler l config mtls) ctx (GetData deviceID) = Panic nil_dereference) \<and>
    (msg_Directive msg = ''enrolment'' \<and> decode_enrolment (li_messages l) (msg_Content msg) = Inr info \<longrightarrow>
      (\<forall>t out. exec (handle (api_handler l config mtls) ctx (PostData deviceID msg)) t out \<longrightarrow> out = Panicked nil_dereference))"
proof -
  have b: "yh_backend (api_handler l config mtls) = nil_backend" "yh_unicode (api_handler l config mtls) = li_unicode l"
    "yh_codec (api_handler l config mtls) = li_messages l"
    using assms by (simp_all add: api_handler_def api_backend_def)
  then show ?thesis
    by (auto simp: GetControlMessageForDevice_def GetDataMessageForDevice_def PostDataMessageForDevice_def post_enrolment_def
        nil_backend_def exec_bindp)
qed

section \<open>Concrete runs\<close>

definition demo_libraries :: libraries where
  "demo_libraries = \<lparr>li_unicode = ascii_tables, li_yaml = plain_codec, li_parse_url = (\<lambda>_. Inr ''https''), li_x509 = plain_x509,
     li_messages = plain_messages\<rparr>"

definition stored_authority :: secret where
  "stored_authority = new_secret CASecretName ''flotta'' None
     (fmupd caCertSecretKey (plain_encode ECPrivateKeyBlockType ''key'') (fmupd caCertCertKey (plain_encode certificate_block ''der'') fmempty))"

definition stored_host :: secret where
  "stored_host = new_secret HostTLSCertName ''flotta'' None
     (fmupd serverSecretKey (plain_encode ECPrivateKeyBlockType ''key'') (fmupd serverCert (plain_encode certificate_block ''der'') fmempty))"

definition api_answers :: "response list" where
  "api_answers = REnv (demo_config ''crd'') # replicate 8 ROk @ [RSecret stored_authority, RSecret stored_host, RText ''abcdefghij'',
     RSecret stored_authority, RTime 1, RTime 2, RKey (EcdsaKey ''reg'') ''pub'', RText ''der'', ROk, ROk, ROk, RErr (PlainError ''closed'')]"

lemma api_demo_run:
  "map_option (\<lambda>(t, out). (fst (last t), out)) (replay (api_main demo_libraries) api_answers [0, 1, 0, 1]) =
     Some (System (ServeTLS 8043), Panicked exit_status)"
  by code_simp

theorem api_served_with_authority_witness:
  "\<exists>t t1 t2 s. exec (api_main demo_libraries) t (Panicked exit_status) \<and> t = t1 @ t2 \<and>
     exec (api_setup demo_libraries) t1 (Returned s) \<and> api_ready demo_libraries t1 s \<and> 8043 = ac_HttpsPort (sv_config s)"
proof -
  from api_demo_run obtain t where r: "replay (api_main demo_libraries) api_answers [0, 1, 0, 1] = Some (t, Panicked exit_status)"
    and l: "fst (last t) = System (ServeTLS 8043)" by auto
  from replay_exec [OF r] have e: "exec (api_main demo_libraries) t (Panicked exit_status)" .
  have "t \<noteq> []" using r by (auto simp: api_main_def api_setup_def call_object_def api_answers_def split: option.splits)
  with l have "(System (ServeTLS 8043), snd (last t)) \<in> set t" by (metis last_in_set prod.collapse)
  from api_served_with_authority [OF e this] e show ?thesis by blast
qed

theorem unsupported_backend_panics_witness:
  "handle (api_handler demo_libraries (demo_config ''etcd'') signing_config)
     (Some \<lparr>ra_CommonName = ToLower ascii_tables ''dev'', ra_Namespace = ''ns''\<rparr>) (GetControl ''dev'') = Panic nil_dereference"
proof -
  have "Factory_Create (api_factory demo_libraries) (demo_config ''etcd'') = Inl (PlainError ''unsupported backend type: etcd'')"
    by (simp add: Factory_Create_def demo_config_def)
  moreover have "IsOwnDevice (li_unicode demo_libraries) (Some \<lparr>ra_CommonName = ToLower ascii_tables ''dev'', ra_Namespace = ''ns''\<rparr>) ''dev''"
    by (simp add: IsOwnDevice_def demo_libraries_def)
  ultimately show ?thesis using unsupported_backend_panics by blast
qed

definition demo_manager :: manager_config where
  "demo_manager = \<lparr>mf_MetricsAddr = '':8080'', mf_ProbeAddr = '':8081'', mf_EnableLeaderElection = False, mf_WebhookPort = 9443,
     mf_EnableObcAutoCreation = False, mf_LogLevel = ''info'', mf_EdgeWorkloadConcurrency = 5, mf_EdgeConfigConcurrency = 0,
     mf_MaxConcurrentReconciles = 3, mf_AutoApproval = True, mf_EnableWebhooks = True\<rparr>"

definition manager_answers :: "response list" where
  "manager_answers = RNotExist # RManagerEnv demo_manager # replicate 15 ROk @ [RNotExist, ROk]"

lemma manager_demo_run:
  "map_option (\<lambda>(t, out). (fst (last t), out)) (replay (manager_main 0) manager_answers []) =
     Some (System StartManager, Panicked main_returned)"
  by code_simp

theorem manager_starts_complete_witness:
  "\<exists>t1 r r0 cfg. exec (manager_main 0) (t1 @ [(System StartManager, r)]) (Panicked main_returned) \<and>
     (System ReadEnvironment, r0) \<in> set t1 \<and> object_result as_manager_env r0 = Inr cfg \<and>
     (\<forall>c \<in> set (manager_setup cfg). succeeded t1 c)"
proof -
  from manager_demo_run obtain t where r: "replay (manager_main 0) manager_answers [] = Some (t, Panicked main_returned)"
    and l: "fst (last t) = System StartManager" by auto
  have "t \<noteq> []" using r by (auto simp: manager_main_def getOperatorNamespace_def isInCluster_def manager_answers_def split: option.splits)
  with l have t: "t = butlast t @ [(System StartManager, snd (last t))]" by (metis append_butlast_last_id prod.collapse)
  with replay_exec [OF r] have e: "exec (manager_main 0) (butlast t @ [(System StartManager, snd (last t))]) (Panicked main_returned)" by simp
  from manager_starts_complete [OF e] e show ?thesis by blast
qed

definition level_event :: "event_kind \<Rightarrow> string \<Rightarrow> watch_event" where
  "level_event kind level = \<lparr>we_Type = kind, we_Object = Some \<lparr>cm_meta = zero_meta, cm_Data = Some (fmupd logLevelLabel level fmempty),
     cm_Rest = []\<rparr>\<rparr>"

theorem watcher_restarts_on_change_witness:
  "\<not> level_changed logLevelLabel ''info'' (level_event EvDeleted ''debug'') \<and>
   \<not> level_changed logLevelLabel ''info'' (level_event EvModified ''info'') \<and>
   exec (checkConfigMapChanges 5 logLevelLabel ''info'' go_exit)
     (map (\<lambda>e. (System ReceiveEvent, REvent e)) [level_event EvDeleted ''debug'', level_event EvModified ''info'', level_event EvModified ''debug''])
     (Panicked exit_status)"
proof -
  let ?es = "[level_event EvDeleted ''debug'', level_event EvModified ''info'']"
  let ?e = "level_event EvModified ''debug''"
  have quiet: "\<forall>e \<in> set ?es. \<not> level_changed logLevelLabel ''info'' e" by (simp add: level_changed_def level_event_def)
  have change: "level_changed logLevelLabel ''info'' ?e" by (simp add: level_changed_def level_event_def)
  have "exec (checkConfigMapChanges 5 logLevelLabel ''info'' go_exit)
     (map (\<lambda>e. (System ReceiveEvent, REvent e)) ?es @ [(System ReceiveEvent, REvent ?e)]) (Panicked exit_status)"
    unfolding watcher_restarts_on_change
    by (intro exI [of _ ?es] exI [of _ "[(System ReceiveEvent, REvent ?e)]"] conjI quiet refl) (simp add: change)
  with quiet show ?thesis by simp
qed

end
