(* ===== verification/Admission.thy ===== *)
theory Admission
  imports Storage
begin

text \<open>
  The admission webhooks (\<open>src/api/v1alpha1/edgedevice_webhook.go\<close>, \<open>edgeworkload_webhook.go\<close>): what a device or a
  workload must look like to be stored.
\<close>

section \<open>EdgeDevice\<close>

definition obc_conflict :: error where
  "obc_conflict = PlainError (''spec.storage.s3.createOBC=true is invalid when spec.storage.s3.secretName or '' @
     ''spec.storage.s3.configMapName values are set.'' @ [chr 10] @
     ''Either set spec.storage.s3.createOBC=false or remove the values from spec.storage.s3.secretName '' @
     ''and spec.storage.s3.configMapName'')"

definition validateCreateOrUpdate :: "edge_device \<Rightarrow> error option" where
  "validateCreateOrUpdate d = (case ds_Storage (ed_Spec d) of
      None \<Rightarrow> None
    | Some st \<Rightarrow> (case st_S3 st of
        None \<Rightarrow> None
      | Some s3 \<Rightarrow>
          if s3_CreateOBC s3 \<and> (s3_SecretName s3 \<noteq> [] \<or> s3_ConfigMapName s3 \<noteq> []) then
            Some obc_conflict
          else None))"

definition Device_ValidateCreate :: "edge_device \<Rightarrow> error option" where
  "Device_ValidateCreate = validateCreateOrUpdate"

definition Device_ValidateUpdate :: "edge_device \<Rightarrow> edge_device \<Rightarrow> error option" where
  "Device_ValidateUpdate old = validateCreateOrUpdate"

definition Device_ValidateDelete :: "edge_device \<Rightarrow> error option" where
  "Device_ValidateDelete d = None"

section \<open>EdgeWorkload\<close>

definition containersMsg :: "container \<Rightarrow> string \<Rightarrow> string" where
  "containersMsg c field = ''containers['' @ ct_Name c @ ''].'' @ field"

definition envMsg :: "container \<Rightarrow> env_var \<Rightarrow> string \<Rightarrow> string" where
  "envMsg c e field = ''containers['' @ ct_Name c @ ''].env['' @ ev_Name e @ ''].ValueFrom.'' @ field"

definition env_paths :: "container \<Rightarrow> env_var \<Rightarrow> string list" where
  "env_paths c e = (case ev_ValueFrom e of
      None \<Rightarrow> []
    | Some src \<Rightarrow>
        if vs_FieldRef src \<noteq> None then [envMsg c e ''fieldRef'']
        else if vs_ResourceFieldRef src \<noteq> None then [envMsg c e ''resourceFieldRef''] else [])"

text \<open>The paths of one container that are not supported, in the order of the checks.\<close>

definition container_paths :: "container \<Rightarrow> string list" where
  "container_paths c =
     map (containersMsg c) (map snd (filter fst
       [(ct_Lifecycle c \<noteq> None, ''lifecycle''), (ct_LivenessProbe c \<noteq> None, ''livenessProbe''),
        (ct_ReadinessProbe c \<noteq> None, ''readinessProbe''), (ct_StartupProbe c \<noteq> None, ''startupProbe''),
        (ct_VolumeDevices c \<noteq> [], ''volumeDevices''), (ct_Limits c \<noteq> [], ''resources.limits''),
        (ct_Requests c \<noteq> [], ''resources.requests'')])) @
     concat (map (env_paths c) (ct_Env c))"

text \<open>The loop over the containers: a reused name or the reserved port ends it.\<close>

primrec validate_containers :: "container list \<Rightarrow> string list \<Rightarrow> string list \<Rightarrow> error + string list" where
  "validate_containers [] names paths = Inr paths"
| "validate_containers (c # cs) names paths =
     (if ct_Name c \<in> set names then
        Inl (PlainError (''name collisions for containers within the same pod spec are not supported.'' @ [chr 10] @
          ''container name: '' @ [chr 39] @ ct_Name c @ [chr 39] @ '' has been reused''))
      else if 9100 \<in> set (ct_HostPorts c) then
        Inl (PlainError ''HostPort 9100 is reserved for internal use on the device and cannot be set for user workloads'')
      else validate_containers cs (ct_Name c # names) (paths @ container_paths c))"

definition validate :: "edge_workload \<Rightarrow> error option" where
  "validate w =
     (let podSpec = ws_Pod (ew_Spec w) in
      case validate_containers (ps_InitContainers podSpec @ ps_Containers podSpec) [] [] of
        Inl e \<Rightarrow> Some e
      | Inr paths \<Rightarrow>
          (let notValidPaths = paths @ map (\<lambda>v. ''volumes['' @ vo_Name v @ '']'')
               (filter (\<lambda>v. vo_HostPath v = None) (ps_Volumes podSpec)) in
           if notValidPaths \<noteq> [] then
             Some (PlainError (''the following paths in podSpec are not supported and should be removed: '' @ Join notValidPaths '',''))
           else None))"

definition Workload_ValidateCreate :: "edge_workload \<Rightarrow> error option" where
  "Workload_ValidateCreate = validate"

definition Workload_ValidateUpdate :: "edge_workload \<Rightarrow> edge_workload \<Rightarrow> error option" where
  "Workload_ValidateUpdate old = validate"

definition Workload_ValidateDelete :: "edge_workload \<Rightarrow> error option" where
  "Workload_ValidateDelete w = None"

section \<open>Which workloads pass\<close>

definition supported_container :: "container \<Rightarrow> bool" where
  "supported_container c \<longleftrightarrow> ct_Lifecycle c = None \<and> ct_LivenessProbe c = None \<and> ct_ReadinessProbe c = None \<and>
     ct_StartupProbe c = None \<and> ct_VolumeDevices c = [] \<and> ct_Limits c = [] \<and> ct_Requests c = [] \<and>
     (\<forall>e \<in> set (ct_Env c). case ev_ValueFrom e of None \<Rightarrow> True
        | Some src \<Rightarrow> vs_FieldRef src = None \<and> vs_ResourceFieldRef src = None)"

lemma env_paths_empty: "env_paths c e = [] \<longleftrightarrow> (case ev_ValueFrom e of None \<Rightarrow> True
    | Some src \<Rightarrow> vs_FieldRef src = None \<and> vs_ResourceFieldRef src = None)"
  by (simp add: env_paths_def split: option.split)

lemma container_paths_empty: "container_paths c = [] \<longleftrightarrow> supported_container c"
  by (auto simp: container_paths_def supported_container_def env_paths_empty)

lemma validate_containers_ok:
  "validate_containers cs names paths = Inr ps \<longleftrightarrow>
     distinct (map ct_Name cs) \<and> set (map ct_Name cs) \<inter> set names = {} \<and>
     (\<forall>c \<in> set cs. 9100 \<notin> set (ct_HostPorts c)) \<and> ps = paths @ concat (map container_paths cs)"
  by (induction cs arbitrary: names paths) auto

text \<open>
  A workload is admitted exactly when no container of its pod uses a field the device cannot honour,
  their names are distinct across init containers and containers, none asks for the reserved host port and
  every volume is a host path.
\<close>

theorem workload_admitted:
  "Workload_ValidateCreate w = None \<longleftrightarrow>
     (let pod = ws_Pod (ew_Spec w); cs = ps_InitContainers pod @ ps_Containers pod in
      list_all supported_container cs \<and> distinct (map ct_Name cs) \<and>
      list_all (\<lambda>c. 9100 \<notin> set (ct_HostPorts c)) cs \<and> list_all (\<lambda>v. vo_HostPath v \<noteq> None) (ps_Volumes pod))"
proof -
  let ?pod = "ws_Pod (ew_Spec w)"
  let ?cs = "ps_InitContainers ?pod @ ps_Containers ?pod"
  show ?thesis
  proof (cases "validate_containers ?cs [] []")
    case (Inl e)
    then have "\<not> (distinct (map ct_Name ?cs) \<and> (\<forall>c \<in> set ?cs. 9100 \<notin> set (ct_HostPorts c)))"
      using validate_containers_ok [of ?cs "[]" "[]" "concat (map container_paths ?cs)"] by auto
    with Inl show ?thesis
      by (auto simp: Workload_ValidateCreate_def validate_def Let_def list_all_iff)
  next
    case (Inr ps)
    with validate_containers_ok [of ?cs "[]" "[]" ps]
    have "distinct (map ct_Name ?cs)" "\<forall>c \<in> set ?cs. 9100 \<notin> set (ct_HostPorts c)" "ps = concat (map container_paths ?cs)"
      by auto
    with Inr show ?thesis
      by (auto simp: Workload_ValidateCreate_def validate_def Let_def list_all_iff container_paths_empty filter_empty_conv)
  qed
qed

text \<open>
  An admitted device names either a bucket claim or external storage, so the storage code never has to choose
  between the two.
\<close>

lemma device_admitted:
  "Device_ValidateCreate d = None \<longleftrightarrow> (case getS3 (ds_Storage (ed_Spec d)) of
      None \<Rightarrow> True | Some s3 \<Rightarrow> s3_CreateOBC s3 \<longrightarrow> \<not> ShouldUseExternalConfig (ds_Storage (ed_Spec d)))"
  by (auto simp: Device_ValidateCreate_def validateCreateOrUpdate_def ShouldUseExternalConfig_def getS3_def split: option.split)

end
