(* ===== verification/Metrics.thy ===== *)
theory Metrics
  imports Cluster Go_Text
begin

text \<open>
  The metrics of the two processes (\<open>src/internal/common/metrics/metrics.go\<close>) and the informer that keeps the
  device counters of the operator (\<open>src/internal/operator/informers/edgedevice.go\<close>).

  Every device has a counter, kept in a \<open>sync.Map\<close> and registered with the Prometheus registry. The calls of the map
  and the registry are atomic; what they do to the shared state is \<open>metrics_step\<close>, and an operation is
  a program over these calls, so that the goroutines of the server can be interleaved between them. In the
  registry (\<open>src/vendor/github.com/prometheus/client_golang/prometheus/registry.go\<close>) a collector is identified by a
  hash of its name and labels, taken here to be the labels themselves.
\<close>

section \<open>Shared state\<close>

type_synonym labels = "string \<times> string"

record device_counter =
  ct_id :: nat
  ct_labels :: labels

datatype global_counter =
    RegisteredEdgeDevices
  | FailedToCompleteRegistrationEdgeDevices
  | UnregisteredEdgeDevices
  | FailedAuthenticationCounter
  | InvalidOwnerCounter

text \<open>
  \<open>mt_devices\<close> is the \<open>sync.Map\<close>, \<open>mt_collectors\<close> the registered device counters by label values, \<open>mt_values\<close> the value
  of every counter that was ever created: counters are pointers, and one that lost the race to be stored is
  garbage.
\<close>

record metrics_state =
  mt_next :: nat
  mt_devices :: "(string, device_counter) fmap"
  mt_collectors :: "(labels, nat) fmap"
  mt_values :: "nat \<Rightarrow> 64 word"
  mt_globals :: "global_counter \<Rightarrow> 64 word"

datatype metrics_call =
    NewCounter string string
  | LoadOrStore string device_counter
  | LoadAndDelete string
  | MustRegister device_counter
  | Unregister device_counter
  | IncCounter device_counter
  | IncGlobal global_counter

datatype metrics_answer =
    Done
  | Counter device_counter bool
  | Absent
  | Failed string

type_synonym 'a metrics_prog = "(metrics_call, metrics_answer, 'a) prog"

text \<open>Label values have to be UTF-8.\<close>

function valid_utf8 :: "nat list \<Rightarrow> bool" where
  "valid_utf8 bs = (if bs = [] then True
     else (case decode_rune bs of (r, w) \<Rightarrow> \<not> (r = RuneError \<and> w = 1) \<and> valid_utf8 (drop w bs)))"
  by pat_completeness auto
termination
  by (relation "measure length") (auto simp: decode_rune_less)

declare valid_utf8.simps [simp del]

definition valid_labels :: "labels \<Rightarrow> bool" where
  "valid_labels l \<longleftrightarrow> valid_utf8 (map byte (fst l)) \<and> valid_utf8 (map byte (snd l))"

fun metrics_step :: "metrics_state \<Rightarrow> metrics_call \<Rightarrow> metrics_answer \<times> metrics_state" where
  "metrics_step s (NewCounter namespace name) =
     (Counter \<lparr>ct_id = mt_next s, ct_labels = (namespace, name)\<rparr> False,
      s\<lparr>mt_next := Suc (mt_next s), mt_values := (mt_values s)(mt_next s := 0)\<rparr>)"
| "metrics_step s (LoadOrStore key c) = (case fmlookup (mt_devices s) key of
      Some c' \<Rightarrow> (Counter c' True, s)
    | None \<Rightarrow> (Counter c False, s\<lparr>mt_devices := fmupd key c (mt_devices s)\<rparr>))"
| "metrics_step s (LoadAndDelete key) = (case fmlookup (mt_devices s) key of
      Some c \<Rightarrow> (Counter c True, s\<lparr>mt_devices := fmdrop key (mt_devices s)\<rparr>)
    | None \<Rightarrow> (Absent, s))"
| "metrics_step s (MustRegister c) =
     (if \<not> valid_labels (ct_labels c) then (Failed ''descriptor is invalid'', s)
      else if fmlookup (mt_collectors s) (ct_labels c) \<noteq> None then
        (Failed ''duplicate metrics collector registration attempted'', s)
      else (Done, s\<lparr>mt_collectors := fmupd (ct_labels c) (ct_id c) (mt_collectors s)\<rparr>))"
| "metrics_step s (Unregister c) = (Done, s\<lparr>mt_collectors := fmdrop (ct_labels c) (mt_collectors s)\<rparr>)"
| "metrics_step s (IncCounter c) = (Done, s\<lparr>mt_values := (mt_values s)(ct_id c := mt_values s (ct_id c) + 1)\<rparr>)"
| "metrics_step s (IncGlobal g) = (Done, s\<lparr>mt_globals := (mt_globals s)(g := mt_globals s g + 1)\<rparr>)"

section \<open>Operations\<close>

definition deviceKey :: "string \<Rightarrow> string \<Rightarrow> string" where
  "deviceKey namespace name = namespace @ ''/'' @ name"

text \<open>The collector handed over and whether it was there before.\<close>

definition counter_of :: "metrics_answer \<Rightarrow> device_counter \<times> bool" where
  "counter_of r = (case r of Counter c loaded \<Rightarrow> (c, loaded) | _ \<Rightarrow> (\<lparr>ct_id = 0, ct_labels = ([], [])\<rparr>, True))"

definition registerDeviceCounter :: "string \<Rightarrow> string \<Rightarrow> device_counter metrics_prog" where
  "registerDeviceCounter namespace name =
     Call (NewCounter namespace name) (\<lambda>r.
     Call (LoadOrStore (deviceKey namespace name) (fst (counter_of r))) (\<lambda>r.
       case counter_of r of (counter, loaded) \<Rightarrow>
         if \<not> loaded then
           Call (MustRegister counter) (\<lambda>r. case r of Failed m \<Rightarrow> Panic m | _ \<Rightarrow> Ret counter)
         else Ret counter))"

definition inc :: "device_counter \<Rightarrow> unit metrics_prog" where
  "inc c = Call (IncCounter c) (\<lambda>_. Ret ())"

definition RecordPresence :: "string \<Rightarrow> string \<Rightarrow> unit metrics_prog" where
  "RecordPresence namespace name = bindp (registerDeviceCounter namespace name) inc"

definition RegisterCounter :: "string \<Rightarrow> string \<Rightarrow> unit metrics_prog" where
  "RegisterCounter namespace name = bindp (registerDeviceCounter namespace name) (\<lambda>_. Ret ())"

definition RemoveCounter :: "string \<Rightarrow> string \<Rightarrow> unit metrics_prog" where
  "RemoveCounter namespace name =
     Call (LoadAndDelete (deviceKey namespace name)) (\<lambda>r. case r of
         Counter c _ \<Rightarrow> Call (Unregister c) (\<lambda>_. Ret ())
       | _ \<Rightarrow> Ret ())"

definition inc_global :: "global_counter \<Rightarrow> unit metrics_prog" where
  "inc_global g = Call (IncGlobal g) (\<lambda>_. Ret ())"

text \<open>The methods of \<open>metricsImpl\<close>, by the requests of the other components.\<close>

fun perform :: "metric_op \<Rightarrow> unit metrics_prog" where
  "perform IncEdgeDeviceSuccessfulRegistration = inc_global RegisteredEdgeDevices"
| "perform IncEdgeDeviceFailedRegistration = inc_global FailedToCompleteRegistrationEdgeDevices"
| "perform IncEdgeDeviceUnregistration = inc_global UnregisteredEdgeDevices"
| "perform (RecordEdgeDevicePresence namespace name) = RecordPresence namespace name"
| "perform (RemoveDeviceCounter namespace name) = RemoveCounter namespace name"
| "perform (RegisterDeviceCounter namespace name) = RegisterCounter namespace name"
| "perform IncEdgeDeviceFailedAuthenticationCounter = inc_global FailedAuthenticationCounter"
| "perform IncEdgeDeviceInvalidOwnerCounter = inc_global InvalidOwnerCounter"

text \<open>A program without choices run alone on the shared state.\<close>

definition run_metrics :: "'a metrics_prog \<Rightarrow> metrics_state \<Rightarrow> 'a outcome \<times> metrics_state" where
  "run_metrics p s = runp metrics_step (\<lambda>_. 0) p s"

section \<open>The informer\<close>

text \<open>What an event carries: a device, or something else such as the tombstone of a missed deletion.\<close>

datatype informer_object = DeviceObject edge_device | OtherObject

datatype informer_event =
    OnAdd informer_object
  | OnUpdate informer_object informer_object
  | OnDelete informer_object

fun device_event :: "informer_event \<Rightarrow> metric_op option" where
  "device_event (OnAdd (DeviceObject d)) = Some (RegisterDeviceCounter (ed_Namespace d) (ed_Name d))"
| "device_event (OnDelete (DeviceObject d)) = Some (RemoveDeviceCounter (ed_Namespace d) (ed_Name d))"
| "device_event _ = None"

text \<open>The informer hands its events to the handler one after the other; \<open>run\<close> carries out a call of the metrics.\<close>

primrec run_events :: "(metric_op \<Rightarrow> 's \<Rightarrow> unit outcome \<times> 's) \<Rightarrow> informer_event list \<Rightarrow> 's \<Rightarrow> unit outcome \<times> 's" where
  "run_events run [] s = (Returned (), s)"
| "run_events run (e # es) s = (case device_event e of
      None \<Rightarrow> run_events run es s
    | Some op \<Rightarrow> (case run op s of
          (Returned _, s') \<Rightarrow> run_events run es s'
        | (Panicked m, s') \<Rightarrow> (Panicked m, s')))"

section \<open>The registry as a map from devices to counts\<close>

text \<open>What \<open>/metrics\<close> shows: the count of every registered device.\<close>

definition exposed :: "metrics_state \<Rightarrow> labels \<Rightarrow> 64 word option" where
  "exposed s l = map_option (mt_values s) (fmlookup (mt_collectors s) l)"

text \<open>Names of the cluster: no slash in a namespace, and UTF-8.\<close>

definition plain :: "labels \<Rightarrow> bool" where
  "plain l \<longleftrightarrow> CHR ''/'' \<notin> set (fst l) \<and> valid_labels l"

abbreviation key_of :: "labels \<Rightarrow> string" where
  "key_of l \<equiv> deviceKey (fst l) (snd l)"

lemma append_slash_inject:
  "CHR ''/'' \<notin> set a \<Longrightarrow> CHR ''/'' \<notin> set b \<Longrightarrow> a @ CHR ''/'' # x = b @ CHR ''/'' # y \<longleftrightarrow> a = b \<and> x = y"
proof (induction a arbitrary: b)
  case Nil
  then show ?case by (cases b) auto
next
  case (Cons c a)
  then show ?case by (cases b) auto
qed

lemma deviceKey_inject: "plain l \<Longrightarrow> plain l' \<Longrightarrow> key_of l = key_of l' \<longleftrightarrow> l = l'"
  by (auto simp: plain_def deviceKey_def append_slash_inject prod_eq_iff)

text \<open>
  The invariant between two operations: the map and the registry hold the same counters, each under the key of
  its labels, and no two of them are the same counter.
\<close>

definition metrics_ok :: "metrics_state \<Rightarrow> bool" where
  "metrics_ok s \<longleftrightarrow>
     (\<forall>k c. fmlookup (mt_devices s) k = Some c \<longrightarrow> plain (ct_labels c) \<and> k = key_of (ct_labels c) \<and> ct_id c < mt_next s) \<and>
     (\<forall>k c k' c'. fmlookup (mt_devices s) k = Some c \<longrightarrow> fmlookup (mt_devices s) k' = Some c' \<longrightarrow> ct_id c = ct_id c' \<longrightarrow> k = k') \<and>
     (\<forall>l. fmlookup (mt_collectors s) l = (case fmlookup (mt_devices s) (key_of l) of
        Some c \<Rightarrow> if ct_labels c = l then Some (ct_id c) else None
      | None \<Rightarrow> None))"

lemma metrics_okD:
  assumes "metrics_ok s"
  shows "fmlookup (mt_devices s) k = Some c \<Longrightarrow> plain (ct_labels c) \<and> k = key_of (ct_labels c) \<and> ct_id c < mt_next s"
    and "fmlookup (mt_devices s) k = Some c \<Longrightarrow> fmlookup (mt_devices s) k' = Some c' \<Longrightarrow> ct_id c = ct_id c' \<Longrightarrow> k = k'"
    and "fmlookup (mt_collectors s) l = (case fmlookup (mt_devices s) (key_of l) of
        Some c \<Rightarrow> if ct_labels c = l then Some (ct_id c) else None
      | None \<Rightarrow> None)"
  using assms unfolding metrics_ok_def by blast+

lemma metrics_okI:
  assumes "\<And>k c. fmlookup (mt_devices s) k = Some c \<Longrightarrow> plain (ct_labels c) \<and> k = key_of (ct_labels c) \<and> ct_id c < mt_next s"
    and "\<And>k c k' c'. fmlookup (mt_devices s) k = Some c \<Longrightarrow> fmlookup (mt_devices s) k' = Some c' \<Longrightarrow> ct_id c = ct_id c' \<Longrightarrow> k = k'"
    and "\<And>l. fmlookup (mt_collectors s) l = (case fmlookup (mt_devices s) (key_of l) of
        Some c \<Rightarrow> if ct_labels c = l then Some (ct_id c) else None
      | None \<Rightarrow> None)"
  shows "metrics_ok s"
  using assms unfolding metrics_ok_def by blast

lemma stored_counter:
  assumes "metrics_ok s" "plain l" "fmlookup (mt_devices s) (key_of l) = Some c"
  shows "fmlookup (mt_collectors s) l = Some (ct_id c)" "ct_labels c = l"
proof -
  have "plain (ct_labels c)" "key_of (ct_labels c) = key_of l" using metrics_okD(1) [OF assms(1,3)] by simp_all
  then show "ct_labels c = l" using deviceKey_inject assms(2) by blast
  then show "fmlookup (mt_collectors s) l = Some (ct_id c)" using assms(3) by (simp add: metrics_okD(3) [OF assms(1)])
qed

lemma registeredD:
  assumes "metrics_ok s" "fmlookup (mt_collectors s) l = Some i"
  obtains c where "fmlookup (mt_devices s) (key_of l) = Some c" "ct_labels c = l" "ct_id c = i"
  using assms(2) that by (auto simp: metrics_okD(3) [OF assms(1)] split: option.splits if_splits)

text \<open>A counter that is created but not stored changes nothing that is visible.\<close>

definition allocate :: "metrics_state \<Rightarrow> metrics_state" where
  "allocate s = s\<lparr>mt_next := Suc (mt_next s), mt_values := (mt_values s)(mt_next s := 0)\<rparr>"

lemma allocate_ok:
  assumes "metrics_ok s"
  shows "metrics_ok (allocate s)"
  using metrics_okD [OF assms] by (intro metrics_okI) (auto simp: allocate_def less_SucI)

lemma registered_id: "metrics_ok s \<Longrightarrow> fmlookup (mt_collectors s) l = Some i \<Longrightarrow> i < mt_next s \<and> plain l"
  using metrics_okD(1) by (metis registeredD)

lemma exposed_allocate: "metrics_ok s \<Longrightarrow> exposed (allocate s) = exposed s"
  by (rule ext) (auto simp: exposed_def allocate_def map_option_case dest: registered_id split: option.split)

definition stored :: "labels \<Rightarrow> metrics_state \<Rightarrow> metrics_state" where
  "stored l s = (allocate s)\<lparr>mt_devices := fmupd (key_of l) \<lparr>ct_id = mt_next s, ct_labels = l\<rparr> (mt_devices s),
     mt_collectors := fmupd l (mt_next s) (mt_collectors s)\<rparr>"

lemma stored_ok:
  assumes ok: "metrics_ok s" and l: "plain l" and new: "fmlookup (mt_devices s) (key_of l) = None"
  shows "metrics_ok (stored l s)"
proof (rule metrics_okI)
  show "plain (ct_labels c) \<and> k = key_of (ct_labels c) \<and> ct_id c < mt_next (stored l s)"
    if "fmlookup (mt_devices (stored l s)) k = Some c" for k c
    using that l metrics_okD(1) [OF ok, of k c] by (auto simp: stored_def allocate_def split: if_splits)
next
  show "k = k'" if "fmlookup (mt_devices (stored l s)) k = Some c" "fmlookup (mt_devices (stored l s)) k' = Some c'"
    "ct_id c = ct_id c'" for k c k' c'
  proof (cases "k = key_of l"; cases "k' = key_of l")
    assume "k \<noteq> key_of l" "k' \<noteq> key_of l"
    with that metrics_okD(2) [OF ok, of k c k' c'] show ?thesis by (simp add: stored_def allocate_def)
  next
    assume "k = key_of l" "k' \<noteq> key_of l"
    with that metrics_okD(1) [OF ok, of k' c'] show ?thesis by (auto simp: stored_def allocate_def)
  next
    assume "k \<noteq> key_of l" "k' = key_of l"
    with that metrics_okD(1) [OF ok, of k c] show ?thesis by (auto simp: stored_def allocate_def)
  qed simp
next
  fix l'
  have "plain l'" if "fmlookup (mt_collectors s) l' = Some i" for i using registered_id [OF ok that] by simp
  then show "fmlookup (mt_collectors (stored l s)) l' = (case fmlookup (mt_devices (stored l s)) (key_of l') of
        Some c \<Rightarrow> if ct_labels c = l' then Some (ct_id c) else None
      | None \<Rightarrow> None)"
    using metrics_okD(3) [OF ok, of l'] new by (auto simp: stored_def allocate_def)
qed

lemma exposed_stored:
  assumes "metrics_ok s"
  shows "exposed (stored l s) = (exposed s)(l \<mapsto> 0)"
proof
  fix l'
  show "exposed (stored l s) l' = ((exposed s)(l \<mapsto> 0)) l'"
    using registered_id [OF assms, of l'] by (cases "fmlookup (mt_collectors s) l'") (auto simp: exposed_def stored_def allocate_def)
qed

lemma run_registerDeviceCounter:
  assumes ok: "metrics_ok s" and l: "plain l"
  shows "\<exists>c s'. run_metrics (registerDeviceCounter (fst l) (snd l)) s = (Returned c, s') \<and> metrics_ok s' \<and>
    fmlookup (mt_collectors s') l = Some (ct_id c) \<and> mt_globals s' = mt_globals s \<and>
    exposed s' = (exposed s)(l \<mapsto> (case exposed s l of None \<Rightarrow> 0 | Some v \<Rightarrow> v))"
proof (cases "fmlookup (mt_devices s) (key_of l)")
  case None
  with ok have "fmlookup (mt_collectors s) l = None" by (simp add: metrics_okD(3))
  with None l have "run_metrics (registerDeviceCounter (fst l) (snd l)) s = (Returned \<lparr>ct_id = mt_next s, ct_labels = l\<rparr>, stored l s)"
    by (simp add: run_metrics_def registerDeviceCounter_def counter_of_def plain_def stored_def allocate_def)
  moreover have "exposed s l = None" using \<open>fmlookup (mt_collectors s) l = None\<close> by (simp add: exposed_def)
  ultimately show ?thesis
    using stored_ok [OF ok l None] exposed_stored [OF ok] by (simp add: stored_def allocate_def)
next
  case (Some c)
  then have "run_metrics (registerDeviceCounter (fst l) (snd l)) s = (Returned c, allocate s)"
    by (simp add: run_metrics_def registerDeviceCounter_def counter_of_def allocate_def)
  moreover from Some have "fmlookup (mt_collectors s) l = Some (ct_id c)" using stored_counter [OF ok l] by simp
  moreover from this have "exposed s = (exposed s)(l \<mapsto> (case exposed s l of None \<Rightarrow> 0 | Some v \<Rightarrow> v))"
    by (auto simp: exposed_def)
  ultimately show ?thesis
    using allocate_ok [OF ok] exposed_allocate [OF ok] by (simp add: allocate_def)
qed

lemma collectors_inject:
  assumes "metrics_ok s" "fmlookup (mt_collectors s) l = Some i" "fmlookup (mt_collectors s) l' = Some i"
  shows "l = l'"
proof -
  from registeredD [OF assms(1,2)] registeredD [OF assms(1,3)] obtain c c' where
    "fmlookup (mt_devices s) (key_of l) = Some c" "ct_labels c = l" "ct_id c = i"
    "fmlookup (mt_devices s) (key_of l') = Some c'" "ct_labels c' = l'" "ct_id c' = i" by metis
  with metrics_okD(2) [OF assms(1), of "key_of l" c "key_of l'" c'] show ?thesis by simp
qed

lemma run_inc:
  assumes ok: "metrics_ok s" and c: "fmlookup (mt_collectors s) l = Some (ct_id c)"
  shows "\<exists>s'. run_metrics (inc c) s = (Returned (), s') \<and> metrics_ok s' \<and> mt_globals s' = mt_globals s \<and>
    exposed s' = (exposed s)(l \<mapsto> the (exposed s l) + 1)"
proof -
  let ?s = "s\<lparr>mt_values := (mt_values s)(ct_id c := mt_values s (ct_id c) + 1)\<rparr>"
  have "exposed ?s l' = ((exposed s)(l \<mapsto> the (exposed s l) + 1)) l'" for l'
    using c collectors_inject [OF ok c, of l'] by (cases "fmlookup (mt_collectors s) l'") (auto simp: exposed_def)
  moreover have "metrics_ok ?s" using ok by (simp add: metrics_ok_def)
  ultimately show ?thesis by (auto simp: run_metrics_def inc_def)
qed

lemma run_metrics_bindp:
  "run_metrics p s = (Returned a, s') \<Longrightarrow> run_metrics (bindp p f) s = run_metrics (f a) s'"
  by (simp add: run_metrics_def runp_bindp)

lemma run_RecordPresence:
  assumes "metrics_ok s" "plain l"
  shows "\<exists>s'. run_metrics (RecordPresence (fst l) (snd l)) s = (Returned (), s') \<and> metrics_ok s' \<and> mt_globals s' = mt_globals s \<and>
    exposed s' = (exposed s)(l \<mapsto> (case exposed s l of None \<Rightarrow> 0 | Some v \<Rightarrow> v) + 1)"
proof -
  from run_registerDeviceCounter [OF assms] obtain c s1 where
    r: "run_metrics (registerDeviceCounter (fst l) (snd l)) s = (Returned c, s1)" and ok: "metrics_ok s1"
    and c: "fmlookup (mt_collectors s1) l = Some (ct_id c)" and g: "mt_globals s1 = mt_globals s"
    and e: "exposed s1 = (exposed s)(l \<mapsto> (case exposed s l of None \<Rightarrow> 0 | Some v \<Rightarrow> v))" by blast
  with run_inc [OF ok c] show ?thesis by (auto simp: RecordPresence_def run_metrics_bindp [OF r])
qed

lemma run_RegisterCounter:
  assumes "metrics_ok s" "plain l"
  shows "\<exists>s'. run_metrics (RegisterCounter (fst l) (snd l)) s = (Returned (), s') \<and> metrics_ok s' \<and> mt_globals s' = mt_globals s \<and>
    exposed s' = (exposed s)(l \<mapsto> (case exposed s l of None \<Rightarrow> 0 | Some v \<Rightarrow> v))"
proof -
  from run_registerDeviceCounter [OF assms] obtain c s1 where
    r: "run_metrics (registerDeviceCounter (fst l) (snd l)) s = (Returned c, s1)" and "metrics_ok s1" "mt_globals s1 = mt_globals s"
    "exposed s1 = (exposed s)(l \<mapsto> (case exposed s l of None \<Rightarrow> 0 | Some v \<Rightarrow> v))" by blast
  then show ?thesis by (simp add: RegisterCounter_def run_metrics_bindp [OF r]) (simp add: run_metrics_def)
qed

lemma run_RemoveCounter:
  assumes ok: "metrics_ok s" and l: "plain l"
  shows "\<exists>s'. run_metrics (RemoveCounter (fst l) (snd l)) s = (Returned (), s') \<and> metrics_ok s' \<and> mt_globals s' = mt_globals s \<and>
    exposed s' = (exposed s)(l := None)"
proof (cases "fmlookup (mt_devices s) (key_of l)")
  case None
  with ok have "fmlookup (mt_collectors s) l = None" by (simp add: metrics_okD(3))
  then have "exposed s = (exposed s)(l := None)" by (auto simp: exposed_def)
  with None ok show ?thesis by (simp add: run_metrics_def RemoveCounter_def)
next
  case (Some c)
  then have lc: "ct_labels c = l" using stored_counter [OF ok l] by simp
  let ?s = "s\<lparr>mt_devices := fmdrop (key_of l) (mt_devices s), mt_collectors := fmdrop l (mt_collectors s)\<rparr>"
  have "metrics_ok ?s"
  proof (rule metrics_okI)
    fix l'
    have "plain l'" if "fmlookup (mt_collectors s) l' = Some i" for i using registered_id [OF ok that] by simp
    then show "fmlookup (mt_collectors ?s) l' = (case fmlookup (mt_devices ?s) (key_of l') of
        Some c \<Rightarrow> if ct_labels c = l' then Some (ct_id c) else None
      | None \<Rightarrow> None)"
      using metrics_okD(3) [OF ok, of l'] deviceKey_inject [OF _ l, of l']
      by (auto split: option.splits if_splits)
  qed (use metrics_okD [OF ok] in \<open>auto split: if_splits\<close>)
  moreover have "exposed ?s = (exposed s)(l := None)" by (rule ext) (simp add: exposed_def)
  moreover have "run_metrics (RemoveCounter (fst l) (snd l)) s = (Returned (), ?s)"
    using Some lc by (simp add: run_metrics_def RemoveCounter_def)
  ultimately show ?thesis by (intro exI [of _ ?s]) simp
qed

text \<open>The specification of the package: counts by device and the global counts.\<close>

type_synonym shown = "(labels \<Rightarrow> 64 word option) \<times> (global_counter \<Rightarrow> 64 word)"

definition shown :: "metrics_state \<Rightarrow> shown" where
  "shown s = (exposed s, mt_globals s)"

definition count_of :: "(labels \<Rightarrow> 64 word option) \<Rightarrow> labels \<Rightarrow> 64 word" where
  "count_of m l = (case m l of None \<Rightarrow> 0 | Some v \<Rightarrow> v)"

definition bump :: "global_counter \<Rightarrow> shown \<Rightarrow> shown" where
  "bump g = (\<lambda>(m, gs). (m, gs(g := gs g + 1)))"

fun metrics_spec :: "metric_op \<Rightarrow> shown \<Rightarrow> shown" where
  "metrics_spec (RecordEdgeDevicePresence ns n) (m, gs) = (m((ns, n) \<mapsto> count_of m (ns, n) + 1), gs)"
| "metrics_spec (RegisterDeviceCounter ns n) (m, gs) = (m((ns, n) \<mapsto> count_of m (ns, n)), gs)"
| "metrics_spec (RemoveDeviceCounter ns n) (m, gs) = (m((ns, n) := None), gs)"
| "metrics_spec IncEdgeDeviceSuccessfulRegistration sh = bump RegisteredEdgeDevices sh"
| "metrics_spec IncEdgeDeviceFailedRegistration sh = bump FailedToCompleteRegistrationEdgeDevices sh"
| "metrics_spec IncEdgeDeviceUnregistration sh = bump UnregisteredEdgeDevices sh"
| "metrics_spec IncEdgeDeviceFailedAuthenticationCounter sh = bump FailedAuthenticationCounter sh"
| "metrics_spec IncEdgeDeviceInvalidOwnerCounter sh = bump InvalidOwnerCounter sh"

fun op_plain :: "metric_op \<Rightarrow> bool" where
  "op_plain (RecordEdgeDevicePresence ns n) = plain (ns, n)"
| "op_plain (RegisterDeviceCounter ns n) = plain (ns, n)"
| "op_plain (RemoveDeviceCounter ns n) = plain (ns, n)"
| "op_plain _ = True"

lemma run_inc_global:
  "metrics_ok s \<Longrightarrow> \<exists>s'. run_metrics (inc_global g) s = (Returned (), s') \<and> metrics_ok s' \<and> shown s' = bump g (shown s)"
proof -
  assume ok: "metrics_ok s"
  let ?s = "s\<lparr>mt_globals := (mt_globals s)(g := mt_globals s g + 1)\<rparr>"
  have "exposed ?s = exposed s" by (rule ext) (simp add: exposed_def)
  moreover from ok have "metrics_ok ?s" by (simp add: metrics_ok_def)
  ultimately show ?thesis by (simp add: run_metrics_def inc_global_def shown_def bump_def)
qed

lemma perform_refines:
  assumes "metrics_ok s" "op_plain op"
  shows "\<exists>s'. run_metrics (perform op) s = (Returned (), s') \<and> metrics_ok s' \<and> shown s' = metrics_spec op (shown s)"
proof (cases op)
  case (RecordEdgeDevicePresence ns n)
  with assms run_RecordPresence [of s "(ns, n)"] show ?thesis by (auto simp: shown_def count_of_def)
next
  case (RegisterDeviceCounter ns n)
  with assms run_RegisterCounter [of s "(ns, n)"] show ?thesis by (auto simp: shown_def count_of_def)
next
  case (RemoveDeviceCounter ns n)
  with assms run_RemoveCounter [of s "(ns, n)"] show ?thesis by (auto simp: shown_def)
qed (use run_inc_global [OF assms(1)] in simp_all)

text \<open>
  Property C19: the metrics implement their specification. Run alone on a state in which the map and the registry agree,
  no operation panics, the two agree afterwards, and what is shown changes as specified: recording the presence
  of a device registers it if need be and counts one more (modulo \<open>2 ^ 64\<close>), registering keeps its count,
  removing takes it off, and each other operation adds one to its counter.
\<close>

theorem metrics_refine:
  assumes "metrics_ok s" and "op_plain op"
  shows "\<exists>s'. run_metrics (perform op) s = (Returned (), s') \<and> metrics_ok s' \<and> shown s' = metrics_spec op (shown s)"
  by (rule perform_refines [OF assms])

section \<open>The informer keeps the set of devices\<close>

text \<open>What the informer relies on: registering adds a device to what is shown, removing takes it away.\<close>

locale presence_metrics =
  fixes ok :: "'s \<Rightarrow> bool"
    and devices :: "'s \<Rightarrow> labels set"
    and run :: "metric_op \<Rightarrow> 's \<Rightarrow> unit outcome \<times> 's"
  assumes register: "ok s \<Longrightarrow> plain (ns, n) \<Longrightarrow>
      \<exists>s'. run (RegisterDeviceCounter ns n) s = (Returned (), s') \<and> ok s' \<and> devices s' = insert (ns, n) (devices s)"
    and remove: "ok s \<Longrightarrow> plain (ns, n) \<Longrightarrow>
      \<exists>s'. run (RemoveDeviceCounter ns n) s = (Returned (), s') \<and> ok s' \<and> devices s' = devices s - {(ns, n)}"

text \<open>The devices that were added and not deleted since, by events that carry a device.\<close>

primrec live :: "informer_event list \<Rightarrow> labels set \<Rightarrow> labels set" where
  "live [] D = D"
| "live (e # es) D = live es (case e of
      OnAdd (DeviceObject d) \<Rightarrow> insert (ed_Namespace d, ed_Name d) D
    | OnDelete (DeviceObject d) \<Rightarrow> D - {(ed_Namespace d, ed_Name d)}
    | _ \<Rightarrow> D)"

fun event_plain :: "informer_event \<Rightarrow> bool" where
  "event_plain (OnAdd (DeviceObject d)) = plain (ed_Namespace d, ed_Name d)"
| "event_plain (OnDelete (DeviceObject d)) = plain (ed_Namespace d, ed_Name d)"
| "event_plain _ = True"

context presence_metrics
begin

lemma run_events_tracks:
  "ok s \<Longrightarrow> list_all event_plain es \<Longrightarrow>
     \<exists>s'. run_events run es s = (Returned (), s') \<and> ok s' \<and> devices s' = live es (devices s)"
proof (induction es arbitrary: s)
  case (Cons e es)
  then show ?case
  proof (cases e rule: device_event.cases)
    case (1 d)
    with Cons.prems register [of s "ed_Namespace d" "ed_Name d"] obtain s1 where
      "run (RegisterDeviceCounter (ed_Namespace d) (ed_Name d)) s = (Returned (), s1)" "ok s1"
      "devices s1 = insert (ed_Namespace d, ed_Name d) (devices s)" by auto
    with 1 Cons.prems Cons.IH [of s1] show ?thesis by auto
  next
    case (2 d)
    with Cons.prems remove [of s "ed_Namespace d" "ed_Name d"] obtain s1 where
      "run (RemoveDeviceCounter (ed_Namespace d) (ed_Name d)) s = (Returned (), s1)" "ok s1"
      "devices s1 = devices s - {(ed_Namespace d, ed_Name d)}" by auto
    with 2 Cons.prems Cons.IH [of s1] show ?thesis by auto
  qed (use Cons in auto)
qed simp

end

interpretation registry: presence_metrics metrics_ok "\<lambda>s. dom (exposed s)" "\<lambda>op. run_metrics (perform op)"
proof
  show "\<exists>s'. run_metrics (perform (RegisterDeviceCounter ns n)) s = (Returned (), s') \<and> metrics_ok s' \<and>
      dom (exposed s') = insert (ns, n) (dom (exposed s))" if "metrics_ok s" "plain (ns, n)" for s ns n
    using run_RegisterCounter [OF that] by auto
  show "\<exists>s'. run_metrics (perform (RemoveDeviceCounter ns n)) s = (Returned (), s') \<and> metrics_ok s' \<and>
      dom (exposed s') = dom (exposed s) - {(ns, n)}" if "metrics_ok s" "plain (ns, n)" for s ns n
    using run_RemoveCounter [OF that] by auto
qed

text \<open>
  Property C20: the counters of the operator follow the events of its informer that carry a device; the tombstone of a missed
  deletion carries none and leaves the counter as it is. However many events are
  handled, none panics, and afterwards a counter is registered for a device exactly when it was registered
  before or added, and no event carrying it has deleted it since.
\<close>

theorem informer_tracks_devices:
  assumes "metrics_ok s" and "list_all event_plain es"
  shows "\<exists>s'. run_events (\<lambda>op. run_metrics (perform op)) es s = (Returned (), s') \<and> metrics_ok s' \<and>
    dom (exposed s') = live es (dom (exposed s))"
  by (rule registry.run_events_tracks [OF assms])

section \<open>Heartbeats in parallel\<close>

text \<open>
  The server handles every request in a goroutine of its own. \<open>goroutines n\<close> lets any of the first \<open>n\<close> programs make its
  next call on the shared state.
\<close>

inductive goroutines :: "nat \<Rightarrow> metrics_state \<times> (nat \<Rightarrow> unit metrics_prog) \<Rightarrow> metrics_state \<times> (nat \<Rightarrow> unit metrics_prog) \<Rightarrow> bool"
  for n where
  step: "i < n \<Longrightarrow> P i = Call q k \<Longrightarrow> metrics_step s q = (r, s') \<Longrightarrow> goroutines n (s, P) (s', P(i := k r))"

text \<open>The points of \<open>RecordEdgeDevicePresence\<close> between two calls, and the rest of the program there.\<close>

datatype point = AtNew | AtStore device_counter | AtRegister device_counter | AtInc device_counter | AtEnd

fun rest_at :: "labels \<Rightarrow> point \<Rightarrow> unit metrics_prog" where
  "rest_at l AtNew = RecordPresence (fst l) (snd l)"
| "rest_at l (AtStore c) = Call (LoadOrStore (key_of l) c) (\<lambda>r. case counter_of r of (counter, loaded) \<Rightarrow>
     if \<not> loaded then Call (MustRegister counter) (\<lambda>r. case r of Failed m \<Rightarrow> Panic m | _ \<Rightarrow> inc counter) else inc counter)"
| "rest_at l (AtRegister c) = Call (MustRegister c) (\<lambda>r. case r of Failed m \<Rightarrow> Panic m | _ \<Rightarrow> inc c)"
| "rest_at l (AtInc c) = inc c"
| "rest_at l AtEnd = Ret ()"

lemma RecordPresence_unfold:
  "RecordPresence ns n = Call (NewCounter ns n) (\<lambda>r. rest_at (ns, n) (AtStore (fst (counter_of r))))"
proof -
  have "bindp (case r of Failed m \<Rightarrow> Panic m | _ \<Rightarrow> Ret c) inc = (case r of Failed m \<Rightarrow> Panic m | _ \<Rightarrow> inc c)"
    for r :: metrics_answer and c by (cases r) auto
  then show ?thesis
    by (auto simp: RecordPresence_def registerDeviceCounter_def fun_eq_iff split: prod.split)
qed

text \<open>
  The invariant of \<open>n\<close> heartbeats, the \<open>i\<close>-th for the device \<open>ls i\<close> and at the point \<open>pt i\<close>: a counter in the map is
  registered unless the goroutine that stored it still has to, and counts its device's heartbeats that are done.
\<close>

definition finished :: "nat \<Rightarrow> (nat \<Rightarrow> labels) \<Rightarrow> (nat \<Rightarrow> point) \<Rightarrow> labels \<Rightarrow> nat" where
  "finished n ls pt l = card {i. i < n \<and> ls i = l \<and> pt i = AtEnd}"

record beats =
  bt_n :: nat
  bt_ls :: "nat \<Rightarrow> labels"
  bt_start :: metrics_state

definition devices_inv :: "beats \<Rightarrow> metrics_state \<Rightarrow> bool" where
  "devices_inv b s \<longleftrightarrow>
     (\<forall>k c. fmlookup (mt_devices s) k = Some c \<longrightarrow> plain (ct_labels c) \<and> k = key_of (ct_labels c) \<and> ct_id c < mt_next s) \<and>
     (\<forall>k c k' c'. fmlookup (mt_devices s) k = Some c \<longrightarrow> fmlookup (mt_devices s) k' = Some c' \<longrightarrow> ct_id c = ct_id c' \<longrightarrow> k = k') \<and>
     (\<forall>l. l \<notin> bt_ls b ` {..<bt_n b} \<longrightarrow> plain l \<longrightarrow>
        fmlookup (mt_devices s) (key_of l) = fmlookup (mt_devices (bt_start b)) (key_of l)) \<and>
     fmlookup (mt_devices (bt_start b)) \<subseteq>\<^sub>m fmlookup (mt_devices s)"

fun point_inv :: "labels \<Rightarrow> metrics_state \<Rightarrow> point \<Rightarrow> bool" where
  "point_inv l s AtNew = True"
| "point_inv l s (AtStore c) = (ct_labels c = l \<and> ct_id c < mt_next s \<and> mt_values s (ct_id c) = 0 \<and>
     (\<forall>k c'. fmlookup (mt_devices s) k = Some c' \<longrightarrow> ct_id c' \<noteq> ct_id c))"
| "point_inv l s (AtRegister c) = (ct_labels c = l \<and> fmlookup (mt_devices s) (key_of l) = Some c)"
| "point_inv l s (AtInc c) = (ct_labels c = l \<and> fmlookup (mt_devices s) (key_of l) = Some c)"
| "point_inv l s AtEnd = (fmlookup (mt_devices s) (key_of l) \<noteq> None)"

definition points_inv :: "beats \<Rightarrow> (nat \<Rightarrow> point) \<Rightarrow> metrics_state \<Rightarrow> bool" where
  "points_inv b pt s \<longleftrightarrow> (\<forall>i < bt_n b. point_inv (bt_ls b i) s (pt i))"

text \<open>A counter that is not stored yet, or not registered yet, belongs to one goroutine.\<close>

definition owners_inv :: "beats \<Rightarrow> (nat \<Rightarrow> point) \<Rightarrow> bool" where
  "owners_inv b pt \<longleftrightarrow> (\<forall>i < bt_n b. \<forall>j < bt_n b. i \<noteq> j \<longrightarrow>
     (\<forall>c c'. pt i = AtStore c \<longrightarrow> pt j = AtStore c' \<longrightarrow> ct_id c \<noteq> ct_id c') \<and>
     (\<forall>c. pt i = AtRegister c \<longrightarrow> pt j \<noteq> AtRegister c))"

definition pending :: "beats \<Rightarrow> (nat \<Rightarrow> point) \<Rightarrow> device_counter \<Rightarrow> bool" where
  "pending b pt c \<longleftrightarrow> (\<exists>i < bt_n b. pt i = AtRegister c)"

definition registered :: "(string, device_counter) fmap \<Rightarrow> (device_counter \<Rightarrow> bool) \<Rightarrow> labels \<Rightarrow> nat option" where
  "registered m out l = (case fmlookup m (key_of l) of
      Some c \<Rightarrow> if ct_labels c = l \<and> \<not> out c then Some (ct_id c) else None
    | None \<Rightarrow> None)"

definition registered_inv :: "beats \<Rightarrow> (nat \<Rightarrow> point) \<Rightarrow> metrics_state \<Rightarrow> bool" where
  "registered_inv b pt s \<longleftrightarrow> fmlookup (mt_collectors s) = registered (mt_devices s) (pending b pt)"

definition counts_inv :: "beats \<Rightarrow> (nat \<Rightarrow> point) \<Rightarrow> metrics_state \<Rightarrow> bool" where
  "counts_inv b pt s \<longleftrightarrow> (\<forall>k c. fmlookup (mt_devices s) k = Some c \<longrightarrow>
     mt_values s (ct_id c) = count_of (exposed (bt_start b)) (ct_labels c) + of_nat (finished (bt_n b) (bt_ls b) pt (ct_labels c)))"

definition beats_inv :: "beats \<Rightarrow> (nat \<Rightarrow> point) \<Rightarrow> metrics_state \<Rightarrow> bool" where
  "beats_inv b pt s \<longleftrightarrow> devices_inv b s \<and> points_inv b pt s \<and> owners_inv b pt \<and> registered_inv b pt s \<and> counts_inv b pt s"

lemma beats_invD:
  assumes "beats_inv b pt s"
  shows "devices_inv b s" "registered_inv b pt s" "counts_inv b pt s" "owners_inv b pt"
    "\<And>i. i < bt_n b \<Longrightarrow> point_inv (bt_ls b i) s (pt i)"
  using assms by (simp_all add: beats_inv_def points_inv_def)

lemma devices_invD:
  assumes "devices_inv b s" "fmlookup (mt_devices s) k = Some c"
  shows "plain (ct_labels c)" "k = key_of (ct_labels c)" "ct_id c < mt_next s"
    "fmlookup (mt_devices s) k' = Some c' \<Longrightarrow> ct_id c = ct_id c' \<Longrightarrow> k = k'"
  using assms unfolding devices_inv_def by blast+

text \<open>A step of goroutine \<open>i\<close>: the other goroutines keep their points.\<close>

lemma points_inv_step:
  assumes "beats_inv b pt s" and "point_inv (bt_ls b i) s' p"
    and "\<And>j. j < bt_n b \<Longrightarrow> j \<noteq> i \<Longrightarrow> point_inv (bt_ls b j) s (pt j) \<Longrightarrow> point_inv (bt_ls b j) s' (pt j)"
  shows "points_inv b (pt(i := p)) s'"
  using assms by (simp add: points_inv_def beats_invD(5))

lemma owners_inv_step:
  assumes "owners_inv b pt" and "i < bt_n b"
    and "\<And>j c c'. j < bt_n b \<Longrightarrow> j \<noteq> i \<Longrightarrow> p = AtStore c \<Longrightarrow> pt j = AtStore c' \<Longrightarrow> ct_id c \<noteq> ct_id c'"
    and "\<And>j c. j < bt_n b \<Longrightarrow> j \<noteq> i \<Longrightarrow> p = AtRegister c \<Longrightarrow> pt j \<noteq> AtRegister c"
  shows "owners_inv b (pt(i := p))"
proof -
  have "(\<forall>c c'. (pt(i := p)) j = AtStore c \<longrightarrow> (pt(i := p)) k = AtStore c' \<longrightarrow> ct_id c \<noteq> ct_id c') \<and>
      (\<forall>c. (pt(i := p)) j = AtRegister c \<longrightarrow> (pt(i := p)) k \<noteq> AtRegister c)"
    if "j < bt_n b" "k < bt_n b" "j \<noteq> k" for j k
  proof (cases "j = i"; cases "k = i")
    assume "j = i" "k \<noteq> i"
    then show ?thesis using assms(3,4) [of k] that by auto
  next
    assume "j \<noteq> i" "k = i"
    then show ?thesis using assms(3,4) [of j] that by auto metis
  next
    assume "j \<noteq> i" "k \<noteq> i"
    then show ?thesis using assms(1) that by (simp add: owners_inv_def)
  qed (use that in simp)
  then show ?thesis unfolding owners_inv_def by blast
qed

lemma pending_step:
  assumes "i < bt_n b" and "\<And>d. pt i \<noteq> AtRegister d"
  shows "pending b (pt(i := p)) c \<longleftrightarrow> p = AtRegister c \<or> pending b pt c"
proof
  assume "p = AtRegister c \<or> pending b pt c"
  then show "pending b (pt(i := p)) c" using assms unfolding pending_def by (metis fun_upd_other fun_upd_same)
qed (auto simp: pending_def split: if_splits)

text \<open>The heartbeats that are considered: every device has a plain name, and they start in a good state.\<close>

definition beats_ok :: "beats \<Rightarrow> bool" where
  "beats_ok b \<longleftrightarrow> metrics_ok (bt_start b) \<and> (\<forall>i < bt_n b. plain (bt_ls b i))"

lemma beats_start:
  assumes "beats_ok b"
  shows "beats_inv b (\<lambda>_. AtNew) (bt_start b)"
proof -
  let ?s = "bt_start b"
  have ok: "metrics_ok ?s" using assms by (simp add: beats_ok_def)
  have "devices_inv b ?s" using ok by (simp add: devices_inv_def metrics_ok_def)
  moreover have "registered_inv b (\<lambda>_. AtNew) ?s"
  proof -
    have "pending b (\<lambda>_. AtNew) = (\<lambda>_. False)" by (simp add: pending_def fun_eq_iff)
    moreover have "fmlookup (mt_collectors ?s) l = registered (mt_devices ?s) (\<lambda>_. False) l" for l
      by (subst metrics_okD(3) [OF ok]) (simp add: registered_def split: option.split)
    ultimately show ?thesis unfolding registered_inv_def by (intro ext) (simp only:)
  qed
  moreover have "mt_values ?s (ct_id c) = count_of (exposed ?s) (ct_labels c)"
    if "fmlookup (mt_devices ?s) k = Some c" for k c
  proof -
    from metrics_okD(1) [OF ok that] that have "fmlookup (mt_collectors ?s) (ct_labels c) = Some (ct_id c)"
      using stored_counter(1) [OF ok] by blast
    then show ?thesis by (simp add: count_of_def exposed_def)
  qed
  ultimately show ?thesis by (simp add: beats_inv_def points_inv_def owners_inv_def counts_inv_def finished_def)
qed

lemma finished_step [simp]:
  "pt i \<noteq> AtEnd \<Longrightarrow> p \<noteq> AtEnd \<Longrightarrow> finished n ls (pt(i := p)) l = finished n ls pt l"
  unfolding finished_def by (rule arg_cong [of _ _ card]) auto

lemma finished_end:
  assumes "i < n" "pt i \<noteq> AtEnd"
  shows "finished n ls (pt(i := AtEnd)) l = (if ls i = l then Suc (finished n ls pt l) else finished n ls pt l)"
proof -
  have "{j. j < n \<and> ls j = l \<and> (pt(i := AtEnd)) j = AtEnd} =
      (if ls i = l then insert i {j. j < n \<and> ls j = l \<and> pt j = AtEnd} else {j. j < n \<and> ls j = l \<and> pt j = AtEnd})"
    using assms by auto
  moreover have "i \<notin> {j. j < n \<and> ls j = l \<and> pt j = AtEnd}" using assms by simp
  ultimately show ?thesis by (simp add: finished_def)
qed

lemma beats_new:
  assumes inv: "beats_inv b pt s" and i: "i < bt_n b" and pt: "pt i = AtNew"
  shows "beats_inv b (pt(i := AtStore \<lparr>ct_id = mt_next s, ct_labels = bt_ls b i\<rparr>)) (allocate s)"
proof -
  let ?c = "\<lparr>ct_id = mt_next s, ct_labels = bt_ls b i\<rparr>"
  note fresh = devices_invD(3) [OF beats_invD(1) [OF inv]]
  have other: "point_inv l (allocate s) p" if "point_inv l s p" for l p
    using that by (cases p) (auto simp: allocate_def)
  have "devices_inv b (allocate s)"
    using beats_invD(1) [OF inv] by (auto simp: devices_inv_def allocate_def less_SucI)
  moreover have "points_inv b (pt(i := AtStore ?c)) (allocate s)"
    by (rule points_inv_step [OF inv]) (auto simp: allocate_def intro: other [unfolded allocate_def] dest: fresh)
  moreover have "owners_inv b (pt(i := AtStore ?c))"
    using beats_invD(5) [OF inv] by (intro owners_inv_step [OF beats_invD(4) [OF inv] i]) fastforce+
  moreover have "registered_inv b (pt(i := AtStore ?c)) (allocate s)"
  proof -
    have "pending b (pt(i := AtStore ?c)) = pending b pt"
      using pt by (simp add: fun_eq_iff pending_step [OF i])
    then show ?thesis using beats_invD(2) [OF inv] by (simp add: registered_inv_def allocate_def)
  qed
  moreover have "counts_inv b (pt(i := AtStore ?c)) (allocate s)"
    using beats_invD(3) [OF inv] fresh pt by (fastforce simp: counts_inv_def allocate_def)
  ultimately show ?thesis by (simp add: beats_inv_def)
qed

lemma beats_load:
  assumes inv: "beats_inv b pt s" and i: "i < bt_n b" and pt: "pt i = AtStore c" and l: "plain (bt_ls b i)"
    and c': "fmlookup (mt_devices s) (key_of (bt_ls b i)) = Some c'"
  shows "beats_inv b (pt(i := AtInc c')) s"
proof -
  have "key_of (ct_labels c') = key_of (bt_ls b i)" "plain (ct_labels c')"
    using devices_invD(1,2) [OF beats_invD(1) [OF inv] c'] by simp_all
  then have labels: "ct_labels c' = bt_ls b i" using deviceKey_inject l by blast
  have "points_inv b (pt(i := AtInc c')) s"
    by (rule points_inv_step [OF inv]) (simp_all add: labels c')
  moreover have "owners_inv b (pt(i := AtInc c'))"
    by (intro owners_inv_step [OF beats_invD(4) [OF inv] i]) simp_all
  moreover have "registered_inv b (pt(i := AtInc c')) s"
  proof -
    have "pending b (pt(i := AtInc c')) = pending b pt"
      using pt by (simp add: fun_eq_iff pending_step [OF i])
    then show ?thesis using beats_invD(2) [OF inv] by (simp add: registered_inv_def)
  qed
  moreover have "counts_inv b (pt(i := AtInc c')) s"
    using beats_invD(3) [OF inv] pt by (simp add: counts_inv_def)
  ultimately show ?thesis using beats_invD(1) [OF inv] by (simp add: beats_inv_def)
qed

text \<open>The goroutine stores the counter it created: no other has one for that device, so it starts from zero.\<close>

lemma beats_store:
  assumes inv: "beats_inv b pt s" and i: "i < bt_n b" and pt: "pt i = AtStore c" and l: "plain (bt_ls b i)"
    and new: "fmlookup (mt_devices s) (key_of (bt_ls b i)) = None" and start: "metrics_ok (bt_start b)"
  shows "beats_inv b (pt(i := AtRegister c)) (s\<lparr>mt_devices := fmupd (key_of (bt_ls b i)) c (mt_devices s)\<rparr>)"
    (is "beats_inv b ?pt ?s")
proof -
  let ?l = "bt_ls b i"
  have c: "ct_labels c = ?l" "ct_id c < mt_next s" "mt_values s (ct_id c) = 0"
    and fresh: "\<And>k c'. fmlookup (mt_devices s) k = Some c' \<Longrightarrow> ct_id c' \<noteq> ct_id c"
    using beats_invD(5) [OF inv i] pt by auto
  note D = beats_invD(1) [OF inv]
  have inj: "key_of l' = key_of ?l \<longleftrightarrow> l' = ?l" if "plain l'" for l' using deviceKey_inject that l by blast
  have "devices_inv b ?s"
    unfolding devices_inv_def
  proof (intro conjI allI impI)
    fix k c' assume "fmlookup (mt_devices ?s) k = Some c'"
    then show "plain (ct_labels c')" "k = key_of (ct_labels c')" "ct_id c' < mt_next ?s"
      using c l devices_invD(1-3) [OF D, of k c'] by (auto split: if_splits)
  next
    fix k c1 k' c2
    assume "fmlookup (mt_devices ?s) k = Some c1" "fmlookup (mt_devices ?s) k' = Some c2" "ct_id c1 = ct_id c2"
    then show "k = k'"
      using fresh [of k c1] fresh [of k' c2] devices_invD(4) [OF D, of k c1 k' c2] by (auto split: if_splits)
  next
    fix l' assume "l' \<notin> bt_ls b ` {..<bt_n b}" "plain l'"
    moreover from this have "key_of ?l \<noteq> key_of l'" using i inj by force
    moreover have "l' \<notin> bt_ls b ` {..<bt_n b} \<longrightarrow> plain l' \<longrightarrow>
        fmlookup (mt_devices s) (key_of l') = fmlookup (mt_devices (bt_start b)) (key_of l')"
      using D unfolding devices_inv_def by blast
    ultimately show "fmlookup (mt_devices ?s) (key_of l') = fmlookup (mt_devices (bt_start b)) (key_of l')" by simp
  next
    show "fmlookup (mt_devices (bt_start b)) \<subseteq>\<^sub>m fmlookup (mt_devices ?s)"
      using D new by (auto simp: devices_inv_def map_le_def dom_def)
  qed
  moreover have "points_inv b ?pt ?s"
  proof (rule points_inv_step [OF inv])
    fix j assume j: "j < bt_n b" "j \<noteq> i" and p: "point_inv (bt_ls b j) s (pt j)"
    then show "point_inv (bt_ls b j) ?s (pt j)"
    proof (cases "pt j")
      case (AtStore c')
      with j i pt have "ct_id c \<noteq> ct_id c'" using beats_invD(4) [OF inv] unfolding owners_inv_def by metis
      with AtStore p show ?thesis by simp
    qed (use new in auto)
  qed (use c in simp)
  moreover have "owners_inv b ?pt"
  proof (rule owners_inv_step [OF beats_invD(4) [OF inv] i])
    fix j d assume j: "j < bt_n b" "j \<noteq> i" "AtRegister c = AtRegister d"
    show "pt j \<noteq> AtRegister d"
    proof
      assume "pt j = AtRegister d"
      with beats_invD(5) [OF inv j(1)] have "fmlookup (mt_devices s) (key_of (bt_ls b j)) = Some d" by simp
      from fresh [OF this] j(3) show False by simp
    qed
  qed simp
  moreover have "registered_inv b ?pt ?s"
  proof -
    have "registered (fmupd (key_of ?l) c (mt_devices s)) (pending b ?pt) l' = registered (mt_devices s) (pending b pt) l'" for l'
    proof (cases "key_of l' = key_of ?l")
      case True
      then show ?thesis using new pt by (simp add: registered_def pending_step [OF i])
    next
      case False
      have "pending b ?pt d = pending b pt d" if "fmlookup (mt_devices s) (key_of l') = Some d" for d
        using fresh [OF that] pt by (auto simp: pending_step [OF i])
      with False show ?thesis by (simp add: registered_def split: option.split)
    qed
    then show ?thesis using beats_invD(2) [OF inv] unfolding registered_inv_def by (intro ext) simp
  qed
  moreover have "counts_inv b ?pt ?s"
  proof -
    have "fmlookup (mt_devices (bt_start b)) (key_of ?l) = None"
      using D new by (auto simp: devices_inv_def map_le_def dom_def)
    then have "exposed (bt_start b) ?l = None" using metrics_okD(3) [OF start, of ?l] by (simp add: exposed_def)
    moreover have "pt j \<noteq> AtEnd" if "j < bt_n b" "bt_ls b j = ?l" for j
      using beats_invD(5) [OF inv that(1)] that(2) new by auto
    then have "finished (bt_n b) (bt_ls b) pt ?l = 0" by (auto simp: finished_def)
    ultimately have "mt_values s (ct_id c) = count_of (exposed (bt_start b)) ?l + of_nat (finished (bt_n b) (bt_ls b) pt ?l)"
      using c by (simp add: count_of_def)
    then show ?thesis using beats_invD(3) [OF inv] pt c(1) by (simp add: counts_inv_def)
  qed
  ultimately show ?thesis by (simp add: beats_inv_def)
qed

lemma beats_register:
  assumes inv: "beats_inv b pt s" and i: "i < bt_n b" and pt: "pt i = AtRegister c"
  shows "fmlookup (mt_collectors s) (ct_labels c) = None"
    and "beats_inv b (pt(i := AtInc c)) (s\<lparr>mt_collectors := fmupd (ct_labels c) (ct_id c) (mt_collectors s)\<rparr>)"
      (is "beats_inv b ?pt ?s")
proof -
  have c: "ct_labels c = bt_ls b i" "fmlookup (mt_devices s) (key_of (ct_labels c)) = Some c"
    using beats_invD(5) [OF inv i] pt by auto
  have out: "pending b pt d \<longleftrightarrow> d = c \<or> pending b ?pt d" for d
  proof
    assume "d = c \<or> pending b ?pt d"
    then show "pending b pt d" using pt i by (auto simp: pending_def split: if_splits)
  next
    assume "pending b pt d"
    then obtain j where j: "j < bt_n b" "pt j = AtRegister d" by (auto simp: pending_def)
    show "d = c \<or> pending b ?pt d"
    proof (cases "j = i")
      case False
      with j have "(pt(i := AtInc c)) j = AtRegister d" by simp
      with j(1) show ?thesis unfolding pending_def by blast
    qed (use j pt in simp)
  qed
  have gone: "\<not> pending b ?pt c"
    using beats_invD(4) [OF inv] i pt unfolding pending_def owners_inv_def by auto
  show "fmlookup (mt_collectors s) (ct_labels c) = None"
    using beats_invD(2) [OF inv] c(2) out [of c] by (simp add: registered_inv_def registered_def)
  have "points_inv b ?pt ?s"
  proof (rule points_inv_step [OF inv])
    fix j assume "point_inv (bt_ls b j) s (pt j)"
    then show "point_inv (bt_ls b j) ?s (pt j)" by (cases "pt j") auto
  qed (use c in simp)
  moreover have "owners_inv b ?pt"
    by (intro owners_inv_step [OF beats_invD(4) [OF inv] i]) simp_all
  moreover have "registered_inv b ?pt ?s"
  proof -
    have "(if l = ct_labels c then Some (ct_id c) else registered (mt_devices s) (pending b pt) l) =
        registered (mt_devices s) (pending b ?pt) l" for l
    proof (cases "l = ct_labels c")
      case True
      then show ?thesis using c gone by (simp add: registered_def)
    next
      case False
      then show ?thesis using out by (auto simp: registered_def split: option.split)
    qed
    from this [symmetric] have "fmlookup (mt_collectors ?s) l = registered (mt_devices ?s) (pending b ?pt) l" for l
      using beats_invD(2) [OF inv] by (simp add: registered_inv_def)
    then show ?thesis unfolding registered_inv_def by (intro ext)
  qed
  moreover have "counts_inv b ?pt ?s" using beats_invD(3) [OF inv] pt by (simp add: counts_inv_def)
  moreover have "devices_inv b ?s" using beats_invD(1) [OF inv] by (simp add: devices_inv_def)
  ultimately show "beats_inv b ?pt ?s" by (simp add: beats_inv_def)
qed

lemma beats_inc:
  assumes inv: "beats_inv b pt s" and i: "i < bt_n b" and pt: "pt i = AtInc c"
  shows "beats_inv b (pt(i := AtEnd)) (s\<lparr>mt_values := (mt_values s)(ct_id c := mt_values s (ct_id c) + 1)\<rparr>)"
    (is "beats_inv b ?pt ?s")
proof -
  note D = beats_invD(1) [OF inv]
  have c: "ct_labels c = bt_ls b i" "fmlookup (mt_devices s) (key_of (ct_labels c)) = Some c"
    using beats_invD(5) [OF inv i] pt by auto
  have "points_inv b ?pt ?s"
  proof (rule points_inv_step [OF inv])
    fix j assume "point_inv (bt_ls b j) s (pt j)"
    then show "point_inv (bt_ls b j) ?s (pt j)" using c(2) by (cases "pt j") fastforce+
  qed (use c in simp)
  moreover have "owners_inv b ?pt"
    by (intro owners_inv_step [OF beats_invD(4) [OF inv] i]) simp_all
  moreover have "registered_inv b ?pt ?s"
  proof -
    have "pending b ?pt = pending b pt" using pt by (simp add: fun_eq_iff pending_step [OF i])
    then show ?thesis using beats_invD(2) [OF inv] by (simp add: registered_inv_def)
  qed
  moreover have "counts_inv b ?pt ?s"
    unfolding counts_inv_def
  proof (intro allI impI)
    fix k d assume "fmlookup (mt_devices ?s) k = Some d"
    then have d: "fmlookup (mt_devices s) k = Some d" by simp
    have "ct_id d = ct_id c \<longleftrightarrow> ct_labels c = ct_labels d"
      using devices_invD(2,4) [OF D d] devices_invD(2,4) [OF D c(2)] d c(2) by (metis option.inject)
    moreover have "mt_values s (ct_id d) = count_of (exposed (bt_start b)) (ct_labels d) +
        of_nat (finished (bt_n b) (bt_ls b) pt (ct_labels d))"
      using beats_invD(3) [OF inv] d by (simp add: counts_inv_def)
    ultimately show "mt_values ?s (ct_id d) = count_of (exposed (bt_start b)) (ct_labels d) +
        of_nat (finished (bt_n b) (bt_ls b) ?pt (ct_labels d))"
      using pt c(1) by (auto simp: finished_end [OF i])
  qed
  moreover have "devices_inv b ?s" using D by (simp add: devices_inv_def)
  ultimately show ?thesis by (simp add: beats_inv_def)
qed

text \<open>One step of any goroutine keeps the invariant and leaves fewer calls to make.\<close>

fun calls_left :: "point \<Rightarrow> nat" where
  "calls_left AtNew = 4" | "calls_left (AtStore _) = 3" | "calls_left (AtRegister _) = 2"
| "calls_left (AtInc _) = 1" | "calls_left AtEnd = 0"

lemma calls_left_step:
  "i < (n :: nat) \<Longrightarrow> calls_left p < calls_left (pt i) \<Longrightarrow> (\<Sum>j<n. calls_left ((pt(i := p)) j)) < (\<Sum>j<n. calls_left (pt j))"
  by (intro sum_strict_mono_ex1 ballI bexI [of _ i] finite_lessThan) auto

lemma beats_step:
  assumes ok: "beats_ok b" and inv: "beats_inv b pt s" and P: "\<forall>i < bt_n b. P i = rest_at (bt_ls b i) (pt i)"
    and step: "goroutines (bt_n b) (s, P) (s', P')"
  shows "\<exists>pt'. beats_inv b pt' s' \<and> (\<forall>i < bt_n b. P' i = rest_at (bt_ls b i) (pt' i)) \<and>
    (\<Sum>i<bt_n b. calls_left (pt' i)) < (\<Sum>i<bt_n b. calls_left (pt i))"
proof -
  from step obtain i q k r where i: "i < bt_n b" and q: "P i = Call q k" "metrics_step s q = (r, s')" and P': "P' = P(i := k r)"
    by (auto elim: goroutines.cases)
  let ?l = "bt_ls b i"
  have l: "plain ?l" and start: "metrics_ok (bt_start b)" using ok i by (auto simp: beats_ok_def)
  have go: ?thesis if "beats_inv b (pt(i := p)) s'" "k r = rest_at ?l p" "calls_left p < calls_left (pt i)" for p
    using that(1,2) P P' calls_left_step [of i "bt_n b" p pt] i that(3) by (intro exI [of _ "pt(i := p)"]) auto
  show ?thesis
  proof (cases "pt i")
    case AtNew
    with P i q have "s' = allocate s" "k r = rest_at ?l (AtStore \<lparr>ct_id = mt_next s, ct_labels = ?l\<rparr>)"
      by (auto simp: RecordPresence_unfold counter_of_def allocate_def)
    with beats_new [OF inv i AtNew] show ?thesis
      by (intro go [of "AtStore \<lparr>ct_id = mt_next s, ct_labels = ?l\<rparr>"]) (simp_all add: AtNew)
  next
    case (AtStore c)
    show ?thesis
    proof (cases "fmlookup (mt_devices s) (key_of ?l)")
      case None
      with AtStore P i q have "s' = s\<lparr>mt_devices := fmupd (key_of ?l) c (mt_devices s)\<rparr>" "k r = rest_at ?l (AtRegister c)"
        by (auto simp: counter_of_def)
      with beats_store [OF inv i AtStore l None start] show ?thesis by (intro go [of "AtRegister c"]) (simp_all add: AtStore)
    next
      case (Some c')
      with AtStore P i q have "s' = s" "k r = rest_at ?l (AtInc c')" by (auto simp: counter_of_def)
      with beats_load [OF inv i AtStore l Some] show ?thesis by (intro go [of "AtInc c'"]) (simp_all add: AtStore)
    qed
  next
    case (AtRegister c)
    moreover have "valid_labels (ct_labels c)"
      using beats_invD(5) [OF inv i] AtRegister l by (auto simp: plain_def)
    ultimately have "s' = s\<lparr>mt_collectors := fmupd (ct_labels c) (ct_id c) (mt_collectors s)\<rparr>" "k r = rest_at ?l (AtInc c)"
      using P i q beats_register(1) [OF inv i AtRegister] by auto
    with beats_register(2) [OF inv i AtRegister] show ?thesis by (intro go [of "AtInc c"]) (simp_all add: AtRegister)
  next
    case (AtInc c)
    with P i q have "s' = s\<lparr>mt_values := (mt_values s)(ct_id c := mt_values s (ct_id c) + 1)\<rparr>" "k r = rest_at ?l AtEnd"
      by (auto simp: inc_def)
    with beats_inc [OF inv i AtInc] show ?thesis by (intro go [of AtEnd]) (simp_all add: AtInc)
  next
    case AtEnd
    with P i q show ?thesis by simp
  qed
qed

lemma beats_reachable:
  assumes ok: "beats_ok b"
    and "(goroutines (bt_n b) ^^ m) (bt_start b, \<lambda>i. RecordPresence (fst (bt_ls b i)) (snd (bt_ls b i))) (s, P)"
  shows "\<exists>pt. beats_inv b pt s \<and> (\<forall>i < bt_n b. P i = rest_at (bt_ls b i) (pt i)) \<and>
    m + (\<Sum>i<bt_n b. calls_left (pt i)) \<le> 4 * bt_n b"
  using assms(2)
proof (induction m arbitrary: s P)
  case 0
  then show ?case using beats_start [OF ok] by (intro exI [of _ "\<lambda>_. AtNew"]) auto
next
  case (Suc m)
  then obtain s1 P1 where
    x: "(goroutines (bt_n b) ^^ m) (bt_start b, \<lambda>i. RecordPresence (fst (bt_ls b i)) (snd (bt_ls b i))) (s1, P1)"
    "goroutines (bt_n b) (s1, P1) (s, P)" by auto
  from Suc.IH [OF x(1)] obtain pt where pt: "beats_inv b pt s1" "\<forall>i < bt_n b. P1 i = rest_at (bt_ls b i) (pt i)"
    "m + (\<Sum>i<bt_n b. calls_left (pt i)) \<le> 4 * bt_n b" by blast
  from beats_step [OF ok pt(1,2) x(2)] obtain pt' where "beats_inv b pt' s" "\<forall>i < bt_n b. P i = rest_at (bt_ls b i) (pt' i)"
    "(\<Sum>i<bt_n b. calls_left (pt' i)) < (\<Sum>i<bt_n b. calls_left (pt i))" by blast
  with pt(3) show ?case by (intro exI [of _ pt']) auto
qed

lemma beats_final:
  assumes ok: "beats_ok b" and inv: "beats_inv b pt s" and all: "\<forall>i < bt_n b. pt i = AtEnd"
  shows "exposed s l = (if l \<in> bt_ls b ` {..<bt_n b}
      then Some (count_of (exposed (bt_start b)) l + of_nat (card {i. i < bt_n b \<and> bt_ls b i = l}))
      else exposed (bt_start b) l)"
proof -
  have start: "metrics_ok (bt_start b)" using ok by (simp add: beats_ok_def)
  have "pending b pt = (\<lambda>_. False)" using all by (auto simp: pending_def fun_eq_iff)
  then have reg: "fmlookup (mt_collectors s) l = registered (mt_devices s) (\<lambda>_. False) l"
    using beats_invD(2) [OF inv] by (simp add: registered_inv_def)
  have fin: "finished (bt_n b) (bt_ls b) pt l = card {i. i < bt_n b \<and> bt_ls b i = l}"
    unfolding finished_def using all by (intro arg_cong [of _ _ card]) auto
  show ?thesis
  proof (cases "l \<in> bt_ls b ` {..<bt_n b}")
    case True
    then obtain i where i: "i < bt_n b" "bt_ls b i = l" by auto
    then obtain c where c: "fmlookup (mt_devices s) (key_of l) = Some c" using beats_invD(5) [OF inv i(1)] all by auto
    have "plain l" using ok i by (auto simp: beats_ok_def)
    then have "ct_labels c = l"
      using devices_invD(1,2) [OF beats_invD(1) [OF inv] c] deviceKey_inject by blast
    with c reg fin True show ?thesis
      using beats_invD(3) [OF inv] by (simp add: registered_def exposed_def counts_inv_def)
  next
    case False
    then have none: "card {i. i < bt_n b \<and> bt_ls b i = l} = 0" by (auto intro!: card_eq_0_iff [THEN iffD2])
    have old: "fmlookup (mt_collectors (bt_start b)) l = registered (mt_devices (bt_start b)) (\<lambda>_. False) l"
      by (subst metrics_okD(3) [OF start]) (simp add: registered_def split: option.split)
    show ?thesis
    proof (cases "plain l")
      case True
      with False have same: "fmlookup (mt_devices s) (key_of l) = fmlookup (mt_devices (bt_start b)) (key_of l)"
        using beats_invD(1) [OF inv] unfolding devices_inv_def by blast
      show ?thesis
      proof (cases "registered (mt_devices (bt_start b)) (\<lambda>_. False) l")
        case None
        with same False reg old show ?thesis by (simp add: exposed_def registered_def)
      next
        case (Some j)
        then obtain c where c: "fmlookup (mt_devices (bt_start b)) (key_of l) = Some c" "ct_labels c = l" "ct_id c = j"
          by (auto simp: registered_def split: option.splits if_splits)
        with same have "mt_values s j = count_of (exposed (bt_start b)) l"
          using beats_invD(3) [OF inv] fin none by (auto simp: counts_inv_def)
        with Some same False reg old c show ?thesis
          by (simp add: exposed_def registered_def count_of_def)
      qed
    next
      case nonplain: False
      have "registered (mt_devices s) (\<lambda>_. False) l = None"
        using devices_invD(1) [OF beats_invD(1) [OF inv]] nonplain by (auto simp: registered_def split: option.split)
      moreover have "fmlookup (mt_collectors (bt_start b)) l = None"
        using registered_id [OF start] nonplain by (cases "fmlookup (mt_collectors (bt_start b)) l") auto
      ultimately show ?thesis using reg False by (simp add: exposed_def)
    qed
  qed
qed

text \<open>A goroutine that is not done has a call to make.\<close>

lemma rest_at_cases: "rest_at l p = Ret () \<longleftrightarrow> p = AtEnd" "rest_at l p \<noteq> Panic m" "p \<noteq> AtEnd \<Longrightarrow> \<exists>q k. rest_at l p = Call q k"
  by (cases p; simp add: RecordPresence_unfold inc_def)+

text \<open>
  Property C18: heartbeats of any number of devices may be counted at the same time. However the goroutines are
  interleaved, none of them ever panics, one that is not done can go on, \<open>n\<close> heartbeats make at most \<open>4 * n\<close> calls,
  and when all are done every device counts one more for each of its heartbeats (modulo \<open>2 ^ 64\<close>) while the other
  devices keep their counts.
\<close>

theorem concurrent_heartbeats:
  assumes "metrics_ok s\<^sub>0" and "\<forall>i < n. plain (ls i)"
    and "(goroutines n ^^ m) (s\<^sub>0, \<lambda>i. RecordPresence (fst (ls i)) (snd (ls i))) (s, P)"
  shows "(\<forall>i < n. P i = Ret () \<or> (\<exists>s' P'. goroutines n (s, P) (s', P(i := P')))) \<and> m \<le> 4 * n \<and>
    (\<forall>i < n. \<forall>e. P i \<noteq> Panic e) \<and>
    ((\<forall>i < n. P i = Ret ()) \<longrightarrow> (\<forall>l. exposed s l = (if l \<in> ls ` {..<n}
      then Some (count_of (exposed s\<^sub>0) l + of_nat (card {i. i < n \<and> ls i = l})) else exposed s\<^sub>0 l)))"
proof -
  let ?b = "\<lparr>bt_n = n, bt_ls = ls, bt_start = s\<^sub>0\<rparr>"
  have ok: "beats_ok ?b" using assms(1,2) by (simp add: beats_ok_def)
  from beats_reachable [OF ok, of m s P] assms(3) obtain pt where inv: "beats_inv ?b pt s"
    and P: "\<forall>i < n. P i = rest_at (ls i) (pt i)" and m: "m \<le> 4 * n" by auto
  have "P i = Ret () \<or> (\<exists>s' P'. goroutines n (s, P) (s', P(i := P')))" if "i < n" for i
  proof (cases "pt i = AtEnd")
    case False
    then obtain q k where "P i = Call q k" using P \<open>i < n\<close> rest_at_cases(3) by metis
    moreover obtain r s' where "metrics_step s q = (r, s')" by fastforce
    ultimately show ?thesis using goroutines.step [OF \<open>i < n\<close>] by blast
  qed (use P that in simp)
  moreover have "exposed s l = (if l \<in> ls ` {..<n}
      then Some (count_of (exposed s\<^sub>0) l + of_nat (card {i. i < n \<and> ls i = l})) else exposed s\<^sub>0 l)"
    if "\<forall>i < n. P i = Ret ()" for l
    using beats_final [OF ok inv, of l] that P rest_at_cases(1) by simp
  ultimately show ?thesis using P m rest_at_cases(2) by auto
qed

section \<open>Concrete runs\<close>

definition no_metrics :: metrics_state where
  "no_metrics = \<lparr>mt_next = 0, mt_devices = fmempty, mt_collectors = fmempty, mt_values = (\<lambda>_. 0), mt_globals = (\<lambda>_. 0)\<rparr>"

lemma no_metrics_ok [simp]: "metrics_ok no_metrics"
  by (simp add: metrics_ok_def no_metrics_def)

lemma no_metrics_exposed [simp]: "exposed no_metrics = Map.empty"
  by (rule ext) (simp add: exposed_def no_metrics_def)

lemma valid_utf8_ascii: "list_all (\<lambda>b. b < 128) bs \<Longrightarrow> valid_utf8 bs"
  by (induction bs) (auto simp: valid_utf8.simps [of "_ # _"] valid_utf8.simps [of "[]"] RuneError_def)

lemma plain_ascii [simp]: "plain (''ns'', ''dev'')" "plain (''ns'', ''dev2'')"
  by (simp_all add: plain_def valid_labels_def valid_utf8_ascii byte_def)

theorem metrics_refine_witness:
  "\<exists>s'. run_metrics (perform (RecordEdgeDevicePresence ''ns'' ''dev'')) no_metrics = (Returned (), s') \<and> metrics_ok s' \<and>
     exposed s' (''ns'', ''dev'') = Some 1"
proof -
  have "op_plain (RecordEdgeDevicePresence ''ns'' ''dev'')" by simp
  from metrics_refine [OF no_metrics_ok this] show ?thesis by (auto simp: shown_def count_of_def)
qed

definition named_device :: "string \<Rightarrow> edge_device" where
  "named_device n = zero_edge_device\<lparr>ed_meta := zero_meta\<lparr>om_Namespace := ''ns'', om_Name := n\<rparr>\<rparr>"

text \<open>The tombstone of the second device is not recognised: its counter stays.\<close>

theorem informer_tracks_devices_witness:
  "\<exists>s'. run_events (\<lambda>op. run_metrics (perform op)) [OnAdd (DeviceObject (named_device ''dev'')), OnAdd (DeviceObject (named_device ''dev2'')),
      OnDelete (DeviceObject (named_device ''dev'')), OnDelete OtherObject] no_metrics = (Returned (), s') \<and> metrics_ok s' \<and>
     dom (exposed s') = {(''ns'', ''dev2'')}"
proof -
  let ?es = "[OnAdd (DeviceObject (named_device ''dev'')), OnAdd (DeviceObject (named_device ''dev2'')),
      OnDelete (DeviceObject (named_device ''dev'')), OnDelete OtherObject]"
  have "list_all event_plain ?es" by (simp add: named_device_def)
  from informer_tracks_devices [OF no_metrics_ok this] show ?thesis by (auto simp: named_device_def insert_Diff_if)
qed

text \<open>A given order of calls.\<close>

fun schedule :: "nat \<Rightarrow> nat list \<Rightarrow> metrics_state \<times> (nat \<Rightarrow> unit metrics_prog) \<Rightarrow>
    (metrics_state \<times> (nat \<Rightarrow> unit metrics_prog)) option" where
  "schedule n [] x = Some x"
| "schedule n (i # order) (s, P) = (case P i of
      Call q k \<Rightarrow> if i < n then (case metrics_step s q of (r, s') \<Rightarrow> schedule n order (s', P(i := k r))) else None
    | _ \<Rightarrow> None)"

lemma schedule_run: "schedule n order x = Some y \<Longrightarrow> (goroutines n ^^ length order) x y"
proof (induction n order x rule: schedule.induct)
  case (2 n i order s P)
  then obtain q k r s' where q: "P i = Call q k" "i < n" "metrics_step s q = (r, s')"
    "schedule n order (s', P(i := k r)) = Some y"
    by (auto split: prog.splits if_splits prod.splits)
  with "2.IH" [OF q(1,2) q(3) [symmetric]] have "(goroutines n ^^ length order) (s', P(i := k r)) y" by simp
  moreover from q have "goroutines n (s, P) (s', P(i := k r))" by (intro goroutines.step)
  ultimately show ?case using relpowp_Suc_I2 by fastforce
qed simp

text \<open>Two heartbeats of a new device: the second counts while the first still has to register the counter.\<close>

theorem concurrent_heartbeats_witness:
  "\<exists>s P. (goroutines 2 ^^ 7) (no_metrics, \<lambda>i. RecordPresence ''ns'' ''dev'') (s, P) \<and>
     exposed s (''ns'', ''dev'') = Some 2"
proof -
  have valid: "valid_labels (''ns'', ''dev'')" using plain_ascii(1) by (simp add: plain_def)
  obtain s P where r: "schedule 2 [0, 1, 0, 1, 1, 0, 0] (no_metrics, \<lambda>i. RecordPresence ''ns'' ''dev'') = Some (s, P)"
    and P: "P 0 = Ret ()" "P 1 = Ret ()"
    by (simp add: RecordPresence_unfold counter_of_def no_metrics_def inc_def valid deviceKey_def)
  have run: "(goroutines 2 ^^ 7) (no_metrics, \<lambda>i. RecordPresence (fst (''ns'', ''dev'')) (snd (''ns'', ''dev''))) (s, P)"
    using schedule_run [OF r] by (simp add: eval_nat_numeral)
  have "\<forall>i < 2. P i = Ret ()" using P by (auto simp: less_2_cases_iff)
  moreover have "{i. i < (2 :: nat)} = {0, 1}" by auto
  ultimately have "exposed s (''ns'', ''dev'') = Some 2"
    using concurrent_heartbeats [OF no_metrics_ok _ run] by (auto simp: count_of_def)
  with run show ?thesis by auto
qed

end
