(* ===== verification/Validation.thy ===== *)
theory Validation
  imports Model_Types Go_Text
begin

text \<open>
  The constraints on the messages a device or the remote store may send (the methods \<open>Validate\<close> and
  \<open>ContextValidate\<close> of \<open>src/models\<close>): enumerations, date formats, and the traversal of nested values, in which
  every error gets the path of the field it is about. A type without constraints has methods that return nil,
  \<open>no_constraints\<close> here.

  The format registry is a library; \<open>formats\<close> says which dates print to a text it accepts as a date-time. The location
  of a value is always the body, and the text of an error is determined by its code and name, so
  an error has a code and a name.
\<close>

section \<open>Errors\<close>

type_synonym formats = "Time \<Rightarrow> bool"

datatype validation_error = Invalid nat string | CompositeError "validation_error list"

definition InvalidTypeCode :: nat where "InvalidTypeCode = 601"
definition RequiredFailCode :: nat where "RequiredFailCode = 602"
definition EnumFailCode :: nat where "EnumFailCode = 606"
definition MinFailCode :: nat where "MinFailCode = 609"

text \<open>The path of an error inside a field.\<close>

definition qualify :: "string \<Rightarrow> string \<Rightarrow> string" where
  "qualify name n = (if name = [] then n else if n = [] then name else name @ ''.'' @ n)"

fun ValidateName :: "string \<Rightarrow> validation_error \<Rightarrow> validation_error" where
  "ValidateName name (Invalid code n) = Invalid code (qualify name n)"
| "ValidateName name (CompositeError es) = CompositeError (map (ValidateName name) es)"

text \<open>The errors that were found, as one.\<close>

definition composite :: "validation_error option list \<Rightarrow> validation_error option" where
  "composite rs = (case concat (map (\<lambda>r. case r of None \<Rightarrow> [] | Some e \<Rightarrow> [e]) rs) of
      [] \<Rightarrow> None
    | es \<Rightarrow> Some (CompositeError es))"

section \<open>Checks of one field\<close>

definition no_constraints :: "'a \<Rightarrow> validation_error option" where
  "no_constraints x = None"

text \<open>An empty string is not checked.\<close>

definition enum_check :: "string \<Rightarrow> string list \<Rightarrow> string \<Rightarrow> validation_error option" where
  "enum_check path allowed v = (if v = [] \<or> v \<in> set allowed then None else Some (Invalid EnumFailCode path))"

definition format_check :: "formats \<Rightarrow> string \<Rightarrow> Time \<Rightarrow> validation_error option" where
  "format_check fmt path t = (if t = zero_time \<or> fmt t then None else Some (Invalid InvalidTypeCode path))"

text \<open>A nested value, behind a pointer or not.\<close>

definition named_check :: "string \<Rightarrow> ('a \<Rightarrow> validation_error option) \<Rightarrow> 'a \<Rightarrow> validation_error option" where
  "named_check name check x = map_option (ValidateName name) (check x)"

definition sub_check :: "string \<Rightarrow> ('a \<Rightarrow> validation_error option) \<Rightarrow> 'a option \<Rightarrow> validation_error option" where
  "sub_check name check p = (case p of None \<Rightarrow> None | Some x \<Rightarrow> named_check name check x)"

text \<open>The name of an entry of a list: its index, after the name of the field when there is one.\<close>

definition entry_name :: "string \<Rightarrow> nat \<Rightarrow> string" where
  "entry_name name i = (if name = [] then print_int (int i) else name @ ''.'' @ print_int (int i))"

text \<open>A loop over a list of pointers ends with the first entry that has an error.\<close>

primrec list_check :: "string \<Rightarrow> ('a \<Rightarrow> validation_error option) \<Rightarrow> nat \<Rightarrow> 'a option list \<Rightarrow> validation_error option" where
  "list_check name check i [] = None"
| "list_check name check i (p # ps) = (case sub_check (entry_name name i) check p of
      Some e \<Rightarrow> Some e
    | None \<Rightarrow> list_check name check (Suc i) ps)"

section \<open>Hardware\<close>

definition Disk_Validate :: "formats \<Rightarrow> m_disk \<Rightarrow> validation_error option" where
  "Disk_Validate fmt m = composite [sub_check ''io_perf'' no_constraints (dk_IoPerf m)]"

definition Disk_ContextValidate :: "m_disk \<Rightarrow> validation_error option" where
  "Disk_ContextValidate m = composite [sub_check ''io_perf'' no_constraints (dk_IoPerf m)]"

definition WirelessDeviceInfo_Validate :: "formats \<Rightarrow> m_wireless_device_info \<Rightarrow> validation_error option" where
  "WirelessDeviceInfo_Validate fmt m = composite [sub_check ''location'' no_constraints (mwi_Location m),
     sub_check ''region'' no_constraints (mwi_Region m), sub_check ''transmit_info'' no_constraints (mwi_TransmitInfo m)]"

definition WirelessDeviceInfo_ContextValidate :: "m_wireless_device_info \<Rightarrow> validation_error option" where
  "WirelessDeviceInfo_ContextValidate m = composite [sub_check ''location'' no_constraints (mwi_Location m),
     sub_check ''region'' no_constraints (mwi_Region m), sub_check ''transmit_info'' no_constraints (mwi_TransmitInfo m)]"

definition ConnectedWirelessDevices_Validate :: "formats \<Rightarrow> connected_wireless_devices \<Rightarrow> validation_error option" where
  "ConnectedWirelessDevices_Validate fmt m = list_check [] (WirelessDeviceInfo_Validate fmt) 0 m"

definition ConnectedWirelessDevices_ContextValidate :: "connected_wireless_devices \<Rightarrow> validation_error option" where
  "ConnectedWirelessDevices_ContextValidate m = list_check [] WirelessDeviceInfo_ContextValidate 0 m"

definition HardwareInfo_validateBoot :: "formats \<Rightarrow> hardware_info \<Rightarrow> validation_error option" where
  "HardwareInfo_validateBoot fmt m = sub_check ''boot'' (no_constraints) (hi_Boot m)"

definition HardwareInfo_validateConnectedWirelessDevices :: "formats \<Rightarrow> hardware_info \<Rightarrow> validation_error option" where
  "HardwareInfo_validateConnectedWirelessDevices fmt m = named_check ''connected_wireless_devices'' (ConnectedWirelessDevices_Validate fmt) (hi_ConnectedWirelessDevices m)"

definition HardwareInfo_validateCPU :: "formats \<Rightarrow> hardware_info \<Rightarrow> validation_error option" where
  "HardwareInfo_validateCPU fmt m = sub_check ''cpu'' (no_constraints) (hi_CPU m)"

definition HardwareInfo_validateDisks :: "formats \<Rightarrow> hardware_info \<Rightarrow> validation_error option" where
  "HardwareInfo_validateDisks fmt m = list_check ''disks'' (Disk_Validate fmt) 0 (hi_Disks m)"

definition HardwareInfo_validateGpus :: "formats \<Rightarrow> hardware_info \<Rightarrow> validation_error option" where
  "HardwareInfo_validateGpus fmt m = list_check ''gpus'' (no_constraints) 0 (hi_Gpus m)"

definition HardwareInfo_validateHostDevices :: "formats \<Rightarrow> hardware_info \<Rightarrow> validation_error option" where
  "HardwareInfo_validateHostDevices fmt m = list_check ''host_devices'' (no_constraints) 0 (hi_HostDevices m)"

definition HardwareInfo_validateInterfaces :: "formats \<Rightarrow> hardware_info \<Rightarrow> validation_error option" where
  "HardwareInfo_validateInterfaces fmt m = list_check ''interfaces'' (no_constraints) 0 (hi_Interfaces m)"

definition HardwareInfo_validateMemory :: "formats \<Rightarrow> hardware_info \<Rightarrow> validation_error option" where
  "HardwareInfo_validateMemory fmt m = sub_check ''memory'' (no_constraints) (hi_Memory m)"

definition HardwareInfo_validateMounts :: "formats \<Rightarrow> hardware_info \<Rightarrow> validation_error option" where
  "HardwareInfo_validateMounts fmt m = list_check ''mounts'' (no_constraints) 0 (hi_Mounts m)"

definition HardwareInfo_validateSystemVendor :: "formats \<Rightarrow> hardware_info \<Rightarrow> validation_error option" where
  "HardwareInfo_validateSystemVendor fmt m = sub_check ''system_vendor'' (no_constraints) (hi_SystemVendor m)"

definition HardwareInfo_Validate :: "formats \<Rightarrow> hardware_info \<Rightarrow> validation_error option" where
  "HardwareInfo_Validate fmt m = composite [HardwareInfo_validateBoot fmt m,
     HardwareInfo_validateConnectedWirelessDevices fmt m,
     HardwareInfo_validateCPU fmt m,
     HardwareInfo_validateDisks fmt m,
     HardwareInfo_validateGpus fmt m,
     HardwareInfo_validateHostDevices fmt m,
     HardwareInfo_validateInterfaces fmt m,
     HardwareInfo_validateMemory fmt m,
     HardwareInfo_validateMounts fmt m,
     HardwareInfo_validateSystemVendor fmt m]"

definition HardwareInfo_contextValidateBoot :: "hardware_info \<Rightarrow> validation_error option" where
  "HardwareInfo_contextValidateBoot m = sub_check ''boot'' (no_constraints) (hi_Boot m)"

definition HardwareInfo_contextValidateConnectedWirelessDevices :: "hardware_info \<Rightarrow> validation_error option" where
  "HardwareInfo_contextValidateConnectedWirelessDevices m = named_check ''connected_wireless_devices'' (ConnectedWirelessDevices_ContextValidate) (hi_ConnectedWirelessDevices m)"

definition HardwareInfo_contextValidateCPU :: "hardware_info \<Rightarrow> validation_error option" where
  "HardwareInfo_contextValidateCPU m = sub_check ''cpu'' (no_constraints) (hi_CPU m)"

definition HardwareInfo_contextValidateDisks :: "hardware_info \<Rightarrow> validation_error option" where
  "HardwareInfo_contextValidateDisks m = list_check ''disks'' (Disk_ContextValidate) 0 (hi_Disks m)"

definition HardwareInfo_contextValidateGpus :: "hardware_info \<Rightarrow> validation_error option" where
  "HardwareInfo_contextValidateGpus m = list_check ''gpus'' (no_constraints) 0 (hi_Gpus m)"

definition HardwareInfo_contextValidateHostDevices :: "hardware_info \<Rightarrow> validation_error option" where
  "HardwareInfo_contextValidateHostDevices m = list_check ''host_devices'' (no_constraints) 0 (hi_HostDevices m)"

definition HardwareInfo_contextValidateInterfaces :: "hardware_info \<Rightarrow> validation_error option" where
  "HardwareInfo_contextValidateInterfaces m = list_check ''interfaces'' (no_constraints) 0 (hi_Interfaces m)"

definition HardwareInfo_contextValidateMemory :: "hardware_info \<Rightarrow> validation_error option" where
  "HardwareInfo_contextValidateMemory m = sub_check ''memory'' (no_constraints) (hi_Memory m)"

definition HardwareInfo_contextValidateMounts :: "hardware_info \<Rightarrow> validation_error option" where
  "HardwareInfo_contextValidateMounts m = list_check ''mounts'' (no_constraints) 0 (hi_Mounts m)"

definition HardwareInfo_contextValidateSystemVendor :: "hardware_info \<Rightarrow> validation_error option" where
  "HardwareInfo_contextValidateSystemVendor m = sub_check ''system_vendor'' (no_constraints) (hi_SystemVendor m)"

definition HardwareInfo_ContextValidate :: "hardware_info \<Rightarrow> validation_error option" where
  "HardwareInfo_ContextValidate m = composite [HardwareInfo_contextValidateBoot m,
     HardwareInfo_contextValidateConnectedWirelessDevices m,
     HardwareInfo_contextValidateCPU m,
     HardwareInfo_contextValidateDisks m,
     HardwareInfo_contextValidateGpus m,
     HardwareInfo_contextValidateHostDevices m,
     HardwareInfo_contextValidateInterfaces m,
     HardwareInfo_contextValidateMemory m,
     HardwareInfo_contextValidateMounts m,
     HardwareInfo_contextValidateSystemVendor m]"

section \<open>Heartbeat\<close>

definition eventTypeEnum :: "string list" where "eventTypeEnum = [''info'', ''warn'']"
definition playbookStatusEnum :: "string list" where
  "playbookStatusEnum = [''Deploying'', ''TargetVerification'', ''Running'', ''SuccessfullyCompleted'', ''CompletedWithError'']"
definition workloadStatusEnum :: "string list" where "workloadStatusEnum = [''deploying'', ''running'', ''crashed'', ''stopped'']"
definition upgradeStatusEnum :: "string list" where "upgradeStatusEnum = [''succeeded'', ''failed'']"
definition heartbeatStatusEnum :: "string list" where "heartbeatStatusEnum = [''up'', ''degraded'']"

definition EventInfo_Validate :: "formats \<Rightarrow> event_info \<Rightarrow> validation_error option" where
  "EventInfo_Validate fmt m = composite [enum_check ''type'' eventTypeEnum (ei_Type m)]"

definition PlaybookExecutionStatus_Validate :: "formats \<Rightarrow> playbook_execution_status \<Rightarrow> validation_error option" where
  "PlaybookExecutionStatus_Validate fmt m = composite [format_check fmt ''last_data_upload'' (ps_LastDataUpload m),
     enum_check ''status'' playbookStatusEnum (ps_Status m)]"

definition WorkloadStatus_Validate :: "formats \<Rightarrow> workload_status \<Rightarrow> validation_error option" where
  "WorkloadStatus_Validate fmt m = composite [format_check fmt ''last_data_upload'' (wst_LastDataUpload m),
     enum_check ''status'' workloadStatusEnum (wst_Status m)]"

definition UpgradeStatus_Validate :: "formats \<Rightarrow> upgrade_status \<Rightarrow> validation_error option" where
  "UpgradeStatus_Validate fmt m = composite [enum_check ''last_upgrade_status'' upgradeStatusEnum (ui_LastUpgradeStatus m)]"

definition Heartbeat_validateEvents :: "formats \<Rightarrow> heartbeat \<Rightarrow> validation_error option" where
  "Heartbeat_validateEvents fmt m = list_check ''events'' (EventInfo_Validate fmt) 0 (hb_Events m)"

definition Heartbeat_validateHardware :: "formats \<Rightarrow> heartbeat \<Rightarrow> validation_error option" where
  "Heartbeat_validateHardware fmt m = sub_check ''hardware'' (HardwareInfo_Validate fmt) (hb_Hardware m)"

definition Heartbeat_validatePlaybookExecutions :: "formats \<Rightarrow> heartbeat \<Rightarrow> validation_error option" where
  "Heartbeat_validatePlaybookExecutions fmt m = list_check ''playbook-executions'' (PlaybookExecutionStatus_Validate fmt) 0 (hb_PlaybookExecutions m)"

definition Heartbeat_validateStatus :: "formats \<Rightarrow> heartbeat \<Rightarrow> validation_error option" where
  "Heartbeat_validateStatus fmt m = enum_check ''status'' heartbeatStatusEnum (hb_Status m)"

definition Heartbeat_validateUpgrade :: "formats \<Rightarrow> heartbeat \<Rightarrow> validation_error option" where
  "Heartbeat_validateUpgrade fmt m = sub_check ''upgrade'' (UpgradeStatus_Validate fmt) (hb_Upgrade m)"

definition Heartbeat_validateWorkloads :: "formats \<Rightarrow> heartbeat \<Rightarrow> validation_error option" where
  "Heartbeat_validateWorkloads fmt m = list_check ''workloads'' (WorkloadStatus_Validate fmt) 0 (hb_Workloads m)"

definition Heartbeat_Validate :: "formats \<Rightarrow> heartbeat \<Rightarrow> validation_error option" where
  "Heartbeat_Validate fmt m = composite [Heartbeat_validateEvents fmt m,
     Heartbeat_validateHardware fmt m,
     Heartbeat_validatePlaybookExecutions fmt m,
     Heartbeat_validateStatus fmt m,
     Heartbeat_validateUpgrade fmt m,
     Heartbeat_validateWorkloads fmt m]"

definition Heartbeat_contextValidateEvents :: "heartbeat \<Rightarrow> validation_error option" where
  "Heartbeat_contextValidateEvents m = list_check ''events'' (no_constraints) 0 (hb_Events m)"

definition Heartbeat_contextValidateHardware :: "heartbeat \<Rightarrow> validation_error option" where
  "Heartbeat_contextValidateHardware m = sub_check ''hardware'' (HardwareInfo_ContextValidate) (hb_Hardware m)"

definition Heartbeat_contextValidatePlaybookExecutions :: "heartbeat \<Rightarrow> validation_error option" where
  "Heartbeat_contextValidatePlaybookExecutions m = list_check ''playbook-executions'' (no_constraints) 0 (hb_PlaybookExecutions m)"

definition Heartbeat_contextValidateUpgrade :: "heartbeat \<Rightarrow> validation_error option" where
  "Heartbeat_contextValidateUpgrade m = sub_check ''upgrade'' (no_constraints) (hb_Upgrade m)"

definition Heartbeat_contextValidateWorkloads :: "heartbeat \<Rightarrow> validation_error option" where
  "Heartbeat_contextValidateWorkloads m = list_check ''workloads'' (no_constraints) 0 (hb_Workloads m)"

definition Heartbeat_ContextValidate :: "heartbeat \<Rightarrow> validation_error option" where
  "Heartbeat_ContextValidate m = composite [Heartbeat_contextValidateEvents m,
     Heartbeat_contextValidateHardware m,
     Heartbeat_contextValidatePlaybookExecutions m,
     Heartbeat_contextValidateUpgrade m,
     Heartbeat_contextValidateWorkloads m]"

section \<open>Enrolment, registration and playbooks\<close>

text \<open>The features name their hardware with their own name in front, which the enrolment puts there again.\<close>

definition EnrolmentInfoFeatures_Validate :: "formats \<Rightarrow> enrolment_info_features \<Rightarrow> validation_error option" where
  "EnrolmentInfoFeatures_Validate fmt m = composite [sub_check ''features.hardware'' (HardwareInfo_Validate fmt) (ef_Hardware m)]"

definition EnrolmentInfoFeatures_ContextValidate :: "enrolment_info_features \<Rightarrow> validation_error option" where
  "EnrolmentInfoFeatures_ContextValidate m = composite [sub_check ''features.hardware'' HardwareInfo_ContextValidate (ef_Hardware m)]"

definition EnrolmentInfo_Validate :: "formats \<Rightarrow> enrolment_info \<Rightarrow> validation_error option" where
  "EnrolmentInfo_Validate fmt m = composite [sub_check ''features'' (EnrolmentInfoFeatures_Validate fmt) (en_Features m)]"

definition EnrolmentInfo_ContextValidate :: "enrolment_info \<Rightarrow> validation_error option" where
  "EnrolmentInfo_ContextValidate m = composite [sub_check ''features'' EnrolmentInfoFeatures_ContextValidate (en_Features m)]"

definition RegistrationInfo_Validate :: "formats \<Rightarrow> registration_info \<Rightarrow> validation_error option" where
  "RegistrationInfo_Validate fmt m = composite [sub_check ''hardware'' (HardwareInfo_Validate fmt) (ri_Hardware m)]"

definition RegistrationInfo_ContextValidate :: "registration_info \<Rightarrow> validation_error option" where
  "RegistrationInfo_ContextValidate m = composite [sub_check ''hardware'' HardwareInfo_ContextValidate (ri_Hardware m)]"

definition PlaybookExecution_Validate :: "formats \<Rightarrow> m_playbook_execution \<Rightarrow> validation_error option" where
  "PlaybookExecution_Validate fmt m = composite [format_check fmt ''last_data_upload'' (mpe_LastDataUpload m)]"

definition PlaybookExecutionsResponse_Validate :: "formats \<Rightarrow> m_playbook_execution option list \<Rightarrow> validation_error option" where
  "PlaybookExecutionsResponse_Validate fmt m = list_check [] (PlaybookExecution_Validate fmt) 0 m"

section \<open>When a check finds nothing\<close>

named_theorems finds_nothing \<open>when the result of a check is None\<close>

lemma composite_None [finds_nothing]: "composite rs = None \<longleftrightarrow> (\<forall>r \<in> set rs. r = None)"
proof -
  have "concat (map (\<lambda>r. case r of None \<Rightarrow> [] | Some e \<Rightarrow> [e]) rs) = [] \<longleftrightarrow> (\<forall>r \<in> set rs. r = None)"
    by (induction rs) (auto split: option.splits)
  then show ?thesis unfolding composite_def
    by (cases "concat (map (\<lambda>r. case r of None \<Rightarrow> [] | Some e \<Rightarrow> [e]) rs)") (simp_all del: concat_eq_Nil_conv)
qed

lemma no_constraints_None [finds_nothing, simp]: "no_constraints x = None"
  by (simp add: no_constraints_def)

lemma enum_check_None [finds_nothing]: "enum_check p allowed v = None \<longleftrightarrow> v = [] \<or> v \<in> set allowed"
  by (simp add: enum_check_def)

lemma format_check_None [finds_nothing]: "format_check fmt p t = None \<longleftrightarrow> t = zero_time \<or> fmt t"
  by (simp add: format_check_def)

lemma named_check_None [finds_nothing]: "named_check name check x = None \<longleftrightarrow> check x = None"
  by (simp add: named_check_def)

lemma sub_check_None [finds_nothing]: "sub_check name check p = None \<longleftrightarrow> (\<forall>x. p = Some x \<longrightarrow> check x = None)"
  by (auto simp: sub_check_def named_check_None split: option.split)

lemma list_check_None [finds_nothing]: "list_check name check i ps = None \<longleftrightarrow> (\<forall>x. Some x \<in> set ps \<longrightarrow> check x = None)"
proof (induction ps arbitrary: i)
  case (Cons p ps)
  show ?case
    by (cases "sub_check (entry_name name i) check p"; insert sub_check_None [of "entry_name name i" check p])
      (auto simp: Cons.IH)
qed simp

lemma hardware_unconstrained [finds_nothing, simp]: "HardwareInfo_Validate fmt m = None" "HardwareInfo_ContextValidate m = None"
  by (simp_all add: HardwareInfo_Validate_def HardwareInfo_ContextValidate_def finds_nothing
      HardwareInfo_validateBoot_def HardwareInfo_validateConnectedWirelessDevices_def HardwareInfo_validateCPU_def
      HardwareInfo_validateDisks_def HardwareInfo_validateGpus_def HardwareInfo_validateHostDevices_def
      HardwareInfo_validateInterfaces_def HardwareInfo_validateMemory_def HardwareInfo_validateMounts_def
      HardwareInfo_validateSystemVendor_def HardwareInfo_contextValidateBoot_def
      HardwareInfo_contextValidateConnectedWirelessDevices_def HardwareInfo_contextValidateCPU_def
      HardwareInfo_contextValidateDisks_def HardwareInfo_contextValidateGpus_def HardwareInfo_contextValidateHostDevices_def
      HardwareInfo_contextValidateInterfaces_def HardwareInfo_contextValidateMemory_def HardwareInfo_contextValidateMounts_def
      HardwareInfo_contextValidateSystemVendor_def ConnectedWirelessDevices_Validate_def ConnectedWirelessDevices_ContextValidate_def
      WirelessDeviceInfo_Validate_def WirelessDeviceInfo_ContextValidate_def Disk_Validate_def Disk_ContextValidate_def)

lemma context_accepts [simp]:
  "Heartbeat_ContextValidate hb = None" "EnrolmentInfo_ContextValidate en = None" "RegistrationInfo_ContextValidate ri = None"
  by (simp_all add: Heartbeat_ContextValidate_def Heartbeat_contextValidateEvents_def Heartbeat_contextValidateHardware_def
      Heartbeat_contextValidatePlaybookExecutions_def Heartbeat_contextValidateUpgrade_def Heartbeat_contextValidateWorkloads_def
      EnrolmentInfo_ContextValidate_def EnrolmentInfoFeatures_ContextValidate_def RegistrationInfo_ContextValidate_def finds_nothing)

lemma enrolment_unconstrained [simp]: "EnrolmentInfo_Validate fmt m = None" "RegistrationInfo_Validate fmt r = None"
  by (simp_all add: EnrolmentInfo_Validate_def EnrolmentInfoFeatures_Validate_def RegistrationInfo_Validate_def finds_nothing)

section \<open>What a check reports\<close>

text \<open>The single errors in the result of a check.\<close>

fun leaves :: "validation_error \<Rightarrow> (nat \<times> string) list" where
  "leaves (Invalid code n) = [(code, n)]"
| "leaves (CompositeError es) = concat (map leaves es)"

definition found_errors :: "validation_error option \<Rightarrow> (nat \<times> string) set" where
  "found_errors r = (case r of None \<Rightarrow> {} | Some e \<Rightarrow> set (leaves e))"

lemma leaves_ValidateName: "leaves (ValidateName name e) = map (apsnd (qualify name)) (leaves e)"
  by (induction name e rule: ValidateName.induct) (simp_all add: map_concat comp_def cong: map_cong)

lemma reported_simps [simp]: "found_errors None = {}" "found_errors (Some e) = set (leaves e)"
  by (simp_all add: found_errors_def)

lemma reported_composite: "found_errors (composite rs) = (\<Union>r \<in> set rs. found_errors r)"
proof -
  have "set (concat (map leaves (concat (map (\<lambda>r. case r of None \<Rightarrow> [] | Some e \<Rightarrow> [e]) rs)))) = (\<Union>r \<in> set rs. found_errors r)"
  proof (induction rs)
    case (Cons r rs)
    then show ?case by (cases r) simp_all
  qed simp
  then show ?thesis unfolding composite_def
    by (cases "concat (map (\<lambda>r. case r of None \<Rightarrow> [] | Some e \<Rightarrow> [e]) rs)") (simp_all del: concat_eq_Nil_conv set_concat)
qed

lemma reported_enum: "found_errors (enum_check p allowed v) = (if v = [] \<or> v \<in> set allowed then {} else {(EnumFailCode, p)})"
  by (simp add: enum_check_def)

lemma reported_format: "found_errors (format_check fmt p t) = (if t = zero_time \<or> fmt t then {} else {(InvalidTypeCode, p)})"
  by (simp add: format_check_def)

lemma reported_named: "found_errors (named_check name check x) = apsnd (qualify name) ` found_errors (check x)"
  by (cases "check x") (simp_all add: named_check_def leaves_ValidateName)

lemma reported_sub: "found_errors (sub_check name check p) = (case p of None \<Rightarrow> {} | Some x \<Rightarrow> apsnd (qualify name) ` found_errors (check x))"
  by (simp add: sub_check_def reported_named split: option.split)

text \<open>A list reports the errors of one entry, under the index of that entry.\<close>

lemma reported_list:
  assumes "(code, path) \<in> found_errors (list_check name check i ps)"
  shows "\<exists>j x n. j < length ps \<and> ps ! j = Some x \<and> (code, n) \<in> found_errors (check x) \<and> path = qualify (entry_name name (i + j)) n"
  using assms
proof (induction ps arbitrary: i)
  case (Cons p ps)
  show ?case
  proof (cases "sub_check (entry_name name i) check p")
    case None
    with Cons.prems Cons.IH [of "Suc i"] obtain j x n where "j < length ps" "ps ! j = Some x" "(code, n) \<in> found_errors (check x)"
      "path = qualify (entry_name name (Suc i + j)) n" by auto
    then show ?thesis by (intro exI [of _ "Suc j"] exI [of _ x] exI [of _ n]) simp
  next
    case (Some e)
    with Cons.prems have "(code, path) \<in> found_errors (sub_check (entry_name name i) check p)" by simp
    then obtain x n where "p = Some x" "(code, n) \<in> found_errors (check x)" "path = qualify (entry_name name i) n"
      by (auto simp: reported_sub split: option.splits)
    then show ?thesis by (intro exI [of _ 0] exI [of _ x] exI [of _ n]) simp
  qed
qed simp

text \<open>A check that fails names at least one error.\<close>

definition solid :: "validation_error option \<Rightarrow> bool" where
  "solid r \<longleftrightarrow> (found_errors r = {} \<longleftrightarrow> r = None)"

named_theorems solid_checks \<open>checks that name an error when they fail\<close>

lemma solid_None: "solid None"
  by (simp add: solid_def)

lemma solid_composite [solid_checks]: "\<forall>r \<in> set rs. solid r \<Longrightarrow> solid (composite rs)"
  by (auto simp: solid_def reported_composite composite_None)

lemma solid_leaf [solid_checks]: "solid (enum_check p allowed v)" "solid (format_check fmt p t)"
  by (simp_all add: solid_def enum_check_def format_check_def)

lemma solid_named [solid_checks]: "solid (check x) \<Longrightarrow> solid (named_check name check x)"
  by (simp add: solid_def reported_named named_check_None)

lemma solid_sub [solid_checks]: "(\<And>x. solid (check x)) \<Longrightarrow> solid (sub_check name check p)"
  by (cases p) (simp_all add: solid_def reported_sub sub_check_def [of _ _ None] sub_check_None)

lemma solid_list [solid_checks]:
  assumes "\<And>x. solid (check x)"
  shows "solid (list_check name check i ps)"
proof (induction ps arbitrary: i)
  case (Cons p ps)
  then show ?case using solid_sub [of check "entry_name name i" p, OF assms]
    by (cases "sub_check (entry_name name i) check p") (simp_all add: solid_def)
qed (simp add: solid_def)

section \<open>Faults of a heartbeat\<close>

text \<open>The violations of the interface: a code and the path of a field of the message.\<close>

definition violates :: "string list \<Rightarrow> string \<Rightarrow> bool" where
  "violates allowed v \<longleftrightarrow> v \<noteq> [] \<and> v \<notin> set allowed"

definition entry_path :: "string \<Rightarrow> nat \<Rightarrow> string \<Rightarrow> string" where
  "entry_path field_name i inner = field_name @ ''.'' @ print_int (int i) @ ''.'' @ inner"

inductive heartbeat_fault :: "formats \<Rightarrow> heartbeat \<Rightarrow> nat \<Rightarrow> string \<Rightarrow> bool" for fmt hb where
  event: "i < length (hb_Events hb) \<Longrightarrow> hb_Events hb ! i = Some e \<Longrightarrow> violates eventTypeEnum (ei_Type e) \<Longrightarrow>
    heartbeat_fault fmt hb EnumFailCode (entry_path ''events'' i ''type'')"
| playbook_time: "i < length (hb_PlaybookExecutions hb) \<Longrightarrow> hb_PlaybookExecutions hb ! i = Some p \<Longrightarrow>
    ps_LastDataUpload p \<noteq> zero_time \<Longrightarrow> \<not> fmt (ps_LastDataUpload p) \<Longrightarrow>
    heartbeat_fault fmt hb InvalidTypeCode (entry_path ''playbook-executions'' i ''last_data_upload'')"
| playbook_status: "i < length (hb_PlaybookExecutions hb) \<Longrightarrow> hb_PlaybookExecutions hb ! i = Some p \<Longrightarrow>
    violates playbookStatusEnum (ps_Status p) \<Longrightarrow>
    heartbeat_fault fmt hb EnumFailCode (entry_path ''playbook-executions'' i ''status'')"
| status: "violates heartbeatStatusEnum (hb_Status hb) \<Longrightarrow> heartbeat_fault fmt hb EnumFailCode ''status''"
| upgrade: "hb_Upgrade hb = Some u \<Longrightarrow> violates upgradeStatusEnum (ui_LastUpgradeStatus u) \<Longrightarrow>
    heartbeat_fault fmt hb EnumFailCode ''upgrade.last_upgrade_status''"
| workload_time: "i < length (hb_Workloads hb) \<Longrightarrow> hb_Workloads hb ! i = Some w \<Longrightarrow>
    wst_LastDataUpload w \<noteq> zero_time \<Longrightarrow> \<not> fmt (wst_LastDataUpload w) \<Longrightarrow>
    heartbeat_fault fmt hb InvalidTypeCode (entry_path ''workloads'' i ''last_data_upload'')"
| workload_status: "i < length (hb_Workloads hb) \<Longrightarrow> hb_Workloads hb ! i = Some w \<Longrightarrow>
    violates workloadStatusEnum (wst_Status w) \<Longrightarrow>
    heartbeat_fault fmt hb EnumFailCode (entry_path ''workloads'' i ''status'')"

lemma qualify_entry: "name \<noteq> [] \<Longrightarrow> n \<noteq> [] \<Longrightarrow> qualify (entry_name name i) n = entry_path name i n"
  by (simp add: qualify_def entry_name_def entry_path_def)

lemmas heartbeat_checks = Heartbeat_Validate_def Heartbeat_validateEvents_def Heartbeat_validateHardware_def
  Heartbeat_validatePlaybookExecutions_def Heartbeat_validateStatus_def Heartbeat_validateUpgrade_def
  Heartbeat_validateWorkloads_def

lemmas entry_checks = EventInfo_Validate_def PlaybookExecutionStatus_Validate_def WorkloadStatus_Validate_def
  UpgradeStatus_Validate_def

lemma reported_fault:
  assumes "(code, path) \<in> found_errors (Heartbeat_Validate fmt hb)"
  shows "heartbeat_fault fmt hb code path"
proof -
  from assms consider "(code, path) \<in> found_errors (Heartbeat_validateEvents fmt hb)"
    | "(code, path) \<in> found_errors (Heartbeat_validatePlaybookExecutions fmt hb)"
    | "(code, path) \<in> found_errors (Heartbeat_validateStatus fmt hb)"
    | "(code, path) \<in> found_errors (Heartbeat_validateUpgrade fmt hb)"
    | "(code, path) \<in> found_errors (Heartbeat_validateWorkloads fmt hb)"
    by (auto simp: Heartbeat_Validate_def reported_composite Heartbeat_validateHardware_def reported_sub split: option.splits)
  then show ?thesis
  proof cases
    case 1
    from reported_list [OF this [unfolded Heartbeat_validateEvents_def]] show ?thesis
      by (auto simp: EventInfo_Validate_def reported_composite reported_enum qualify_entry violates_def
          split: if_splits intro!: heartbeat_fault.event)
  next
    case 2
    from reported_list [OF this [unfolded Heartbeat_validatePlaybookExecutions_def]]
    obtain j p n where at: "j < length (hb_PlaybookExecutions hb)" "hb_PlaybookExecutions hb ! j = Some p"
      and n: "(code, n) \<in> found_errors (PlaybookExecutionStatus_Validate fmt p)" "path = qualify (entry_name ''playbook-executions'' j) n"
      by auto
    from n consider "code = InvalidTypeCode" "n = ''last_data_upload''" "ps_LastDataUpload p \<noteq> zero_time" "\<not> fmt (ps_LastDataUpload p)"
      | "code = EnumFailCode" "n = ''status''" "violates playbookStatusEnum (ps_Status p)"
      by (auto simp: PlaybookExecutionStatus_Validate_def reported_composite reported_enum reported_format violates_def split: if_splits)
    then show ?thesis using heartbeat_fault.playbook_time [OF at] heartbeat_fault.playbook_status [OF at] n(2)
      by cases (simp_all add: qualify_entry)
  next
    case 3
    then show ?thesis
      by (auto simp: Heartbeat_validateStatus_def reported_enum violates_def split: if_splits intro: heartbeat_fault.status)
  next
    case 4
    then show ?thesis
      by (auto simp: Heartbeat_validateUpgrade_def UpgradeStatus_Validate_def reported_sub reported_composite reported_enum
          qualify_def violates_def split: if_splits option.splits intro: heartbeat_fault.upgrade)
  next
    case 5
    from reported_list [OF this [unfolded Heartbeat_validateWorkloads_def]]
    obtain j w n where at: "j < length (hb_Workloads hb)" "hb_Workloads hb ! j = Some w"
      and n: "(code, n) \<in> found_errors (WorkloadStatus_Validate fmt w)" "path = qualify (entry_name ''workloads'' j) n"
      by auto
    from n consider "code = InvalidTypeCode" "n = ''last_data_upload''" "wst_LastDataUpload w \<noteq> zero_time" "\<not> fmt (wst_LastDataUpload w)"
      | "code = EnumFailCode" "n = ''status''" "violates workloadStatusEnum (wst_Status w)"
      by (auto simp: WorkloadStatus_Validate_def reported_composite reported_enum reported_format violates_def split: if_splits)
    then show ?thesis using heartbeat_fault.workload_time [OF at] heartbeat_fault.workload_status [OF at] n(2)
      by cases (simp_all add: qualify_entry)
  qed
qed

lemma faultless_valid:
  assumes no: "\<And>code path. \<not> heartbeat_fault fmt hb code path"
  shows "Heartbeat_Validate fmt hb = None"
proof -
  have ev: "ei_Type e = [] \<or> ei_Type e \<in> set eventTypeEnum" if "Some e \<in> set (hb_Events hb)" for e
  proof -
    from that obtain i where "i < length (hb_Events hb)" "hb_Events hb ! i = Some e" unfolding in_set_conv_nth by blast
    from heartbeat_fault.event [OF this, of fmt] no show ?thesis by (auto simp: violates_def)
  qed
  have pl: "(ps_LastDataUpload p = zero_time \<or> fmt (ps_LastDataUpload p)) \<and> (ps_Status p = [] \<or> ps_Status p \<in> set playbookStatusEnum)"
    if "Some p \<in> set (hb_PlaybookExecutions hb)" for p
  proof -
    from that obtain i where "i < length (hb_PlaybookExecutions hb)" "hb_PlaybookExecutions hb ! i = Some p"
      unfolding in_set_conv_nth by blast
    from heartbeat_fault.playbook_time [OF this, of fmt] heartbeat_fault.playbook_status [OF this, of fmt] no
    show ?thesis by (auto simp: violates_def)
  qed
  have wl: "(wst_LastDataUpload w = zero_time \<or> fmt (wst_LastDataUpload w)) \<and> (wst_Status w = [] \<or> wst_Status w \<in> set workloadStatusEnum)"
    if "Some w \<in> set (hb_Workloads hb)" for w
  proof -
    from that obtain i where "i < length (hb_Workloads hb)" "hb_Workloads hb ! i = Some w" unfolding in_set_conv_nth by blast
    from heartbeat_fault.workload_time [OF this, of fmt] heartbeat_fault.workload_status [OF this, of fmt] no
    show ?thesis by (auto simp: violates_def)
  qed
  have "hb_Status hb = [] \<or> hb_Status hb \<in> set heartbeatStatusEnum"
    using no heartbeat_fault.status [of hb fmt] by (auto simp: violates_def)
  moreover have "ui_LastUpgradeStatus u = [] \<or> ui_LastUpgradeStatus u \<in> set upgradeStatusEnum" if "hb_Upgrade hb = Some u" for u
    using that no heartbeat_fault.upgrade [of hb u fmt] by (auto simp: violates_def)
  ultimately show ?thesis using ev pl wl by (simp add: heartbeat_checks entry_checks finds_nothing)
qed

lemma valid_faultless:
  assumes "Heartbeat_Validate fmt hb = None"
  shows "\<not> heartbeat_fault fmt hb code path"
proof
  assume "heartbeat_fault fmt hb code path"
  then show False using assms
    by cases (auto simp: heartbeat_checks entry_checks finds_nothing violates_def dest!: nth_mem)
qed

lemma solid_heartbeat: "solid (Heartbeat_Validate fmt hb)"
  unfolding heartbeat_checks by (intro solid_checks ballI) (auto simp: entry_checks solid_None intro!: solid_checks)

text \<open>The first error that an invalid heartbeat is answered with.\<close>

lemma heartbeat_leaves:
  assumes "Heartbeat_Validate fmt hb = Some e"
  obtains code path rest where "leaves e = (code, path) # rest" "code \<in> {InvalidTypeCode, EnumFailCode}"
proof -
  from solid_heartbeat [of fmt hb] assms have "leaves e \<noteq> []" by (simp add: solid_def)
  then obtain code path rest where l: "leaves e = (code, path) # rest" by (cases "leaves e") auto
  with assms have "(code, path) \<in> found_errors (Heartbeat_Validate fmt hb)" by simp
  then have "heartbeat_fault fmt hb code path" by (rule reported_fault)
  then have "code \<in> {InvalidTypeCode, EnumFailCode}" by cases auto
  with l show thesis by (rule that)
qed

text \<open>
  Property C25: the validation of a heartbeat is exact and names what is wrong. It succeeds exactly when no field of the message
  violates the interface, and each error it reports has the code of a violation and the path of the field that
  commits it, with the index of the entry for lists. The hardware has no constraints.
\<close>

theorem heartbeat_validation_exact:
  "(Heartbeat_Validate fmt hb = None \<longleftrightarrow> (\<nexists>code path. heartbeat_fault fmt hb code path)) \<and>
   (\<forall>(code, path) \<in> found_errors (Heartbeat_Validate fmt hb). heartbeat_fault fmt hb code path)"
  using faultless_valid [of fmt hb] valid_faultless [of fmt hb] reported_fault [of _ _ fmt hb] by blast

section \<open>A concrete heartbeat\<close>

definition odd_heartbeat :: heartbeat where
  "odd_heartbeat = \<lparr>hb_Events = [Some \<lparr>ei_Message = [], ei_Reason = [], ei_Type = ''info''\<rparr>,
       Some \<lparr>ei_Message = [], ei_Reason = [], ei_Type = ''fatal''\<rparr>], hb_Hardware = None,
     hb_PlaybookExecutions = [], hb_Status = ''up'', hb_Upgrade = None, hb_Version = ''7'', hb_Workloads = []\<rparr>"

theorem heartbeat_validation_exact_witness:
  "found_errors (Heartbeat_Validate (\<lambda>_. True) odd_heartbeat) = {(606, ''events.1.type'')} \<and>
   heartbeat_fault (\<lambda>_. True) odd_heartbeat 606 ''events.1.type''"
proof -
  have r: "found_errors (Heartbeat_Validate (\<lambda>_. True) odd_heartbeat) = {(606, ''events.1.type'')}" by code_simp
  with heartbeat_validation_exact [of "\<lambda>_. True" odd_heartbeat] show ?thesis by simp
qed

end
