(* ===== verification/Rest_Api.thy ===== *)
theory Rest_Api
  imports Yggdrasil Validation
begin

text \<open>
  The generated server of the device API (\<open>src/restapi\<close>): the operations of its interface document
  (\<open>embedded_spec.go\<close>), the table of handlers (\<open>operations/flotta_management_api.go\<close>), and per operation the
  binding of the request to parameters (\<open>BindRequest\<close>) and \<open>ServeHTTP\<close>, which runs the handler or answers with the
  error that binding found.

  The router and the negotiation of content types belong to the package \<open>go-openapi/runtime\<close>. A request is what the router
  made of it: the operation it matched, the parameters in its path, its body, and in \<open>rq_Refused\<close> the code and name
  of the error when negotiation failed. \<open>ServeError\<close> of \<open>go-openapi/errors\<close> answers with the first single error.
\<close>

section \<open>The interface document\<close>

record api_operation =
  op_Method :: string
  op_Path :: string
  op_Id :: string
  op_PathParams :: "string list"
  op_Body :: "string option"
  op_Responses :: "nat list"

definition spec_get_control :: api_operation where
  "spec_get_control = \<lparr>op_Method = ''get'', op_Path = ''/control/{device_id}/in'', op_Id = ''GetControlMessageForDevice'',
     op_PathParams = [''device_id''], op_Body = None, op_Responses = [200, 401, 403, 404, 500]\<rparr>"

definition spec_post_control :: api_operation where
  "spec_post_control = \<lparr>op_Method = ''post'', op_Path = ''/control/{device_id}/out'', op_Id = ''PostControlMessageForDevice'',
     op_PathParams = [''device_id''], op_Body = Some ''message'', op_Responses = [200, 401, 403, 404, 500]\<rparr>"

definition spec_get_data :: api_operation where
  "spec_get_data = \<lparr>op_Method = ''get'', op_Path = ''/data/{device_id}/in'', op_Id = ''GetDataMessageForDevice'',
     op_PathParams = [''device_id''], op_Body = None, op_Responses = [200, 401, 403, 404, 500]\<rparr>"

definition spec_post_data :: api_operation where
  "spec_post_data = \<lparr>op_Method = ''post'', op_Path = ''/data/{device_id}/out'', op_Id = ''PostDataMessageForDevice'',
     op_PathParams = [''device_id''], op_Body = Some ''message'', op_Responses = [200, 208, 400, 401, 403, 404, 500]\<rparr>"

definition spec_paths :: "api_operation list" where
  "spec_paths = [spec_get_control, spec_post_control, spec_get_data, spec_post_data]"

section \<open>The handlers\<close>

datatype operation_handler =
    GetControlMessageForDeviceHandler
  | GetDataMessageForDeviceHandler
  | PostControlMessageForDeviceHandler
  | PostDataMessageForDeviceHandler

definition initHandlerCache :: "((string \<times> string) \<times> operation_handler) list" where
  "initHandlerCache =
     [((''GET'', ''/control/{device_id}/in''), GetControlMessageForDeviceHandler),
      ((''GET'', ''/data/{device_id}/in''), GetDataMessageForDeviceHandler),
      ((''POST'', ''/control/{device_id}/out''), PostControlMessageForDeviceHandler),
      ((''POST'', ''/data/{device_id}/out''), PostDataMessageForDeviceHandler)]"

text \<open>The methods of the document are ASCII words.\<close>

definition upper_ascii :: "char \<Rightarrow> char" where
  "upper_ascii c = (if 97 \<le> (of_char c :: nat) \<and> (of_char c :: nat) \<le> 122 then char_of (of_char c - 32 :: nat) else c)"

definition HandlerFor :: "string \<Rightarrow> string \<Rightarrow> operation_handler option" where
  "HandlerFor method path =
     map_of initHandlerCache (map upper_ascii method, if path = ''/'' then [] else path)"

text \<open>\<open>Validate\<close> of the API: what has not been registered.\<close>

record api_registrations =
  reg_JSONConsumer :: bool
  reg_JSONProducer :: bool
  reg_handlers :: "operation_handler \<Rightarrow> bool"

definition API_Validate :: "api_registrations \<Rightarrow> error option" where
  "API_Validate o' = (let unregistered =
       (if reg_JSONConsumer o' then [] else [''JSONConsumer'']) @
       (if reg_JSONProducer o' then [] else [''JSONProducer'']) @
       (if reg_handlers o' GetControlMessageForDeviceHandler then [] else [''yggdrasil.GetControlMessageForDeviceHandler'']) @
       (if reg_handlers o' GetDataMessageForDeviceHandler then [] else [''yggdrasil.GetDataMessageForDeviceHandler'']) @
       (if reg_handlers o' PostControlMessageForDeviceHandler then [] else [''yggdrasil.PostControlMessageForDeviceHandler'']) @
       (if reg_handlers o' PostDataMessageForDeviceHandler then [] else [''yggdrasil.PostDataMessageForDeviceHandler''])
     in if unregistered = [] then None else Some (PlainError (''missing registration: '' @ Join unregistered '', '')))"

section \<open>Binding\<close>

text \<open>A body is absent, blank, not of the expected form, or decoded.\<close>

datatype 'a request_body = Absent | Blank | Malformed | Json 'a

datatype bind_error = ParseError string | ValidationError validation_error

definition Required :: "string \<Rightarrow> bind_error" where
  "Required name = ValidationError (Invalid RequiredFailCode name)"

definition RouteParams_GetOK :: "(string \<times> string) list \<Rightarrow> string \<Rightarrow> string list" where
  "RouteParams_GetOK params name = (case map_of params name of None \<Rightarrow> [] | Some v \<Rightarrow> [v])"

text \<open>\<open>bindDeviceID\<close> and \<open>bindNamespace\<close>: the last value, without a check.\<close>

definition bind_path :: "string list \<Rightarrow> string" where
  "bind_path rawData = (if rawData = [] then [] else last rawData)"

definition bind_body :: "string \<Rightarrow> ('a \<Rightarrow> validation_error option) \<Rightarrow> ('a \<Rightarrow> validation_error option) \<Rightarrow> 'a request_body \<Rightarrow>
    bind_error list + 'a" where
  "bind_body name validate contextValidate body = (case body of
      Absent \<Rightarrow> Inl [Required name]
    | Blank \<Rightarrow> Inl [Required name]
    | Malformed \<Rightarrow> Inl [ParseError name]
    | Json x \<Rightarrow> (case (case validate x of None \<Rightarrow> [] | Some e \<Rightarrow> [ValidationError e]) @
          (case contextValidate x of None \<Rightarrow> [] | Some e \<Rightarrow> [ValidationError e]) of
        [] \<Rightarrow> Inr x
      | res \<Rightarrow> Inl res))"

subsection \<open>Errors as answers\<close>

definition DefaultHTTPCode :: nat where "DefaultHTTPCode = 422"

definition asHTTPCode :: "nat \<Rightarrow> nat" where
  "asHTTPCode input = (if 600 \<le> input then DefaultHTTPCode else input)"

fun flattenComposite :: "bind_error list \<Rightarrow> (nat \<times> string) list" where
  "flattenComposite [] = []"
| "flattenComposite (ParseError name # es) = (400, name) # flattenComposite es"
| "flattenComposite (ValidationError e # es) = leaves e @ flattenComposite es"

text \<open>\<open>ServeError\<close> picks the error to answer with.\<close>

definition ServeError :: "bind_error list \<Rightarrow> nat \<times> string" where
  "ServeError res = (case flattenComposite res of
      [] \<Rightarrow> (InternalServerError, ''Unknown error'')
    | first # _ \<Rightarrow> first)"

definition error_answer :: "nat \<times> string \<Rightarrow> responder" where
  "error_answer e = \<lparr>rp_Code = asHTTPCode (fst e), rp_Payload = ErrorPayload (fst e) (snd e)\<rparr>"

section \<open>Messages\<close>

definition messageTypeEnum :: "string list" where
  "messageTypeEnum = [''connection-status'', ''command'', ''event'', ''data'']"

definition Message_validateSent :: "formats \<Rightarrow> 'c message \<Rightarrow> validation_error option" where
  "Message_validateSent fmt m = format_check fmt ''sent'' (msg_Sent m)"

definition Message_validateType :: "formats \<Rightarrow> 'c message \<Rightarrow> validation_error option" where
  "Message_validateType fmt m = enum_check ''type'' messageTypeEnum (msg_Type m)"

definition Message_Validate :: "formats \<Rightarrow> 'c message \<Rightarrow> validation_error option" where
  "Message_Validate fmt m = composite [Message_validateSent fmt m, Message_validateType fmt m]"

definition Message_ContextValidate :: "'c message \<Rightarrow> validation_error option" where
  "Message_ContextValidate m = no_constraints m"

section \<open>The operations\<close>

text \<open>A request whose body holds values of type \<open>'b\<close>.\<close>

record 'b http_request =
  rq_Params :: "(string \<times> string) list"
  rq_Body :: "'b request_body"
  rq_Refused :: "(nat \<times> string) option"

type_synonym message_request = "json message http_request"

record device_params =
  dp_DeviceID :: string

record message_params = device_params +
  mp_Message :: "json message option"

definition GetControlMessageForDevice_BindRequest :: "message_request \<Rightarrow> bind_error list + device_params" where
  "GetControlMessageForDevice_BindRequest r = Inr \<lparr>dp_DeviceID = bind_path (RouteParams_GetOK (rq_Params r) ''device_id'')\<rparr>"

definition GetDataMessageForDevice_BindRequest :: "message_request \<Rightarrow> bind_error list + device_params" where
  "GetDataMessageForDevice_BindRequest r = Inr \<lparr>dp_DeviceID = bind_path (RouteParams_GetOK (rq_Params r) ''device_id'')\<rparr>"

definition PostControlMessageForDevice_BindRequest :: "formats \<Rightarrow> message_request \<Rightarrow> bind_error list + message_params" where
  "PostControlMessageForDevice_BindRequest fmt r =
     (case bind_body ''message'' (Message_Validate fmt) Message_ContextValidate (rq_Body r) of
         Inl res \<Rightarrow> Inl res
       | Inr body \<Rightarrow> Inr \<lparr>dp_DeviceID = bind_path (RouteParams_GetOK (rq_Params r) ''device_id''), mp_Message = Some body\<rparr>)"

definition PostDataMessageForDevice_BindRequest :: "formats \<Rightarrow> message_request \<Rightarrow> bind_error list + message_params" where
  "PostDataMessageForDevice_BindRequest fmt r =
     (case bind_body ''message'' (Message_Validate fmt) Message_ContextValidate (rq_Body r) of
         Inl res \<Rightarrow> Inl res
       | Inr body \<Rightarrow> Inr \<lparr>dp_DeviceID = bind_path (RouteParams_GetOK (rq_Params r) ''device_id''), mp_Message = Some body\<rparr>)"

text \<open>\<open>BindValidRequest\<close>: binding happens when negotiation succeeded; an error of either is the answer.\<close>

definition BindValidRequest :: "'b http_request \<Rightarrow> (bind_error list + 'p) \<Rightarrow> (nat \<times> string) + 'p" where
  "BindValidRequest r bound = (case rq_Refused r of
      Some e \<Rightarrow> Inl e
    | None \<Rightarrow> (case bound of Inl res \<Rightarrow> Inl (ServeError res) | Inr params \<Rightarrow> Inr params))"

definition GetControlMessageForDevice_ServeHTTP :: "formats \<Rightarrow> handler \<Rightarrow> auth_context \<Rightarrow> message_request \<Rightarrow> responder io" where
  "GetControlMessageForDevice_ServeHTTP fmt h ctx r = (case BindValidRequest r (GetControlMessageForDevice_BindRequest r) of
      Inl e \<Rightarrow> Ret (error_answer e)
    | Inr params \<Rightarrow> GetControlMessageForDevice h ctx (dp_DeviceID params))"

definition GetDataMessageForDevice_ServeHTTP :: "formats \<Rightarrow> handler \<Rightarrow> auth_context \<Rightarrow> message_request \<Rightarrow> responder io" where
  "GetDataMessageForDevice_ServeHTTP fmt h ctx r = (case BindValidRequest r (GetDataMessageForDevice_BindRequest r) of
      Inl e \<Rightarrow> Ret (error_answer e)
    | Inr params \<Rightarrow> GetDataMessageForDevice h ctx (dp_DeviceID params))"

definition PostControlMessageForDevice_ServeHTTP :: "formats \<Rightarrow> handler \<Rightarrow> auth_context \<Rightarrow> message_request \<Rightarrow> responder io" where
  "PostControlMessageForDevice_ServeHTTP fmt h ctx r = (case BindValidRequest r (PostControlMessageForDevice_BindRequest fmt r) of
      Inl e \<Rightarrow> Ret (error_answer e)
    | Inr params \<Rightarrow> PostControlMessageForDevice h ctx (dp_DeviceID params))"

text \<open>The handler for data reads the message through its pointer.\<close>

definition PostDataMessageForDevice_ServeHTTP :: "formats \<Rightarrow> handler \<Rightarrow> auth_context \<Rightarrow> message_request \<Rightarrow> responder io" where
  "PostDataMessageForDevice_ServeHTTP fmt h ctx r = (case BindValidRequest r (PostDataMessageForDevice_BindRequest fmt r) of
      Inl e \<Rightarrow> Ret (error_answer e)
    | Inr params \<Rightarrow> bindp (deref (mp_Message params)) (\<lambda>msg. PostDataMessageForDevice h ctx (dp_DeviceID params) msg))"

fun ServeHTTP :: "operation_handler \<Rightarrow> formats \<Rightarrow> handler \<Rightarrow> auth_context \<Rightarrow> message_request \<Rightarrow> responder io" where
  "ServeHTTP GetControlMessageForDeviceHandler = GetControlMessageForDevice_ServeHTTP"
| "ServeHTTP GetDataMessageForDeviceHandler = GetDataMessageForDevice_ServeHTTP"
| "ServeHTTP PostControlMessageForDeviceHandler = PostControlMessageForDevice_ServeHTTP"
| "ServeHTTP PostDataMessageForDeviceHandler = PostDataMessageForDevice_ServeHTTP"

text \<open>
  \<open>HandlerAPI\<close>: the router calls the middleware of \<open>main.go\<close> around the handler registered for the operation that the
  request matched. An operation without a handler has no route; the router answers 404.
\<close>

definition HandlerAPI :: "formats \<Rightarrow> handler \<Rightarrow> certificate list \<Rightarrow> (certificate \<Rightarrow> error option) \<Rightarrow>
    certificate list option \<Rightarrow> api_operation \<Rightarrow> message_request \<Rightarrow> responder io" where
  "HandlerAPI fmt h chain verify tls operation r = (case HandlerFor (op_Method operation) (op_Path operation) of
      None \<Rightarrow> Ret (error_answer (NotFoundCode, []))
    | Some handler \<Rightarrow> InnerMiddleware h chain verify tls (Route (Some (op_Id operation)))
        (\<lambda>ctx. ServeHTTP handler fmt h ctx r))"

section \<open>Requests as calls\<close>

text \<open>What the interface requires of a message.\<close>

definition message_ok :: "formats \<Rightarrow> 'c message \<Rightarrow> bool" where
  "message_ok fmt m \<longleftrightarrow> (msg_Sent m = zero_time \<or> fmt (msg_Sent m)) \<and>
     msg_Type m \<in> {[], ''connection-status'', ''command'', ''event'', ''data''}"

text \<open>The call a request stands for, when it stands for one.\<close>

definition device_param :: "message_request \<Rightarrow> string" where
  "device_param r = (case map_of (rq_Params r) ''device_id'' of None \<Rightarrow> [] | Some v \<Rightarrow> v)"

definition good_body :: "formats \<Rightarrow> message_request \<Rightarrow> json message option" where
  "good_body fmt r = (case rq_Body r of Json m \<Rightarrow> if message_ok fmt m then Some m else None | _ \<Rightarrow> None)"

definition requested_call :: "formats \<Rightarrow> api_operation \<Rightarrow> message_request \<Rightarrow> api_call option" where
  "requested_call fmt operation r =
     (if rq_Refused r \<noteq> None then None
      else if op_Id operation = ''GetControlMessageForDevice'' then Some (GetControl (device_param r))
      else if op_Id operation = ''GetDataMessageForDevice'' then Some (GetData (device_param r))
      else if op_Id operation = ''PostControlMessageForDevice'' then map_option (\<lambda>_. PostControl (device_param r)) (good_body fmt r)
      else if op_Id operation = ''PostDataMessageForDevice'' then map_option (PostData (device_param r)) (good_body fmt r)
      else None)"

text \<open>The answer when negotiation failed or the body is not a message of the interface.\<close>

definition bad_body_code :: "'a request_body \<Rightarrow> nat" where
  "bad_body_code b = (case b of Malformed \<Rightarrow> 400 | _ \<Rightarrow> 422)"

definition refusal_code :: "message_request \<Rightarrow> nat" where
  "refusal_code r = (case rq_Refused r of Some e \<Rightarrow> asHTTPCode (fst e) | None \<Rightarrow> bad_body_code (rq_Body r))"

lemma Message_Validate_None: "Message_Validate fmt m = None \<longleftrightarrow> message_ok fmt m"
  by (auto simp: Message_Validate_def Message_validateSent_def Message_validateType_def message_ok_def messageTypeEnum_def
      finds_nothing)

lemma bind_path_device: "bind_path (RouteParams_GetOK (rq_Params r) ''device_id'') = device_param r"
  by (simp add: bind_path_def RouteParams_GetOK_def device_param_def split: option.split)

lemma Message_Validate_leaves:
  assumes "Message_Validate fmt m = Some e"
  shows "\<exists>code name rest. leaves e = (code, name) # rest \<and> code \<in> {InvalidTypeCode, EnumFailCode}"
  using assms
  by (auto simp: Message_Validate_def Message_validateSent_def Message_validateType_def format_check_def enum_check_def composite_def
      split: if_splits)

lemma bind_message:
  "(\<exists>m. good_body fmt r = Some m \<and> bind_body ''message'' (Message_Validate fmt) Message_ContextValidate (rq_Body r) = Inr m) \<or>
   (good_body fmt r = None \<and> (\<exists>res. bind_body ''message'' (Message_Validate fmt) Message_ContextValidate (rq_Body r) = Inl res \<and>
      asHTTPCode (fst (ServeError res)) = bad_body_code (rq_Body r)))"
proof (cases "rq_Body r")
  case (Json m)
  show ?thesis
  proof (cases "Message_Validate fmt m")
    case None
    then show ?thesis using Json
      by (simp add: good_body_def bind_body_def Message_ContextValidate_def Message_Validate_None [symmetric])
  next
    case (Some e)
    from Message_Validate_leaves [OF this] Some Json show ?thesis
      by (auto simp: good_body_def bind_body_def Message_ContextValidate_def Message_Validate_None [symmetric] ServeError_def
          asHTTPCode_def DefaultHTTPCode_def bad_body_code_def InvalidTypeCode_def EnumFailCode_def)
  qed
qed (simp_all add: good_body_def bind_body_def ServeError_def Required_def asHTTPCode_def DefaultHTTPCode_def
    bad_body_code_def RequiredFailCode_def)

lemma refused_ServeHTTP:
  assumes "rq_Refused r = Some e"
  shows "ServeHTTP handler fmt h ctx r = Ret (error_answer e)"
  using assms
  by (cases handler) (simp_all add: BindValidRequest_def GetControlMessageForDevice_ServeHTTP_def GetDataMessageForDevice_ServeHTTP_def
      PostControlMessageForDevice_ServeHTTP_def PostDataMessageForDevice_ServeHTTP_def)

lemma get_ServeHTTP:
  assumes "rq_Refused r = None"
  shows "ServeHTTP GetControlMessageForDeviceHandler fmt h ctx r = handle h ctx (GetControl (device_param r))"
    and "ServeHTTP GetDataMessageForDeviceHandler fmt h ctx r = handle h ctx (GetData (device_param r))"
  using assms
  by (simp_all add: GetControlMessageForDevice_ServeHTTP_def GetDataMessageForDevice_ServeHTTP_def BindValidRequest_def
      GetControlMessageForDevice_BindRequest_def GetDataMessageForDevice_BindRequest_def bind_path_device)

lemma post_ServeHTTP:
  assumes "rq_Refused r = None" "good_body fmt r = Some m"
  shows "ServeHTTP PostControlMessageForDeviceHandler fmt h ctx r = handle h ctx (PostControl (device_param r))"
    and "ServeHTTP PostDataMessageForDeviceHandler fmt h ctx r = handle h ctx (PostData (device_param r) m)"
  using assms bind_message [of fmt r]
  by (simp_all add: PostControlMessageForDevice_ServeHTTP_def PostDataMessageForDevice_ServeHTTP_def BindValidRequest_def
      PostControlMessageForDevice_BindRequest_def PostDataMessageForDevice_BindRequest_def bind_path_device deref_def)

lemma bad_ServeHTTP:
  assumes "rq_Refused r = None" "good_body fmt r = None"
  shows "\<exists>resp. rp_Code resp = refusal_code r \<and> (\<forall>h ctx.
      ServeHTTP PostControlMessageForDeviceHandler fmt h ctx r = Ret resp \<and>
      ServeHTTP PostDataMessageForDeviceHandler fmt h ctx r = Ret resp)"
  using assms bind_message [of fmt r]
  by (auto simp: PostControlMessageForDevice_ServeHTTP_def PostDataMessageForDevice_ServeHTTP_def BindValidRequest_def
      PostControlMessageForDevice_BindRequest_def PostDataMessageForDevice_BindRequest_def refusal_code_def error_answer_def)

lemmas spec_defs = spec_paths_def spec_get_control_def spec_post_control_def spec_get_data_def spec_post_data_def

lemma HandlerFor_spec:
  "HandlerFor (op_Method spec_get_control) (op_Path spec_get_control) = Some GetControlMessageForDeviceHandler"
  "HandlerFor (op_Method spec_get_data) (op_Path spec_get_data) = Some GetDataMessageForDeviceHandler"
  "HandlerFor (op_Method spec_post_control) (op_Path spec_post_control) = Some PostControlMessageForDeviceHandler"
  "HandlerFor (op_Method spec_post_data) (op_Path spec_post_data) = Some PostDataMessageForDeviceHandler"
  by code_simp+

lemma op_Id_spec:
  "op_Id spec_get_control = ''GetControlMessageForDevice''" "op_Id spec_get_data = ''GetDataMessageForDevice''"
  "op_Id spec_post_control = ''PostControlMessageForDevice''" "op_Id spec_post_data = ''PostDataMessageForDevice''"
  by (simp_all add: spec_defs)

lemma spec_cases:
  assumes "operation \<in> set spec_paths"
  obtains "operation = spec_get_control" | "operation = spec_get_data" | "operation = spec_post_control" | "operation = spec_post_data"
  using assms by (auto simp: spec_paths_def)

lemma http_operations_served_aux:
  assumes "operation \<in> set spec_paths"
  shows "case requested_call fmt operation r of
      Some call \<Rightarrow> HandlerAPI fmt h chain verify tls operation r = serve h chain verify tls (Route (Some (op_Id operation))) call
    | None \<Rightarrow> \<exists>resp. rp_Code resp = refusal_code r \<and>
        HandlerAPI fmt h chain verify tls operation r =
          InnerMiddleware h chain verify tls (Route (Some (op_Id operation))) (\<lambda>_. Ret resp)"
proof (cases "rq_Refused r")
  case None
  from assms show ?thesis
  proof (cases rule: spec_cases)
    case 1
    with None show ?thesis
      by (simp add: HandlerAPI_def HandlerFor_spec get_ServeHTTP serve_def requested_call_def op_Id_spec del: ServeHTTP.simps)
  next
    case 2
    with None show ?thesis
      by (simp add: HandlerAPI_def HandlerFor_spec get_ServeHTTP serve_def requested_call_def op_Id_spec del: ServeHTTP.simps)
  next
    case 3
    with None show ?thesis
    proof (cases "good_body fmt r")
      case None
      with bad_ServeHTTP [of r fmt] 3 \<open>rq_Refused r = None\<close> show ?thesis
        by (auto simp: HandlerAPI_def HandlerFor_spec requested_call_def op_Id_spec simp del: ServeHTTP.simps)
    qed (simp add: HandlerAPI_def HandlerFor_spec post_ServeHTTP serve_def requested_call_def op_Id_spec del: ServeHTTP.simps)
  next
    case 4
    with None show ?thesis
    proof (cases "good_body fmt r")
      case None
      with bad_ServeHTTP [of r fmt] 4 \<open>rq_Refused r = None\<close> show ?thesis
        by (auto simp: HandlerAPI_def HandlerFor_spec requested_call_def op_Id_spec simp del: ServeHTTP.simps)
    qed (simp add: HandlerAPI_def HandlerFor_spec post_ServeHTTP serve_def requested_call_def op_Id_spec del: ServeHTTP.simps)
  qed
next
  case (Some e)
  then have "rp_Code (error_answer e) = refusal_code r" by (simp add: refusal_code_def error_answer_def)
  moreover from assms Some have "HandlerAPI fmt h chain verify tls operation r =
      InnerMiddleware h chain verify tls (Route (Some (op_Id operation))) (\<lambda>_. Ret (error_answer e))"
    by (cases rule: spec_cases) (simp_all add: HandlerAPI_def HandlerFor_spec refused_ServeHTTP del: ServeHTTP.simps)
  ultimately show ?thesis using Some by (auto simp: requested_call_def)
qed

section \<open>Properties\<close>

text \<open>
  Property C22: the generated layer is transparent for well-formed requests and a wall for the others. Every operation of the interface
  document has a handler, and the server behaves on a request exactly as the device API on the call that the request
  stands for: the operation named by its identifier, for the device in its path, with the message in its body. When negotiation failed or the body
  is missing, is no JSON or is not a message of the interface, the handler does not run: after authentication the answer is fixed
  by the request, with the code of the negotiation error, 400 for a body that cannot be decoded, and 422 otherwise.
\<close>

theorem http_operations_served:
  assumes "operation \<in> set spec_paths"
  shows "case requested_call fmt operation r of
      Some call \<Rightarrow> HandlerAPI fmt h chain verify tls operation r = serve h chain verify tls (Route (Some (op_Id operation))) call
    | None \<Rightarrow> \<exists>resp. rp_Code resp = refusal_code r \<and>
        HandlerAPI fmt h chain verify tls operation r =
          InnerMiddleware h chain verify tls (Route (Some (op_Id operation))) (\<lambda>_. Ret resp)"
  using assms by (rule http_operations_served_aux)

text \<open>The documented codes of a call are those of the operation it comes from.\<close>

lemma requested_documented:
  assumes "operation \<in> set spec_paths" "requested_call fmt operation r = Some call"
  shows "documented call = set (op_Responses operation)"
  using assms(1)
  by (cases rule: spec_cases; insert assms(2))
    (auto simp: requested_call_def spec_defs OK_def Unauthorized_def Forbidden_def NotFoundCode_def InternalServerError_def
      BadRequest_def AlreadyReported_def split: if_splits)

lemma exec_middleware_Ret:
  assumes "exec (InnerMiddleware h chain verify (Some certs) route (\<lambda>_. Ret resp)) t (Returned answer)"
  shows "t = [] \<and> answer = resp \<or> (\<exists>rsp. t = [(Metric IncEdgeDeviceFailedAuthenticationCounter, rsp)]) \<and> answer = respond Unauthorized"
  using assms by (auto simp: InnerMiddleware_def tell_def exec_Call split: prod.splits if_splits)

text \<open>
  Property C24: what a client of the device API may be answered. A request over TLS for an operation of the interface document that
  stands for a call is answered, whatever the backend, with one of the codes the document lists for the operation, and a body comes only with
  success and has the type of the operation: a command, a configuration, or a response that repeats the directive and the identifier of the message.
  Every other request is refused before anything happens, 401 without a valid certificate and the code of
  its defect otherwise; only the failed authentication is counted.
\<close>

theorem http_answers:
  assumes "operation \<in> set spec_paths"
    and "exec (HandlerAPI fmt h chain verify (Some certs) operation r) t (Returned resp)"
  shows "case requested_call fmt operation r of
      Some call \<Rightarrow> typed_answer call resp \<and> rp_Code resp \<in> set (op_Responses operation)
    | None \<Rightarrow> t = [] \<and> rp_Code resp = refusal_code r \<or>
        (\<exists>rsp. t = [(Metric IncEdgeDeviceFailedAuthenticationCounter, rsp)]) \<and> resp = respond Unauthorized"
proof (cases "requested_call fmt operation r")
  case None
  with http_operations_served_aux [OF assms(1), of r fmt h chain verify "Some certs"] obtain answer where
    "rp_Code answer = refusal_code r"
    "HandlerAPI fmt h chain verify (Some certs) operation r =
       InnerMiddleware h chain verify (Some certs) (Route (Some (op_Id operation))) (\<lambda>_. Ret answer)" by auto
  with assms(2) exec_middleware_Ret None show ?thesis by fastforce
next
  case (Some call)
  with http_operations_served_aux [OF assms(1), of r fmt h chain verify "Some certs"] assms(2)
  have "exec (serve h chain verify (Some certs) (Route (Some (op_Id operation))) call) t (Returned resp)" by simp
  with yields_serve have "typed_answer call resp" by (auto simp: yields_def)
  with Some requested_documented [OF assms(1) Some] show ?thesis by (simp add: typed_answer_def)
qed

section \<open>Concrete runs\<close>

definition demo_request :: "json message request_body \<Rightarrow> message_request" where
  "demo_request body = \<lparr>rq_Params = [(''device_id'', ''dev'')], rq_Body = body, rq_Refused = None\<rparr>"

text \<open>A message whose type is unknown is refused with a code that the document does not list.\<close>

theorem http_operations_served_witness:
  "spec_post_data \<in> set spec_paths \<and> 422 \<notin> set (op_Responses spec_post_data) \<and>
   (\<exists>resp. rp_Code resp = 422 \<and>
      HandlerAPI (\<lambda>_. True) demo_handler [] (\<lambda>_. None) (Some []) spec_post_data
          (demo_request (Json (post ''heartbeat'' \<lparr>msg_Type := ''gossip''\<rparr>))) =
        InnerMiddleware demo_handler [] (\<lambda>_. None) (Some []) (Route (Some ''PostDataMessageForDevice'')) (\<lambda>_. Ret resp))"
proof -
  let ?r = "demo_request (Json (post ''heartbeat'' \<lparr>msg_Type := ''gossip''\<rparr>))"
  have spec: "spec_post_data \<in> set spec_paths" by (simp add: spec_paths_def)
  have call: "requested_call (\<lambda>_. True) spec_post_data ?r = None"
    by (simp add: requested_call_def demo_request_def good_body_def message_ok_def post_def op_Id_spec)
  have "refusal_code ?r = 422" by (simp add: refusal_code_def demo_request_def bad_body_code_def)
  with http_operations_served [OF spec, of ?r "\<lambda>_. True" demo_handler "[]" "\<lambda>_. None" "Some []"] call spec
  show ?thesis by (simp add: op_Id_spec) (simp add: spec_post_data_def)
qed

theorem http_answers_witness:
  "exec (HandlerAPI (\<lambda>_. True) demo_handler [] (\<lambda>_. None) (Some []) spec_post_control (demo_request (Json (post ''ansible''))))
      [(Metric IncEdgeDeviceFailedAuthenticationCounter, ROk)] (Returned (respond Unauthorized)) \<and>
   Unauthorized \<in> set (op_Responses spec_post_control)"
proof
  let ?r = "demo_request (Json (post ''ansible''))"
  show e: "exec (HandlerAPI (\<lambda>_. True) demo_handler [] (\<lambda>_. None) (Some []) spec_post_control ?r)
      [(Metric IncEdgeDeviceFailedAuthenticationCounter, ROk)] (Returned (respond Unauthorized))"
    by (simp add: HandlerAPI_def HandlerFor_spec InnerMiddleware_def VerifyRequest_def tell_def exec_Call)
  have spec: "spec_post_control \<in> set spec_paths" by (simp add: spec_paths_def)
  have call: "requested_call (\<lambda>_. True) spec_post_control ?r = Some (PostControl ''dev'')"
    by (simp add: requested_call_def demo_request_def good_body_def message_ok_def post_def op_Id_spec device_param_def MessageTypeData_def)
  from http_answers [OF spec e] call show "Unauthorized \<in> set (op_Responses spec_post_control)" by (simp add: respond_def)
qed

end
