(* ===== verification/Store_Api.thy ===== *)
theory Store_Api
  imports Remote_Backend Rest_Api
begin

text \<open>
  The remote store as the generated code sees it (\<open>src/backend\<close>): the interface document, the requests the client writes
  (\<open>client/backend\<close>), the server that binds them to parameters and calls an implementation of \<open>BackendAPI\<close>
  (\<open>restapi/operations/backend\<close>), and the answers the server writes, which the readers of \<open>Remote_Backend\<close> take apart. The
  implementation is not part of the repository; it is the argument \<open>api\<close>, a program per operation. What an implementation keeps or
  looks up elsewhere are calls of that program with any answer, so it may answer the same request differently each time.

  Between the two lie URLs, JSON and HTTP. \<open>carried\<close> says of one request that it arrives as it was written: by the method and
  on the path that the client wrote, with its parameters and its body. The server picks the handler by the method and the path that arrived.
\<close>

section \<open>The interface document\<close>

definition spec_enrol_device :: api_operation where
  "spec_enrol_device = \<lparr>op_Method = ''post'', op_Path = ''/namespaces/{namespace}/devices/{device-id}/enrolment'', op_Id = ''EnrolDevice'',
     op_PathParams = [''namespace'', ''device-id''], op_Body = Some ''enrolment-info'', op_Responses = [200, 201, 401, 403]\<rparr>"

definition spec_get_device_configuration :: api_operation where
  "spec_get_device_configuration = \<lparr>op_Method = ''get'', op_Path = ''/namespaces/{namespace}/devices/{device-id}/configuration'', op_Id = ''GetDeviceConfiguration'',
     op_PathParams = [''namespace'', ''device-id''], op_Body = None, op_Responses = [200, 401, 403]\<rparr>"

definition spec_get_playbook_executions :: api_operation where
  "spec_get_playbook_executions = \<lparr>op_Method = ''get'', op_Path = ''/namespaces/{namespace}/devices/{device-id}/playbookexecutions'', op_Id = ''GetPlaybookExecutions'',
     op_PathParams = [''namespace'', ''device-id''], op_Body = None, op_Responses = [200, 401, 403]\<rparr>"

definition spec_get_registration_status :: api_operation where
  "spec_get_registration_status = \<lparr>op_Method = ''get'', op_Path = ''/namespaces/{namespace}/devices/{device-id}/registration'', op_Id = ''GetRegistrationStatus'',
     op_PathParams = [''namespace'', ''device-id''], op_Body = None, op_Responses = [200, 401, 403]\<rparr>"

definition spec_register_device :: api_operation where
  "spec_register_device = \<lparr>op_Method = ''put'', op_Path = ''/namespaces/{namespace}/devices/{device-id}/registration'', op_Id = ''RegisterDevice'',
     op_PathParams = [''namespace'', ''device-id''], op_Body = Some ''registration-info'', op_Responses = [200, 401, 403]\<rparr>"

definition spec_update_heart_beat :: api_operation where
  "spec_update_heart_beat = \<lparr>op_Method = ''put'', op_Path = ''/namespaces/{namespace}/devices/{device-id}/heartbeat'', op_Id = ''UpdateHeartBeat'',
     op_PathParams = [''namespace'', ''device-id''], op_Body = Some ''heartbeat'', op_Responses = [200, 401, 403]\<rparr>"

definition store_paths :: "api_operation list" where
  "store_paths = [spec_enrol_device, spec_get_device_configuration, spec_get_playbook_executions, spec_get_registration_status, spec_register_device, spec_update_heart_beat]"

section \<open>What the client writes\<close>

record 'b client_request =
  cq_Method :: string
  cq_PathPattern :: string
  cq_Timeout :: int
  cq_PathParams :: "(string \<times> string) list"
  cq_Body :: "'b option"

text \<open>\<open>WriteToRequest\<close> of the parameters of each operation, with the method and the path of the operation.\<close>

definition EnrolDevice_WriteToRequest :: "remote_call \<Rightarrow> enrolment_info \<Rightarrow> enrolment_info client_request" where
  "EnrolDevice_WriteToRequest o' body = \<lparr>cq_Method = ''POST'', cq_PathPattern = ''/namespaces/{namespace}/devices/{device-id}/enrolment'',
     cq_Timeout = rc_Timeout o', cq_PathParams = [(''device-id'', rc_DeviceID o'), (''namespace'', rc_Namespace o')],
     cq_Body = Some body\<rparr>"

definition GetDeviceConfiguration_WriteToRequest :: "remote_call \<Rightarrow> unit client_request" where
  "GetDeviceConfiguration_WriteToRequest o' = \<lparr>cq_Method = ''GET'', cq_PathPattern = ''/namespaces/{namespace}/devices/{device-id}/configuration'',
     cq_Timeout = rc_Timeout o', cq_PathParams = [(''device-id'', rc_DeviceID o'), (''namespace'', rc_Namespace o')],
     cq_Body = None\<rparr>"

definition GetPlaybookExecutions_WriteToRequest :: "remote_call \<Rightarrow> unit client_request" where
  "GetPlaybookExecutions_WriteToRequest o' = \<lparr>cq_Method = ''GET'', cq_PathPattern = ''/namespaces/{namespace}/devices/{device-id}/playbookexecutions'',
     cq_Timeout = rc_Timeout o', cq_PathParams = [(''device-id'', rc_DeviceID o'), (''namespace'', rc_Namespace o')],
     cq_Body = None\<rparr>"

definition GetRegistrationStatus_WriteToRequest :: "remote_call \<Rightarrow> unit client_request" where
  "GetRegistrationStatus_WriteToRequest o' = \<lparr>cq_Method = ''GET'', cq_PathPattern = ''/namespaces/{namespace}/devices/{device-id}/registration'',
     cq_Timeout = rc_Timeout o', cq_PathParams = [(''device-id'', rc_DeviceID o'), (''namespace'', rc_Namespace o')],
     cq_Body = None\<rparr>"

definition RegisterDevice_WriteToRequest :: "remote_call \<Rightarrow> registration_info \<Rightarrow> registration_info client_request" where
  "RegisterDevice_WriteToRequest o' body = \<lparr>cq_Method = ''PUT'', cq_PathPattern = ''/namespaces/{namespace}/devices/{device-id}/registration'',
     cq_Timeout = rc_Timeout o', cq_PathParams = [(''device-id'', rc_DeviceID o'), (''namespace'', rc_Namespace o')],
     cq_Body = Some body\<rparr>"

definition UpdateHeartBeat_WriteToRequest :: "remote_call \<Rightarrow> heartbeat \<Rightarrow> heartbeat client_request" where
  "UpdateHeartBeat_WriteToRequest o' body = \<lparr>cq_Method = ''PUT'', cq_PathPattern = ''/namespaces/{namespace}/devices/{device-id}/heartbeat'',
     cq_Timeout = rc_Timeout o', cq_PathParams = [(''device-id'', rc_DeviceID o'), (''namespace'', rc_Namespace o')],
     cq_Body = Some body\<rparr>"

section \<open>What the server binds\<close>

record store_params =
  sp_DeviceID :: string
  sp_Namespace :: string

record 'b body_params = store_params +
  sp_Body :: 'b

definition EnrolDevice_BindRequest :: "formats \<Rightarrow> enrolment_info http_request \<Rightarrow> bind_error list + enrolment_info body_params" where
  "EnrolDevice_BindRequest fmt r =
     (case bind_body ''enrolment-info'' (EnrolmentInfo_Validate fmt) EnrolmentInfo_ContextValidate (rq_Body r) of
         Inl res \<Rightarrow> Inl res
       | Inr body \<Rightarrow> Inr \<lparr>sp_DeviceID = bind_path (RouteParams_GetOK (rq_Params r) ''device-id''),
           sp_Namespace = bind_path (RouteParams_GetOK (rq_Params r) ''namespace''), sp_Body = body\<rparr>)"

definition GetDeviceConfiguration_BindRequest :: "unit http_request \<Rightarrow> bind_error list + store_params" where
  "GetDeviceConfiguration_BindRequest r = Inr \<lparr>sp_DeviceID = bind_path (RouteParams_GetOK (rq_Params r) ''device-id''),
     sp_Namespace = bind_path (RouteParams_GetOK (rq_Params r) ''namespace'')\<rparr>"

definition GetPlaybookExecutions_BindRequest :: "unit http_request \<Rightarrow> bind_error list + store_params" where
  "GetPlaybookExecutions_BindRequest r = Inr \<lparr>sp_DeviceID = bind_path (RouteParams_GetOK (rq_Params r) ''device-id''),
     sp_Namespace = bind_path (RouteParams_GetOK (rq_Params r) ''namespace'')\<rparr>"

definition GetRegistrationStatus_BindRequest :: "unit http_request \<Rightarrow> bind_error list + store_params" where
  "GetRegistrationStatus_BindRequest r = Inr \<lparr>sp_DeviceID = bind_path (RouteParams_GetOK (rq_Params r) ''device-id''),
     sp_Namespace = bind_path (RouteParams_GetOK (rq_Params r) ''namespace'')\<rparr>"

definition RegisterDevice_BindRequest :: "formats \<Rightarrow> registration_info http_request \<Rightarrow> bind_error list + registration_info body_params" where
  "RegisterDevice_BindRequest fmt r =
     (case bind_body ''registration-info'' (RegistrationInfo_Validate fmt) RegistrationInfo_ContextValidate (rq_Body r) of
         Inl res \<Rightarrow> Inl res
       | Inr body \<Rightarrow> Inr \<lparr>sp_DeviceID = bind_path (RouteParams_GetOK (rq_Params r) ''device-id''),
           sp_Namespace = bind_path (RouteParams_GetOK (rq_Params r) ''namespace''), sp_Body = body\<rparr>)"

definition UpdateHeartBeat_BindRequest :: "formats \<Rightarrow> heartbeat http_request \<Rightarrow> bind_error list + heartbeat body_params" where
  "UpdateHeartBeat_BindRequest fmt r =
     (case bind_body ''heartbeat'' (Heartbeat_Validate fmt) Heartbeat_ContextValidate (rq_Body r) of
         Inl res \<Rightarrow> Inl res
       | Inr body \<Rightarrow> Inr \<lparr>sp_DeviceID = bind_path (RouteParams_GetOK (rq_Params r) ''device-id''),
           sp_Namespace = bind_path (RouteParams_GetOK (rq_Params r) ''namespace''), sp_Body = body\<rparr>)"

section \<open>What the server answers\<close>

text \<open>
  The responses of each operation. A default response has a status code of its own; its payload is an error message or, for two
  operations, the same struct as for success.
\<close>

datatype enrol_device_response =
    EnrolDeviceOK
  | EnrolDeviceCreated
  | EnrolDeviceUnauthorized
  | EnrolDeviceForbidden
  | EnrolDeviceDefault nat "string option"

datatype get_device_configuration_response =
    GetDeviceConfigurationOK "device_configuration_response option"
  | GetDeviceConfigurationUnauthorized
  | GetDeviceConfigurationForbidden
  | GetDeviceConfigurationDefault nat "device_configuration_response option"

datatype get_playbook_executions_response =
    GetPlaybookExecutionsOK "m_playbook_execution list"
  | GetPlaybookExecutionsUnauthorized
  | GetPlaybookExecutionsForbidden
  | GetPlaybookExecutionsDefault nat "string option"

datatype get_registration_status_response =
    GetRegistrationStatusOK "device_registration_status_response option"
  | GetRegistrationStatusUnauthorized
  | GetRegistrationStatusForbidden
  | GetRegistrationStatusDefault nat "device_registration_status_response option"

datatype register_device_response =
    RegisterDeviceOK
  | RegisterDeviceUnauthorized
  | RegisterDeviceForbidden
  | RegisterDeviceDefault nat "string option"

datatype update_heart_beat_response =
    UpdateHeartBeatOK
  | UpdateHeartBeatUnauthorized
  | UpdateHeartBeatForbidden
  | UpdateHeartBeatDefault nat "string option"

text \<open>A code that is not positive becomes 500.\<close>

definition NewEnrolDeviceDefault :: "int \<Rightarrow> enrol_device_response" where
  "NewEnrolDeviceDefault code = EnrolDeviceDefault (if code \<le> 0 then 500 else nat code) None"

definition NewGetDeviceConfigurationDefault :: "int \<Rightarrow> get_device_configuration_response" where
  "NewGetDeviceConfigurationDefault code = GetDeviceConfigurationDefault (if code \<le> 0 then 500 else nat code) None"

definition NewGetPlaybookExecutionsDefault :: "int \<Rightarrow> get_playbook_executions_response" where
  "NewGetPlaybookExecutionsDefault code = GetPlaybookExecutionsDefault (if code \<le> 0 then 500 else nat code) None"

definition NewGetRegistrationStatusDefault :: "int \<Rightarrow> get_registration_status_response" where
  "NewGetRegistrationStatusDefault code = GetRegistrationStatusDefault (if code \<le> 0 then 500 else nat code) None"

definition NewRegisterDeviceDefault :: "int \<Rightarrow> register_device_response" where
  "NewRegisterDeviceDefault code = RegisterDeviceDefault (if code \<le> 0 then 500 else nat code) None"

definition NewUpdateHeartBeatDefault :: "int \<Rightarrow> update_heart_beat_response" where
  "NewUpdateHeartBeatDefault code = UpdateHeartBeatDefault (if code \<le> 0 then 500 else nat code) None"

text \<open>\<open>WriteResponse\<close>: the status code and the body. A nil payload is not written.\<close>

definition payload_body :: "('p \<Rightarrow> remote_body) \<Rightarrow> 'p option \<Rightarrow> remote_body" where
  "payload_body produce payload = (case payload of None \<Rightarrow> NoBody | Some p \<Rightarrow> produce p)"

fun EnrolDevice_WriteResponse :: "enrol_device_response \<Rightarrow> nat \<times> remote_body" where
  "EnrolDevice_WriteResponse EnrolDeviceOK = (200, NoBody)"
| "EnrolDevice_WriteResponse EnrolDeviceCreated = (201, NoBody)"
| "EnrolDevice_WriteResponse EnrolDeviceUnauthorized = (401, NoBody)"
| "EnrolDevice_WriteResponse EnrolDeviceForbidden = (403, NoBody)"
| "EnrolDevice_WriteResponse (EnrolDeviceDefault code payload) = (code, payload_body ErrorBody payload)"

fun GetDeviceConfiguration_WriteResponse :: "get_device_configuration_response \<Rightarrow> nat \<times> remote_body" where
  "GetDeviceConfiguration_WriteResponse (GetDeviceConfigurationOK payload) = (200, payload_body ConfigurationBody payload)"
| "GetDeviceConfiguration_WriteResponse GetDeviceConfigurationUnauthorized = (401, NoBody)"
| "GetDeviceConfiguration_WriteResponse GetDeviceConfigurationForbidden = (403, NoBody)"
| "GetDeviceConfiguration_WriteResponse (GetDeviceConfigurationDefault code payload) = (code, payload_body ConfigurationBody payload)"

fun GetPlaybookExecutions_WriteResponse :: "get_playbook_executions_response \<Rightarrow> nat \<times> remote_body" where
  "GetPlaybookExecutions_WriteResponse (GetPlaybookExecutionsOK payload) = (200, PlaybooksBody payload)"
| "GetPlaybookExecutions_WriteResponse GetPlaybookExecutionsUnauthorized = (401, NoBody)"
| "GetPlaybookExecutions_WriteResponse GetPlaybookExecutionsForbidden = (403, NoBody)"
| "GetPlaybookExecutions_WriteResponse (GetPlaybookExecutionsDefault code payload) = (code, payload_body ErrorBody payload)"

fun GetRegistrationStatus_WriteResponse :: "get_registration_status_response \<Rightarrow> nat \<times> remote_body" where
  "GetRegistrationStatus_WriteResponse (GetRegistrationStatusOK payload) = (200, payload_body StatusBody payload)"
| "GetRegistrationStatus_WriteResponse GetRegistrationStatusUnauthorized = (401, NoBody)"
| "GetRegistrationStatus_WriteResponse GetRegistrationStatusForbidden = (403, NoBody)"
| "GetRegistrationStatus_WriteResponse (GetRegistrationStatusDefault code payload) = (code, payload_body StatusBody payload)"

fun RegisterDevice_WriteResponse :: "register_device_response \<Rightarrow> nat \<times> remote_body" where
  "RegisterDevice_WriteResponse RegisterDeviceOK = (200, NoBody)"
| "RegisterDevice_WriteResponse RegisterDeviceUnauthorized = (401, NoBody)"
| "RegisterDevice_WriteResponse RegisterDeviceForbidden = (403, NoBody)"
| "RegisterDevice_WriteResponse (RegisterDeviceDefault code payload) = (code, payload_body ErrorBody payload)"

fun UpdateHeartBeat_WriteResponse :: "update_heart_beat_response \<Rightarrow> nat \<times> remote_body" where
  "UpdateHeartBeat_WriteResponse UpdateHeartBeatOK = (200, NoBody)"
| "UpdateHeartBeat_WriteResponse UpdateHeartBeatUnauthorized = (401, NoBody)"
| "UpdateHeartBeat_WriteResponse UpdateHeartBeatForbidden = (403, NoBody)"
| "UpdateHeartBeat_WriteResponse (UpdateHeartBeatDefault code payload) = (code, payload_body ErrorBody payload)"

section \<open>The server\<close>

text \<open>
  The interface the implementer of the store provides: a program per operation, which ends with a response. It is free to
  keep a state and to ask other systems; both are calls to its environment.
\<close>

record backend_api =
  api_EnrolDevice :: "enrolment_info body_params \<Rightarrow> enrol_device_response io"
  api_GetDeviceConfiguration :: "store_params \<Rightarrow> get_device_configuration_response io"
  api_GetPlaybookExecutions :: "store_params \<Rightarrow> get_playbook_executions_response io"
  api_GetRegistrationStatus :: "store_params \<Rightarrow> get_registration_status_response io"
  api_RegisterDevice :: "registration_info body_params \<Rightarrow> register_device_response io"
  api_UpdateHeartBeat :: "heartbeat body_params \<Rightarrow> update_heart_beat_response io"

text \<open>The answer of \<open>ServeError\<close>; its text is left out, as in \<open>http_error\<close>.\<close>

definition store_error :: "nat \<times> string \<Rightarrow> nat \<times> remote_body" where
  "store_error e = (asHTTPCode (fst e), ErrorBody (snd e))"

definition EnrolDevice_ServeHTTP :: "formats \<Rightarrow> backend_api \<Rightarrow> enrolment_info http_request \<Rightarrow> (nat \<times> remote_body) io" where
  "EnrolDevice_ServeHTTP fmt api r = (case BindValidRequest r (EnrolDevice_BindRequest fmt r) of
      Inl e \<Rightarrow> Ret (store_error e)
    | Inr params \<Rightarrow> mapp EnrolDevice_WriteResponse (api_EnrolDevice api params))"

definition GetDeviceConfiguration_ServeHTTP :: "formats \<Rightarrow> backend_api \<Rightarrow> unit http_request \<Rightarrow> (nat \<times> remote_body) io" where
  "GetDeviceConfiguration_ServeHTTP fmt api r = (case BindValidRequest r (GetDeviceConfiguration_BindRequest r) of
      Inl e \<Rightarrow> Ret (store_error e)
    | Inr params \<Rightarrow> mapp GetDeviceConfiguration_WriteResponse (api_GetDeviceConfiguration api params))"

definition GetPlaybookExecutions_ServeHTTP :: "formats \<Rightarrow> backend_api \<Rightarrow> unit http_request \<Rightarrow> (nat \<times> remote_body) io" where
  "GetPlaybookExecutions_ServeHTTP fmt api r = (case BindValidRequest r (GetPlaybookExecutions_BindRequest r) of
      Inl e \<Rightarrow> Ret (store_error e)
    | Inr params \<Rightarrow> mapp GetPlaybookExecutions_WriteResponse (api_GetPlaybookExecutions api params))"

definition GetRegistrationStatus_ServeHTTP :: "formats \<Rightarrow> backend_api \<Rightarrow> unit http_request \<Rightarrow> (nat \<times> remote_body) io" where
  "GetRegistrationStatus_ServeHTTP fmt api r = (case BindValidRequest r (GetRegistrationStatus_BindRequest r) of
      Inl e \<Rightarrow> Ret (store_error e)
    | Inr params \<Rightarrow> mapp GetRegistrationStatus_WriteResponse (api_GetRegistrationStatus api params))"

definition RegisterDevice_ServeHTTP :: "formats \<Rightarrow> backend_api \<Rightarrow> registration_info http_request \<Rightarrow> (nat \<times> remote_body) io" where
  "RegisterDevice_ServeHTTP fmt api r = (case BindValidRequest r (RegisterDevice_BindRequest fmt r) of
      Inl e \<Rightarrow> Ret (store_error e)
    | Inr params \<Rightarrow> mapp RegisterDevice_WriteResponse (api_RegisterDevice api params))"

definition UpdateHeartBeat_ServeHTTP :: "formats \<Rightarrow> backend_api \<Rightarrow> heartbeat http_request \<Rightarrow> (nat \<times> remote_body) io" where
  "UpdateHeartBeat_ServeHTTP fmt api r = (case BindValidRequest r (UpdateHeartBeat_BindRequest fmt r) of
      Inl e \<Rightarrow> Ret (store_error e)
    | Inr params \<Rightarrow> mapp UpdateHeartBeat_WriteResponse (api_UpdateHeartBeat api params))"

datatype store_handler =
    EnrolDeviceHandler
  | GetDeviceConfigurationHandler
  | GetPlaybookExecutionsHandler
  | GetRegistrationStatusHandler
  | RegisterDeviceHandler
  | UpdateHeartBeatHandler

definition Store_initHandlerCache :: "((string \<times> string) \<times> store_handler) list" where
  "Store_initHandlerCache =
     [((''POST'', ''/namespaces/{namespace}/devices/{device-id}/enrolment''), EnrolDeviceHandler),
      ((''GET'', ''/namespaces/{namespace}/devices/{device-id}/configuration''), GetDeviceConfigurationHandler),
      ((''GET'', ''/namespaces/{namespace}/devices/{device-id}/playbookexecutions''), GetPlaybookExecutionsHandler),
      ((''GET'', ''/namespaces/{namespace}/devices/{device-id}/registration''), GetRegistrationStatusHandler),
      ((''PUT'', ''/namespaces/{namespace}/devices/{device-id}/registration''), RegisterDeviceHandler),
      ((''PUT'', ''/namespaces/{namespace}/devices/{device-id}/heartbeat''), UpdateHeartBeatHandler)]"

definition Store_HandlerFor :: "string \<Rightarrow> string \<Rightarrow> store_handler option" where
  "Store_HandlerFor method path =
     map_of Store_initHandlerCache (map upper_ascii method, if path = ''/'' then [] else path)"

text \<open>
  The router is third-party code, of which the two servers rely on this: it offers the handler of the operation of the document whose
  method and path the request has, answers 405 to another method of a known path, and 404 to anything else.
\<close>

definition operation_at :: "api_operation list \<Rightarrow> string \<Rightarrow> string \<Rightarrow> api_operation option" where
  "operation_at paths method path = find (\<lambda>operation. map upper_ascii (op_Method operation) = method \<and> op_Path operation = path) paths"

definition unrouted_code :: "api_operation list \<Rightarrow> string \<Rightarrow> nat" where
  "unrouted_code paths path = (if path \<in> op_Path ` set paths then 405 else NotFoundCode)"

definition store_route :: "string \<Rightarrow> string \<Rightarrow> store_handler option" where
  "store_route method path = Option.bind (operation_at store_paths method path)
     (\<lambda>operation. Store_HandlerFor (op_Method operation) (op_Path operation))"

section \<open>Transport\<close>

text \<open>
  A request as it arrives: what the router made of it, and the method and the path by which it got there. Its body is JSON;
  the consumer of an operation decodes it, and a body it cannot decode is malformed.
\<close>

record 'b arrived_request = "'b http_request" +
  ar_Method :: string
  ar_Path :: string

definition consumed :: "('j \<Rightarrow> 'b option) \<Rightarrow> 'j arrived_request \<Rightarrow> 'b http_request" where
  "consumed decode r = \<lparr>rq_Params = rq_Params r,
     rq_Body = (case rq_Body r of Absent \<Rightarrow> Absent | Blank \<Rightarrow> Blank | Malformed \<Rightarrow> Malformed
       | Json j \<Rightarrow> (case decode j of None \<Rightarrow> Malformed | Some b \<Rightarrow> Json b)),
     rq_Refused = rq_Refused r\<rparr>"

text \<open>The network and \<open>encoding/json\<close>: how a request arrives, and how the bodies are encoded and decoded.\<close>

record store_wire =
  w_deliver :: "json client_request \<Rightarrow> json arrived_request"
  w_enrolment_json :: "enrolment_info \<Rightarrow> json"
  w_registration_json :: "registration_info \<Rightarrow> json"
  w_heartbeat_json :: "heartbeat \<Rightarrow> json"
  w_enrolment :: "json \<Rightarrow> enrolment_info option"
  w_registration :: "json \<Rightarrow> registration_info option"
  w_heartbeat :: "json \<Rightarrow> heartbeat option"

definition encoded :: "('b \<Rightarrow> 'j) \<Rightarrow> 'b client_request \<Rightarrow> 'j client_request" where
  "encoded encode q = \<lparr>cq_Method = cq_Method q, cq_PathPattern = cq_PathPattern q, cq_Timeout = cq_Timeout q,
     cq_PathParams = cq_PathParams q, cq_Body = map_option encode (cq_Body q)\<rparr>"

text \<open>What the client sends for a call of the remote backend.\<close>

definition store_write :: "store_wire \<Rightarrow> remote_call \<Rightarrow> json client_request" where
  "store_write w c = (case rc_Op c of
      OpGetRegistrationStatus \<Rightarrow> encoded (\<lambda>_. JNull) (GetRegistrationStatus_WriteToRequest c)
    | OpGetDeviceConfiguration \<Rightarrow> encoded (\<lambda>_. JNull) (GetDeviceConfiguration_WriteToRequest c)
    | OpGetPlaybookExecutions \<Rightarrow> encoded (\<lambda>_. JNull) (GetPlaybookExecutions_WriteToRequest c)
    | OpEnrolDevice info \<Rightarrow> encoded (w_enrolment_json w) (EnrolDevice_WriteToRequest c info)
    | OpRegisterDevice info \<Rightarrow> encoded (w_registration_json w) (RegisterDevice_WriteToRequest c info)
    | OpUpdateHeartBeat hb \<Rightarrow> encoded (w_heartbeat_json w) (UpdateHeartBeat_WriteToRequest c hb))"

text \<open>What the server does with a request that arrives: the handler of its route, or the answer of the router.\<close>

definition store_serve :: "formats \<Rightarrow> backend_api \<Rightarrow> store_wire \<Rightarrow> json arrived_request \<Rightarrow> (nat \<times> remote_body) io" where
  "store_serve fmt api w r = (case store_route (ar_Method r) (ar_Path r) of
      None \<Rightarrow> Ret (store_error (unrouted_code store_paths (ar_Path r), []))
    | Some EnrolDeviceHandler \<Rightarrow> EnrolDevice_ServeHTTP fmt api (consumed (w_enrolment w) r)
    | Some GetDeviceConfigurationHandler \<Rightarrow> GetDeviceConfiguration_ServeHTTP fmt api (consumed (\<lambda>_. Some ()) r)
    | Some GetPlaybookExecutionsHandler \<Rightarrow> GetPlaybookExecutions_ServeHTTP fmt api (consumed (\<lambda>_. Some ()) r)
    | Some GetRegistrationStatusHandler \<Rightarrow> GetRegistrationStatus_ServeHTTP fmt api (consumed (\<lambda>_. Some ()) r)
    | Some RegisterDeviceHandler \<Rightarrow> RegisterDevice_ServeHTTP fmt api (consumed (w_registration w) r)
    | Some UpdateHeartBeatHandler \<Rightarrow> UpdateHeartBeat_ServeHTTP fmt api (consumed (w_heartbeat w) r))"

text \<open>What the store does for a call of the remote backend.\<close>

definition store_answer :: "formats \<Rightarrow> backend_api \<Rightarrow> store_wire \<Rightarrow> remote_call \<Rightarrow> (nat \<times> remote_body) io" where
  "store_answer fmt api w c = store_serve fmt api w (w_deliver w (store_write w c))"

text \<open>
  A request that arrives as it was written: by its method, on its path, with its parameters and its body, and no objection to its media
  types.
\<close>

definition carried :: "('b client_request \<Rightarrow> 'b arrived_request) \<Rightarrow> 'b client_request \<Rightarrow> bool" where
  "carried wire q \<longleftrightarrow> ar_Method (wire q) = cq_Method q \<and> ar_Path (wire q) = cq_PathPattern q \<and>
     map_of (rq_Params (wire q)) = map_of (cq_PathParams q) \<and>
     rq_Body (wire q) = (case cq_Body q of None \<Rightarrow> Absent | Some b \<Rightarrow> Json b) \<and> rq_Refused (wire q) = None"

section \<open>The store as a backend\<close>

text \<open>
  The backend one would write with the implementation at hand: no network, no JSON, a call of the implementation and its
  response as the result. An invalid heartbeat is refused with 422.
\<close>

definition store_op :: "string \<Rightarrow> string \<Rightarrow> string" where
  "store_op method name = method @ '' /namespaces/{namespace}/devices/{device-id}/'' @ name"

definition at_store :: "string \<Rightarrow> string \<Rightarrow> store_params" where
  "at_store name namespace = \<lparr>sp_DeviceID = name, sp_Namespace = namespace\<rparr>"

definition with_body :: "string \<Rightarrow> string \<Rightarrow> 'b \<Rightarrow> 'b body_params" where
  "with_body name namespace b = \<lparr>sp_DeviceID = name, sp_Namespace = namespace, sp_Body = b\<rparr>"

fun registration_result :: "get_registration_status_response \<Rightarrow> error + device_registration_status_response" where
  "registration_result (GetRegistrationStatusOK (Some p)) = Inr p"
| "registration_result (GetRegistrationStatusOK None) = Inr zero_registration_status"
| "registration_result GetRegistrationStatusUnauthorized = Inl (http_error (store_op ''GET'' ''registration'') 401)"
| "registration_result GetRegistrationStatusForbidden = Inl (http_error (store_op ''GET'' ''registration'') 403)"
| "registration_result (GetRegistrationStatusDefault code _) = Inl (http_error (store_op ''GET'' ''registration'') code)"

fun configuration_result :: "get_device_configuration_response \<Rightarrow> error + device_configuration_response" where
  "configuration_result (GetDeviceConfigurationOK (Some p)) = Inr p"
| "configuration_result (GetDeviceConfigurationOK None) = Inr zero_configuration"
| "configuration_result GetDeviceConfigurationUnauthorized = Inl (http_error (store_op ''GET'' ''configuration'') 401)"
| "configuration_result GetDeviceConfigurationForbidden = Inl (http_error (store_op ''GET'' ''configuration'') 403)"
| "configuration_result (GetDeviceConfigurationDefault code _) = Inl (http_error (store_op ''GET'' ''configuration'') code)"

fun playbooks_result :: "get_playbook_executions_response \<Rightarrow> error + m_playbook_execution list" where
  "playbooks_result (GetPlaybookExecutionsOK p) = Inr p"
| "playbooks_result GetPlaybookExecutionsUnauthorized = Inl (http_error (store_op ''GET'' ''playbookexecutions'') 401)"
| "playbooks_result GetPlaybookExecutionsForbidden = Inl (http_error (store_op ''GET'' ''playbookexecutions'') 403)"
| "playbooks_result (GetPlaybookExecutionsDefault code _) = Inl (http_error (store_op ''GET'' ''playbookexecutions'') code)"

fun enrol_result :: "enrol_device_response \<Rightarrow> error + bool" where
  "enrol_result EnrolDeviceOK = Inr True"
| "enrol_result EnrolDeviceCreated = Inr False"
| "enrol_result EnrolDeviceUnauthorized = Inl (http_error (store_op ''POST'' ''enrolment'') 401)"
| "enrol_result EnrolDeviceForbidden = Inl (http_error (store_op ''POST'' ''enrolment'') 403)"
| "enrol_result (EnrolDeviceDefault code _) = Inl (http_error (store_op ''POST'' ''enrolment'') code)"

fun register_result :: "register_device_response \<Rightarrow> error option" where
  "register_result RegisterDeviceOK = None"
| "register_result RegisterDeviceUnauthorized = Some (http_error (store_op ''PUT'' ''registration'') 401)"
| "register_result RegisterDeviceForbidden = Some (http_error (store_op ''PUT'' ''registration'') 403)"
| "register_result (RegisterDeviceDefault code _) = Some (http_error (store_op ''PUT'' ''registration'') code)"

fun heartbeat_result :: "update_heart_beat_response \<Rightarrow> error option" where
  "heartbeat_result UpdateHeartBeatOK = None"
| "heartbeat_result UpdateHeartBeatUnauthorized = Some (http_error (store_op ''PUT'' ''heartbeat'') 401)"
| "heartbeat_result UpdateHeartBeatForbidden = Some (http_error (store_op ''PUT'' ''heartbeat'') 403)"
| "heartbeat_result (UpdateHeartBeatDefault code _) = Some (http_error (store_op ''PUT'' ''heartbeat'') code)"

definition direct_backend :: "formats \<Rightarrow> backend_api \<Rightarrow> edge_device_backend" where
  "direct_backend fmt api =
     \<lparr>be_GetRegistrationStatus = (\<lambda>name ns. mapp (\<lambda>r. case registration_result r of
          Inl e \<Rightarrow> ([], Some e) | Inr p \<Rightarrow> (rsr_Status p, None)) (api_GetRegistrationStatus api (at_store name ns))),
      be_GetConfiguration = (\<lambda>name ns. mapp (\<lambda>r. case configuration_result r of
          Inl e \<Rightarrow> Inl e | Inr p \<Rightarrow> Inr (dcr_DeviceConfiguration p)) (api_GetDeviceConfiguration api (at_store name ns))),
      be_Enrol = (\<lambda>name ns info. mapp (\<lambda>r. case enrol_result r of
          Inl e \<Rightarrow> (False, Some e) | Inr existed \<Rightarrow> (existed, None)) (api_EnrolDevice api (with_body name ns info))),
      be_GetTargetNamespace = (\<lambda>name ns _. mapp (\<lambda>r. case registration_result r of
          Inl e \<Rightarrow> Inl e | Inr p \<Rightarrow> Inr (rsr_Namespace p)) (api_GetRegistrationStatus api (at_store name ns))),
      be_GetPlaybookExecutions = (\<lambda>name ns. mapp playbooks_result (api_GetPlaybookExecutions api (at_store name ns))),
      be_Register = (\<lambda>name ns info. mapp register_result (api_RegisterDevice api (with_body name ns info))),
      be_UpdateStatus = (\<lambda>_ name ns hb.
          if \<exists>code path. heartbeat_fault fmt hb code path then Ret (True, Some (http_error (store_op ''PUT'' ''heartbeat'') 422))
          else mapp (\<lambda>r. case heartbeat_result r of Some e \<Rightarrow> (True, Some e) | None \<Rightarrow> (False, None))
            (api_UpdateHeartBeat api (with_body name ns hb)))\<rparr>"

text \<open>The default responses of the implementation are no successes.\<close>

definition no_success :: "(nat \<Rightarrow> 'e \<Rightarrow> 'a) \<Rightarrow> 'a io \<Rightarrow> bool" where
  "no_success default_response p \<longleftrightarrow> (\<forall>t code e. exec p t (Returned (default_response code e)) \<longrightarrow> code div 100 \<noteq> 2)"

lemma no_successD: "no_success D p \<Longrightarrow> exec p t (Returned (D code e)) \<Longrightarrow> code div 100 \<noteq> 2"
  unfolding no_success_def by blast

definition proper_defaults :: "backend_api \<Rightarrow> bool" where
  "proper_defaults api \<longleftrightarrow>
     (\<forall>p. no_success EnrolDeviceDefault (api_EnrolDevice api p)) \<and>
     (\<forall>p. no_success GetDeviceConfigurationDefault (api_GetDeviceConfiguration api p)) \<and>
     (\<forall>p. no_success GetPlaybookExecutionsDefault (api_GetPlaybookExecutions api p)) \<and>
     (\<forall>p. no_success GetRegistrationStatusDefault (api_GetRegistrationStatus api p)) \<and>
     (\<forall>p. no_success RegisterDeviceDefault (api_RegisterDevice api p)) \<and>
     (\<forall>p. no_success UpdateHeartBeatDefault (api_UpdateHeartBeat api p))"

lemma proper_default:
  assumes "proper_defaults api"
  shows "no_success EnrolDeviceDefault (api_EnrolDevice api p0)"
    and "no_success GetDeviceConfigurationDefault (api_GetDeviceConfiguration api p1)"
    and "no_success GetPlaybookExecutionsDefault (api_GetPlaybookExecutions api p2)"
    and "no_success GetRegistrationStatusDefault (api_GetRegistrationStatus api p3)"
    and "no_success RegisterDeviceDefault (api_RegisterDevice api p4)"
    and "no_success UpdateHeartBeatDefault (api_UpdateHeartBeat api p5)"
  using assms by (simp_all add: proper_defaults_def)

text \<open>A call whose request arrives as it was written, with a body that is decoded to what was encoded.\<close>

definition carries :: "store_wire \<Rightarrow> remote_call \<Rightarrow> bool" where
  "carries w c \<longleftrightarrow> carried (w_deliver w) (store_write w c) \<and> (case rc_Op c of
      OpEnrolDevice info \<Rightarrow> w_enrolment w (w_enrolment_json w info) = Some info
    | OpRegisterDevice info \<Rightarrow> w_registration w (w_registration_json w info) = Some info
    | OpUpdateHeartBeat hb \<Rightarrow> w_heartbeat w (w_heartbeat_json w hb) = Some hb
    | _ \<Rightarrow> True)"

section \<open>Requests arrive\<close>

text \<open>The client, the interface document and the table of handlers agree on where each operation lives.\<close>

lemma store_spec_routes:
  "map (\<lambda>operation. Store_HandlerFor (op_Method operation) (op_Path operation)) store_paths =
     map Some [EnrolDeviceHandler, GetDeviceConfigurationHandler, GetPlaybookExecutionsHandler, GetRegistrationStatusHandler,
       RegisterDeviceHandler, UpdateHeartBeatHandler]"
  by code_simp

lemmas write_defs = GetRegistrationStatus_WriteToRequest_def GetDeviceConfiguration_WriteToRequest_def
  GetPlaybookExecutions_WriteToRequest_def EnrolDevice_WriteToRequest_def RegisterDevice_WriteToRequest_def
  UpdateHeartBeat_WriteToRequest_def

lemmas bind_defs = GetRegistrationStatus_BindRequest_def GetDeviceConfiguration_BindRequest_def
  GetPlaybookExecutions_BindRequest_def EnrolDevice_BindRequest_def RegisterDevice_BindRequest_def
  UpdateHeartBeat_BindRequest_def

lemmas store_serve_defs = GetRegistrationStatus_ServeHTTP_def GetDeviceConfiguration_ServeHTTP_def
  GetPlaybookExecutions_ServeHTTP_def EnrolDevice_ServeHTTP_def RegisterDevice_ServeHTTP_def UpdateHeartBeat_ServeHTTP_def

lemma bind_body_Json:
  assumes "context x = None"
  shows "bind_body name validate context (Json x) =
    (case validate x of None \<Rightarrow> Inr x | Some e \<Rightarrow> Inl [ValidationError e])"
  using assms by (simp add: bind_body_def split: option.split)

fun store_operation :: "remote_op \<Rightarrow> store_handler" where
  "store_operation OpGetRegistrationStatus = GetRegistrationStatusHandler"
| "store_operation OpGetDeviceConfiguration = GetDeviceConfigurationHandler"
| "store_operation OpGetPlaybookExecutions = GetPlaybookExecutionsHandler"
| "store_operation (OpEnrolDevice _) = EnrolDeviceHandler"
| "store_operation (OpRegisterDevice _) = RegisterDeviceHandler"
| "store_operation (OpUpdateHeartBeat _) = UpdateHeartBeatHandler"

lemma store_routes:
  "store_route ''GET'' ''/namespaces/{namespace}/devices/{device-id}/registration'' = Some GetRegistrationStatusHandler"
  "store_route ''GET'' ''/namespaces/{namespace}/devices/{device-id}/configuration'' = Some GetDeviceConfigurationHandler"
  "store_route ''GET'' ''/namespaces/{namespace}/devices/{device-id}/playbookexecutions'' = Some GetPlaybookExecutionsHandler"
  "store_route ''POST'' ''/namespaces/{namespace}/devices/{device-id}/enrolment'' = Some EnrolDeviceHandler"
  "store_route ''PUT'' ''/namespaces/{namespace}/devices/{device-id}/registration'' = Some RegisterDeviceHandler"
  "store_route ''PUT'' ''/namespaces/{namespace}/devices/{device-id}/heartbeat'' = Some UpdateHeartBeatHandler"
  by code_simp+

text \<open>The request of a call is for the handler of its operation and names the device and the namespace.\<close>

lemma store_write_route: "store_route (cq_Method (store_write w c)) (cq_PathPattern (store_write w c)) = Some (store_operation (rc_Op c))"
  by (cases "rc_Op c") (simp_all add: store_write_def encoded_def write_defs store_routes)

lemma store_write_params:
  "map_of (cq_PathParams (store_write w c)) = [''device-id'' \<mapsto> rc_DeviceID c, ''namespace'' \<mapsto> rc_Namespace c]"
  by (cases "rc_Op c") (simp_all add: store_write_def encoded_def write_defs fun_upd_twist)

lemma arrived_route:
  assumes "carries w c"
  shows "store_route (ar_Method (w_deliver w (store_write w c))) (ar_Path (w_deliver w (store_write w c))) = Some (store_operation (rc_Op c))"
  using assms by (simp add: carries_def carried_def store_write_route)

lemma arrived_params:
  assumes "carries w c"
  shows "bind_path (RouteParams_GetOK (rq_Params (consumed decode (w_deliver w (store_write w c)))) ''device-id'') = rc_DeviceID c"
    and "bind_path (RouteParams_GetOK (rq_Params (consumed decode (w_deliver w (store_write w c)))) ''namespace'') = rc_Namespace c"
    and "rq_Refused (consumed decode (w_deliver w (store_write w c))) = None"
  using assms store_write_params [of w c]
  by (simp_all add: carries_def carried_def consumed_def RouteParams_GetOK_def bind_path_def)

lemma arrived_body:
  assumes "carries w c" "cq_Body (store_write w c) = Some j" "decode j = Some b"
  shows "rq_Body (consumed decode (w_deliver w (store_write w c))) = Json b"
  using assms by (simp add: carries_def carried_def consumed_def)

lemma store_write_body:
  "rc_Op c = OpEnrolDevice info \<Longrightarrow> cq_Body (store_write w c) = Some (w_enrolment_json w info)"
  "rc_Op c = OpRegisterDevice reg \<Longrightarrow> cq_Body (store_write w c) = Some (w_registration_json w reg)"
  "rc_Op c = OpUpdateHeartBeat hb \<Longrightarrow> cq_Body (store_write w c) = Some (w_heartbeat_json w hb)"
  by (simp_all add: store_write_def encoded_def write_defs)

text \<open>So the server calls the implementation with what the client was called with.\<close>

lemma answers_plain:
  assumes "carries w c"
  shows "rc_Op c = OpGetRegistrationStatus \<Longrightarrow> store_answer fmt api w c =
      mapp GetRegistrationStatus_WriteResponse (api_GetRegistrationStatus api (at_store (rc_DeviceID c) (rc_Namespace c)))"
    and "rc_Op c = OpGetDeviceConfiguration \<Longrightarrow> store_answer fmt api w c =
      mapp GetDeviceConfiguration_WriteResponse (api_GetDeviceConfiguration api (at_store (rc_DeviceID c) (rc_Namespace c)))"
    and "rc_Op c = OpGetPlaybookExecutions \<Longrightarrow> store_answer fmt api w c =
      mapp GetPlaybookExecutions_WriteResponse (api_GetPlaybookExecutions api (at_store (rc_DeviceID c) (rc_Namespace c)))"
  using arrived_route [OF assms] arrived_params [OF assms, of "\<lambda>_. Some ()"]
  by (simp_all add: store_answer_def store_serve_def store_serve_defs bind_defs BindValidRequest_def at_store_def)

lemma answers_enrolment:
  assumes "carries w c" "rc_Op c = OpEnrolDevice info"
  shows "store_answer fmt api w c =
    mapp EnrolDevice_WriteResponse (api_EnrolDevice api (with_body (rc_DeviceID c) (rc_Namespace c) info))"
proof -
  have "w_enrolment w (w_enrolment_json w info) = Some info" using assms by (simp add: carries_def)
  from arrived_body [where decode = "w_enrolment w", OF assms(1) store_write_body(1) [OF assms(2)] this] arrived_route [OF assms(1)]
    arrived_params [OF assms(1), of "w_enrolment w"] assms(2)
  show ?thesis
    by (simp add: store_answer_def store_serve_def EnrolDevice_ServeHTTP_def EnrolDevice_BindRequest_def BindValidRequest_def
        bind_body_Json with_body_def)
qed

lemma answers_registration:
  assumes "carries w c" "rc_Op c = OpRegisterDevice info"
  shows "store_answer fmt api w c =
    mapp RegisterDevice_WriteResponse (api_RegisterDevice api (with_body (rc_DeviceID c) (rc_Namespace c) info))"
proof -
  have "w_registration w (w_registration_json w info) = Some info" using assms by (simp add: carries_def)
  from arrived_body [where decode = "w_registration w", OF assms(1) store_write_body(2) [OF assms(2)] this] arrived_route [OF assms(1)]
    arrived_params [OF assms(1), of "w_registration w"] assms(2)
  show ?thesis
    by (simp add: store_answer_def store_serve_def RegisterDevice_ServeHTTP_def RegisterDevice_BindRequest_def BindValidRequest_def
        bind_body_Json with_body_def)
qed

lemma answers_heartbeat:
  assumes "carries w c" "rc_Op c = OpUpdateHeartBeat hb"
  shows "if Heartbeat_Validate fmt hb = None
    then store_answer fmt api w c =
      mapp UpdateHeartBeat_WriteResponse (api_UpdateHeartBeat api (with_body (rc_DeviceID c) (rc_Namespace c) hb))
    else \<exists>text. \<forall>api. store_answer fmt api w c = Ret (422, ErrorBody text)"
proof -
  have "w_heartbeat w (w_heartbeat_json w hb) = Some hb" using assms by (simp add: carries_def)
  note arrived = arrived_body [where decode = "w_heartbeat w", OF assms(1) store_write_body(3) [OF assms(2)] this] arrived_route [OF assms(1)]
    arrived_params [OF assms(1), of "w_heartbeat w"] assms(2)
  show ?thesis
  proof (cases "Heartbeat_Validate fmt hb")
    case None
    with arrived show ?thesis
      by (simp add: store_answer_def store_serve_def UpdateHeartBeat_ServeHTTP_def UpdateHeartBeat_BindRequest_def BindValidRequest_def
          bind_body_Json with_body_def)
  next
    case (Some e)
    then obtain code path rest where "leaves e = (code, path) # rest" "code \<in> {InvalidTypeCode, EnumFailCode}"
      by (rule heartbeat_leaves)
    with Some arrived show ?thesis
      by (auto simp: store_answer_def store_serve_def UpdateHeartBeat_ServeHTTP_def UpdateHeartBeat_BindRequest_def BindValidRequest_def
          bind_body_Json ServeError_def store_error_def asHTTPCode_def DefaultHTTPCode_def InvalidTypeCode_def EnumFailCode_def)
  qed
qed

section \<open>Answers are read\<close>

text \<open>What a call of the client makes of the response that the implementation gave.\<close>

lemma read_registration:
  assumes "\<And>code e. r = GetRegistrationStatusDefault code e \<Longrightarrow> code div 100 \<noteq> 2"
  shows "submit_outcome GetRegistrationStatusReader (case_prod RHttp (GetRegistrationStatus_WriteResponse r)) =
    Returned (registration_result r)"
  using assms
  by (cases r; cases "case r of GetRegistrationStatusOK p \<Rightarrow> p | GetRegistrationStatusDefault _ p \<Rightarrow> p | _ \<Rightarrow> None")
    (auto simp: submit_outcome_def GetRegistrationStatusReader_def ReadResponse_def payload_body_def reads_object_def store_op_def)

lemma read_configuration:
  assumes "\<And>code e. r = GetDeviceConfigurationDefault code e \<Longrightarrow> code div 100 \<noteq> 2"
  shows "submit_outcome GetDeviceConfigurationReader (case_prod RHttp (GetDeviceConfiguration_WriteResponse r)) =
    Returned (configuration_result r)"
  using assms
  by (cases r; cases "case r of GetDeviceConfigurationOK p \<Rightarrow> p | GetDeviceConfigurationDefault _ p \<Rightarrow> p | _ \<Rightarrow> None")
    (auto simp: submit_outcome_def GetDeviceConfigurationReader_def ReadResponse_def payload_body_def reads_object_def store_op_def)

lemma read_playbooks:
  assumes "\<And>code e. r = GetPlaybookExecutionsDefault code e \<Longrightarrow> code div 100 \<noteq> 2"
  shows "submit_outcome GetPlaybookExecutionsReader (case_prod RHttp (GetPlaybookExecutions_WriteResponse r)) =
    Returned (playbooks_result r)"
  using assms
  by (cases r; cases "case r of GetPlaybookExecutionsDefault _ p \<Rightarrow> p | _ \<Rightarrow> None")
    (auto simp: submit_outcome_def GetPlaybookExecutionsReader_def ReadResponse_def payload_body_def reads_object_def store_op_def)

lemma read_register:
  assumes "\<And>code e. r = RegisterDeviceDefault code e \<Longrightarrow> code div 100 \<noteq> 2"
  shows "submit_outcome RegisterDeviceReader (case_prod RHttp (RegisterDevice_WriteResponse r)) =
    Returned (case register_result r of None \<Rightarrow> Inr () | Some e \<Rightarrow> Inl e)"
  using assms
  by (cases r; cases "case r of RegisterDeviceDefault _ p \<Rightarrow> p | _ \<Rightarrow> None")
    (auto simp: submit_outcome_def RegisterDeviceReader_def ReadResponse_def payload_body_def reads_object_def store_op_def no_payload_def)

lemma read_heartbeat:
  assumes "\<And>code e. r = UpdateHeartBeatDefault code e \<Longrightarrow> code div 100 \<noteq> 2"
  shows "submit_outcome UpdateHeartBeatReader (case_prod RHttp (UpdateHeartBeat_WriteResponse r)) =
    Returned (case heartbeat_result r of None \<Rightarrow> Inr () | Some e \<Rightarrow> Inl e)"
  using assms
  by (cases r; cases "case r of UpdateHeartBeatDefault _ p \<Rightarrow> p | _ \<Rightarrow> None")
    (auto simp: submit_outcome_def UpdateHeartBeatReader_def ReadResponse_def payload_body_def reads_object_def store_op_def no_payload_def)

lemma read_enrol:
  assumes "\<And>code e. r = EnrolDeviceDefault code e \<Longrightarrow> code div 100 \<noteq> 2"
  shows "case_prod EnrolDeviceReader (EnrolDevice_WriteResponse r) = map_sum id Some (enrol_result r)"
  using assms
  by (cases r; cases "case r of EnrolDeviceDefault _ p \<Rightarrow> p | _ \<Rightarrow> None")
    (auto simp: EnrolDeviceReader_def payload_body_def reads_object_def store_op_def)

section \<open>Hiding the network\<close>

text \<open>
  Runs of a program that talks to the store, seen from where the store is: \<open>inlined ok t t'\<close> says that \<open>t'\<close> is the run \<open>t\<close> in which every
  call of the store is replaced by the run of the server that answered it, where \<open>ok c r u\<close> means that the run \<open>u\<close> answers the call \<open>c\<close>
  with \<open>r\<close>. A program hides the network when that is a run of a second program, with the same end.
\<close>

fun is_remote :: "request \<Rightarrow> bool" where
  "is_remote (Remote _) = True"
| "is_remote _ = False"

inductive inlined :: "(remote_call \<Rightarrow> response \<Rightarrow> io_trace \<Rightarrow> bool) \<Rightarrow> io_trace \<Rightarrow> io_trace \<Rightarrow> bool" for ok where
  end_of_run: "inlined ok [] []"
| own_request: "\<not> is_remote q \<Longrightarrow> inlined ok t t' \<Longrightarrow> inlined ok ((q, r) # t) ((q, r) # t')"
| store_call: "ok c r u \<Longrightarrow> inlined ok t t' \<Longrightarrow> inlined ok ((Remote c, r) # t) (u @ t')"

inductive_cases inlined_NilE [elim!]: "inlined ok [] t'"
inductive_cases inlined_ConsE [elim]: "inlined ok (c # t) t'"

definition hides :: "(remote_call \<Rightarrow> response \<Rightarrow> io_trace \<Rightarrow> bool) \<Rightarrow> 'a io \<Rightarrow> 'a io \<Rightarrow> bool" where
  "hides ok p p' \<longleftrightarrow> (\<forall>t t' out. exec p t out \<longrightarrow> inlined ok t t' \<longrightarrow> exec p' t' out)"

lemma hidesD: "hides ok p p' \<Longrightarrow> exec p t out \<Longrightarrow> inlined ok t t' \<Longrightarrow> exec p' t' out"
  unfolding hides_def by blast

lemma inlined_append:
  assumes "inlined ok (t1 @ t2) t'"
  obtains u1 u2 where "t' = u1 @ u2" "inlined ok t1 u1" "inlined ok t2 u2"
  using assms
proof (induction t1 arbitrary: t' thesis)
  case Nil
  from Nil.prems(1) [of "[]" t'] Nil.prems(2) inlined.end_of_run [of ok] show ?case by simp
next
  case (Cons c t1)
  from Cons.prems(2) have "inlined ok (c # t1 @ t2) t'" by simp
  then show ?case
  proof cases
    case (own_request q t'' r)
    from Cons.IH [OF _ own_request(4)] obtain u1 u2 where "t'' = u1 @ u2" "inlined ok t1 u1" "inlined ok t2 u2" by blast
    with own_request Cons.prems(1) [of "(q, r) # u1" u2] inlined.own_request [of q ok t1 u1 r] show ?thesis by simp
  next
    case (store_call c' r u t'')
    from Cons.IH [OF _ store_call(4)] obtain u1 u2 where "t'' = u1 @ u2" "inlined ok t1 u1" "inlined ok t2 u2" by blast
    with store_call Cons.prems(1) [of "u @ u1" u2] inlined.store_call [of ok c' r u t1 u1] show ?thesis by simp
  qed
qed

lemma inlined_own:
  assumes "inlined ok t t'" "\<forall>c \<in> set t. \<not> is_remote (fst c)"
  shows "t' = t"
  using assms by (induction rule: inlined.induct) auto

lemma hides_refl:
  assumes "issues (\<lambda>q. \<not> is_remote q) p"
  shows "hides ok p p"
  unfolding hides_def
proof (intro allI impI)
  fix t t' out
  assume e: "exec p t out" and i: "inlined ok t t'"
  from e assms have "\<forall>c \<in> set t. \<not> is_remote (fst c)" by (auto simp: issues_exec)
  with inlined_own [OF i] e show "exec p t' out" by simp
qed

lemma hides_bindp:
  assumes "hides ok p p'" "\<And>a. hides ok (f a) (f' a)"
  shows "hides ok (bindp p f) (bindp p' f')"
  unfolding hides_def
proof (intro allI impI)
  fix t t' out
  assume "exec (bindp p f) t out" and i: "inlined ok t t'"
  then consider t1 t2 a where "exec p t1 (Returned a)" "exec (f a) t2 out" "t = t1 @ t2"
    | m where "exec p t (Panicked m)" "out = Panicked m" by (auto simp: exec_bindp)
  then show "exec (bindp p' f') t' out"
  proof cases
    case 1
    from i [unfolded 1(3)] obtain u1 u2 where u: "t' = u1 @ u2" "inlined ok t1 u1" "inlined ok t2 u2" by (rule inlined_append)
    from hidesD [OF assms(1) 1(1) u(2)] hidesD [OF assms(2) 1(2) u(3)] u(1) show ?thesis unfolding exec_bindp by blast
  next
    case 2
    from hidesD [OF assms(1) 2(1) i] 2(2) show ?thesis by (simp add: exec_bindp)
  qed
qed

lemma hides_mapp: "hides ok p p' \<Longrightarrow> hides ok (mapp g p) (mapp g p')"
  unfolding mapp_def by (intro hides_bindp hides_refl) simp_all

lemma hides_Ret [simp]: "hides ok (Ret a) (Ret a)"
  by (simp add: hides_refl)

lemma hides_ask:
  assumes "\<And>r. hides ok (k r) (k' r)" "\<not> is_remote q"
  shows "hides ok (Call q k) (Call q k')"
  unfolding hides_def
proof (intro allI impI)
  fix t t' out
  assume "exec (Call q k) t out" and i: "inlined ok t t'"
  then obtain r u where t: "t = (q, r) # u" "exec (k r) u out" by (auto simp: exec_Call)
  with i assms(2) obtain u' where "t' = (q, r) # u'" "inlined ok u u'" by (auto elim!: inlined_ConsE)
  with hidesD [OF assms(1) t(2)] show "exec (Call q k') t' out" by (auto simp: exec_Call)
qed

text \<open>The handler with the one backend or the other.\<close>

abbreviation over :: "handler \<Rightarrow> edge_device_backend \<Rightarrow> handler" where
  "over h backend \<equiv> h \<lparr>yh_backend := backend\<rparr>"

lemma getNamespace_over [simp]: "getNamespace (h \<lparr>yh_backend := b\<rparr>) ctx = getNamespace h ctx"
  by (simp add: getNamespace_def split: option.split)

lemma hides_attempts:
  assumes "\<And>retry. hides ok (d retry) (d' retry)"
  shows "hides ok (process_attempts is retry err d) (process_attempts is retry err d')"
proof (induction "is" arbitrary: retry err)
  case (Cons i "is")
  show ?case unfolding process_attempts.simps
    by (intro hides_bindp assms) (auto intro!: hides_refl hides_bindp Cons.IH split: option.split)
qed (simp add: process_attempts.simps hides_refl)

text \<open>
  Two backends of which the first hides the second: so do the handlers over them.
\<close>

locale backend_refinement =
  fixes ok :: "remote_call \<Rightarrow> response \<Rightarrow> io_trace \<Rightarrow> bool" and concrete abstract :: edge_device_backend
  assumes registration_status: "hides ok (be_GetRegistrationStatus concrete n ns) (be_GetRegistrationStatus abstract n ns)"
    and configuration: "hides ok (be_GetConfiguration concrete n ns) (be_GetConfiguration abstract n ns)"
    and enrol: "hides ok (be_Enrol concrete n ns info) (be_Enrol abstract n ns info)"
    and target: "hides ok (be_GetTargetNamespace concrete n ns m) (be_GetTargetNamespace abstract n ns m)"
    and playbooks: "hides ok (be_GetPlaybookExecutions concrete n ns) (be_GetPlaybookExecutions abstract n ns)"
    and register: "hides ok (be_Register concrete n ns reg) (be_Register abstract n ns reg)"
    and status: "hides ok (be_UpdateStatus concrete retry n ns hb) (be_UpdateStatus abstract retry n ns hb)"
begin

lemmas operations = registration_status configuration enrol target playbooks register status

lemma sign_visible: "signs_for cn ns q \<Longrightarrow> \<not> is_remote q"
  by (cases q) auto

lemma hides_SignCSR: "hides ok (SignCSR x conf csr cn ns) (SignCSR x conf csr cn ns)"
  using sign_visible by (intro hides_refl issues_mono [OF issues_SignCSR])

lemma hides_gets:
  "hides ok (GetControlMessageForDevice (over h concrete) ctx d) (GetControlMessageForDevice (over h abstract) ctx d)"
  "hides ok (GetDataMessageForDevice (over h concrete) ctx d) (GetDataMessageForDevice (over h abstract) ctx d)"
  by (auto simp: GetControlMessageForDevice_def GetDataMessageForDevice_def createDisconnectCommand_def refuse_owner_def
      go_uuid_def go_now_def tell_def
      intro!: hides_bindp hides_ask hides_mapp operations split: option.split sum.split)

lemma hides_print: "hides ok (print_heartbeat hb) (print_heartbeat hb)"
  by (simp add: hides_refl)

lemma hides_posts:
  "hides ok (post_heartbeat (over h concrete) ctx d msg) (post_heartbeat (over h abstract) ctx d msg)"
  "hides ok (post_enrolment (over h concrete) d msg) (post_enrolment (over h abstract) d msg)"
  "hides ok (post_ansible (over h concrete) ctx d msg) (post_ansible (over h abstract) ctx d msg)"
  by (auto simp: post_heartbeat_def post_enrolment_def post_ansible_def RetryingDelegatingHandler_Process_def
      go_uuid_def tell_def
      intro!: hides_bindp hides_ask hides_print hides_attempts operations split: option.split sum.split)

lemma hides_registration:
  "hides ok (post_registration (over h concrete) ctx d msg) (post_registration (over h abstract) ctx d msg)"
  by (auto simp: post_registration_def tell_def
      intro!: hides_bindp hides_ask hides_SignCSR operations split: option.split sum.split error.split)

lemma hides_handle: "hides ok (handle (over h concrete) ctx call) (handle (over h abstract) ctx call)"
proof (cases call)
  case (PostData d msg)
  have "hides ok refuse_owner refuse_owner" by (auto simp: refuse_owner_def tell_def intro!: hides_ask)
  with PostData show ?thesis by (simp add: PostDataMessageForDevice_def Let_def hides_posts hides_registration)
next
  case (PostControl d)
  then show ?thesis by (auto simp: PostControlMessageForDevice_def refuse_owner_def tell_def intro!: hides_ask)
qed (simp_all add: hides_gets)

end

section \<open>The remote backend is the store\<close>

text \<open>
  A store built from the generated server around an implementation whose default responses are no successes: it answers a call that
  arrives as it was written with the outcome of a run of the server.
\<close>

definition store_ok :: "formats \<Rightarrow> backend_api \<Rightarrow> store_wire \<Rightarrow> remote_call \<Rightarrow> response \<Rightarrow> io_trace \<Rightarrow> bool" where
  "store_ok fmt api w c r u \<longleftrightarrow> proper_defaults api \<and> carries w c \<and>
     (\<exists>code body. exec (store_answer fmt api w c) u (Returned (code, body)) \<and> r = RHttp code body)"

lemma remote_params_simps [simp]:
  "rc_Op (remote_params operation timeout name ns) = operation" "rc_DeviceID (remote_params operation timeout name ns) = name"
  "rc_Namespace (remote_params operation timeout name ns) = ns"
  by (simp_all add: remote_params_def)

lemma mapp_mapp: "mapp f (mapp g p) = mapp (\<lambda>x. f (g x)) p"
  by (simp add: mapp_def bindp_assoc)

text \<open>A program that makes one call of the store.\<close>

lemma hides_submit:
  assumes "\<And>r u. ok c r u \<Longrightarrow> exec p' u (submit_outcome reader r)"
  shows "hides ok (submit c reader) p'"
  using assms by (auto simp: hides_def exec_submit elim!: inlined_ConsE)

lemma hides_then:
  assumes "hides ok p (mapp g q)"
  shows "hides ok (bindp p (\<lambda>x. Ret (f x))) (mapp (\<lambda>x. f (g x)) q)"
  using hides_mapp [OF assms, of f] by (simp add: mapp_def bindp_assoc)

lemma store_ok_run:
  assumes "store_ok fmt api w c r u" "store_answer fmt api w c = mapp WriteResponse p"
  obtains a where "exec p u (Returned a)" "r = case_prod RHttp (WriteResponse a)"
proof -
  from assms obtain code body where run: "exec (mapp WriteResponse p) u (Returned (code, body))" and r: "r = RHttp code body"
    by (auto simp: store_ok_def)
  from run obtain a where a: "exec p u (Returned a)" "(code, body) = WriteResponse a" by (auto simp: exec_mapp)
  from that [OF a(1)] r show thesis by (simp flip: a(2))
qed

lemma store_registration:
  assumes "store_ok fmt api w (remote_params OpGetRegistrationStatus timeout name ns) r u"
  shows "exec (mapp registration_result (api_GetRegistrationStatus api (at_store name ns))) u (submit_outcome GetRegistrationStatusReader r)"
proof -
  have ok: "carries w (remote_params OpGetRegistrationStatus timeout name ns)" "proper_defaults api" using assms by (simp_all add: store_ok_def)
  from store_ok_run [OF assms answers_plain(1) [OF ok(1)]] obtain a where
    a: "exec (api_GetRegistrationStatus api (at_store name ns)) u (Returned a)" "r = case_prod RHttp (GetRegistrationStatus_WriteResponse a)"
    by auto
  from a(1) no_successD [OF proper_default(4) [OF ok(2)]] have "submit_outcome GetRegistrationStatusReader r = Returned (registration_result a)"
    unfolding a(2) by (intro read_registration) blast
  with a(1) show ?thesis by (auto simp: exec_mapp)
qed

lemma store_configuration:
  assumes "store_ok fmt api w (remote_params OpGetDeviceConfiguration timeout name ns) r u"
  shows "exec (mapp configuration_result (api_GetDeviceConfiguration api (at_store name ns))) u (submit_outcome GetDeviceConfigurationReader r)"
proof -
  have ok: "carries w (remote_params OpGetDeviceConfiguration timeout name ns)" "proper_defaults api" using assms by (simp_all add: store_ok_def)
  from store_ok_run [OF assms answers_plain(2) [OF ok(1)]] obtain a where
    a: "exec (api_GetDeviceConfiguration api (at_store name ns)) u (Returned a)" "r = case_prod RHttp (GetDeviceConfiguration_WriteResponse a)"
    by auto
  from a(1) no_successD [OF proper_default(2) [OF ok(2)]] have "submit_outcome GetDeviceConfigurationReader r = Returned (configuration_result a)"
    unfolding a(2) by (intro read_configuration) blast
  with a(1) show ?thesis by (auto simp: exec_mapp)
qed

lemma store_playbooks:
  assumes "store_ok fmt api w (remote_params OpGetPlaybookExecutions timeout name ns) r u"
  shows "exec (mapp playbooks_result (api_GetPlaybookExecutions api (at_store name ns))) u (submit_outcome GetPlaybookExecutionsReader r)"
proof -
  have ok: "carries w (remote_params OpGetPlaybookExecutions timeout name ns)" "proper_defaults api" using assms by (simp_all add: store_ok_def)
  from store_ok_run [OF assms answers_plain(3) [OF ok(1)]] obtain a where
    a: "exec (api_GetPlaybookExecutions api (at_store name ns)) u (Returned a)" "r = case_prod RHttp (GetPlaybookExecutions_WriteResponse a)"
    by auto
  from a(1) no_successD [OF proper_default(3) [OF ok(2)]] have "submit_outcome GetPlaybookExecutionsReader r = Returned (playbooks_result a)"
    unfolding a(2) by (intro read_playbooks) blast
  with a(1) show ?thesis by (auto simp: exec_mapp)
qed

definition as_sum :: "error option \<Rightarrow> error + unit" where
  "as_sum x = (case x of None \<Rightarrow> Inr () | Some e \<Rightarrow> Inl e)"

lemma case_as_sum: "(case as_sum x of Inl e \<Rightarrow> f e | Inr y \<Rightarrow> g y) = (case x of None \<Rightarrow> g () | Some e \<Rightarrow> f e)"
  by (cases x) (simp_all add: as_sum_def)

lemma store_register:
  assumes "store_ok fmt api w (remote_params (OpRegisterDevice info) timeout name ns) r u"
  shows "exec (mapp (\<lambda>a. as_sum (register_result a)) (api_RegisterDevice api (with_body name ns info))) u (submit_outcome RegisterDeviceReader r)"
proof -
  have ok: "carries w (remote_params (OpRegisterDevice info) timeout name ns)" "proper_defaults api" using assms by (simp_all add: store_ok_def)
  from store_ok_run [OF assms answers_registration [OF ok(1)]] obtain a where
    a: "exec (api_RegisterDevice api (with_body name ns info)) u (Returned a)" "r = case_prod RHttp (RegisterDevice_WriteResponse a)"
    by auto
  from a(1) no_successD [OF proper_default(5) [OF ok(2)]] have "submit_outcome RegisterDeviceReader r = Returned (as_sum (register_result a))"
    unfolding a(2) as_sum_def by (intro read_register) blast
  with a(1) show ?thesis by (auto simp: exec_mapp)
qed

lemma heartbeat_outcome:
  "submit_outcome UpdateHeartBeatReader (RHttp 422 (ErrorBody text)) = Returned (Inl (http_error (store_op ''PUT'' ''heartbeat'') 422))"
  by (simp add: submit_outcome_def UpdateHeartBeatReader_def ReadResponse_def reads_object_def store_op_def)

text \<open>An invalid heartbeat is refused by the server itself, whatever the implementation.\<close>

lemma store_refuses:
  assumes "carries w c" "rc_Op c = OpUpdateHeartBeat hb" "heartbeat_fault fmt hb code path"
  obtains why where "\<And>api. store_answer fmt api w c = Ret (422, ErrorBody why)"
proof -
  from valid_faultless assms(3) have "Heartbeat_Validate fmt hb \<noteq> None" by blast
  with answers_heartbeat [OF assms(1,2), of fmt] that show thesis by auto
qed

lemma store_heartbeat:
  assumes "store_ok fmt api w (remote_params (OpUpdateHeartBeat hb) timeout name ns) r u"
  shows "exec (if \<exists>code path. heartbeat_fault fmt hb code path then Ret (Inl (http_error (store_op ''PUT'' ''heartbeat'') 422))
      else mapp (\<lambda>a. as_sum (heartbeat_result a)) (api_UpdateHeartBeat api (with_body name ns hb))) u
    (submit_outcome UpdateHeartBeatReader r)"
proof -
  let ?c = "remote_params (OpUpdateHeartBeat hb) timeout name ns"
  have ok: "carries w ?c" "proper_defaults api" using assms by (simp_all add: store_ok_def)
  show ?thesis
  proof (cases "\<exists>code path. heartbeat_fault fmt hb code path")
    case True
    then obtain code path where "heartbeat_fault fmt hb code path" by blast
    then obtain why where "store_answer fmt api w ?c = Ret (422, ErrorBody why)" using store_refuses [OF ok(1)] by (metis remote_params_simps(1))
    with assms have "u = []" "r = RHttp 422 (ErrorBody why)" by (simp_all add: store_ok_def)
    with True show ?thesis by (simp add: heartbeat_outcome)
  next
    case False
    then have "Heartbeat_Validate fmt hb = None" using faultless_valid by blast
    with answers_heartbeat [OF ok(1), of hb fmt api] have
      "store_answer fmt api w ?c = mapp UpdateHeartBeat_WriteResponse (api_UpdateHeartBeat api (with_body name ns hb))" by simp
    from store_ok_run [OF assms this] obtain a where
      a: "exec (api_UpdateHeartBeat api (with_body name ns hb)) u (Returned a)" "r = case_prod RHttp (UpdateHeartBeat_WriteResponse a)"
      by auto
    from a(1) no_successD [OF proper_default(6) [OF ok(2)]] have "submit_outcome UpdateHeartBeatReader r = Returned (as_sum (heartbeat_result a))"
      unfolding a(2) as_sum_def by (intro read_heartbeat) blast
    with a(1) False show ?thesis by (auto simp: exec_mapp)
  qed
qed

lemma hides_enrol:
  "hides (store_ok fmt api w) (Client_EnrolDevice (remote_params (OpEnrolDevice info) timeout name ns))
     (mapp (\<lambda>a. map_sum id Some (enrol_result a)) (api_EnrolDevice api (with_body name ns info)))"
  unfolding hides_def
proof (intro allI impI)
  let ?c = "remote_params (OpEnrolDevice info) timeout name ns"
  let ?read = "\<lambda>r. case r of RErr e \<Rightarrow> Inl e | RHttp code body \<Rightarrow> EnrolDeviceReader code body | _ \<Rightarrow> Inl decode_error"
  fix t t' out
  assume "exec (Client_EnrolDevice ?c) t out" and "inlined (store_ok fmt api w) t t'"
  then obtain r where out: "out = Returned (?read r)" and ok: "store_ok fmt api w ?c r t'"
    by (auto simp: Client_EnrolDevice_def exec_Call elim!: inlined_ConsE)
  then have c: "carries w ?c" "proper_defaults api" by (simp_all add: store_ok_def)
  from store_ok_run [OF ok answers_enrolment [OF c(1)]] obtain a where
    a: "exec (api_EnrolDevice api (with_body name ns info)) t' (Returned a)" "r = case_prod RHttp (EnrolDevice_WriteResponse a)"
    by auto
  from a(1) no_successD [OF proper_default(1) [OF c(2)]] have "case_prod EnrolDeviceReader (EnrolDevice_WriteResponse a) = map_sum id Some (enrol_result a)"
    by (intro read_enrol) blast
  with a(2) have "?read r = map_sum id Some (enrol_result a)" by (cases "EnrolDevice_WriteResponse a") simp
  with a(1) out show "exec (mapp (\<lambda>a. map_sum id Some (enrol_result a)) (api_EnrolDevice api (with_body name ns info))) t' out"
    by (auto simp: exec_mapp)
qed

interpretation store: backend_refinement "store_ok fmt api w" "remote_backend b" "direct_backend fmt api"
proof
  fix n ns m info reg retry hb
  show "hides (store_ok fmt api w) (be_GetRegistrationStatus (remote_backend b) n ns) (be_GetRegistrationStatus (direct_backend fmt api) n ns)"
    by (simp add: remote_backend_def direct_backend_def remote_defs client_defs)
      (intro hides_then hides_submit store_registration)
  show "hides (store_ok fmt api w) (be_GetConfiguration (remote_backend b) n ns) (be_GetConfiguration (direct_backend fmt api) n ns)"
    by (simp add: remote_backend_def direct_backend_def remote_defs client_defs)
      (intro hides_then hides_submit store_configuration)
  show "hides (store_ok fmt api w) (be_GetTargetNamespace (remote_backend b) n ns m) (be_GetTargetNamespace (direct_backend fmt api) n ns m)"
    by (simp add: remote_backend_def direct_backend_def remote_defs client_defs)
      (intro hides_then hides_submit store_registration)
  show "hides (store_ok fmt api w) (be_GetPlaybookExecutions (remote_backend b) n ns) (be_GetPlaybookExecutions (direct_backend fmt api) n ns)"
    by (simp add: remote_backend_def direct_backend_def remote_defs client_defs) (intro hides_submit store_playbooks)
  have "(\<lambda>a. case as_sum (register_result a) of Inl e \<Rightarrow> Some e | Inr _ \<Rightarrow> None) = register_result"
    by (simp add: case_as_sum fun_eq_iff split: option.split)
  with hides_then [OF hides_submit [OF store_register], where f = "\<lambda>res. case res of Inl e \<Rightarrow> Some e | Inr _ \<Rightarrow> None"]
  show "hides (store_ok fmt api w) (be_Register (remote_backend b) n ns reg) (be_Register (direct_backend fmt api) n ns reg)"
    by (simp add: remote_backend_def direct_backend_def remote_defs client_defs)
  show "hides (store_ok fmt api w) (be_UpdateStatus (remote_backend b) retry n ns hb) (be_UpdateStatus (direct_backend fmt api) retry n ns hb)"
  proof (cases "\<exists>code path. heartbeat_fault fmt hb code path")
    case True
    have "hides (store_ok fmt api w) (submit (remote_params (OpUpdateHeartBeat hb) (rb_timeout b) n ns) UpdateHeartBeatReader)
        (mapp id (Ret (Inl (http_error (store_op ''PUT'' ''heartbeat'') 422))))"
      using store_heartbeat [of fmt api w hb "rb_timeout b" n ns] True by (intro hides_submit) (simp add: mapp_def)
    from hides_then [OF this, of "\<lambda>res. case res of Inl e \<Rightarrow> (True, Some e) | Inr _ \<Rightarrow> (False, None)"] True show ?thesis
      by (simp add: remote_backend_def direct_backend_def remote_defs client_defs mapp_def)
  next
    case False
    have "hides (store_ok fmt api w) (submit (remote_params (OpUpdateHeartBeat hb) (rb_timeout b) n ns) UpdateHeartBeatReader)
        (mapp (\<lambda>a. as_sum (heartbeat_result a)) (api_UpdateHeartBeat api (with_body n ns hb)))"
      using store_heartbeat [of fmt api w hb "rb_timeout b" n ns] False by (intro hides_submit) simp
    note this = hides_then [OF this, of "\<lambda>res. case res of Inl e \<Rightarrow> (True, Some e) | Inr _ \<Rightarrow> (False, None)"]
    with False show ?thesis
      unfolding remote_backend_def direct_backend_def remote_defs client_defs case_as_sum edge_device_backend.simps by (simp only: if_False)
  qed
  have "(\<lambda>a. case map_sum id Some (enrol_result a) of Inl e \<Rightarrow> (False, Some e)
        | Inr existed \<Rightarrow> if existed = Some True then (True, None) else (False, None)) =
      (\<lambda>a. case enrol_result a of Inl e \<Rightarrow> (False, Some e) | Inr existed \<Rightarrow> (existed, None))"
    by (auto simp: fun_eq_iff split: sum.split)
  with hides_then [OF hides_enrol,
      where f = "\<lambda>res. case res of Inl e \<Rightarrow> (False, Some e) | Inr existed \<Rightarrow> if existed = Some True then (True, None) else (False, None)"]
  show "hides (store_ok fmt api w) (be_Enrol (remote_backend b) n ns info) (be_Enrol (direct_backend fmt api) n ns info)"
    by (simp add: remote_backend_def direct_backend_def remote_defs)
qed

section \<open>Properties\<close>

text \<open>
  Property C23: the network between the device API and the remote store is transparent. Take a store built from the generated server around
  an implementation whose default responses are no successes; the implementation may keep a state, ask other systems and answer the
  same request differently each time. Whenever the requests of the client arrive as they were written, a run of the device API over the
  remote backend, with the run of the server that answered it in the place of each call of the store, is a run of the device API
  over the implementation itself, with the same end. So the six operations reach the handler of their route, it binds the device, the namespace and
  the body they were called with, their responses come back as results or as errors with their code, and a heartbeat that
  violates the interface is not shown to the implementation but refused with 422.
\<close>

theorem remote_store_transparent:
  assumes "exec (handle (remote_handler u x codec initialNamespace mtlsConfig b) ctx call) t out"
    and "inlined (store_ok fmt api w) t t'"
  shows "exec (handle ((remote_handler u x codec initialNamespace mtlsConfig b) \<lparr>yh_backend := direct_backend fmt api\<rparr>) ctx call) t' out"
proof -
  let ?h = "remote_handler u x codec initialNamespace mtlsConfig b"
  have "?h \<lparr>yh_backend := remote_backend b\<rparr> = ?h" by (simp add: remote_handler_def)
  with hidesD [OF store.hides_handle [of fmt api w b ?h ctx call] _ assms(2)] assms(1) show ?thesis by simp
qed

lemma print_heartbeat_silent:
  assumes "exec (print_heartbeat hb) t out"
  shows "t = []"
proof -
  have "issues (\<lambda>_. False) (print_heartbeat hb)" by simp
  with assms have "fst c \<noteq> fst c" if "c \<in> set t" for c using that unfolding issues_exec by blast
  then show ?thesis by (cases t) auto
qed

text \<open>Attempts that are all refused in the same way.\<close>

lemma attempts_refused:
  assumes "exec (process_attempts is retry err d) t (Returned res)"
    and "\<And>retry t' a. exec (d retry) t' (Returned a) \<Longrightarrow> set t' \<subseteq> set t \<Longrightarrow> t' = [step] \<and> a = (True, Some e)"
  shows "res = (if is = [] then err else Some e) \<and>
    (\<exists>ss. length ss = length is \<and> t = concat (map2 (\<lambda>i s. [step, (SleepMs (i * 50), s)]) is ss))"
  using assms
proof (induction "is" arbitrary: retry err t)
  case (Cons i "is")
  from Cons.prems(1) obtain t1 t2 a where t: "t = t1 @ t2" "exec (d retry) t1 (Returned a)" and
    k: "exec (case a of (retry', err') \<Rightarrow> (case err' of None \<Rightarrow> Ret None
       | Some e \<Rightarrow> if \<not> retry' then Ret (Some e)
           else bindp (tell (SleepMs (i * 50))) (\<lambda>_. process_attempts is retry' (Some e) d))) t2 (Returned res)"
    by (auto simp: process_attempts.simps exec_bindp)
  from Cons.prems(2) [OF t(2)] t(1) have a: "t1 = [step]" "a = (True, Some e)" by auto
  from k a(2) obtain s t3 where t3: "t2 = (SleepMs (i * 50), s) # t3" "exec (process_attempts is True (Some e) d) t3 (Returned res)"
    by (auto simp: exec_bindp tell_def exec_Call)
  have "res = (if is = [] then Some e else Some e) \<and>
    (\<exists>ss. length ss = length is \<and> t3 = concat (map2 (\<lambda>i s. [step, (SleepMs (i * 50), s)]) is ss))"
  proof (rule Cons.IH [OF t3(2)])
    fix retry' t'' a'
    assume "exec (d retry') t'' (Returned a')" "set t'' \<subseteq> set t3"
    with t(1) t3(1) show "t'' = [step] \<and> a' = (True, Some e)" by (intro Cons.prems(2) [of retry' t'' a']) auto
  qed
  then obtain ss where "res = Some e" "length ss = length is"
    "t3 = concat (map2 (\<lambda>i s. [step, (SleepMs (i * 50), s)]) is ss)" by auto
  with t t3(1) a(1) show ?case by (intro conjI exI [of _ "s # ss"]) simp_all
qed (simp add: process_attempts.simps)

text \<open>
  Property C27: a heartbeat that violates the interface, seen from the device. The device API does not validate the content of messages:
  in a run that ends, it sends the heartbeat to the store four times, with the pauses of the retries and no other request; the
  store refuses it each time with 422, in a way that does not depend on the implementation, which is not called; and the device is
  answered 500, although the fault is in its message. In particular its presence is not recorded.
\<close>

theorem invalid_heartbeat_refused:
  assumes run: "exec (handle (remote_handler u x codec initialNamespace mtlsConfig b) ctx (PostData dev msg)) t (Returned resp)"
    and store: "\<forall>c r. (Remote c, r) \<in> set t \<longrightarrow> (\<exists>v. store_ok fmt api w c r v)"
    and msg: "msg_Directive msg = ''heartbeat''" "decode_heartbeat codec (msg_Content msg) = Inr hb" "IsOwnDevice u ctx dev"
    and fault: "heartbeat_fault fmt hb code path"
    and call: "call = remote_params (OpUpdateHeartBeat hb) (rb_timeout b) dev
      (getNamespace (remote_handler u x codec initialNamespace mtlsConfig b) ctx)"
  shows "\<exists>text s1 s2 s3 s4. (\<forall>api. store_answer fmt api w call = Ret (422, ErrorBody text)) \<and>
    t = [(Remote call, RHttp 422 (ErrorBody text)), (SleepMs 50, s1), (Remote call, RHttp 422 (ErrorBody text)), (SleepMs 100, s2),
      (Remote call, RHttp 422 (ErrorBody text)), (SleepMs 150, s3), (Remote call, RHttp 422 (ErrorBody text)), (SleepMs 200, s4)] \<and>
    resp = respond InternalServerError"
proof -
  let ?h = "remote_handler u x codec initialNamespace mtlsConfig b"
  let ?e = "http_error (store_op ''PUT'' ''heartbeat'') 422"
  let ?d = "\<lambda>retry. Remote_UpdateStatus b retry dev (getNamespace ?h ctx) hb"
  from run msg have "exec (post_heartbeat ?h ctx dev msg) t (Returned resp)"
    by (simp add: PostDataMessageForDevice_def remote_handler_def)
  moreover have "yh_codec ?h = codec" "yh_backend ?h = remote_backend b" by (simp_all add: remote_handler_def)
  ultimately obtain t1 t2 t3 err where t: "t = t1 @ t2 @ t3" and print: "exec (print_heartbeat hb) t1 (Returned ())"
    and attempts: "exec (process_attempts [1, 2, 3, 4] False None ?d) t2 (Returned err)"
    and answer: "exec (case err of
        Some e \<Rightarrow> Ret (respond (if IsNotFound e then NotFoundCode else InternalServerError))
      | None \<Rightarrow> bindp (tell (Metric (RecordEdgeDevicePresence (getNamespace ?h ctx) dev))) (\<lambda>_. Ret (respond OK))) t3 (Returned resp)"
    using msg
    by (simp del: One_nat_def add: post_heartbeat_def remote_backend_def RetryingDelegatingHandler_Process_def exec_bindp) blast
  have first: "\<exists>r. (Remote call, r) \<in> set t"
  proof -
    from attempts obtain t' a where "exec (?d False) t' (Returned a)" "set t' \<subseteq> set t2"
      by (auto simp: process_attempts.simps exec_bindp)
    with t call show ?thesis by (auto simp: remote_defs client_defs exec_bindp exec_submit)
  qed
  with store have "carries w call" by (auto simp: store_ok_def)
  from store_refuses [OF this _ fault] call obtain why where why: "\<And>api. store_answer fmt api w call = Ret (422, ErrorBody why)" by auto
  have each: "t' = [(Remote call, RHttp 422 (ErrorBody why))] \<and> a = (True, Some ?e)"
    if e: "exec (?d retry) t' (Returned a)" and sub: "set t' \<subseteq> set t2" for retry t' a
  proof -
    from e obtain r res where r: "t' = [(Remote call, r)]" "Returned res = submit_outcome UpdateHeartBeatReader r"
      and a: "a = (case res of Inl e \<Rightarrow> (True, Some e) | Inr _ \<Rightarrow> (False, None))"
      by (auto simp: remote_defs client_defs exec_bindp exec_submit call [symmetric])
    with sub t have "(Remote call, r) \<in> set t" by auto
    with store obtain v where "store_ok fmt api w call r v" by blast
    then have "r = RHttp 422 (ErrorBody why)" by (simp add: store_ok_def why)
    with r a show ?thesis by (auto simp: heartbeat_outcome)
  qed
  have "err = (if [1, 2, 3, 4 :: nat] = [] then None else Some ?e) \<and> (\<exists>ss. length ss = length [1, 2, 3, 4 :: nat] \<and>
      t2 = concat (map2 (\<lambda>i s. [(Remote call, RHttp 422 (ErrorBody why)), (SleepMs (i * 50), s)]) [1, 2, 3, 4] ss))"
    by (rule attempts_refused [OF attempts]) (erule (1) each)
  then obtain ss where err: "err = Some ?e" and ss: "length ss = length [1, 2, 3, 4 :: nat]"
    and t2: "t2 = concat (map2 (\<lambda>i s. [(Remote call, RHttp 422 (ErrorBody why)), (SleepMs (i * 50), s)]) [1, 2, 3, 4] ss)" by auto
  from answer err have "t3 = []" "resp = respond InternalServerError" by (simp_all add: http_error_def)
  moreover have "t1 = []" by (rule print_heartbeat_silent [OF print])
  moreover from ss obtain s1 s2 s3 s4 where "ss = [s1, s2, s3, s4]" by (auto simp: length_Suc_conv)
  ultimately show ?thesis using t t2 why by (intro exI [of _ why] exI [of _ s1] exI [of _ s2] exI [of _ s3] exI [of _ s4]) simp
qed

section \<open>Concrete runs\<close>

text \<open>A network that changes nothing, with an encoding of bodies that is undone for the values of the runs below.\<close>

definition plain_wire :: "'b client_request \<Rightarrow> 'b arrived_request" where
  "plain_wire q = \<lparr>rq_Params = cq_PathParams q, rq_Body = (case cq_Body q of None \<Rightarrow> Absent | Some b \<Rightarrow> Json b), rq_Refused = None,
     ar_Method = cq_Method q, ar_Path = cq_PathPattern q\<rparr>"

definition demo_wire :: "heartbeat \<Rightarrow> store_wire" where
  "demo_wire hb = \<lparr>w_deliver = plain_wire, w_enrolment_json = \<lambda>_. JNull, w_registration_json = \<lambda>_. JNull, w_heartbeat_json = \<lambda>_. JNull,
     w_enrolment = \<lambda>_. None, w_registration = \<lambda>_. None, w_heartbeat = \<lambda>_. Some hb\<rparr>"

text \<open>A store that takes heartbeats only while its own database answers, and else responds 503.\<close>

definition demo_api :: backend_api where
  "demo_api = \<lparr>api_EnrolDevice = (\<lambda>_. Ret EnrolDeviceCreated), api_GetDeviceConfiguration = (\<lambda>_. Ret (NewGetDeviceConfigurationDefault 0)),
     api_GetPlaybookExecutions = (\<lambda>_. Ret (GetPlaybookExecutionsOK [])),
     api_GetRegistrationStatus = (\<lambda>p. Ret (GetRegistrationStatusOK
       (Some \<lparr>rsr_Message = [], rsr_Namespace = sp_Namespace p, rsr_Status = ''registered''\<rparr>))),
     api_RegisterDevice = (\<lambda>_. Ret RegisterDeviceOK),
     api_UpdateHeartBeat = (\<lambda>_. Call (GetConfigMap ''database'' ''store'')
       (\<lambda>r. Ret (if r = ROk then UpdateHeartBeatOK else NewUpdateHeartBeatDefault 503)))\<rparr>"

lemma demo_wire_carries: "carries (demo_wire hb) (remote_params (OpUpdateHeartBeat hb) timeout name ns)"
  by (simp add: carries_def carried_def demo_wire_def plain_wire_def)

lemma demo_api_proper: "proper_defaults demo_api"
  by (auto simp: proper_defaults_def no_success_def demo_api_def NewGetDeviceConfigurationDefault_def NewUpdateHeartBeatDefault_def exec_Call split: if_splits)

definition demo_caller :: auth_context where
  "demo_caller = Some \<lparr>ra_CommonName = ToLower ascii_tables ''dev'', ra_Namespace = ''ns''\<rparr>"

definition beating_remote :: "heartbeat \<Rightarrow> handler" where
  "beating_remote hb = remote_handler ascii_tables plain_x509 (plain_messages \<lparr>decode_heartbeat := \<lambda>_. Inr hb\<rparr>) ''flotta'' signing_config
     \<lparr>rb_timeout = 5000000000, rb_initialNamespace = ''flotta''\<rparr>"

lemma exec_bindI: "exec p t (Returned a) \<Longrightarrow> exec (f a) t' out \<Longrightarrow> exec (bindp p f) (t @ t') out"
  unfolding exec_bindp by blast

lemma beating_run:
  assumes "print_heartbeat hb = Ret ()"
  shows "handle (beating_remote hb) demo_caller (PostData ''dev'' (post ''heartbeat'')) =
    bindp (process_attempts [1, 2, 3, 4] False None
        (\<lambda>retry. Remote_UpdateStatus \<lparr>rb_timeout = 5000000000, rb_initialNamespace = ''flotta''\<rparr> retry ''dev'' ''ns'' hb)) (\<lambda>err. case err of
            Some e \<Rightarrow> Ret (respond (if IsNotFound e then NotFoundCode else InternalServerError))
          | None \<Rightarrow> bindp (tell (Metric (RecordEdgeDevicePresence ''ns'' ''dev''))) (\<lambda>_. Ret (respond OK)))"
  using assms
  by (simp add: PostDataMessageForDevice_def post_heartbeat_def beating_remote_def remote_handler_def remote_backend_def demo_caller_def
      IsOwnDevice_def getNamespace_def post_def RetryingDelegatingHandler_Process_def)

lemma beat_step:
  "exec (Remote_UpdateStatus b retry dev ns hb)
     [(Remote (remote_params (OpUpdateHeartBeat hb) (rb_timeout b) dev ns), RHttp code body)]
     (Returned (if code = 200 then (False, None) else (True, Some (http_error (store_op ''PUT'' ''heartbeat'') code))))"
  if "code = 200 \<or> (code div 100 \<noteq> 2 \<and> reads_object body)"
  using that
  by (auto simp: remote_defs client_defs exec_bindp exec_submit submit_outcome_def UpdateHeartBeatReader_def ReadResponse_def
      no_payload_def store_op_def)

definition calm_heartbeat :: heartbeat where
  "calm_heartbeat = null_beat \<lparr>hb_Events := []\<rparr>"

text \<open>The database of the store is down for the first attempt and back for the second.\<close>

theorem remote_store_transparent_witness:
  "\<exists>c. exec (handle (beating_remote calm_heartbeat) demo_caller (PostData ''dev'' (post ''heartbeat'')))
      [(Remote c, RHttp 503 NoBody), (SleepMs 50, ROk), (Remote c, RHttp 200 NoBody), (Metric (RecordEdgeDevicePresence ''ns'' ''dev''), ROk)]
      (Returned (respond OK)) \<and>
   exec (handle (beating_remote calm_heartbeat \<lparr>yh_backend := direct_backend (\<lambda>_. True) demo_api\<rparr>) demo_caller (PostData ''dev'' (post ''heartbeat'')))
      [(GetConfigMap ''database'' ''store'', RErr (PlainError ''down'')), (SleepMs 50, ROk), (GetConfigMap ''database'' ''store'', ROk),
        (Metric (RecordEdgeDevicePresence ''ns'' ''dev''), ROk)]
      (Returned (respond OK))"
proof -
  let ?c = "remote_params (OpUpdateHeartBeat calm_heartbeat) 5000000000 ''dev'' ''ns''"
  let ?t = "[(Remote ?c, RHttp 503 NoBody), (SleepMs 50, ROk), (Remote ?c, RHttp 200 NoBody),
      (Metric (RecordEdgeDevicePresence ''ns'' ''dev''), ROk)]"
  let ?u = "[(GetConfigMap ''database'' ''store'', RErr (PlainError ''down'')), (SleepMs 50, ROk), (GetConfigMap ''database'' ''store'', ROk),
        (Metric (RecordEdgeDevicePresence ''ns'' ''dev''), ROk)]"
  have print: "print_heartbeat calm_heartbeat = Ret ()"
    by (simp add: print_heartbeat_def calm_heartbeat_def null_beat_def mapp_def)
  let ?d = "\<lambda>retry. Remote_UpdateStatus \<lparr>rb_timeout = 5000000000, rb_initialNamespace = ''flotta''\<rparr> retry ''dev'' ''ns'' calm_heartbeat"
  have fail: "exec (?d False) [(Remote ?c, RHttp 503 NoBody)] (Returned (True, Some (http_error (store_op ''PUT'' ''heartbeat'') 503)))"
    using beat_step [of 503 NoBody "\<lparr>rb_timeout = 5000000000, rb_initialNamespace = ''flotta''\<rparr>" False "''dev''" "''ns''" calm_heartbeat]
    by (simp add: reads_object_def)
  have good: "exec (?d True) [(Remote ?c, RHttp 200 NoBody)] (Returned (False, None))"
    using beat_step [of 200 NoBody "\<lparr>rb_timeout = 5000000000, rb_initialNamespace = ''flotta''\<rparr>" True "''dev''" "''ns''" calm_heartbeat]
    by simp
  have "exec (process_attempts [2, 3, 4] True (Some (http_error (store_op ''PUT'' ''heartbeat'') 503)) ?d)
      ([(Remote ?c, RHttp 200 NoBody)] @ []) (Returned None)"
    unfolding process_attempts.simps by (rule exec_bindI [OF good]) simp
  then have "exec (process_attempts [1, 2, 3, 4] False None ?d)
      ([(Remote ?c, RHttp 503 NoBody)] @ [(SleepMs (1 * 50), ROk), (Remote ?c, RHttp 200 NoBody)]) (Returned None)"
    unfolding process_attempts.simps(2) [of 1] by (intro exec_bindI [OF fail]) (simp add: tell_def exec_Call)
  then have "exec (handle (beating_remote calm_heartbeat) demo_caller (PostData ''dev'' (post ''heartbeat'')))
     (([(Remote ?c, RHttp 503 NoBody)] @ [(SleepMs (1 * 50), ROk), (Remote ?c, RHttp 200 NoBody)]) @
       [(Metric (RecordEdgeDevicePresence ''ns'' ''dev''), ROk)]) (Returned (respond OK))"
    unfolding beating_run [OF print] by (rule exec_bindI) (simp add: tell_def exec_Call)
  then have run: "exec (handle (beating_remote calm_heartbeat) demo_caller (PostData ''dev'' (post ''heartbeat''))) ?t (Returned (respond OK))"
    by simp
  have valid: "Heartbeat_Validate (\<lambda>_. True) calm_heartbeat = None" by code_simp
  have answer: "store_answer (\<lambda>_. True) demo_api (demo_wire calm_heartbeat) ?c = mapp UpdateHeartBeat_WriteResponse
      (api_UpdateHeartBeat demo_api (with_body ''dev'' ''ns'' calm_heartbeat))"
    using answers_heartbeat [OF demo_wire_carries, of calm_heartbeat 5000000000 "''dev''" "''ns''" calm_heartbeat "\<lambda>_. True" demo_api]
      valid by simp
  have ok: "store_ok (\<lambda>_. True) demo_api (demo_wire calm_heartbeat) ?c (RHttp (if r = ROk then 200 else 503) NoBody)
      [(GetConfigMap ''database'' ''store'', r)]" for r
    by (simp add: store_ok_def demo_api_proper demo_wire_carries answer)
      (simp add: demo_api_def mapp_def exec_Call NewUpdateHeartBeatDefault_def payload_body_def)
  have "inlined (store_ok (\<lambda>_. True) demo_api (demo_wire calm_heartbeat)) ?t
      ([(GetConfigMap ''database'' ''store'', RErr (PlainError ''down''))] @ (SleepMs 50, ROk) #
        [(GetConfigMap ''database'' ''store'', ROk)] @ [(Metric (RecordEdgeDevicePresence ''ns'' ''dev''), ROk)])"
    using ok [of "RErr (PlainError ''down'')"] ok [of ROk]
    by (intro inlined.store_call inlined.own_request inlined.end_of_run) simp_all
  from remote_store_transparent [OF run [unfolded beating_remote_def] this] run show ?thesis
    by (intro exI [of _ ?c]) (simp add: beating_remote_def)
qed

lemma attempts_run:
  assumes "\<And>retry. exec (d retry) step (Returned (True, Some e))"
  shows "exec (process_attempts is retry err d) (concat (map (\<lambda>i. step @ [(SleepMs (i * 50), ROk)]) is))
    (Returned (if is = [] then err else Some e))"
proof (induction "is" arbitrary: retry err)
  case (Cons i "is")
  have pause: "exec (bindp (tell (SleepMs (i * 50))) (\<lambda>_. process_attempts is True (Some e) d))
      ([(SleepMs (i * 50), ROk)] @ concat (map (\<lambda>i. step @ [(SleepMs (i * 50), ROk)]) is)) (Returned (Some e))"
    using Cons.IH [of True "Some e"] by (intro exec_bindI [of _ _ "()"]) (simp_all add: tell_def exec_Call split: if_splits)
  have "exec (process_attempts (i # is) retry err d)
      (step @ [(SleepMs (i * 50), ROk)] @ concat (map (\<lambda>i. step @ [(SleepMs (i * 50), ROk)]) is)) (Returned (Some e))"
    unfolding process_attempts.simps by (rule exec_bindI [OF assms]) (simp only: prod.case option.case if_False not_True_eq_False pause)
  then show ?case by simp
qed (simp add: process_attempts.simps)

theorem invalid_heartbeat_refused_witness:
  "\<exists>t call text s1 s4. exec (handle (beating_remote odd_heartbeat) demo_caller (PostData ''dev'' (post ''heartbeat''))) t
       (Returned (respond InternalServerError)) \<and>
     length t = 8 \<and> hd t = (Remote call, RHttp 422 (ErrorBody text)) \<and> t ! 1 = (SleepMs 50, s1) \<and> last t = (SleepMs 200, s4)"
proof -
  let ?c = "remote_params (OpUpdateHeartBeat odd_heartbeat) 5000000000 ''dev'' ''ns''"
  let ?b = "\<lparr>rb_timeout = 5000000000, rb_initialNamespace = ''flotta''\<rparr>"
  have fault: "heartbeat_fault (\<lambda>_. True) odd_heartbeat EnumFailCode (entry_path ''events'' 1 ''type'')"
    by (rule heartbeat_fault.event [of _ _ "\<lparr>ei_Message = [], ei_Reason = [], ei_Type = ''fatal''\<rparr>"])
      (simp_all add: odd_heartbeat_def violates_def eventTypeEnum_def)
  obtain why where why: "\<And>api. store_answer (\<lambda>_. True) api (demo_wire odd_heartbeat) ?c = Ret (422, ErrorBody why)"
    using store_refuses [OF demo_wire_carries _ fault] by (metis remote_params_simps(1))
  let ?a = "RHttp 422 (ErrorBody why)"
  let ?t = "concat (map (\<lambda>i. [(Remote ?c, ?a)] @ [(SleepMs (i * 50), ROk)]) [1, 2, 3, 4])"
  have one: "exec (Remote_UpdateStatus ?b retry ''dev'' ''ns'' odd_heartbeat) [(Remote ?c, ?a)]
      (Returned (True, Some (http_error (store_op ''PUT'' ''heartbeat'') 422)))" for retry
    using beat_step [of 422 "ErrorBody why" ?b retry "''dev''" "''ns''" odd_heartbeat] by (simp add: reads_object_def)
  have all: "exec (process_attempts [1, 2, 3, 4] False None (\<lambda>retry. Remote_UpdateStatus ?b retry ''dev'' ''ns'' odd_heartbeat)) ?t
      (Returned (Some (http_error (store_op ''PUT'' ''heartbeat'') 422)))"
    using attempts_run [of "\<lambda>retry. Remote_UpdateStatus ?b retry ''dev'' ''ns'' odd_heartbeat", OF one, of "[1, 2, 3, 4]" False None]
    by simp
  have print: "print_heartbeat odd_heartbeat = Ret ()" by (simp add: print_heartbeat_def odd_heartbeat_def mapp_def deref_def)
  have run: "exec (handle (beating_remote odd_heartbeat) demo_caller (PostData ''dev'' (post ''heartbeat''))) (?t @ [])
      (Returned (respond InternalServerError))"
    unfolding beating_run [OF print] by (rule exec_bindI [OF all]) (simp add: http_error_def)
  have "store_ok (\<lambda>_. True) demo_api (demo_wire odd_heartbeat) ?c ?a []"
    by (simp add: store_ok_def demo_api_proper demo_wire_carries why)
  then have ok: "\<forall>c r. (Remote c, r) \<in> set (?t @ []) \<longrightarrow> (\<exists>v. store_ok (\<lambda>_. True) demo_api (demo_wire odd_heartbeat) c r v)"
    by auto
  have "IsOwnDevice ascii_tables demo_caller ''dev''" by (simp add: IsOwnDevice_def demo_caller_def)
  from invalid_heartbeat_refused [OF run [unfolded beating_remote_def] ok _ _ this fault refl] run show ?thesis
    by (intro exI [of _ "?t @ []"]) (auto simp: post_def)
qed

end
