(* ===== verification/Device_Client.thy ===== *)
theory Device_Client
  imports Store_Api
begin

text \<open>
  The generated client of the device API (\<open>src/client/yggdrasil\<close>): the requests it writes and how it reads answers, against the
  server of \<open>Rest_Api\<close>. The server picks the handler by the method and the path by which a request arrived, so the client has to write
  those of the operation it calls. Decoding a body into the struct of an operation is \<open>encoding/json\<close>, the argument \<open>consume\<close>;
  \<open>zero\<close> is the empty struct, which an answer without a body leaves as it is.
\<close>

section \<open>What the client writes\<close>

definition GetControlMessageForDevice_WriteToRequest :: "int \<Rightarrow> string \<Rightarrow> json message client_request" where
  "GetControlMessageForDevice_WriteToRequest timeout deviceID = \<lparr>cq_Method = ''GET'', cq_PathPattern = ''/control/{device_id}/in'',
     cq_Timeout = timeout, cq_PathParams = [(''device_id'', deviceID)], cq_Body = None\<rparr>"

definition GetDataMessageForDevice_WriteToRequest :: "int \<Rightarrow> string \<Rightarrow> json message client_request" where
  "GetDataMessageForDevice_WriteToRequest timeout deviceID = \<lparr>cq_Method = ''GET'', cq_PathPattern = ''/data/{device_id}/in'',
     cq_Timeout = timeout, cq_PathParams = [(''device_id'', deviceID)], cq_Body = None\<rparr>"

definition PostControlMessageForDevice_WriteToRequest :: "int \<Rightarrow> string \<Rightarrow> json message option \<Rightarrow> json message client_request" where
  "PostControlMessageForDevice_WriteToRequest timeout deviceID msg = \<lparr>cq_Method = ''POST'', cq_PathPattern = ''/control/{device_id}/out'',
     cq_Timeout = timeout, cq_PathParams = [(''device_id'', deviceID)], cq_Body = msg\<rparr>"

definition PostDataMessageForDevice_WriteToRequest :: "int \<Rightarrow> string \<Rightarrow> json message option \<Rightarrow> json message client_request" where
  "PostDataMessageForDevice_WriteToRequest timeout deviceID msg = \<lparr>cq_Method = ''POST'', cq_PathPattern = ''/data/{device_id}/out'',
     cq_Timeout = timeout, cq_PathParams = [(''device_id'', deviceID)], cq_Body = msg\<rparr>"

section \<open>How it reads answers\<close>

text \<open>A result for success, one of the error results of the operation with its code, a body that cannot be read, or a status it does not know.\<close>

datatype 'p read_result =
    Success 'p
  | AlreadyReportedResult
  | ErrorResult nat
  | ReadFailure error
  | UnknownStatus nat

definition read_payload :: "(payload \<Rightarrow> error + 'p) \<Rightarrow> 'p \<Rightarrow> payload \<Rightarrow> 'p read_result" where
  "read_payload consume zero body =
     (if body = NoPayload then Success zero
      else case consume body of Inl e \<Rightarrow> ReadFailure e | Inr p \<Rightarrow> Success p)"

definition GetControlMessageForDevice_ReadResponse :: "(payload \<Rightarrow> error + 'p) \<Rightarrow> 'p \<Rightarrow> nat \<Rightarrow> payload \<Rightarrow> 'p read_result" where
  "GetControlMessageForDevice_ReadResponse consume zero code body =
     (if code = 200 then read_payload consume zero body
      else if code = 401 \<or> code = 403 \<or> code = 404 \<or> code = 500 then ErrorResult code
      else UnknownStatus code)"

definition GetDataMessageForDevice_ReadResponse :: "(payload \<Rightarrow> error + 'p) \<Rightarrow> 'p \<Rightarrow> nat \<Rightarrow> payload \<Rightarrow> 'p read_result" where
  "GetDataMessageForDevice_ReadResponse consume zero code body =
     (if code = 200 then read_payload consume zero body
      else if code = 401 \<or> code = 403 \<or> code = 404 \<or> code = 500 then ErrorResult code
      else UnknownStatus code)"

definition PostControlMessageForDevice_ReadResponse :: "(payload \<Rightarrow> error + 'p) \<Rightarrow> 'p \<Rightarrow> nat \<Rightarrow> payload \<Rightarrow> 'p read_result" where
  "PostControlMessageForDevice_ReadResponse consume zero code body =
     (if code = 200 then Success zero
      else if code = 401 \<or> code = 403 \<or> code = 404 \<or> code = 500 then ErrorResult code
      else UnknownStatus code)"

definition PostDataMessageForDevice_ReadResponse :: "(payload \<Rightarrow> error + 'p) \<Rightarrow> 'p \<Rightarrow> nat \<Rightarrow> payload \<Rightarrow> 'p read_result" where
  "PostDataMessageForDevice_ReadResponse consume zero code body =
     (if code = 200 then read_payload consume zero body
      else if code = 208 then AlreadyReportedResult
      else if code = 400 \<or> code = 401 \<or> code = 403 \<or> code = 404 \<or> code = 500 then ErrorResult code
      else UnknownStatus code)"

section \<open>The operations together\<close>

fun device_write :: "operation_handler \<Rightarrow> int \<Rightarrow> string \<Rightarrow> json message option \<Rightarrow> json message client_request" where
  "device_write GetControlMessageForDeviceHandler timeout deviceID msg = GetControlMessageForDevice_WriteToRequest timeout deviceID"
| "device_write GetDataMessageForDeviceHandler timeout deviceID msg = GetDataMessageForDevice_WriteToRequest timeout deviceID"
| "device_write PostControlMessageForDeviceHandler timeout deviceID msg = PostControlMessageForDevice_WriteToRequest timeout deviceID msg"
| "device_write PostDataMessageForDeviceHandler timeout deviceID msg = PostDataMessageForDevice_WriteToRequest timeout deviceID msg"

fun device_read :: "operation_handler \<Rightarrow> (payload \<Rightarrow> error + 'p) \<Rightarrow> 'p \<Rightarrow> nat \<Rightarrow> payload \<Rightarrow> 'p read_result" where
  "device_read GetControlMessageForDeviceHandler = GetControlMessageForDevice_ReadResponse"
| "device_read GetDataMessageForDeviceHandler = GetDataMessageForDevice_ReadResponse"
| "device_read PostControlMessageForDeviceHandler = PostControlMessageForDevice_ReadResponse"
| "device_read PostDataMessageForDeviceHandler = PostDataMessageForDevice_ReadResponse"

fun spec_of :: "operation_handler \<Rightarrow> api_operation" where
  "spec_of GetControlMessageForDeviceHandler = spec_get_control"
| "spec_of GetDataMessageForDeviceHandler = spec_get_data"
| "spec_of PostControlMessageForDeviceHandler = spec_post_control"
| "spec_of PostDataMessageForDeviceHandler = spec_post_data"

text \<open>The call that is meant, when the message is one of the interface.\<close>

fun meant_call :: "formats \<Rightarrow> operation_handler \<Rightarrow> string \<Rightarrow> json message option \<Rightarrow> api_call option" where
  "meant_call fmt GetControlMessageForDeviceHandler d msg = Some (GetControl d)"
| "meant_call fmt GetDataMessageForDeviceHandler d msg = Some (GetData d)"
| "meant_call fmt PostControlMessageForDeviceHandler d (Some m) = (if message_ok fmt m then Some (PostControl d) else None)"
| "meant_call fmt PostDataMessageForDeviceHandler d (Some m) = (if message_ok fmt m then Some (PostData d m) else None)"
| "meant_call fmt _ d None = None"

lemmas device_write_defs = GetControlMessageForDevice_WriteToRequest_def GetDataMessageForDevice_WriteToRequest_def
  PostControlMessageForDevice_WriteToRequest_def PostDataMessageForDevice_WriteToRequest_def

lemmas device_read_defs = GetControlMessageForDevice_ReadResponse_def GetDataMessageForDevice_ReadResponse_def
  PostControlMessageForDevice_ReadResponse_def PostDataMessageForDevice_ReadResponse_def

lemma spec_of_paths: "spec_of operation \<in> set spec_paths"
  by (cases operation) (simp_all add: spec_paths_def)

section \<open>The server\<close>

text \<open>A request that arrives goes to the operation of its method and path.\<close>

definition serve_request :: "formats \<Rightarrow> handler \<Rightarrow> certificate list \<Rightarrow> (certificate \<Rightarrow> error option) \<Rightarrow>
    certificate list option \<Rightarrow> json message arrived_request \<Rightarrow> responder io" where
  "serve_request fmt h chain verify tls r = (case operation_at spec_paths (ar_Method r) (ar_Path r) of
      None \<Rightarrow> Ret (error_answer (unrouted_code spec_paths (ar_Path r), []))
    | Some operation \<Rightarrow> HandlerAPI fmt h chain verify tls operation (consumed Some r))"

text \<open>The client and the document agree on where an operation lives.\<close>

lemma operation_at_spec:
  "operation_at spec_paths ''GET'' ''/control/{device_id}/in'' = Some spec_get_control"
  "operation_at spec_paths ''GET'' ''/data/{device_id}/in'' = Some spec_get_data"
  "operation_at spec_paths ''POST'' ''/control/{device_id}/out'' = Some spec_post_control"
  "operation_at spec_paths ''POST'' ''/data/{device_id}/out'' = Some spec_post_data"
  by code_simp+

lemma device_write_route:
  "operation_at spec_paths (cq_Method (device_write operation timeout d msg)) (cq_PathPattern (device_write operation timeout d msg)) =
     Some (spec_of operation)"
  by (cases operation) (simp_all add: device_write_defs operation_at_spec)

lemma serve_request_written:
  assumes "carried wire (device_write operation timeout d msg)"
  shows "serve_request fmt h chain verify tls (wire (device_write operation timeout d msg)) =
    HandlerAPI fmt h chain verify tls (spec_of operation) (consumed Some (wire (device_write operation timeout d msg)))"
  using assms by (simp add: serve_request_def carried_def device_write_route)

lemma meant_is_requested:
  assumes "carried wire (device_write operation timeout d msg)"
  shows "requested_call fmt (spec_of operation) (consumed Some (wire (device_write operation timeout d msg))) = meant_call fmt operation d msg"
    and "meant_call fmt operation d msg = None \<Longrightarrow> refusal_code (consumed Some (wire (device_write operation timeout d msg))) = 422"
  using assms
  by (cases operation; cases msg;
      simp add: carried_def consumed_def requested_call_def op_Id_spec device_param_def device_write_defs good_body_def refusal_code_def
        bad_body_code_def)+

section \<open>Property\<close>

text \<open>What the client has to make of an answer: the result of its status, or the error of a body that cannot be read.\<close>

fun understood :: "(payload \<Rightarrow> error + 'p) \<Rightarrow> responder \<Rightarrow> 'p read_result \<Rightarrow> bool" where
  "understood consume resp (Success _) \<longleftrightarrow> rp_Code resp = 200"
| "understood consume resp AlreadyReportedResult \<longleftrightarrow> rp_Code resp = 208"
| "understood consume resp (ErrorResult code) \<longleftrightarrow> code = rp_Code resp \<and> code \<ge> 400"
| "understood consume resp (ReadFailure e) \<longleftrightarrow> rp_Code resp = 200 \<and> consume (rp_Payload resp) = Inl e"
| "understood consume resp (UnknownStatus _) \<longleftrightarrow> False"

lemma known_statuses:
  assumes "rp_Code resp \<in> set (op_Responses (spec_of operation))"
  shows "understood consume resp (device_read operation consume zero (rp_Code resp) (rp_Payload resp))"
  using assms
  by (cases operation) (auto simp: spec_defs device_read_defs read_payload_def split: sum.split)

text \<open>
  Property C26: the client of the device API and its server fit together. When a request of the client arrives as it was written, by its method and
  on its path, and its message is one of the interface, the server, which goes by that method and path alone, carries out the call that was
  meant, for the device that was meant, and the client has the result that belongs to the status of the answer. A message that is missing or is not
  of the interface is answered with 422 once the caller is authenticated, and the client has no result for that status.
\<close>

theorem device_client_fits:
  assumes "carried wire (device_write operation timeout d msg)"
    and "exec (serve_request fmt h chain verify (Some certs) (wire (device_write operation timeout d msg))) t (Returned resp)"
  shows "case meant_call fmt operation d msg of
      Some call \<Rightarrow> exec (serve h chain verify (Some certs) (Route (Some (op_Id (spec_of operation)))) call) t (Returned resp) \<and>
        understood consume resp (device_read operation consume zero (rp_Code resp) (rp_Payload resp))
    | None \<Rightarrow> resp = respond Unauthorized \<or>
        device_read operation consume zero (rp_Code resp) (rp_Payload resp) = UnknownStatus 422"
proof (cases "meant_call fmt operation d msg")
  case None
  let ?r = "consumed Some (wire (device_write operation timeout d msg))"
  note call = meant_is_requested [OF assms(1), of fmt]
  from http_operations_served_aux [OF spec_of_paths [of operation], of ?r fmt h chain verify "Some certs"]
  obtain answer where "rp_Code answer = 422" "HandlerAPI fmt h chain verify (Some certs) (spec_of operation) ?r =
      InnerMiddleware h chain verify (Some certs) (Route (Some (op_Id (spec_of operation)))) (\<lambda>_. Ret answer)"
    using None call by auto
  with assms(2) [unfolded serve_request_written [OF assms(1)]] exec_middleware_Ret
  have "resp = respond Unauthorized \<or> rp_Code resp = 422" by fastforce
  then show ?thesis using None by (cases operation) (auto simp: device_read_defs)
next
  case (Some call)
  let ?r = "consumed Some (wire (device_write operation timeout d msg))"
  from Some meant_is_requested [OF assms(1)] have req: "requested_call fmt (spec_of operation) ?r = Some call" by simp
  with http_operations_served_aux [OF spec_of_paths [of operation], of ?r fmt h chain verify "Some certs"]
    assms(2) [unfolded serve_request_written [OF assms(1)]]
  have run: "exec (serve h chain verify (Some certs) (Route (Some (op_Id (spec_of operation)))) call) t (Returned resp)" by simp
  with yields_serve have "typed_answer call resp" by (auto simp: yields_def)
  with requested_documented [OF spec_of_paths req] have "rp_Code resp \<in> set (op_Responses (spec_of operation))" by (simp add: typed_answer_def)
  from known_statuses [OF this, of consume zero] run Some show ?thesis by simp
qed

text \<open>A caller without a certificate: the posted heartbeat reaches the operation that is meant, and the client reads the 401.\<close>

theorem device_client_fits_witness:
  "\<exists>t. exec (serve_request (\<lambda>_. True) demo_handler [] (\<lambda>_. None) (Some [])
        (plain_wire (device_write PostDataMessageForDeviceHandler 0 ''dev'' (Some (post ''heartbeat''))))) t (Returned (respond Unauthorized)) \<and>
     exec (serve demo_handler [] (\<lambda>_. None) (Some []) (Route (Some ''PostDataMessageForDevice'')) (PostData ''dev'' (post ''heartbeat''))) t
       (Returned (respond Unauthorized)) \<and>
     understood (\<lambda>_. Inr ()) (respond Unauthorized) (device_read PostDataMessageForDeviceHandler (\<lambda>_. Inr ()) () 401 NoPayload)"
proof -
  let ?q = "device_write PostDataMessageForDeviceHandler 0 ''dev'' (Some (post ''heartbeat''))"
  let ?t = "[(Metric IncEdgeDeviceFailedAuthenticationCounter, ROk)]"
  have c: "carried plain_wire ?q" by (simp add: carried_def plain_wire_def)
  have run: "exec (serve_request (\<lambda>_. True) demo_handler [] (\<lambda>_. None) (Some []) (plain_wire ?q)) ?t (Returned (respond Unauthorized))"
    unfolding serve_request_written [OF c]
    by (simp add: HandlerAPI_def HandlerFor_spec InnerMiddleware_def VerifyRequest_def tell_def exec_Call)
  from device_client_fits [OF c this, of "\<lambda>_. Inr ()" "()"] run show ?thesis
    by (intro exI [of _ ?t]) (simp add: message_ok_def post_def MessageTypeData_def respond_def Unauthorized_def op_Id_spec del: device_read.simps)
qed

end
