(* ===== verification/Config_Validation.thy ===== *)
theory Config_Validation
  imports Validation Cluster
begin

text \<open>
  The constraints on the configuration a device receives (the methods \<open>Validate\<close> and \<open>ContextValidate\<close> of the configuration structs in
  \<open>src/models\<close>). Two of its fields are maps, which are visited in an order the language leaves open and end with the first
  error, so which error is reported depends on the order. Checks that reach a map are programs.
\<close>

section \<open>Checks with a choice\<close>

definition checks_io :: "validation_error option io list \<Rightarrow> validation_error option io" where
  "checks_io ps = mapp composite (for_each (\<lambda>p. p) ps)"

definition named_io :: "string \<Rightarrow> ('a \<Rightarrow> validation_error option io) \<Rightarrow> 'a \<Rightarrow> validation_error option io" where
  "named_io name check x = mapp (map_option (ValidateName name)) (check x)"

definition sub_io :: "string \<Rightarrow> ('a \<Rightarrow> validation_error option io) \<Rightarrow> 'a option \<Rightarrow> validation_error option io" where
  "sub_io name check p = (case p of None \<Rightarrow> Ret None | Some x \<Rightarrow> named_io name check x)"

primrec list_io :: "string \<Rightarrow> ('a \<Rightarrow> validation_error option io) \<Rightarrow> nat \<Rightarrow> 'a list \<Rightarrow> validation_error option io" where
  "list_io name check i [] = Ret None"
| "list_io name check i (x # xs) = bindp (named_io (entry_name name i) check x) (\<lambda>r. case r of
      Some e \<Rightarrow> Ret (Some e)
    | None \<Rightarrow> list_io name check (Suc i) xs)"

text \<open>\<open>validate.Required\<close> rejects the zero value of the type of an entry.\<close>

primrec entries_check :: "string \<Rightarrow> 'v \<Rightarrow> ('v \<Rightarrow> validation_error option) \<Rightarrow> (string, 'v) gomap \<Rightarrow> string list \<Rightarrow> validation_error option" where
  "entries_check name zero check m [] = None"
| "entries_check name zero check m (k # ks) = (case mget m k of
      None \<Rightarrow> entries_check name zero check m ks
    | Some v \<Rightarrow>
        if v = zero then Some (Invalid RequiredFailCode (name @ ''.'' @ k))
        else case named_check (name @ ''.'' @ k) check v of
            Some e \<Rightarrow> Some e
          | None \<Rightarrow> entries_check name zero check m ks)"

definition map_io :: "string \<Rightarrow> 'v \<Rightarrow> ('v \<Rightarrow> validation_error option) \<Rightarrow> (string, 'v) gomap \<Rightarrow> validation_error option io" where
  "map_io name zero check m = mapp (entries_check name zero check m) (range_keys m)"

text \<open>In the context checks an entry is checked as it is.\<close>

primrec context_entries :: "('v \<Rightarrow> validation_error option) \<Rightarrow> (string, 'v) gomap \<Rightarrow> string list \<Rightarrow> validation_error option" where
  "context_entries check m [] = None"
| "context_entries check m (k # ks) = (case mget m k of
      None \<Rightarrow> context_entries check m ks
    | Some v \<Rightarrow> (case check v of Some e \<Rightarrow> Some e | None \<Rightarrow> context_entries check m ks))"

definition map_context :: "('v \<Rightarrow> validation_error option) \<Rightarrow> (string, 'v) gomap \<Rightarrow> validation_error option io" where
  "map_context check m = mapp (context_entries check m) (range_keys m)"

section \<open>The structs\<close>

definition hardwareProfileScopeEnum :: "string list" where "hardwareProfileScopeEnum = [''full'', ''delta'']"

definition zero_logs :: logs_collection_information where
  "zero_logs = \<lparr>li_BufferSize = 0, li_Kind = [], li_SyslogConfig = None\<rparr>"

definition zero_container :: container_metrics where
  "zero_container = \<lparr>cme_Disabled = False, cme_Path = [], cme_Port = 0\<rparr>"

definition HardwareProfileConfiguration_validateScope :: "formats \<Rightarrow> m_hardware_profile_configuration \<Rightarrow> validation_error option" where
  "HardwareProfileConfiguration_validateScope fmt m = enum_check ''scope'' hardwareProfileScopeEnum (hp_Scope m)"

definition HardwareProfileConfiguration_Validate :: "formats \<Rightarrow> m_hardware_profile_configuration \<Rightarrow> validation_error option" where
  "HardwareProfileConfiguration_Validate fmt m = composite [HardwareProfileConfiguration_validateScope fmt m]"

definition HardwareProfileConfiguration_ContextValidate :: "m_hardware_profile_configuration \<Rightarrow> validation_error option" where
  "HardwareProfileConfiguration_ContextValidate m = no_constraints m"

definition HeartbeatConfiguration_validateHardwareProfile :: "formats \<Rightarrow> m_heartbeat_configuration \<Rightarrow> validation_error option" where
  "HeartbeatConfiguration_validateHardwareProfile fmt m = sub_check ''hardware_profile'' (HardwareProfileConfiguration_Validate fmt) (mh_HardwareProfile m)"

definition HeartbeatConfiguration_Validate :: "formats \<Rightarrow> m_heartbeat_configuration \<Rightarrow> validation_error option" where
  "HeartbeatConfiguration_Validate fmt m = composite [HeartbeatConfiguration_validateHardwareProfile fmt m]"

definition HeartbeatConfiguration_contextValidateHardwareProfile :: "m_heartbeat_configuration \<Rightarrow> validation_error option" where
  "HeartbeatConfiguration_contextValidateHardwareProfile m = sub_check ''hardware_profile'' HardwareProfileConfiguration_ContextValidate (mh_HardwareProfile m)"

definition HeartbeatConfiguration_ContextValidate :: "m_heartbeat_configuration \<Rightarrow> validation_error option" where
  "HeartbeatConfiguration_ContextValidate m = composite [HeartbeatConfiguration_contextValidateHardwareProfile m]"

definition LogsCollectionInformation_validateSyslogConfig :: "formats \<Rightarrow> logs_collection_information \<Rightarrow> validation_error option" where
  "LogsCollectionInformation_validateSyslogConfig fmt m = sub_check ''syslog_config'' no_constraints (li_SyslogConfig m)"

definition LogsCollectionInformation_Validate :: "formats \<Rightarrow> logs_collection_information \<Rightarrow> validation_error option" where
  "LogsCollectionInformation_Validate fmt m = composite [LogsCollectionInformation_validateSyslogConfig fmt m]"

definition LogsCollectionInformation_contextValidateSyslogConfig :: "logs_collection_information \<Rightarrow> validation_error option" where
  "LogsCollectionInformation_contextValidateSyslogConfig m = sub_check ''syslog_config'' no_constraints (li_SyslogConfig m)"

definition LogsCollectionInformation_ContextValidate :: "logs_collection_information \<Rightarrow> validation_error option" where
  "LogsCollectionInformation_ContextValidate m = composite [LogsCollectionInformation_contextValidateSyslogConfig m]"

definition ComponentMetricsConfiguration_validateAllowList :: "formats \<Rightarrow> m_component_metrics_configuration \<Rightarrow> validation_error option" where
  "ComponentMetricsConfiguration_validateAllowList fmt m = sub_check ''allow_list'' no_constraints (mcm_AllowList m)"

definition ComponentMetricsConfiguration_Validate :: "formats \<Rightarrow> m_component_metrics_configuration \<Rightarrow> validation_error option" where
  "ComponentMetricsConfiguration_Validate fmt m = composite [ComponentMetricsConfiguration_validateAllowList fmt m]"

definition ComponentMetricsConfiguration_contextValidateAllowList :: "m_component_metrics_configuration \<Rightarrow> validation_error option" where
  "ComponentMetricsConfiguration_contextValidateAllowList m = sub_check ''allow_list'' no_constraints (mcm_AllowList m)"

definition ComponentMetricsConfiguration_ContextValidate :: "m_component_metrics_configuration \<Rightarrow> validation_error option" where
  "ComponentMetricsConfiguration_ContextValidate m = composite [ComponentMetricsConfiguration_contextValidateAllowList m]"

definition MetricsConfiguration_validateDataTransfer :: "formats \<Rightarrow> m_metrics_configuration \<Rightarrow> validation_error option" where
  "MetricsConfiguration_validateDataTransfer fmt m = sub_check ''data-transfer'' (ComponentMetricsConfiguration_Validate fmt) (mmc_DataTransfer m)"

definition MetricsConfiguration_validateReceiver :: "formats \<Rightarrow> m_metrics_configuration \<Rightarrow> validation_error option" where
  "MetricsConfiguration_validateReceiver fmt m = sub_check ''receiver'' no_constraints (mmc_Receiver m)"

definition MetricsConfiguration_validateRetention :: "formats \<Rightarrow> m_metrics_configuration \<Rightarrow> validation_error option" where
  "MetricsConfiguration_validateRetention fmt m = sub_check ''retention'' no_constraints (mmc_Retention m)"

definition MetricsConfiguration_validateSystem :: "formats \<Rightarrow> m_metrics_configuration \<Rightarrow> validation_error option" where
  "MetricsConfiguration_validateSystem fmt m = sub_check ''system'' (ComponentMetricsConfiguration_Validate fmt) (mmc_System m)"

definition MetricsConfiguration_Validate :: "formats \<Rightarrow> m_metrics_configuration \<Rightarrow> validation_error option" where
  "MetricsConfiguration_Validate fmt m = composite [MetricsConfiguration_validateDataTransfer fmt m,
     MetricsConfiguration_validateReceiver fmt m,
     MetricsConfiguration_validateRetention fmt m,
     MetricsConfiguration_validateSystem fmt m]"

definition MetricsConfiguration_contextValidateDataTransfer :: "m_metrics_configuration \<Rightarrow> validation_error option" where
  "MetricsConfiguration_contextValidateDataTransfer m = sub_check ''data-transfer'' ComponentMetricsConfiguration_ContextValidate (mmc_DataTransfer m)"

definition MetricsConfiguration_contextValidateReceiver :: "m_metrics_configuration \<Rightarrow> validation_error option" where
  "MetricsConfiguration_contextValidateReceiver m = sub_check ''receiver'' no_constraints (mmc_Receiver m)"

definition MetricsConfiguration_contextValidateRetention :: "m_metrics_configuration \<Rightarrow> validation_error option" where
  "MetricsConfiguration_contextValidateRetention m = sub_check ''retention'' no_constraints (mmc_Retention m)"

definition MetricsConfiguration_contextValidateSystem :: "m_metrics_configuration \<Rightarrow> validation_error option" where
  "MetricsConfiguration_contextValidateSystem m = sub_check ''system'' ComponentMetricsConfiguration_ContextValidate (mmc_System m)"

definition MetricsConfiguration_ContextValidate :: "m_metrics_configuration \<Rightarrow> validation_error option" where
  "MetricsConfiguration_ContextValidate m = composite [MetricsConfiguration_contextValidateDataTransfer m,
     MetricsConfiguration_contextValidateReceiver m,
     MetricsConfiguration_contextValidateRetention m,
     MetricsConfiguration_contextValidateSystem m]"

definition StorageConfiguration_validateS3 :: "formats \<Rightarrow> storage_configuration \<Rightarrow> validation_error option" where
  "StorageConfiguration_validateS3 fmt m = sub_check ''s3'' no_constraints (stc_S3 m)"

definition StorageConfiguration_Validate :: "formats \<Rightarrow> storage_configuration \<Rightarrow> validation_error option" where
  "StorageConfiguration_Validate fmt m = composite [StorageConfiguration_validateS3 fmt m]"

definition StorageConfiguration_contextValidateS3 :: "storage_configuration \<Rightarrow> validation_error option" where
  "StorageConfiguration_contextValidateS3 m = sub_check ''s3'' no_constraints (stc_S3 m)"

definition StorageConfiguration_ContextValidate :: "storage_configuration \<Rightarrow> validation_error option" where
  "StorageConfiguration_ContextValidate m = composite [StorageConfiguration_contextValidateS3 m]"

definition DeviceConfiguration_validateAnsibleManager :: "formats \<Rightarrow> device_configuration \<Rightarrow> validation_error option" where
  "DeviceConfiguration_validateAnsibleManager fmt m = sub_check ''ansible-manager'' no_constraints (cfg_AnsibleManager m)"

definition DeviceConfiguration_validateHeartbeat :: "formats \<Rightarrow> device_configuration \<Rightarrow> validation_error option" where
  "DeviceConfiguration_validateHeartbeat fmt m = sub_check ''heartbeat'' (HeartbeatConfiguration_Validate fmt) (cfg_Heartbeat m)"

definition DeviceConfiguration_validateLogCollection :: "formats \<Rightarrow> device_configuration \<Rightarrow> validation_error option io" where
  "DeviceConfiguration_validateLogCollection fmt m = map_io ''log-collection'' zero_logs (LogsCollectionInformation_Validate fmt) (cfg_LogCollection m)"

definition DeviceConfiguration_validateMetrics :: "formats \<Rightarrow> device_configuration \<Rightarrow> validation_error option" where
  "DeviceConfiguration_validateMetrics fmt m = sub_check ''metrics'' (MetricsConfiguration_Validate fmt) (cfg_Metrics m)"

definition DeviceConfiguration_validateMounts :: "formats \<Rightarrow> device_configuration \<Rightarrow> validation_error option" where
  "DeviceConfiguration_validateMounts fmt m = list_check ''mounts'' no_constraints 0 (map Some (cfg_Mounts m))"

definition DeviceConfiguration_validateOs :: "formats \<Rightarrow> device_configuration \<Rightarrow> validation_error option" where
  "DeviceConfiguration_validateOs fmt m = sub_check ''os'' no_constraints (cfg_Os m)"

definition DeviceConfiguration_validateStorage :: "formats \<Rightarrow> device_configuration \<Rightarrow> validation_error option" where
  "DeviceConfiguration_validateStorage fmt m = sub_check ''storage'' (StorageConfiguration_Validate fmt) (cfg_Storage m)"

definition DeviceConfiguration_Validate :: "formats \<Rightarrow> device_configuration \<Rightarrow> validation_error option io" where
  "DeviceConfiguration_Validate fmt m = checks_io [Ret (DeviceConfiguration_validateAnsibleManager fmt m),
     Ret (DeviceConfiguration_validateHeartbeat fmt m),
     DeviceConfiguration_validateLogCollection fmt m,
     Ret (DeviceConfiguration_validateMetrics fmt m),
     Ret (DeviceConfiguration_validateMounts fmt m),
     Ret (DeviceConfiguration_validateOs fmt m),
     Ret (DeviceConfiguration_validateStorage fmt m)]"

definition DeviceConfiguration_contextValidateAnsibleManager :: "device_configuration \<Rightarrow> validation_error option" where
  "DeviceConfiguration_contextValidateAnsibleManager m = sub_check ''ansible-manager'' no_constraints (cfg_AnsibleManager m)"

definition DeviceConfiguration_contextValidateHeartbeat :: "device_configuration \<Rightarrow> validation_error option" where
  "DeviceConfiguration_contextValidateHeartbeat m = sub_check ''heartbeat'' HeartbeatConfiguration_ContextValidate (cfg_Heartbeat m)"

definition DeviceConfiguration_contextValidateLogCollection :: "device_configuration \<Rightarrow> validation_error option io" where
  "DeviceConfiguration_contextValidateLogCollection m = map_context LogsCollectionInformation_ContextValidate (cfg_LogCollection m)"

definition DeviceConfiguration_contextValidateMetrics :: "device_configuration \<Rightarrow> validation_error option" where
  "DeviceConfiguration_contextValidateMetrics m = sub_check ''metrics'' MetricsConfiguration_ContextValidate (cfg_Metrics m)"

definition DeviceConfiguration_contextValidateMounts :: "device_configuration \<Rightarrow> validation_error option" where
  "DeviceConfiguration_contextValidateMounts m = list_check ''mounts'' no_constraints 0 (map Some (cfg_Mounts m))"

definition DeviceConfiguration_contextValidateOs :: "device_configuration \<Rightarrow> validation_error option" where
  "DeviceConfiguration_contextValidateOs m = sub_check ''os'' no_constraints (cfg_Os m)"

definition DeviceConfiguration_contextValidateStorage :: "device_configuration \<Rightarrow> validation_error option" where
  "DeviceConfiguration_contextValidateStorage m = sub_check ''storage'' StorageConfiguration_ContextValidate (cfg_Storage m)"

definition DeviceConfiguration_ContextValidate :: "device_configuration \<Rightarrow> validation_error option io" where
  "DeviceConfiguration_ContextValidate m = checks_io [Ret (DeviceConfiguration_contextValidateAnsibleManager m),
     Ret (DeviceConfiguration_contextValidateHeartbeat m),
     DeviceConfiguration_contextValidateLogCollection m,
     Ret (DeviceConfiguration_contextValidateMetrics m),
     Ret (DeviceConfiguration_contextValidateMounts m),
     Ret (DeviceConfiguration_contextValidateOs m),
     Ret (DeviceConfiguration_contextValidateStorage m)]"

definition DataConfiguration_validateEgress :: "formats \<Rightarrow> m_data_configuration \<Rightarrow> validation_error option" where
  "DataConfiguration_validateEgress fmt m = list_check ''egress'' no_constraints 0 (map Some (elems (md_Egress m)))"

definition DataConfiguration_validateIngress :: "formats \<Rightarrow> m_data_configuration \<Rightarrow> validation_error option" where
  "DataConfiguration_validateIngress fmt m = list_check ''ingress'' no_constraints 0 (map Some (elems (md_Ingress m)))"

definition DataConfiguration_Validate :: "formats \<Rightarrow> m_data_configuration \<Rightarrow> validation_error option" where
  "DataConfiguration_Validate fmt m = composite [DataConfiguration_validateEgress fmt m,
     DataConfiguration_validateIngress fmt m]"

definition DataConfiguration_contextValidateEgress :: "m_data_configuration \<Rightarrow> validation_error option" where
  "DataConfiguration_contextValidateEgress m = list_check ''egress'' no_constraints 0 (map Some (elems (md_Egress m)))"

definition DataConfiguration_contextValidateIngress :: "m_data_configuration \<Rightarrow> validation_error option" where
  "DataConfiguration_contextValidateIngress m = list_check ''ingress'' no_constraints 0 (map Some (elems (md_Ingress m)))"

definition DataConfiguration_ContextValidate :: "m_data_configuration \<Rightarrow> validation_error option" where
  "DataConfiguration_ContextValidate m = composite [DataConfiguration_contextValidateEgress m,
     DataConfiguration_contextValidateIngress m]"

definition Metrics_validateAllowList :: "formats \<Rightarrow> m_metrics \<Rightarrow> validation_error option" where
  "Metrics_validateAllowList fmt m = sub_check ''allow_list'' no_constraints (mm_AllowList m)"

definition Metrics_validateContainers :: "formats \<Rightarrow> m_metrics \<Rightarrow> validation_error option io" where
  "Metrics_validateContainers fmt m = map_io ''containers'' zero_container no_constraints (mm_Containers m)"

definition Metrics_Validate :: "formats \<Rightarrow> m_metrics \<Rightarrow> validation_error option io" where
  "Metrics_Validate fmt m = checks_io [Ret (Metrics_validateAllowList fmt m),
     Metrics_validateContainers fmt m]"

definition Metrics_contextValidateAllowList :: "m_metrics \<Rightarrow> validation_error option" where
  "Metrics_contextValidateAllowList m = sub_check ''allow_list'' no_constraints (mm_AllowList m)"

definition Metrics_contextValidateContainers :: "m_metrics \<Rightarrow> validation_error option io" where
  "Metrics_contextValidateContainers m = map_context no_constraints (mm_Containers m)"

definition Metrics_ContextValidate :: "m_metrics \<Rightarrow> validation_error option io" where
  "Metrics_ContextValidate m = checks_io [Ret (Metrics_contextValidateAllowList m),
     Metrics_contextValidateContainers m]"

definition Workload_validateConfigmaps :: "formats \<Rightarrow> m_workload \<Rightarrow> validation_error option" where
  "Workload_validateConfigmaps fmt m = named_check ''configmaps'' no_constraints (mw_Configmaps m)"

definition Workload_validateData :: "formats \<Rightarrow> m_workload \<Rightarrow> validation_error option" where
  "Workload_validateData fmt m = sub_check ''data'' (DataConfiguration_Validate fmt) (mw_Data m)"

definition Workload_validateImageRegistries :: "formats \<Rightarrow> m_workload \<Rightarrow> validation_error option" where
  "Workload_validateImageRegistries fmt m = sub_check ''imageRegistries'' no_constraints (mw_ImageRegistries m)"

definition Workload_validateMetrics :: "formats \<Rightarrow> m_workload \<Rightarrow> validation_error option io" where
  "Workload_validateMetrics fmt m = sub_io ''metrics'' (Metrics_Validate fmt) (mw_Metrics m)"

definition Workload_Validate :: "formats \<Rightarrow> m_workload \<Rightarrow> validation_error option io" where
  "Workload_Validate fmt m = checks_io [Ret (Workload_validateConfigmaps fmt m),
     Ret (Workload_validateData fmt m),
     Ret (Workload_validateImageRegistries fmt m),
     Workload_validateMetrics fmt m]"

definition Workload_contextValidateConfigmaps :: "m_workload \<Rightarrow> validation_error option" where
  "Workload_contextValidateConfigmaps m = named_check ''configmaps'' no_constraints (mw_Configmaps m)"

definition Workload_contextValidateData :: "m_workload \<Rightarrow> validation_error option" where
  "Workload_contextValidateData m = sub_check ''data'' DataConfiguration_ContextValidate (mw_Data m)"

definition Workload_contextValidateImageRegistries :: "m_workload \<Rightarrow> validation_error option" where
  "Workload_contextValidateImageRegistries m = sub_check ''imageRegistries'' no_constraints (mw_ImageRegistries m)"

definition Workload_contextValidateMetrics :: "m_workload \<Rightarrow> validation_error option io" where
  "Workload_contextValidateMetrics m = sub_io ''metrics'' Metrics_ContextValidate (mw_Metrics m)"

definition Workload_ContextValidate :: "m_workload \<Rightarrow> validation_error option io" where
  "Workload_ContextValidate m = checks_io [Ret (Workload_contextValidateConfigmaps m),
     Ret (Workload_contextValidateData m),
     Ret (Workload_contextValidateImageRegistries m),
     Workload_contextValidateMetrics m]"

definition SecretList_Validate :: "formats \<Rightarrow> secret_list \<Rightarrow> validation_error option" where
  "SecretList_Validate fmt m = list_check [] no_constraints 0 (map Some (elems m))"

definition SecretList_ContextValidate :: "secret_list \<Rightarrow> validation_error option" where
  "SecretList_ContextValidate m = list_check [] no_constraints 0 (map Some (elems m))"

definition WorkloadList_Validate :: "formats \<Rightarrow> workload_list \<Rightarrow> validation_error option io" where
  "WorkloadList_Validate fmt m = list_io [] (Workload_Validate fmt) 0 (elems m)"

definition WorkloadList_ContextValidate :: "workload_list \<Rightarrow> validation_error option io" where
  "WorkloadList_ContextValidate m = list_io [] Workload_ContextValidate 0 (elems m)"

definition DeviceConfigurationMessage_validateConfiguration :: "formats \<Rightarrow> device_configuration_message \<Rightarrow> validation_error option io" where
  "DeviceConfigurationMessage_validateConfiguration fmt m = sub_io ''configuration'' (DeviceConfiguration_Validate fmt) (cf_Configuration m)"

definition DeviceConfigurationMessage_validateSecrets :: "formats \<Rightarrow> device_configuration_message \<Rightarrow> validation_error option" where
  "DeviceConfigurationMessage_validateSecrets fmt m = named_check ''secrets'' (SecretList_Validate fmt) (cf_Secrets m)"

definition DeviceConfigurationMessage_validateWorkloads :: "formats \<Rightarrow> device_configuration_message \<Rightarrow> validation_error option io" where
  "DeviceConfigurationMessage_validateWorkloads fmt m = named_io ''workloads'' (WorkloadList_Validate fmt) (cf_Workloads m)"

definition DeviceConfigurationMessage_validateWorkloadsMonitoringInterval :: "formats \<Rightarrow> device_configuration_message \<Rightarrow> validation_error option" where
  "DeviceConfigurationMessage_validateWorkloadsMonitoringInterval fmt m = (if cf_WorkloadsMonitoringInterval m = 0 \<or> 0 < cf_WorkloadsMonitoringInterval m then None else Some (Invalid MinFailCode ''workloads_monitoring_interval''))"

definition DeviceConfigurationMessage_Validate :: "formats \<Rightarrow> device_configuration_message \<Rightarrow> validation_error option io" where
  "DeviceConfigurationMessage_Validate fmt m = checks_io [DeviceConfigurationMessage_validateConfiguration fmt m,
     Ret (DeviceConfigurationMessage_validateSecrets fmt m),
     DeviceConfigurationMessage_validateWorkloads fmt m,
     Ret (DeviceConfigurationMessage_validateWorkloadsMonitoringInterval fmt m)]"

definition DeviceConfigurationMessage_contextValidateConfiguration :: "device_configuration_message \<Rightarrow> validation_error option io" where
  "DeviceConfigurationMessage_contextValidateConfiguration m = sub_io ''configuration'' DeviceConfiguration_ContextValidate (cf_Configuration m)"

definition DeviceConfigurationMessage_contextValidateSecrets :: "device_configuration_message \<Rightarrow> validation_error option" where
  "DeviceConfigurationMessage_contextValidateSecrets m = named_check ''secrets'' SecretList_ContextValidate (cf_Secrets m)"

definition DeviceConfigurationMessage_contextValidateWorkloads :: "device_configuration_message \<Rightarrow> validation_error option io" where
  "DeviceConfigurationMessage_contextValidateWorkloads m = named_io ''workloads'' WorkloadList_ContextValidate (cf_Workloads m)"

definition DeviceConfigurationMessage_ContextValidate :: "device_configuration_message \<Rightarrow> validation_error option io" where
  "DeviceConfigurationMessage_ContextValidate m = checks_io [DeviceConfigurationMessage_contextValidateConfiguration m,
     Ret (DeviceConfigurationMessage_contextValidateSecrets m),
     DeviceConfigurationMessage_contextValidateWorkloads m]"

section \<open>Exactness\<close>

text \<open>Every run of a check is silent, returns, and finds nothing exactly when the condition holds.\<close>

definition decides :: "validation_error option io \<Rightarrow> bool \<Rightarrow> bool" where
  "decides p ok \<longleftrightarrow> (\<forall>t out. exec p t out \<longrightarrow> t = [] \<and> (\<exists>r. out = Returned r \<and> (r = None \<longleftrightarrow> ok)))"

lemma decides_Ret [simp]: "decides (Ret r) ok \<longleftrightarrow> (r = None \<longleftrightarrow> ok)"
  by (auto simp: decides_def)

lemma decides_mapp: "decides p ok \<Longrightarrow> (\<And>r. g r = None \<longleftrightarrow> r = None) \<Longrightarrow> decides (mapp g p) ok"
  unfolding decides_def exec_mapp by blast

lemma decides_named: "decides (check x) ok \<Longrightarrow> decides (named_io name check x) ok"
  unfolding named_io_def by (rule decides_mapp) simp_all

lemma decides_sub:
  assumes "\<And>x. p = Some x \<Longrightarrow> decides (check x) (ok x)"
  shows "decides (sub_io name check p) (\<forall>x. p = Some x \<longrightarrow> ok x)"
  using assms by (cases p) (simp_all add: sub_io_def decides_named)

lemma decides_list:
  assumes "\<And>x. decides (check x) (ok x)"
  shows "decides (list_io name check i xs) (\<forall>x \<in> set xs. ok x)"
proof (induction xs arbitrary: i)
  case (Cons x xs)
  show ?case unfolding decides_def
  proof (intro allI impI)
    fix t out
    assume "exec (list_io name check i (x # xs)) t out"
    then consider t1 t2 r where "exec (named_io (entry_name name i) check x) t1 (Returned r)" "t = t1 @ t2"
        "exec (case r of Some e \<Rightarrow> Ret (Some e) | None \<Rightarrow> list_io name check (Suc i) xs) t2 out"
      | m where "exec (named_io (entry_name name i) check x) t (Panicked m)" by (auto simp: exec_bindp)
    then show "t = [] \<and> (\<exists>r. out = Returned r \<and> (r = None \<longleftrightarrow> (\<forall>x \<in> set (x # xs). ok x)))"
    proof cases
      case 1
      with decides_named [of check x "ok x" "entry_name name i", OF assms] have first: "t1 = []" "r = None \<longleftrightarrow> ok x"
        unfolding decides_def by blast+
      show ?thesis
      proof (cases r)
        case None
        with 1(3) Cons.IH [of "Suc i"] have "t2 = []" "\<exists>r. out = Returned r \<and> (r = None \<longleftrightarrow> (\<forall>x \<in> set xs. ok x))"
          unfolding decides_def by simp_all
        with first None 1(2) show ?thesis by simp
      qed (use 1 first in simp)
    next
      case 2
      with decides_named [of check x "ok x" "entry_name name i", OF assms] show ?thesis unfolding decides_def by blast
    qed
  qed
qed simp

lemma decides_checks:
  assumes "list_all2 decides ps oks"
  shows "decides (checks_io ps) (\<forall>ok \<in> set oks. ok)"
proof -
  have "t = [] \<and> (\<exists>rs. out = Returned rs \<and> ((\<forall>r \<in> set rs. r = None) \<longleftrightarrow> (\<forall>ok \<in> set oks. ok)))"
    if "exec (for_each (\<lambda>p. p) ps) t out" for t out
    using assms that
  proof (induction ps oks arbitrary: t out rule: list_all2_induct)
    case (Cons p ps ok oks)
    from Cons.prems consider t1 t2 r where "exec p t1 (Returned r)" "t = t1 @ t2" "exec (mapp (Cons r) (for_each (\<lambda>p. p) ps)) t2 out"
      | m where "exec p t (Panicked m)" by (auto simp: exec_bindp)
    then show ?case
    proof cases
      case 1
      with Cons.hyps(1) have "t1 = []" "r = None \<longleftrightarrow> ok" unfolding decides_def by blast+
      with 1 Cons.IH show ?thesis by (fastforce simp: exec_mapp)
    qed (use Cons.hyps(1) in \<open>auto simp: decides_def\<close>)
  qed simp
  then show ?thesis unfolding decides_def checks_io_def exec_mapp by (fastforce simp: composite_None)
qed

lemma entries_check_None:
  "entries_check name zero check m ks = None \<longleftrightarrow> (\<forall>k \<in> set ks. \<forall>v. mget m k = Some v \<longrightarrow> v \<noteq> zero \<and> check v = None)"
proof (induction ks)
  case (Cons k ks)
  show ?case
  proof (cases "mget m k")
    case (Some v)
    then show ?thesis using Cons named_check_None [of "name @ ''.'' @ k" check v]
      by (cases "named_check (name @ ''.'' @ k) check v") auto
  qed (simp add: Cons)
qed simp

lemma context_entries_None: "(\<And>v. check v = None) \<Longrightarrow> context_entries check m ks = None"
  by (induction ks) (simp_all split: option.split)

lemma decides_map: "decides (map_io name zero check m) (\<forall>k v. mget m k = Some v \<longrightarrow> v \<noteq> zero \<and> check v = None)"
  unfolding decides_def map_io_def exec_mapp exec_range_keys
  by (fastforce simp: entries_check_None mkeys_iff)

lemma decides_nonzero:
  assumes "\<And>v. check v = None"
  shows "decides (map_io name zero check m) (\<forall>k. mget m k \<noteq> Some zero)"
proof -
  have "(\<forall>k v. mget m k = Some v \<longrightarrow> v \<noteq> zero \<and> check v = None) \<longleftrightarrow> (\<forall>k. mget m k \<noteq> Some zero)" using assms by auto
  with decides_map [of name zero check m] show ?thesis by simp
qed

lemma decides_map_context: "(\<And>v. check v = None) \<Longrightarrow> decides (map_context check m) True"
  unfolding decides_def map_context_def exec_mapp exec_range_keys by (fastforce simp: context_entries_None)

lemmas config_checks = HardwareProfileConfiguration_Validate_def HardwareProfileConfiguration_validateScope_def
  HeartbeatConfiguration_Validate_def HeartbeatConfiguration_validateHardwareProfile_def
  LogsCollectionInformation_Validate_def LogsCollectionInformation_validateSyslogConfig_def
  ComponentMetricsConfiguration_Validate_def ComponentMetricsConfiguration_validateAllowList_def
  MetricsConfiguration_Validate_def MetricsConfiguration_validateDataTransfer_def MetricsConfiguration_validateReceiver_def
  MetricsConfiguration_validateRetention_def MetricsConfiguration_validateSystem_def
  StorageConfiguration_Validate_def StorageConfiguration_validateS3_def
  DataConfiguration_Validate_def DataConfiguration_validateEgress_def DataConfiguration_validateIngress_def
  SecretList_Validate_def

lemma unconstrained_parts [simp]:
  "LogsCollectionInformation_Validate fmt l = None" "MetricsConfiguration_Validate fmt c = None"
  "StorageConfiguration_Validate fmt s = None" "DataConfiguration_Validate fmt d = None" "SecretList_Validate fmt sl = None"
  by (simp_all add: config_checks finds_nothing)

text \<open>The conditions of the interface.\<close>

definition scope_ok :: "device_configuration \<Rightarrow> bool" where
  "scope_ok c \<longleftrightarrow> (\<forall>h p. cfg_Heartbeat c = Some h \<longrightarrow> mh_HardwareProfile h = Some p \<longrightarrow> hp_Scope p \<in> {[], ''full'', ''delta''})"

definition logs_ok :: "device_configuration \<Rightarrow> bool" where
  "logs_ok c \<longleftrightarrow> (\<forall>k. mget (cfg_LogCollection c) k \<noteq> Some zero_logs)"

definition containers_ok :: "m_workload \<Rightarrow> bool" where
  "containers_ok w \<longleftrightarrow> (\<forall>m k. mw_Metrics w = Some m \<longrightarrow> mget (mm_Containers m) k \<noteq> Some zero_container)"

definition configuration_ok :: "device_configuration_message \<Rightarrow> bool" where
  "configuration_ok m \<longleftrightarrow> (\<forall>c. cf_Configuration m = Some c \<longrightarrow> scope_ok c \<and> logs_ok c) \<and>
     (\<forall>w \<in> set (elems (cf_Workloads m)). containers_ok w) \<and> 0 \<le> cf_WorkloadsMonitoringInterval m"

lemma decides_cong: "decides p ok \<Longrightarrow> ok = ok' \<Longrightarrow> decides p ok'"
  by simp

lemma decides_device_configuration: "decides (DeviceConfiguration_Validate fmt c) (scope_ok c \<and> logs_ok c)"
proof -
  have scope: "HeartbeatConfiguration_Validate fmt h = None \<longleftrightarrow>
      (\<forall>p. mh_HardwareProfile h = Some p \<longrightarrow> hp_Scope p \<in> {[], ''full'', ''delta''})" for h
    by (auto simp: config_checks finds_nothing hardwareProfileScopeEnum_def)
  show ?thesis unfolding DeviceConfiguration_Validate_def
  proof (rule decides_cong [OF decides_checks])
    show "list_all2 decides [Ret (DeviceConfiguration_validateAnsibleManager fmt c), Ret (DeviceConfiguration_validateHeartbeat fmt c),
        DeviceConfiguration_validateLogCollection fmt c, Ret (DeviceConfiguration_validateMetrics fmt c),
        Ret (DeviceConfiguration_validateMounts fmt c), Ret (DeviceConfiguration_validateOs fmt c), Ret (DeviceConfiguration_validateStorage fmt c)]
        [True, scope_ok c, logs_ok c, True, True, True, True]"
      by (simp add: decides_nonzero DeviceConfiguration_validateAnsibleManager_def DeviceConfiguration_validateHeartbeat_def
          DeviceConfiguration_validateLogCollection_def DeviceConfiguration_validateMetrics_def DeviceConfiguration_validateMounts_def
          DeviceConfiguration_validateOs_def DeviceConfiguration_validateStorage_def finds_nothing scope scope_ok_def logs_ok_def)
  qed simp
qed

lemma decides_workload: "decides (Workload_Validate fmt w) (containers_ok w)"
proof -
  have "decides (Metrics_Validate fmt m) (\<forall>k. mget (mm_Containers m) k \<noteq> Some zero_container)" for m
    unfolding Metrics_Validate_def
  proof (rule decides_cong [OF decides_checks])
    show "list_all2 decides [Ret (Metrics_validateAllowList fmt m), Metrics_validateContainers fmt m]
        [True, \<forall>k. mget (mm_Containers m) k \<noteq> Some zero_container]"
      by (simp add: decides_nonzero Metrics_validateAllowList_def Metrics_validateContainers_def finds_nothing)
  qed simp
  then have "decides (Workload_validateMetrics fmt w) (containers_ok w)"
    unfolding Workload_validateMetrics_def by (rule decides_cong [OF decides_sub]) (auto simp: containers_ok_def)
  then show ?thesis unfolding Workload_Validate_def
    by (intro decides_cong [OF decides_checks, of _ "[True, True, True, containers_ok w]"])
      (simp_all add: Workload_validateConfigmaps_def Workload_validateData_def Workload_validateImageRegistries_def finds_nothing)
qed

text \<open>
  The validation of a configuration is exact, whatever the order in which its maps are visited: it finds nothing exactly when the scope
  of the hardware profile is known, no log target and no container of a workload's metrics is the empty struct, and the
  monitoring interval is not negative.
\<close>

theorem configuration_validation_exact: "decides (DeviceConfigurationMessage_Validate fmt m) (configuration_ok m)"
  unfolding DeviceConfigurationMessage_Validate_def
proof (rule decides_cong [OF decides_checks])
  have "decides (DeviceConfigurationMessage_validateConfiguration fmt m) (\<forall>c. cf_Configuration m = Some c \<longrightarrow> scope_ok c \<and> logs_ok c)"
    unfolding DeviceConfigurationMessage_validateConfiguration_def by (intro decides_sub decides_device_configuration)
  moreover have "decides (DeviceConfigurationMessage_validateWorkloads fmt m) (\<forall>w \<in> set (elems (cf_Workloads m)). containers_ok w)"
    unfolding DeviceConfigurationMessage_validateWorkloads_def WorkloadList_Validate_def [abs_def]
    by (intro decides_named decides_list decides_workload)
  ultimately show "list_all2 decides [DeviceConfigurationMessage_validateConfiguration fmt m, Ret (DeviceConfigurationMessage_validateSecrets fmt m),
      DeviceConfigurationMessage_validateWorkloads fmt m, Ret (DeviceConfigurationMessage_validateWorkloadsMonitoringInterval fmt m)]
      [\<forall>c. cf_Configuration m = Some c \<longrightarrow> scope_ok c \<and> logs_ok c, True,
       \<forall>w \<in> set (elems (cf_Workloads m)). containers_ok w, 0 \<le> cf_WorkloadsMonitoringInterval m]"
    by (auto simp: DeviceConfigurationMessage_validateSecrets_def DeviceConfigurationMessage_validateWorkloadsMonitoringInterval_def finds_nothing)
qed (auto simp: configuration_ok_def)

text \<open>The context checks find nothing: no field is read-only.\<close>

lemma accepts_checks: "(\<And>p. p \<in> set ps \<Longrightarrow> decides p True) \<Longrightarrow> decides (checks_io ps) True"
  using decides_checks [of ps "replicate (length ps) True"] by (force simp: list_all2_conv_all_nth)

lemma accepts_sub: "(\<And>x. decides (check x) True) \<Longrightarrow> decides (sub_io name check p) True"
  by (cases p) (simp_all add: sub_io_def decides_named)

lemma accepts_list: "(\<And>x. decides (check x) True) \<Longrightarrow> decides (list_io name check i xs) True"
  using decides_list [of check "\<lambda>_. True" name i xs] by simp

lemmas context_checks =
  HardwareProfileConfiguration_ContextValidate_def HeartbeatConfiguration_contextValidateHardwareProfile_def HeartbeatConfiguration_ContextValidate_def
  LogsCollectionInformation_contextValidateSyslogConfig_def LogsCollectionInformation_ContextValidate_def ComponentMetricsConfiguration_contextValidateAllowList_def
  ComponentMetricsConfiguration_ContextValidate_def MetricsConfiguration_contextValidateDataTransfer_def MetricsConfiguration_contextValidateReceiver_def
  MetricsConfiguration_contextValidateRetention_def MetricsConfiguration_contextValidateSystem_def MetricsConfiguration_ContextValidate_def
  StorageConfiguration_contextValidateS3_def StorageConfiguration_ContextValidate_def DeviceConfiguration_contextValidateAnsibleManager_def
  DeviceConfiguration_contextValidateHeartbeat_def DeviceConfiguration_contextValidateMetrics_def DeviceConfiguration_contextValidateMounts_def
  DeviceConfiguration_contextValidateOs_def DeviceConfiguration_contextValidateStorage_def DataConfiguration_contextValidateEgress_def
  DataConfiguration_contextValidateIngress_def DataConfiguration_ContextValidate_def Metrics_contextValidateAllowList_def
  Workload_contextValidateConfigmaps_def Workload_contextValidateData_def Workload_contextValidateImageRegistries_def
  SecretList_ContextValidate_def DeviceConfigurationMessage_contextValidateSecrets_def

lemma context_accepts_configuration: "decides (DeviceConfigurationMessage_ContextValidate m) True"
proof -
  have dev: "decides (DeviceConfiguration_ContextValidate c) True" for c
    unfolding DeviceConfiguration_ContextValidate_def
    by (rule accepts_checks) (auto simp: context_checks finds_nothing DeviceConfiguration_contextValidateLogCollection_def intro!: decides_map_context)
  have met: "decides (Metrics_ContextValidate x) True" for x
    unfolding Metrics_ContextValidate_def
    by (rule accepts_checks) (auto simp: context_checks finds_nothing Metrics_contextValidateContainers_def intro!: decides_map_context)
  have wl: "decides (Workload_ContextValidate w) True" for w
    unfolding Workload_ContextValidate_def
    by (rule accepts_checks) (auto simp: context_checks finds_nothing Workload_contextValidateMetrics_def intro!: accepts_sub met)
  show ?thesis unfolding DeviceConfigurationMessage_ContextValidate_def
    by (rule accepts_checks) (auto simp: context_checks finds_nothing DeviceConfigurationMessage_contextValidateConfiguration_def
        DeviceConfigurationMessage_contextValidateWorkloads_def WorkloadList_ContextValidate_def
        intro!: accepts_sub decides_named accepts_list dev wl)
qed

end
