(* ===== verification/Spec2Isabelle.thy ===== *)
theory Spec2Isabelle
  imports Config_Reconcilers Device_Properties Entry_Points Admission Metrics Device_Client Config_Validation
begin

text \<open>
  \<^bold>\<open>A verification development for the flotta operator.\<close>

  The operator manages edge devices from a Kubernetes cluster. It has two processes. The controller manager
  (\<open>src/controllers\<close>) reconciles custom resources: it turns approved signed requests into devices, puts the
  workloads and configurations that match a device on it, and keeps finalizers so that nothing disappears
  while a device still refers to it. The HTTP API (\<open>src/cmd/httpapi\<close>, \<open>src/internal/edgeapi\<close>) talks to the devices:
  they enrol, register and get a certificate, fetch their configuration and send heartbeats. It keeps the devices in
  the cluster or in a remote store, and it also listens to an MQTT broker, over which end nodes behind a device
  report. The two processes meet only in the objects stored in the API server; both use the repositories of
  \<open>src/internal/common/repository\<close>.

  \<^bold>\<open>How the program is modelled.\<close> A Go function without effects is a HOL function. A function that reaches outside
  the program is a \<open>prog\<close> (theory \<open>Effects\<close>): a tree of requests, one branch per answer. Requests and answers
  are the datatypes of \<open>Cluster\<close>: calls of the controller-runtime client, the event recorder, the metrics,
  the clock, the source of randomness. Nothing is assumed about answers, so a statement over \<open>exec p t out\<close>
  (program \<open>p\<close> has a run with trace \<open>t\<close> and outcome \<open>out\<close>) holds for every behaviour of the API server, including
  concurrent changes by others. A run-time panic is the outcome \<open>Panicked\<close>; goroutines are \<open>par_list\<close> with an
  arbitrary scheduler; the iteration order of a Go map is an arbitrary permutation. Nil slices, maps and pointers
  are kept apart from empty ones. Machine integers keep their width where the code converts or may overflow.

  \<^bold>\<open>The theories.\<close>
  \<^item> \<open>Effects\<close>, \<open>Go_Base\<close>, \<open>Go_Text\<close>: the prelude. Programs, weakest preconditions, runs, interleavings; strings, slices,
    maps, errors; UTF-8 and printing.
  \<^item> \<open>Api_Types\<close>, \<open>Model_Types\<close>, \<open>Crypto\<close>: the data. One record per struct of \<open>src/api/v1alpha1\<close> and of the messages in
    \<open>src/models\<close>; certificates, keys and dates.
  \<^item> \<open>System_Calls\<close>, \<open>Cluster\<close>: requests and answers. The first has those that leave the cluster (the remote store, the
    process, the broker) and the settings of both processes.
  \<^item> \<open>Labels\<close>: \<open>src/internal/common/labels\<close>, \<open>indexer\<close>, \<open>utils\<close> and the label selectors of apimachinery.
  \<^item> \<open>Repositories\<close>: the six repositories and the facade \<open>backend/k8s/repository.go\<close>. The locale \<open>object_reader\<close> and
    its extension \<open>finalizer_store\<close> are the interfaces, \<open>update_attempt\<close> the contract of a retried update.
  \<^item> \<open>Storage\<close>: \<open>src/internal/common/storage\<close>. \<open>Hardware\<close>: \<open>src/internal/edgeapi/hardware\<close>.
  \<^item> \<open>Workload_Reconciler\<close>, \<open>Workload_Properties\<close>: \<open>src/controllers/edgeworkload_controller.go\<close>.
  \<^item> \<open>Device_Reconcilers\<close>, \<open>Device_Properties\<close>: the device, device label and signed request controllers.
  \<^item> \<open>Config_Reconcilers\<close>: the configuration and playbook execution controllers.
  \<^item> \<open>Heartbeat\<close>: the heartbeat updater and handlers; the locale \<open>status_updater\<close> is what the retrying handler
    relies on.
  \<^item> \<open>Assembler\<close>: \<open>backend/k8s/configuration-assembler.go\<close> with \<open>configmaps\<close>, \<open>devicemetrics\<close> and \<open>images\<close>.
  \<^item> \<open>Backend\<close>: \<open>backend/k8s/backend.go\<close> behind the interface \<open>backend/api.go\<close>, whose contract is the locale \<open>device_backend\<close>:
    which requests each operation may make, given as a \<open>footprint\<close>.
  \<^item> \<open>Mtls\<close>: \<open>src/pkg/mtls\<close>.
  \<^item> \<open>Yggdrasil\<close>: \<open>src/internal/edgeapi/yggdrasil/yggdrasil.go\<close> and the authentication middleware of
    \<open>src/cmd/httpapi/main.go\<close>; the locale \<open>device_api\<close> is the handler over any backend that keeps the contract.
  \<^item> \<open>Remote_Backend\<close>: \<open>backend/remote/backend.go\<close> over the HTTP client of \<open>src/backend/client\<close>, and the factory that chooses a
    backend from the settings.
  \<^item> \<open>Validation\<close>, \<open>Config_Validation\<close>: the constraints of the interface on what a device sends and receives, as generated into
    \<open>src/models\<close>.
  \<^item> \<open>Rest_Api\<close>: \<open>src/restapi\<close>, the generated server in front of the handler: interface document, routes, binding, errors.
  \<^item> \<open>Store_Api\<close>: \<open>src/backend\<close>, the two ends of the connection to the remote store. The locale \<open>backend_refinement\<close> is a backend that
    hides another one: so do the handlers over them. \<open>Device_Client\<close>: \<open>src/client\<close>.
  \<^item> \<open>Metrics\<close>: \<open>src/internal/common/metrics\<close> and the informer of the operator: the counters of devices, the map and the
    registry they live in, calls by several goroutines as a step relation, and the locale \<open>presence_metrics\<close>.
  \<^item> \<open>Mqtt_Bridge\<close>: the second half of \<open>src/cmd/httpapi/main.go\<close> and \<open>src/mqtt\<close>.
  \<^item> \<open>Entry_Points\<close>: \<open>main\<close> of both processes and the config map watcher of \<open>src/internal/operator/watchers\<close>.
  \<^item> \<open>Admission\<close>: the two admission webhooks.

  Every locale is interpreted on the definitions above: the readers and finalizer stores on each repository, the
  retry contract on the label and the hardware update, the status updater on the synchronous handler, the
  backend contract on \<open>k8s_backend\<close> and on \<open>remote_backend\<close>, the handler over each of them, the refinement on \<open>remote_backend\<close> and the implementation of the store, the metrics on the
  registry.

  \<^bold>\<open>What is shown.\<close>
  \<^item> Finalizers: a workload, a device leaves the cluster only after every reference to it was taken back.
  \<^item> Convergence: a reconciliation that ends without an error has put the workload or configuration on every device that
    matches in what the cluster answered, and taken the workload off the others; with no workers for
    configurations nothing is handed out and no error is reported.
  \<^item> Concurrency: the partition of devices among workers is exact, ends for every machine integer, and a concurrent run is
    an interleaving of one run per part.
  \<^item> Admission of devices: a device is created only for an approved request; a certificate is signed only for a device
    that exists and is either unregistered or the caller itself; its subject is the device and its namespace; what
    was signed identifies the device when it comes back.
  \<^item> Messages: which requests every endpoint may make over each backend, events and counters included, and which answers it gives; heartbeats record
    events once, bound their patches and report what they received; configurations are read-only, complete and ordered.
  \<^item> Interfaces: the generated server hands on exactly the requests that are calls of the interface and refuses the others with a
    fixed code; validation of heartbeats and configurations is exact; each client writes the method and path under which the server
    knows the operation, and understands every documented answer; the network between the API and the remote store is
    transparent for any implementation, with a state or without.
  \<^item> End nodes: what a message of the broker may write to the cluster and to the time series database; a LoRa message updates a
    register of end nodes, a WiFi message does not.
  \<^item> Metrics: the registry refines a map from devices to counts, also under concurrent heartbeats, and follows the
    events of the informer.
  \<^item> Start-up: no request is served without a working authority, no manager is started before its two indexes, five
    controllers, probes and informer are in place, and the operator restarts exactly when its log level changes.
  \<^item> Certificates: the stored authority is read back unchanged; every reachable TLS configuration is sound; the
    exact condition under which a request passes.
  \<^item> Errors: where the code panics, drops an error, or reports the wrong one.

  \<^bold>\<open>Bounds and fuel.\<close> The loop of \<open>splitEdgeDevices\<close> is the only one whose end depends on machine arithmetic; it is a
  partial function whose result is shown to exist for every input. The retry loops have the fixed lists of
  attempts of the source (three and four). The config map watcher runs as long as its channel is open; it has a bound on the
  number of events it receives, and what is shown holds for every bound. Every other loop is structural recursion over a
  finite list.

  \<^bold>\<open>Parameters.\<close> Code that is not in the repository or cannot be written down is an argument: the tables of Unicode, the
  YAML package, the JSON decoding of message contents, the parser of addresses, PEM and X.509, the registry of formats, the
  implementation of the remote store and the wire to it. A theorem that needs a
  law of one of them has it as a hypothesis and a concrete instance as its witness.

  \<^bold>\<open>Simplifications.\<close> An instant is an \<open>int\<close> of nanoseconds without a location, so two readings of one instant in different time
    zones are equal here and are not for \<open>reflect.DeepEqual\<close>. \<open>AddDate\<close> adds days in UTC and without a bound. Of \<open>tls.Config\<close> the model keeps the
    pools and certificates; \<open>ClientAuth\<close>, which is \<open>RequireAnyClientCert\<close>, shows in the handlers' being given a certificate list, and \<open>MinVersion\<close> has no
    counterpart. The law \<open>codec_inverts\<close> of PEM is stated for blocks of any type, of which the code uses three fixed ones. The text of
    error payloads is left out where no caller reads it.

  \<^bold>\<open>Not modelled.\<close> The router and the content negotiation of \<open>go-openapi/runtime\<close>, whose verdict is part of a request; of the
  generated API code the setters, the URL builders and the command line server, which the program does not use, and the JSON methods, which
  call the library; deep copies (\<open>zz_generated.deepcopy.go\<close>), which are the values themselves here since nothing is changed in place; the
  generated clientset, which only tests use; what controller-runtime does with
  the controllers that are set up (work queues, caches, leader election), which is a library here; the stand-alone
  client of \<open>src/cmd/mqtt\<close>, which connects as the bridge does and prints what it receives. Log output is left out
  everywhere except where computing it can panic.
\<close>

end
